(* ===== verification/Prelude.thy ===== *)
theory Prelude
  imports Main "HOL-Library.Word" "HOL-Library.AList"
begin

unbundle bit_operations_syntax

text \<open>
  Shared notions of the development: bytes, Python exceptions as values, sequencing of
  fallible steps, slices, little-endian integers and the dictionary operations used by
  several components.
\<close>

named_theorems result_simps \<open>rewriting of sequenced fallible computations\<close>
named_theorems codec_simps \<open>unfolding of encoders and decoders\<close>

type_synonym byte = "8 word"
type_synonym bytes = "byte list"
type_synonym pystr = "nat list" \<comment> \<open>a Python string: its list of code points\<close>

datatype py_error =
    StructError             \<comment> \<open>\<open>struct.error\<close>\<close>
  | UnicodeDecodeError
  | UnicodeEncodeError
  | OverflowError
  | ValueError
  | TypeError
  | KeyError
  | IndexError
  | OSError
  | ZlibError
  | ZeroDivisionError
  | AttributeError
  | LengthMismatch          \<comment> \<open>the bare \<open>Exception\<close> raised by \<open>string.deserialize\<close>\<close>
  | UnknownMessage nat      \<comment> \<open>\<open>UnknownMessageError\<close> with its message id\<close>

subsection \<open>Fallible computations\<close>

type_synonym 'a result = "py_error + 'a"

definition bindE :: "'e + 'a \<Rightarrow> ('a \<Rightarrow> 'e + 'b) \<Rightarrow> 'e + 'b" where
  "bindE r f = (case r of Inl e \<Rightarrow> Inl e | Inr x \<Rightarrow> f x)"

lemma bindE_Inl [simp, result_simps]: "bindE (Inl e) f = Inl e"
  by (simp add: bindE_def)

lemma bindE_Inr [simp, result_simps]: "bindE (Inr x) f = f x"
  by (simp add: bindE_def)

lemma bindE_eq_Inr_iff [result_simps]:
  "bindE r f = Inr y \<longleftrightarrow> (\<exists>x. r = Inr x \<and> f x = Inr y)"
  by (cases r) auto

lemma bindE_cong [fundef_cong]:
  "r = r' \<Longrightarrow> (\<And>x. r' = Inr x \<Longrightarrow> f x = f' x) \<Longrightarrow> bindE r f = bindE r' f'"
  by (cases r') auto

fun mapE :: "('a \<Rightarrow> 'e + 'b) \<Rightarrow> 'a list \<Rightarrow> 'e + 'b list" where
  "mapE f [] = Inr []"
| "mapE f (x # xs) = bindE (f x) (\<lambda>y. bindE (mapE f xs) (\<lambda>ys. Inr (y # ys)))"

lemma mapE_cong [fundef_cong]:
  "xs = ys \<Longrightarrow> (\<And>x. x \<in> set ys \<Longrightarrow> f x = g x) \<Longrightarrow> mapE f xs = mapE g ys"
  by (induction ys arbitrary: xs) auto

lemma mapE_Inr: "(\<And>x. x \<in> set xs \<Longrightarrow> f x = Inr (g x)) \<Longrightarrow> mapE f xs = Inr (map g xs)"
  by (induction xs) auto

lemma mapE_eq_InrD:
  "mapE f xs = Inr ys \<Longrightarrow> length ys = length xs \<and> (\<forall>i < length xs. f (xs ! i) = Inr (ys ! i))"
proof (induction xs arbitrary: ys)
  case (Cons x xs)
  then obtain z zs where "f x = Inr z" "mapE f xs = Inr zs" "ys = z # zs"
    by (auto simp: bindE_eq_Inr_iff)
  with Cons.IH [of zs] show ?case by (auto simp: nth_Cons split: nat.splits)
qed simp

definition nth_or :: "'e \<Rightarrow> 'a list \<Rightarrow> nat \<Rightarrow> 'e + 'a" where
  "nth_or e xs i = (if i < length xs then Inr (xs ! i) else Inl e)"

definition get_or :: "'e \<Rightarrow> ('k \<times> 'v) list \<Rightarrow> 'k \<Rightarrow> 'e + 'v" where
  "get_or e m k = (case map_of m k of None \<Rightarrow> Inl e | Some v \<Rightarrow> Inr v)"

subsection \<open>Slices and little-endian integers\<close>

definition slice :: "'a list \<Rightarrow> nat \<Rightarrow> nat \<Rightarrow> 'a list" where
  \<comment> \<open>Python's \<open>xs[i:j]\<close> for non-negative bounds\<close>
  "slice xs i j = take (j - i) (drop i xs)"

lemma slice_append [simp]:
  "slice (pre @ xs @ suf) (length pre) (length pre + length xs) = xs"
  by (simp add: slice_def)

lemma length_slice_le: "length (slice xs i j) \<le> j - i"
  by (simp add: slice_def)

fun le_bytes :: "nat \<Rightarrow> nat \<Rightarrow> bytes" where
  "le_bytes 0 n = []"
| "le_bytes (Suc k) n = of_nat n # le_bytes k (n div 256)"

fun le_nat :: "bytes \<Rightarrow> nat" where
  "le_nat [] = 0"
| "le_nat (b # bs) = unat b + 256 * le_nat bs"

lemma length_le_bytes [simp]: "length (le_bytes k n) = k"
  by (induction k arbitrary: n) auto

lemma le_bytes_eq_Nil [simp]: "le_bytes k n = [] \<longleftrightarrow> k = 0"
  by (cases k) auto

lemma unat_byte_less [simp]: "unat (b :: byte) < 256"
  using unsigned_less [of b] by simp

lemma unat_of_nat_byte: "unat (of_nat n :: byte) = n mod 256"
  by (simp add: unat_of_nat)

lemma le_nat_less: "le_nat bs < 256 ^ length bs"
proof (induction bs)
  case (Cons b bs)
  have "unat b < 256" by simp
  with Cons.IH have "unat b + 256 * le_nat bs < 256 + 256 * (256 ^ length bs - 1)"
    by (intro add_less_le_mono mult_le_mono) auto
  then show ?case by (simp add: diff_mult_distrib2)
qed simp

lemma le_nat_le_bytes: "le_nat (le_bytes k n) = n mod 256 ^ k"
proof (induction k arbitrary: n)
  case (Suc k)
  have "le_nat (le_bytes (Suc k) n) = n mod 256 + 256 * (n div 256 mod 256 ^ k)"
    by (simp add: Suc.IH unat_of_nat_byte)
  also have "\<dots> = n mod 256 ^ Suc k"
    by (simp add: mod_mult2_eq)
  finally show ?case .
qed simp

lemma le_nat_le_bytes_id [simp]: "n < 256 ^ k \<Longrightarrow> le_nat (le_bytes k n) = n"
  by (simp add: le_nat_le_bytes)

lemma le_bytes_le_nat [simp]: "le_bytes (length bs) (le_nat bs) = bs"
proof (induction bs)
  case (Cons b bs)
  have "(of_nat (unat b + 256 * le_nat bs) :: byte) = b"
    by (simp only: word_unat_eq_iff unat_of_nat_byte) simp
  moreover have "(unat b + 256 * le_nat bs) div 256 = le_nat bs"
    by (simp add: div_add1_eq)
  ultimately show ?case using Cons.IH by simp
qed simp

lemma le_bytes_le_nat': "length bs = k \<Longrightarrow> le_bytes k (le_nat bs) = bs"
  by auto

subsection \<open>Dictionaries in insertion order\<close>

text \<open>
  A Python dictionary whose order can be observed is an association list. \<open>AList.update\<close>
  replaces the value in place or appends the pair, as Python's item assignment does.
\<close>

abbreviation dict_set :: "'k \<Rightarrow> 'v \<Rightarrow> ('k \<times> 'v) list \<Rightarrow> ('k \<times> 'v) list" where
  "dict_set \<equiv> AList.update"

abbreviation dict_del :: "'k \<Rightarrow> ('k \<times> 'v) list \<Rightarrow> ('k \<times> 'v) list" where
  "dict_del \<equiv> AList.delete"

end
