(* ===== verification/Py_Text.thy ===== *)
theory Py_Text
  imports Prelude
begin

text \<open>
  What \<open>src/aioslsk/protocol/primitives.py\<close> uses of the Python standard library for
  text: the strict UTF-8 codec, the \<open>cp1252\<close> decoder, and \<open>socket.inet_aton\<close> /
  \<open>socket.inet_ntoa\<close>. A Python string is the list of its code points.
\<close>

subsection \<open>UTF-8\<close>

definition valid_cp :: "nat \<Rightarrow> bool" where
  \<comment> \<open>a Unicode scalar value: surrogates cannot be encoded\<close>
  "valid_cp c \<longleftrightarrow> c < 0xD800 \<or> 0xE000 \<le> c \<and> c < 0x110000"

definition utf8_cp :: "nat \<Rightarrow> bytes" where
  "utf8_cp c =
     (if c < 0x80 then [of_nat c]
      else if c < 0x800 then [of_nat (0xC0 + c div 64), of_nat (0x80 + c mod 64)]
      else if c < 0x10000 then
        [of_nat (0xE0 + c div 4096), of_nat (0x80 + c div 64 mod 64), of_nat (0x80 + c mod 64)]
      else
        [of_nat (0xF0 + c div 262144), of_nat (0x80 + c div 4096 mod 64),
         of_nat (0x80 + c div 64 mod 64), of_nat (0x80 + c mod 64)])"

definition utf8_encode :: "pystr \<Rightarrow> bytes result" where
  "utf8_encode str =
     (if list_all valid_cp str then Inr (concat (map utf8_cp str)) else Inl UnicodeEncodeError)"

definition cont :: "byte \<Rightarrow> bool" where
  "cont b \<longleftrightarrow> 0x80 \<le> unat b \<and> unat b < 0xC0"

definition payload :: "byte \<Rightarrow> nat" where
  "payload b = unat b - 0x80"

text \<open>Strict decoding: shortest form only, no surrogates, nothing above U+10FFFF.\<close>

fun utf8_decode :: "bytes \<Rightarrow> pystr option" where
  "utf8_decode [] = Some []"
| "utf8_decode (b # bs) =
     (let n = unat b in
      if n < 0x80 then map_option ((#) n) (utf8_decode bs)
      else if n < 0xC0 then None
      else if n < 0xE0 then
        (case bs of
           c1 # rest \<Rightarrow>
             (let v = (n - 0xC0) * 64 + payload c1
              in if cont c1 \<and> 0x80 \<le> v then map_option ((#) v) (utf8_decode rest) else None)
         | _ \<Rightarrow> None)
      else if n < 0xF0 then
        (case bs of
           c1 # c2 # rest \<Rightarrow>
             (let v = (n - 0xE0) * 4096 + payload c1 * 64 + payload c2
              in if cont c1 \<and> cont c2 \<and> 0x800 \<le> v \<and> valid_cp v
                 then map_option ((#) v) (utf8_decode rest) else None)
         | _ \<Rightarrow> None)
      else
        (case bs of
           c1 # c2 # c3 # rest \<Rightarrow>
             (let v = (n - 0xF0) * 262144 + payload c1 * 4096 + payload c2 * 64 + payload c3
              in if cont c1 \<and> cont c2 \<and> cont c3 \<and> 0x10000 \<le> v \<and> v < 0x110000
                 then map_option ((#) v) (utf8_decode rest) else None)
         | _ \<Rightarrow> None))"

declare utf8_decode.simps(2) [simp del]

lemma unat_of_nat_small [simp]: "n < 256 \<Longrightarrow> unat (of_nat n :: byte) = n"
  by (simp add: unat_of_nat_byte)

lemma cont_of_nat: "n < 64 \<Longrightarrow> cont (of_nat (0x80 + n))" "n < 64 \<Longrightarrow> payload (of_nat (0x80 + n)) = n"
proof -
  assume "n < 64"
  then have "unat (of_nat (0x80 + n) :: byte) = 0x80 + n" by (intro unat_of_nat_small) simp
  then show "cont (of_nat (0x80 + n))" "payload (of_nat (0x80 + n)) = n"
    using \<open>n < 64\<close> by (simp_all add: cont_def payload_def)
qed

lemma split_64: "c div 64 * 64 + c mod 64 = (c :: nat)"
  by simp

lemma split_4096: "c div 4096 * 4096 + c div 64 mod 64 * 64 + c mod 64 = (c :: nat)"
proof -
  have "c div 4096 = c div 64 div 64" by (simp add: div_mult2_eq [symmetric])
  then have "c div 4096 * 4096 + c div 64 mod 64 * 64 = (c div 64 div 64 * 64 + c div 64 mod 64) * 64"
    by (simp only: add_mult_distrib mult.assoc)
  then show ?thesis by simp
qed

lemma split_262144:
  "c div 262144 * 262144 + c div 4096 mod 64 * 4096 + c div 64 mod 64 * 64 + c mod 64 = (c :: nat)"
proof -
  have "c div 262144 = c div 4096 div 64" by (simp add: div_mult2_eq [symmetric])
  then have "c div 262144 * 262144 + c div 4096 mod 64 * 4096
           = (c div 4096 div 64 * 64 + c div 4096 mod 64) * 4096"
    by (simp only: add_mult_distrib mult.assoc)
  then show ?thesis using split_4096 [of c] by simp
qed

lemma utf8_decode_cp:
  assumes "valid_cp c"
  shows "utf8_decode (utf8_cp c @ rest) = map_option ((#) c) (utf8_decode rest)"
proof -
  consider "c < 0x80" | "0x80 \<le> c" "c < 0x800" | "0x800 \<le> c" "c < 0x10000"
    | "0x10000 \<le> c" "c < 0x110000"
    using assms by (force simp: valid_cp_def)
  then show ?thesis
  proof cases
    case 1
    then show ?thesis by (simp add: utf8_cp_def utf8_decode.simps(2))
  next
    case 2
    have d: "c div 64 < 32" using 2 by (intro less_mult_imp_div_less) simp
    have h: "unat (of_nat (0xC0 + c div 64) :: byte) = 0xC0 + c div 64"
      using d by (intro unat_of_nat_small) simp
    have v: "c div 64 * 64 + c mod 64 = c" by (rule split_64)
    show ?thesis using 2 d
      by (simp only: utf8_cp_def) (simp add: utf8_decode.simps(2) h [simplified] cont_of_nat [simplified] Let_def v)
  next
    case 3
    have d: "c div 4096 < 16" using 3 by (intro less_mult_imp_div_less) simp
    have h: "unat (of_nat (0xE0 + c div 4096) :: byte) = 0xE0 + c div 4096"
      using d by (intro unat_of_nat_small) simp
    show ?thesis using 3 d assms
      by (simp only: utf8_cp_def)
        (simp add: utf8_decode.simps(2) h [simplified] cont_of_nat [simplified] Let_def split_4096)
  next
    case 4
    have d: "c div 262144 < 8" using 4 by (intro less_mult_imp_div_less) simp
    have h: "unat (of_nat (0xF0 + c div 262144) :: byte) = 0xF0 + c div 262144"
      using d by (intro unat_of_nat_small) simp
    show ?thesis using 4 d
      by (simp only: utf8_cp_def)
        (simp add: utf8_decode.simps(2) h [simplified] cont_of_nat [simplified] Let_def split_262144)
  qed
qed

lemma utf8_decode_encode: "utf8_encode str = Inr bs \<Longrightarrow> utf8_decode bs = Some str"
proof -
  have "list_all valid_cp str \<Longrightarrow> utf8_decode (concat (map utf8_cp str)) = Some str"
    by (induction str) (simp_all add: utf8_decode_cp)
  then show "utf8_encode str = Inr bs \<Longrightarrow> utf8_decode bs = Some str"
    by (auto simp: utf8_encode_def split: if_splits)
qed

lemma utf8_cp_nonempty [simp]: "utf8_cp c \<noteq> []"
  by (simp add: utf8_cp_def)

subsection \<open>Windows-1252\<close>

definition cp1252_high :: "nat option list" where
  \<comment> \<open>the code points of the bytes 0x80 to 0x9F; five bytes are undefined\<close>
  "cp1252_high =
     [Some 0x20AC, None, Some 0x201A, Some 0x0192, Some 0x201E, Some 0x2026, Some 0x2020, Some 0x2021,
      Some 0x02C6, Some 0x2030, Some 0x0160, Some 0x2039, Some 0x0152, None, Some 0x017D, None,
      None, Some 0x2018, Some 0x2019, Some 0x201C, Some 0x201D, Some 0x2022, Some 0x2013, Some 0x2014,
      Some 0x02DC, Some 0x2122, Some 0x0161, Some 0x203A, Some 0x0153, None, Some 0x017E, Some 0x0178]"

definition cp1252_char :: "byte \<Rightarrow> nat option" where
  "cp1252_char b =
     (let n = unat b in if 0x80 \<le> n \<and> n < 0xA0 then cp1252_high ! (n - 0x80) else Some n)"

definition cp1252_decode :: "bytes \<Rightarrow> pystr option" where
  "cp1252_decode bs = those (map cp1252_char bs)"

text \<open>\<open>decode_string\<close>: UTF-8 first, Windows-1252 when that fails.\<close>

definition decode_string :: "bytes \<Rightarrow> pystr result" where
  "decode_string value =
     (case utf8_decode value of
        Some str \<Rightarrow> Inr str
      | None \<Rightarrow> (case cp1252_decode value of Some str \<Rightarrow> Inr str | None \<Rightarrow> Inl UnicodeDecodeError))"

lemma decode_string_encode: "utf8_encode str = Inr bs \<Longrightarrow> decode_string bs = Inr str"
  by (simp add: decode_string_def utf8_decode_encode)

lemma those_eq_None_iff: "those xs = None \<longleftrightarrow> None \<in> set xs"
  by (induction xs) (auto split: option.splits)

lemma cp1252_high_None:
  "i < 32 \<Longrightarrow> cp1252_high ! i = None \<longleftrightarrow> i \<in> {0x01, 0x0D, 0x0F, 0x10, 0x1D}"
proof -
  have eq: "map Option.is_none cp1252_high
      = map (\<lambda>i. i = 0x01 \<or> i = 0x0D \<or> i = 0x0F \<or> i = 0x10 \<or> i = 0x1D) [0..<32]"
    by (simp add: cp1252_high_def upt_rec)
  assume "i < 32"
  moreover have "length cp1252_high = 32" by (simp add: cp1252_high_def)
  ultimately show ?thesis
    using arg_cong [OF eq, of "\<lambda>xs. xs ! i"] by (simp add: Option.is_none_def)
qed

lemma cp1252_char_None:
  "cp1252_char b = None \<longleftrightarrow> unat b \<in> {0x81, 0x8D, 0x8F, 0x90, 0x9D}"
proof (cases "0x80 \<le> unat b \<and> unat b < 0xA0")
  case True
  then show ?thesis
    using cp1252_high_None [of "unat b - 0x80"] by (simp add: cp1252_char_def Let_def) linarith
next
  case False
  then show ?thesis by (auto simp: cp1252_char_def Let_def)
qed

lemma decode_string_fails_iff:
  "(\<exists>e. decode_string bs = Inl e) \<longleftrightarrow>
     utf8_decode bs = None \<and> (\<exists>b \<in> set bs. unat b \<in> {0x81, 0x8D, 0x8F, 0x90, 0x9D})"
proof -
  have "cp1252_decode bs = None \<longleftrightarrow> (\<exists>b \<in> set bs. cp1252_char b = None)"
    by (auto simp: cp1252_decode_def those_eq_None_iff image_iff intro: sym)
  then show ?thesis
    by (auto simp: decode_string_def cp1252_char_None split: option.splits)
qed

subsection \<open>Dotted-quad addresses\<close>

definition digit :: "nat \<Rightarrow> nat" where "digit d = d + 0x30"

fun show_nat :: "nat \<Rightarrow> pystr" where
  "show_nat n = (if n < 10 then [digit n] else show_nat (n div 10) @ [digit (n mod 10)])"

declare show_nat.simps [simp del]

definition dot :: nat where "dot = 0x2E"

definition inet_ntoa :: "bytes \<Rightarrow> pystr result" where
  \<comment> \<open>\<open>socket.inet_ntoa\<close>: exactly four bytes\<close>
  "inet_ntoa bs =
     (case bs of
        [a, b, c, d] \<Rightarrow>
          Inr (show_nat (unat a) @ dot # show_nat (unat b) @ dot # show_nat (unat c)
               @ dot # show_nat (unat d))
      | _ \<Rightarrow> Inl OSError)"

fun split_dot :: "pystr \<Rightarrow> pystr list" where
  "split_dot [] = [[]]"
| "split_dot (c # cs) =
     (if c = dot then [] # split_dot cs
      else (case split_dot cs of p # ps \<Rightarrow> (c # p) # ps | [] \<Rightarrow> [[c]]))"

text \<open>One part of an address as \<open>inet_aton\<close> reads it: decimal, octal after a leading
  zero, or hexadecimal after \<open>0x\<close>.\<close>

definition digit_val :: "nat \<Rightarrow> nat option" where
  "digit_val c =
     (if 0x30 \<le> c \<and> c \<le> 0x39 then Some (c - 0x30)
      else if 0x41 \<le> c \<and> c \<le> 0x46 then Some (c - 0x37)
      else if 0x61 \<le> c \<and> c \<le> 0x66 then Some (c - 0x57)
      else None)"

fun parse_digits :: "nat \<Rightarrow> nat \<Rightarrow> pystr \<Rightarrow> nat option" where
  "parse_digits base acc [] = Some acc"
| "parse_digits base acc (c # cs) =
     (case digit_val c of
        Some d \<Rightarrow> if d < base then parse_digits base (base * acc + d) cs else None
      | None \<Rightarrow> None)"

definition parse_part :: "pystr \<Rightarrow> nat option" where
  "parse_part p =
     (case p of
        [] \<Rightarrow> None
      | [c] \<Rightarrow> parse_digits 10 0 [c]
      | c # d # rest \<Rightarrow>
          if c = 0x30 then
            (if d = 0x78 \<or> d = 0x58 then (if rest = [] then None else parse_digits 16 0 rest)
             else parse_digits 8 0 (d # rest))
          else parse_digits 10 0 (c # d # rest))"

definition be_bytes :: "nat \<Rightarrow> nat \<Rightarrow> bytes" where
  "be_bytes k n = rev (le_bytes k n)"

definition inet_aton :: "pystr \<Rightarrow> bytes result" where
  \<comment> \<open>\<open>socket.inet_aton\<close>: one to four parts, the last one fills the remaining bytes\<close>
  "inet_aton str =
     (case those (map parse_part (split_dot str)) of
        Some [d] \<Rightarrow> if d < 2 ^ 32 then Inr (be_bytes 4 d) else Inl OSError
      | Some [a, d] \<Rightarrow>
          if a < 256 \<and> d < 2 ^ 24 then Inr (of_nat a # be_bytes 3 d) else Inl OSError
      | Some [a, b, d] \<Rightarrow>
          if a < 256 \<and> b < 256 \<and> d < 2 ^ 16
          then Inr (of_nat a # of_nat b # be_bytes 2 d) else Inl OSError
      | Some [a, b, c, d] \<Rightarrow>
          if a < 256 \<and> b < 256 \<and> c < 256 \<and> d < 256
          then Inr [of_nat a, of_nat b, of_nat c, of_nat d] else Inl OSError
      | _ \<Rightarrow> Inl OSError)"

lemma byte_text_checked:
  "\<forall>n \<in> set [0..<256]. parse_part (show_nat n) = Some n \<and> dot \<notin> set (show_nat n)"
  by code_simp

lemma byte_text:
  "n < 256 \<Longrightarrow> parse_part (show_nat n) = Some n" "n < 256 \<Longrightarrow> dot \<notin> set (show_nat n)"
  using byte_text_checked by simp_all

lemma split_dot_part: "dot \<notin> set p \<Longrightarrow> split_dot (p @ dot # rest) = p # split_dot rest"
  by (induction p) auto

lemma split_dot_last: "dot \<notin> set p \<Longrightarrow> split_dot p = [p]"
  by (induction p) auto

lemma inet_aton_ntoa:
  "length bs = 4 \<Longrightarrow> bindE (inet_ntoa bs) inet_aton = Inr bs"
proof -
  assume "length bs = 4"
  then obtain a b c d where bs: "bs = [a, b, c, d]"
    by (auto simp: length_Suc_conv numeral_eq_Suc)
  show ?thesis
    by (simp add: bs inet_ntoa_def inet_aton_def split_dot_part split_dot_last byte_text)
qed

end
