(* ===== verification/Primitives.thy ===== *)
theory Primitives
  imports Py_Text
begin

text \<open>
  \<open>src/aioslsk/protocol/primitives.py\<close>, first part: the primitive wire types. A
  serializer returns the bytes it appends to the buffer, a deserializer takes the position
  and the whole message and returns the new position with the value, as the Python class
  methods do. Exceptions are \<open>Inl\<close>.
\<close>

subsection \<open>The \<open>Serializable\<close> protocol\<close>

text \<open>
  The contract every wire type of the code keeps: a valid value can be serialized, and
  deserializing at the position where its bytes start gives the value back and the position
  after them, whatever precedes or follows in the message.
\<close>

locale serializable =
  fixes serialize :: "'a \<Rightarrow> bytes result"
    and deserialize :: "nat \<Rightarrow> bytes \<Rightarrow> (nat \<times> 'a) result"
    and valid :: "'a \<Rightarrow> bool"
  assumes serialize_total: "valid v \<Longrightarrow> \<exists>bs. serialize v = Inr bs"
    and deserialize_serialize:
      "valid v \<Longrightarrow> serialize v = Inr bs \<Longrightarrow>
         deserialize (length pre) (pre @ bs @ suf) = Inr (length pre + length bs, v)"

subsection \<open>Fixed-width integers\<close>

definition struct_pack :: "nat \<Rightarrow> int \<Rightarrow> bytes result" where
  \<comment> \<open>\<open>Struct('<B' | '<H' | '<I' | '<Q').pack\<close>: out of range raises\<close>
  "struct_pack k v = (if 0 \<le> v \<and> v < 256 ^ k then Inr (le_bytes k (nat v)) else Inl StructError)"

definition struct_unpack_from :: "nat \<Rightarrow> bytes \<Rightarrow> nat \<Rightarrow> int result" where
  \<comment> \<open>\<open>unpack_from\<close> needs \<open>k\<close> bytes at the offset\<close>
  "struct_unpack_from k data pos =
     (if pos + k \<le> length data then Inr (int (le_nat (slice data pos (pos + k)))) else Inl StructError)"

definition uint8_serialize :: "int \<Rightarrow> bytes result" where
  "uint8_serialize v = struct_pack 1 v"

definition uint8_deserialize :: "nat \<Rightarrow> bytes \<Rightarrow> (nat \<times> int) result" where
  "uint8_deserialize pos data = bindE (struct_unpack_from 1 data pos) (\<lambda>v. Inr (pos + 1, v))"

definition uint16_serialize :: "int \<Rightarrow> bytes result" where
  "uint16_serialize v = struct_pack 2 v"

definition uint16_deserialize :: "nat \<Rightarrow> bytes \<Rightarrow> (nat \<times> int) result" where
  "uint16_deserialize pos data = bindE (struct_unpack_from 2 data pos) (\<lambda>v. Inr (pos + 2, v))"

definition uint32_serialize :: "int \<Rightarrow> bytes result" where
  "uint32_serialize v = struct_pack 4 v"

definition uint32_deserialize :: "nat \<Rightarrow> bytes \<Rightarrow> (nat \<times> int) result" where
  "uint32_deserialize pos data = bindE (struct_unpack_from 4 data pos) (\<lambda>v. Inr (pos + 4, v))"

definition uint64_serialize :: "int \<Rightarrow> bytes result" where
  "uint64_serialize v = struct_pack 8 v"

definition uint64_deserialize :: "nat \<Rightarrow> bytes \<Rightarrow> (nat \<times> int) result" where
  "uint64_deserialize pos data = bindE (struct_unpack_from 8 data pos) (\<lambda>v. Inr (pos + 8, v))"

definition int32_serialize :: "int \<Rightarrow> bytes result" where
  \<comment> \<open>\<open>Struct('<i').pack\<close>: two's complement\<close>
  "int32_serialize v =
     (if - (2 ^ 31) \<le> v \<and> v < 2 ^ 31 then Inr (le_bytes 4 (nat (v mod 2 ^ 32))) else Inl StructError)"

definition int32_deserialize :: "nat \<Rightarrow> bytes \<Rightarrow> (nat \<times> int) result" where
  "int32_deserialize pos data =
     bindE (struct_unpack_from 4 data pos) (\<lambda>v. Inr (pos + 4, if v < 2 ^ 31 then v else v - 2 ^ 32))"

definition boolean_serialize :: "bool \<Rightarrow> bytes result" where
  "boolean_serialize v = Inr [if v then 1 else 0]"

definition boolean_deserialize :: "nat \<Rightarrow> bytes \<Rightarrow> (nat \<times> bool) result" where
  \<comment> \<open>\<open>Struct('<?')\<close>: any non-zero byte is true\<close>
  "boolean_deserialize pos data = bindE (struct_unpack_from 1 data pos) (\<lambda>v. Inr (pos + 1, v \<noteq> 0))"

subsection \<open>Strings, byte arrays, addresses\<close>

definition string_serialize :: "pystr \<Rightarrow> bytes result" where
  "string_serialize str =
     bindE (utf8_encode str) (\<lambda>byte_string.
     bindE (uint32_serialize (int (length byte_string))) (\<lambda>len. Inr (len @ byte_string)))"

definition string_deserialize :: "nat \<Rightarrow> bytes \<Rightarrow> (nat \<times> pystr) result" where
  "string_deserialize pos data =
     bindE (uint32_deserialize pos data) (\<lambda>(pos_after_len, len).
       let end_pos = pos_after_len + nat len;
           value = slice data pos_after_len end_pos
       in if length value \<noteq> nat len then Inl LengthMismatch
          else bindE (decode_string value) (\<lambda>str. Inr (end_pos, str)))"

definition bytearr_serialize :: "bytes \<Rightarrow> bytes result" where
  "bytearr_serialize b = bindE (uint32_serialize (int (length b))) (\<lambda>len. Inr (len @ b))"

definition bytearr_deserialize :: "nat \<Rightarrow> bytes \<Rightarrow> (nat \<times> bytes) result" where
  \<comment> \<open>no check that all bytes are there: the slice may be short\<close>
  "bytearr_deserialize pos data =
     bindE (uint32_deserialize pos data) (\<lambda>(pos_after_len, len).
       Inr (pos_after_len + nat len, slice data pos_after_len (pos_after_len + nat len)))"

definition ipaddr_serialize :: "pystr \<Rightarrow> bytes result" where
  "ipaddr_serialize str = bindE (inet_aton str) (\<lambda>ip_b. Inr (rev ip_b))"

definition ipaddr_deserialize :: "nat \<Rightarrow> bytes \<Rightarrow> (nat \<times> pystr) result" where
  "ipaddr_deserialize pos data =
     (let value = slice data pos (pos + 4)
      in if length value \<noteq> 4 then Inl StructError
         else bindE (inet_ntoa (rev value)) (\<lambda>ip_addr. Inr (pos + 4, ip_addr)))"

definition peer_init_ticket_deserialize :: "nat \<Rightarrow> bytes \<Rightarrow> (nat \<times> int) result" where
  \<comment> \<open>\<open>_PeerInitTicket\<close> of \<open>messages.py\<close>: some peers send eight bytes\<close>
  "peer_init_ticket_deserialize pos data =
     (if length (drop pos data) = 4 then uint32_deserialize pos data else uint64_deserialize pos data)"

subsection \<open>Arrays\<close>

definition array_serialize :: "('a \<Rightarrow> bytes result) \<Rightarrow> 'a list \<Rightarrow> bytes result" where
  "array_serialize element xs =
     bindE (uint32_serialize (int (length xs))) (\<lambda>len.
     bindE (mapE element xs) (\<lambda>bss. Inr (len @ concat bss)))"

fun array_items :: "(nat \<Rightarrow> bytes \<Rightarrow> (nat \<times> 'a) result) \<Rightarrow> nat \<Rightarrow> nat \<Rightarrow> bytes \<Rightarrow> (nat \<times> 'a list) result" where
  "array_items element 0 pos data = Inr (pos, [])"
| "array_items element (Suc n) pos data =
     bindE (element pos data) (\<lambda>(pos', item).
     bindE (array_items element n pos' data) (\<lambda>(pos'', items). Inr (pos'', item # items)))"

definition array_deserialize ::
    "(nat \<Rightarrow> bytes \<Rightarrow> (nat \<times> 'a) result) \<Rightarrow> nat \<Rightarrow> bytes \<Rightarrow> (nat \<times> 'a list) result" where
  "array_deserialize element pos data =
     bindE (uint32_deserialize pos data) (\<lambda>(pos', array_len). array_items element (nat array_len) pos' data)"

lemma array_items_cong [fundef_cong]:
  assumes "n = n'" "pos = pos'" "data = data'" "\<And>p. f p data' = g p data'"
  shows "array_items f n pos data = array_items g n' pos' data'"
proof -
  have "array_items f n pos data' = array_items g n pos data'"
    by (induction n arbitrary: pos) (auto simp: assms(4) intro!: bindE_cong)
  then show ?thesis using assms(1-3) by simp
qed

lemma array_deserialize_cong [fundef_cong]:
  assumes "pos = pos'" "data = data'" "\<And>p. f p data' = g p data'"
  shows "array_deserialize f pos data = array_deserialize g pos' data'"
  unfolding array_deserialize_def assms(1,2)
  by (intro bindE_cong) (auto intro!: array_items_cong assms(3))

lemma array_serialize_cong [fundef_cong]:
  "xs = ys \<Longrightarrow> (\<And>x. x \<in> set ys \<Longrightarrow> f x = g x) \<Longrightarrow> array_serialize f xs = array_serialize g ys"
  unfolding array_serialize_def by (auto intro!: bindE_cong arg_cong [where f = "\<lambda>m. bindE m _"] mapE_cong)

subsection \<open>The primitive types keep the contract\<close>

lemma struct_unpack_append:
  "length bs = k \<Longrightarrow> struct_unpack_from k (pre @ bs @ suf) (length pre) = Inr (int (le_nat bs))"
  by (auto simp: struct_unpack_from_def)

lemma struct_roundtrip:
  "struct_pack k v = Inr bs \<Longrightarrow>
     length bs = k \<and> struct_unpack_from k (pre @ bs @ suf) (length pre) = Inr v"
  by (auto simp: struct_pack_def struct_unpack_append split: if_splits)

lemma struct_unpack_packed [simp]:
  "struct_pack k v = Inr bs \<Longrightarrow> struct_unpack_from k (pre @ bs @ suf) (length pre) = Inr v"
  by (simp add: struct_roundtrip)

lemma struct_pack_length: "struct_pack k v = Inr bs \<Longrightarrow> length bs = k"
  using struct_roundtrip by blast

lemma struct_unpack_byte [simp]:
  "struct_unpack_from (Suc 0) (pre @ b # suf) (length pre) = Inr (int (unat b))"
  using struct_unpack_append [of "[b]" 1 pre suf] by simp

lemma struct_pack_total: "0 \<le> v \<Longrightarrow> v < 256 ^ k \<Longrightarrow> \<exists>bs. struct_pack k v = Inr bs"
  by (simp add: struct_pack_def)

definition fits :: "nat \<Rightarrow> int \<Rightarrow> bool" where
  "fits k v \<longleftrightarrow> 0 \<le> v \<and> v < 256 ^ k"

definition fits_signed :: "int \<Rightarrow> bool" where
  "fits_signed v \<longleftrightarrow> - (2 ^ 31) \<le> v \<and> v < 2 ^ 31"

interpretation uint8: serializable uint8_serialize uint8_deserialize "fits 1"
  by unfold_locales
    (auto simp: uint8_serialize_def uint8_deserialize_def fits_def struct_pack_total dest: struct_pack_length)

interpretation uint16: serializable uint16_serialize uint16_deserialize "fits 2"
  by unfold_locales
    (auto simp: uint16_serialize_def uint16_deserialize_def fits_def struct_pack_total dest: struct_pack_length)

interpretation uint32: serializable uint32_serialize uint32_deserialize "fits 4"
  by unfold_locales
    (auto simp: uint32_serialize_def uint32_deserialize_def fits_def struct_pack_total dest: struct_pack_length)

interpretation uint64: serializable uint64_serialize uint64_deserialize "fits 8"
  by unfold_locales
    (auto simp: uint64_serialize_def uint64_deserialize_def fits_def struct_pack_total dest: struct_pack_length)

lemma twos_complement:
  assumes "fits_signed v"
  shows "nat (v mod 2 ^ 32) < 256 ^ 4"
    and "(if v mod 2 ^ 32 < 2 ^ 31 then v mod 2 ^ 32 else v mod 2 ^ 32 - 2 ^ 32) = v"
proof -
  have "v mod 2 ^ 32 < 2 ^ 32" "0 \<le> v mod 2 ^ 32" by simp_all
  then show "nat (v mod 2 ^ 32) < 256 ^ 4" by (simp add: nat_less_iff)
  show "(if v mod 2 ^ 32 < 2 ^ 31 then v mod 2 ^ 32 else v mod 2 ^ 32 - 2 ^ 32) = v"
  proof (cases "0 \<le> v")
    case True
    then show ?thesis using assms by (simp add: fits_signed_def)
  next
    case False
    then have "v mod 2 ^ 32 = v + 2 ^ 32"
      using assms by (intro int_mod_pos_eq [where q = "-1"]) (auto simp: fits_signed_def)
    then show ?thesis using assms False by (simp add: fits_signed_def)
  qed
qed

interpretation int32: serializable int32_serialize int32_deserialize fits_signed
proof unfold_locales
  fix v show "fits_signed v \<Longrightarrow> \<exists>bs. int32_serialize v = Inr bs"
    by (simp add: int32_serialize_def fits_signed_def)
next
  fix v bs and pre suf :: bytes
  assume v: "fits_signed v" and bs: "int32_serialize v = Inr bs"
  have le: "bs = le_bytes 4 (nat (v mod 2 ^ 32))"
    using bs v by (simp add: int32_serialize_def fits_signed_def)
  then have "int (le_nat bs) = v mod 2 ^ 32"
    using twos_complement(1) [OF v] by simp
  moreover have "length bs = 4" using le by simp
  ultimately show "int32_deserialize (length pre) (pre @ bs @ suf) = Inr (length pre + length bs, v)"
    using twos_complement(2) [OF v]
    by (simp only: int32_deserialize_def struct_unpack_append bindE_Inr)
qed

interpretation boolean: serializable boolean_serialize boolean_deserialize "\<lambda>_. True"
  by unfold_locales (auto simp: boolean_serialize_def boolean_deserialize_def)

definition text_ok :: "pystr \<Rightarrow> bool" where
  "text_ok str \<longleftrightarrow> list_all valid_cp str \<and> length (concat (map utf8_cp str)) < 2 ^ 32"

lemma length_prefixed:
  assumes "uint32_serialize (int (length b)) = Inr len"
  shows "uint32_deserialize (length pre) (pre @ (len @ b) @ suf) = Inr (length pre + 4, int (length b))"
    and "length len = 4"
    and "slice (pre @ (len @ b) @ suf) (length pre + 4) (length pre + 4 + length b) = b"
proof -
  show l: "length len = 4"
    using assms by (auto simp: uint32_serialize_def dest: struct_pack_length)
  have "fits 4 (int (length b))"
    using assms by (auto simp: uint32_serialize_def struct_pack_def fits_def split: if_splits)
  from uint32.deserialize_serialize [OF this assms, of pre "b @ suf"] l
  show "uint32_deserialize (length pre) (pre @ (len @ b) @ suf) = Inr (length pre + 4, int (length b))"
    by simp
  show "slice (pre @ (len @ b) @ suf) (length pre + 4) (length pre + 4 + length b) = b"
    using slice_append [of "pre @ len" b suf] l by simp
qed

lemma uint32_length_total: "n < 2 ^ 32 \<Longrightarrow> \<exists>bs. uint32_serialize (int n) = Inr bs"
  by (rule uint32.serialize_total) (simp add: fits_def)

interpretation string: serializable string_serialize string_deserialize text_ok
proof unfold_locales
  fix v assume "text_ok v"
  then show "\<exists>bs. string_serialize v = Inr bs"
    using uint32_length_total [of "length (concat (map utf8_cp v))"]
    by (auto simp: string_serialize_def utf8_encode_def text_ok_def)
next
  fix v bs and pre suf :: bytes
  assume "string_serialize v = Inr bs"
  then obtain b len where b: "utf8_encode v = Inr b" "uint32_serialize (int (length b)) = Inr len"
    "bs = len @ b"
    by (auto simp: string_serialize_def bindE_eq_Inr_iff)
  show "string_deserialize (length pre) (pre @ bs @ suf) = Inr (length pre + length bs, v)"
    using length_prefixed(1,3) [OF b(2), of pre suf] length_prefixed(2) [OF b(2)] decode_string_encode [OF b(1)]
    by (simp add: string_deserialize_def b(3) Let_def)
qed

interpretation bytearr: serializable bytearr_serialize bytearr_deserialize "\<lambda>b. length b < 2 ^ 32"
proof unfold_locales
  fix v :: bytes assume "length v < 2 ^ 32"
  then show "\<exists>bs. bytearr_serialize v = Inr bs"
    using uint32_length_total [of "length v"] by (auto simp: bytearr_serialize_def)
next
  fix v bs and pre suf :: bytes
  assume "bytearr_serialize v = Inr bs"
  then obtain len where b: "uint32_serialize (int (length v)) = Inr len" "bs = len @ v"
    by (auto simp: bytearr_serialize_def bindE_eq_Inr_iff)
  show "bytearr_deserialize (length pre) (pre @ bs @ suf) = Inr (length pre + length bs, v)"
    using length_prefixed(1,3) [OF b(1), of pre suf] length_prefixed(2) [OF b(1)] by (simp add: bytearr_deserialize_def b(2))
qed

definition dotted_quad :: "pystr \<Rightarrow> bool" where
  \<comment> \<open>an address in the form \<open>inet_ntoa\<close> prints\<close>
  "dotted_quad str \<longleftrightarrow> (case inet_aton str of Inr bs \<Rightarrow> inet_ntoa bs = Inr str | Inl _ \<Rightarrow> False)"

lemma inet_ntoa_length: "inet_ntoa bs = Inr str \<Longrightarrow> length bs = 4"
  by (auto simp: inet_ntoa_def split: list.splits)

interpretation ipaddr: serializable ipaddr_serialize ipaddr_deserialize dotted_quad
proof unfold_locales
  fix v show "dotted_quad v \<Longrightarrow> \<exists>bs. ipaddr_serialize v = Inr bs"
    by (auto simp: dotted_quad_def ipaddr_serialize_def split: sum.splits)
next
  fix v bs and pre suf :: bytes
  assume v: "dotted_quad v" and "ipaddr_serialize v = Inr bs"
  then obtain b where b: "inet_aton v = Inr b" "inet_ntoa b = Inr v" "bs = rev b"
    by (auto simp: dotted_quad_def ipaddr_serialize_def bindE_eq_Inr_iff)
  have l: "length bs = 4" using inet_ntoa_length [OF b(2)] b(3) by simp
  then have "slice (pre @ bs @ suf) (length pre) (length pre + 4) = bs"
    using slice_append [of pre bs suf] by simp
  then show "ipaddr_deserialize (length pre) (pre @ bs @ suf) = Inr (length pre + length bs, v)"
    using l b by (simp add: ipaddr_deserialize_def Let_def)
qed

subsection \<open>Arrays of serializable elements\<close>

context serializable
begin

lemma array_items_serialized:
  assumes "list_all valid xs" "mapE serialize xs = Inr bss"
  shows "array_items deserialize (length xs) (length pre) (pre @ concat bss @ suf)
       = Inr (length pre + length (concat bss), xs)"
  using assms
proof (induction xs arbitrary: bss pre)
  case Nil
  then show ?case by simp
next
  case (Cons x xs)
  then obtain b bs where b: "serialize x = Inr b" "mapE serialize xs = Inr bs" "bss = b # bs"
    by (auto simp: bindE_eq_Inr_iff)
  have "valid x" using Cons.prems by simp
  from deserialize_serialize [OF this b(1), of pre "concat bs @ suf"]
  have "deserialize (length pre) (pre @ b @ concat bs @ suf) = Inr (length pre + length b, x)" .
  moreover have "array_items deserialize (length xs) (length (pre @ b)) ((pre @ b) @ concat bs @ suf)
      = Inr (length (pre @ b) + length (concat bs), xs)"
    by (rule Cons.IH) (use Cons.prems b in auto)
  ultimately show ?case using b by simp
qed

lemma array_serializable:
  "serializable (array_serialize serialize) (array_deserialize deserialize)
     (\<lambda>xs. list_all valid xs \<and> length xs < 2 ^ 32)"
proof unfold_locales
  fix xs assume xs: "list_all valid xs \<and> length xs < 2 ^ 32"
  then have "\<exists>bss. mapE serialize xs = Inr bss"
  proof (induction xs)
    case (Cons x xs)
    then obtain bss where "mapE serialize xs = Inr bss" by auto
    with Cons.prems serialize_total [of x] show ?case by auto
  qed simp
  then show "\<exists>bs. array_serialize serialize xs = Inr bs"
    using uint32_length_total [of "length xs"] xs by (auto simp: array_serialize_def)
next
  fix xs bs and pre suf :: bytes
  assume xs: "list_all valid xs \<and> length xs < 2 ^ 32" and "array_serialize serialize xs = Inr bs"
  then obtain len bss where b: "uint32_serialize (int (length xs)) = Inr len"
    "mapE serialize xs = Inr bss" "bs = len @ concat bss"
    by (auto simp: array_serialize_def bindE_eq_Inr_iff)
  have "length len = 4" using b(1) by (auto simp: uint32_serialize_def dest: struct_pack_length)
  moreover have "fits 4 (int (length xs))" using xs by (simp add: fits_def)
  note uint32.deserialize_serialize [OF this b(1), of pre "concat bss @ suf"]
  moreover have "array_items deserialize (length xs) (length (pre @ len)) ((pre @ len) @ concat bss @ suf)
      = Inr (length (pre @ len) + length (concat bss), xs)"
    using xs b(2) by (intro array_items_serialized) auto
  ultimately show "array_deserialize deserialize (length pre) (pre @ bs @ suf)
      = Inr (length pre + length bs, xs)"
    by (simp add: array_deserialize_def b(3))
qed

end

end
