(* ===== verification/Dataclass.thy ===== *)
theory Dataclass
  imports Primitives
begin

text \<open>
  \<open>src/aioslsk/protocol/primitives.py\<close>, second part: \<open>ProtocolDataclass\<close>, whose
  (de)serialization is driven by the metadata of the dataclass fields. A schema is a value of
  \<open>ptype\<close>; Python values of message fields are \<open>pval\<close>.

  The constructors \<open>uint32(value)\<close>, \<open>string(value)\<close>, \<dots> that the code applies before
  serializing convert booleans to integers and back; the other conversions of Python's
  constructors (\<open>uint32('12')\<close>, \<open>string(5)\<close>) are no use the code makes of them and are
  \<open>TypeError\<close> here.
\<close>

subsection \<open>Values and schemas\<close>

datatype pval =
    PNone
  | PBool bool
  | PInt int
  | PStr pystr
  | PBytes bytes
  | PList "pval list"
  | PObj string "(string \<times> pval) list" \<comment> \<open>dataclass instance: class name, attributes in field order\<close>

datatype ptype =
    TUint8 | TUint16 | TUint32 | TUint64 | TInt32
  | TString | TBytearr | TIpaddr | TBoolean | TPeerInitTicket
  | TArray ptype              \<comment> \<open>metadata \<open>'type': array, 'subtype': t\<close>\<close>
  | TData string "pfield list" \<comment> \<open>a dataclass with its fields\<close>
and pfield =
    Field (fname: string) (ftype: ptype) (if_true: "string option") (if_false: "string option")
      (is_optional: bool) (fdefault: "pval option")

fun truthy :: "pval \<Rightarrow> bool" where
  "truthy PNone = False"
| "truthy (PBool b) = b"
| "truthy (PInt n) = (n \<noteq> 0)"
| "truthy (PStr str) = (str \<noteq> [])"
| "truthy (PBytes b) = (b \<noteq> [])"
| "truthy (PList xs) = (xs \<noteq> [])"
| "truthy (PObj c fs) = True"

definition getattr :: "(string \<times> pval) list \<Rightarrow> string \<Rightarrow> pval result" where
  "getattr attrs name = get_or KeyError attrs name"

subsection \<open>Serialization\<close>

fun as_int :: "pval \<Rightarrow> int result" where
  "as_int (PInt n) = Inr n"
| "as_int (PBool b) = Inr (of_bool b)"
| "as_int v = Inl TypeError"

definition get_value_for_field :: "(string \<times> pval) list \<Rightarrow> pfield \<Rightarrow> pval result" where
  \<comment> \<open>the order of the checks is the order of the source\<close>
  "get_value_for_field attrs f =
     bindE (getattr attrs (fname f)) (\<lambda>value.
       if is_optional f \<and> value = PNone then Inr PNone
       else case if_true f of
         Some other \<Rightarrow> bindE (getattr attrs other) (\<lambda>v. Inr (if truthy v then value else PNone))
       | None \<Rightarrow> (case if_false f of
           Some other \<Rightarrow> bindE (getattr attrs other) (\<lambda>v. Inr (if \<not> truthy v then value else PNone))
         | None \<Rightarrow> Inr value))"

function (sequential)
  serialize_value :: "ptype \<Rightarrow> pval \<Rightarrow> bytes result"
  and serialize_fields :: "pfield list \<Rightarrow> (string \<times> pval) list \<Rightarrow> bytes result" where
  "serialize_value TUint8 v = bindE (as_int v) uint8_serialize"
| "serialize_value TUint16 v = bindE (as_int v) uint16_serialize"
| "serialize_value TUint32 v = bindE (as_int v) uint32_serialize"
| "serialize_value TUint64 v = bindE (as_int v) uint64_serialize"
| "serialize_value TInt32 v = bindE (as_int v) int32_serialize"
| "serialize_value TPeerInitTicket v = bindE (as_int v) uint32_serialize"
| "serialize_value TBoolean v = bindE (as_int v) (\<lambda>n. boolean_serialize (n \<noteq> 0))"
| "serialize_value TString (PStr str) = string_serialize str"
| "serialize_value TString v = Inl TypeError"
| "serialize_value TBytearr (PBytes b) = bytearr_serialize b"
| "serialize_value TBytearr v = Inl TypeError"
| "serialize_value TIpaddr (PStr str) = ipaddr_serialize str"
| "serialize_value TIpaddr v = Inl TypeError"
| "serialize_value (TArray t) (PList vs) = array_serialize (\<lambda>v. serialize_value t v) vs"
| "serialize_value (TArray t) v = Inl TypeError"
| "serialize_value (TData c fs) (PObj c' attrs) =
     (if c = c' then serialize_fields fs attrs else Inl TypeError)"
| "serialize_value (TData c fs) v = Inl TypeError"
| "serialize_fields [] attrs = Inr []"
| "serialize_fields (Field n t yes no opt d # fs) attrs =
     bindE (get_value_for_field attrs (Field n t yes no opt d)) (\<lambda>value.
       if value = PNone then serialize_fields fs attrs
       else bindE (serialize_value t value) (\<lambda>bs.
            bindE (serialize_fields fs attrs) (\<lambda>rest. Inr (bs @ rest))))"
  by pat_completeness auto
termination
  by (relation "measure (case_sum (size \<circ> fst) (size_list size \<circ> fst))") auto

subsection \<open>Deserialization\<close>

definition field_needs_deserialization ::
    "pfield \<Rightarrow> (string \<times> pval) list \<Rightarrow> nat \<Rightarrow> bytes \<Rightarrow> bool result" where
  "field_needs_deserialization f field_map pos message =
     bindE (case if_true f of None \<Rightarrow> Inr True
            | Some other \<Rightarrow> bindE (getattr field_map other) (\<lambda>v. Inr (truthy v))) (\<lambda>t.
     if \<not> t then Inr False else
     bindE (case if_false f of None \<Rightarrow> Inr True
            | Some other \<Rightarrow> bindE (getattr field_map other) (\<lambda>v. Inr (\<not> truthy v))) (\<lambda>u.
     if \<not> u then Inr False
     else if is_optional f then Inr (pos < length message)
     else Inr True))"

fun construct :: "pfield list \<Rightarrow> (string \<times> pval) list \<Rightarrow> (string \<times> pval) list result" where
  \<comment> \<open>\<open>cls(**field_map)\<close>: a missing argument takes its default or raises\<close>
  "construct [] fm = Inr []"
| "construct (Field n t yes no opt d # fs) fm =
     bindE (case map_of fm n of Some v \<Rightarrow> Inr v
            | None \<Rightarrow> (case d of Some v \<Rightarrow> Inr v | None \<Rightarrow> Inl TypeError)) (\<lambda>v.
     bindE (construct fs fm) (\<lambda>rest. Inr ((n, v) # rest)))"

definition tag :: "('a \<Rightarrow> 'b) \<Rightarrow> (nat \<times> 'a) result \<Rightarrow> (nat \<times> 'b) result" where
  "tag f r = bindE r (\<lambda>(pos, v). Inr (pos, f v))"

function (sequential)
  deserialize_value :: "ptype \<Rightarrow> nat \<Rightarrow> bytes \<Rightarrow> (nat \<times> pval) result"
  and deserialize_fields ::
    "pfield list \<Rightarrow> (string \<times> pval) list \<Rightarrow> nat \<Rightarrow> bytes \<Rightarrow> (nat \<times> (string \<times> pval) list) result" where
  "deserialize_value TUint8 pos m = tag PInt (uint8_deserialize pos m)"
| "deserialize_value TUint16 pos m = tag PInt (uint16_deserialize pos m)"
| "deserialize_value TUint32 pos m = tag PInt (uint32_deserialize pos m)"
| "deserialize_value TUint64 pos m = tag PInt (uint64_deserialize pos m)"
| "deserialize_value TInt32 pos m = tag PInt (int32_deserialize pos m)"
| "deserialize_value TPeerInitTicket pos m = tag PInt (peer_init_ticket_deserialize pos m)"
| "deserialize_value TBoolean pos m = tag PBool (boolean_deserialize pos m)"
| "deserialize_value TString pos m = tag PStr (string_deserialize pos m)"
| "deserialize_value TBytearr pos m = tag PBytes (bytearr_deserialize pos m)"
| "deserialize_value TIpaddr pos m = tag PStr (ipaddr_deserialize pos m)"
| "deserialize_value (TArray t) pos m =
     tag PList (array_deserialize (\<lambda>p d. deserialize_value t p d) pos m)"
| "deserialize_value (TData c fs) pos m =
     bindE (deserialize_fields fs [] pos m) (\<lambda>(pos', fm).
     bindE (construct fs fm) (\<lambda>attrs. Inr (pos', PObj c attrs)))"
| "deserialize_fields [] fm pos m = Inr (pos, fm)"
| "deserialize_fields (Field n t yes no opt d # fs) fm pos m =
     bindE (field_needs_deserialization (Field n t yes no opt d) fm pos m) (\<lambda>needed.
       if \<not> needed then deserialize_fields fs fm pos m
       else bindE (deserialize_value t pos m) (\<lambda>(pos', value).
            deserialize_fields fs (dict_set n value fm) pos' m))"
  by pat_completeness auto
termination
  by (relation "measure (case_sum (size \<circ> fst) (size_list size \<circ> fst))") auto

subsection \<open>Well-formed schemas and conforming objects\<close>

text \<open>
  A closed schema can be read wherever it stands in a message. An optional field, or the
  ticket of \<open>PeerInit\<close>, looks at the bytes that are left, so it is only well-formed at the
  end of a message. \<open>known\<close> are the fields that are always present; a condition may only
  name one of them.
\<close>

definition known_after :: "string set \<Rightarrow> pfield \<Rightarrow> string set" where
  "known_after known f =
     (if if_true f = None \<and> if_false f = None \<and> \<not> is_optional f then insert (fname f) known else known)"

definition conditions_known :: "string set \<Rightarrow> pfield \<Rightarrow> bool" where
  "conditions_known known f \<longleftrightarrow>
     (case if_true f of None \<Rightarrow> True | Some c \<Rightarrow> c \<in> known) \<and>
     (case if_false f of None \<Rightarrow> True | Some c \<Rightarrow> c \<in> known) \<and>
     \<not> (if_true f \<noteq> None \<and> if_false f \<noteq> None)"

function (sequential) closed_type :: "ptype \<Rightarrow> bool"
  and closed_fields :: "string set \<Rightarrow> pfield list \<Rightarrow> bool" where
  "closed_type TPeerInitTicket = False"
| "closed_type (TArray t) = closed_type t"
| "closed_type (TData c fs) = (distinct (map fname fs) \<and> closed_fields {} fs)"
| "closed_type t = True"
| "closed_fields known [] = True"
| "closed_fields known (Field n t yes no opt d # fs) =
     (closed_type t \<and> \<not> opt \<and> conditions_known known (Field n t yes no opt d)
      \<and> closed_fields (known_after known (Field n t yes no opt d)) fs)"
  by pat_completeness auto
termination
  by (relation "measure (case_sum size (size_list size \<circ> snd))") auto

fun is_data :: "ptype \<Rightarrow> bool" where
  "is_data (TData c fs) = True"
| "is_data t = False"

fun wf_fields :: "string set \<Rightarrow> pfield list \<Rightarrow> bool" where
  "wf_fields known [] = True"
| "wf_fields known (f # fs) =
     ((closed_type (ftype f) \<or> ftype f = TPeerInitTicket \<and> fs = [])
      \<and> (is_optional f \<longrightarrow> \<not> is_data (ftype f))
      \<and> conditions_known known f \<and> wf_fields (known_after known f) fs)"

definition wf_schema :: "pfield list \<Rightarrow> bool" where
  "wf_schema fs \<longleftrightarrow> distinct (map fname fs) \<and> wf_fields {} fs"

definition active :: "(string \<times> pval) list \<Rightarrow> pfield \<Rightarrow> bool" where
  \<comment> \<open>the field's condition holds in the object\<close>
  "active attrs f =
     (case if_true f of
        Some c \<Rightarrow> (case map_of attrs c of Some v \<Rightarrow> truthy v | None \<Rightarrow> False)
      | None \<Rightarrow> (case if_false f of
          Some c \<Rightarrow> (case map_of attrs c of Some v \<Rightarrow> \<not> truthy v | None \<Rightarrow> False)
        | None \<Rightarrow> True))"

definition silent :: "(string \<times> pval) list \<Rightarrow> pfield list \<Rightarrow> bool" where
  \<comment> \<open>none of the fields is written\<close>
  "silent attrs fs \<longleftrightarrow> (\<forall>f \<in> set fs. \<not> active attrs f \<or> map_of attrs (fname f) = Some PNone)"

text \<open>
  An object conforms to a schema when every field that is written has a value of its type,
  a field whose condition fails has its default, and an optional field is left out only
  with everything after it.
\<close>

function (sequential) has_type :: "ptype \<Rightarrow> pval \<Rightarrow> bool"
  and conforming :: "pfield list \<Rightarrow> (string \<times> pval) list \<Rightarrow> (string \<times> pval) list \<Rightarrow> bool" where
  "has_type TUint8 (PInt n) = fits 1 n"
| "has_type TUint16 (PInt n) = fits 2 n"
| "has_type TUint32 (PInt n) = fits 4 n"
| "has_type TUint64 (PInt n) = fits 8 n"
| "has_type TInt32 (PInt n) = fits_signed n"
| "has_type TPeerInitTicket (PInt n) = fits 4 n"
| "has_type TBoolean (PBool b) = True"
| "has_type TString (PStr str) = text_ok str"
| "has_type TBytearr (PBytes b) = (length b < 2 ^ 32)"
| "has_type TIpaddr (PStr str) = dotted_quad str"
| "has_type (TArray t) (PList vs) = (list_all (has_type t) vs \<and> length vs < 2 ^ 32)"
| "has_type (TData c fs) (PObj c' attrs) = (c = c' \<and> conforming fs attrs attrs)"
| "has_type t v = False"
| "conforming [] attrs [] = True"
| "conforming (Field n t yes no opt d # fs) attrs ((n', v) # rest) =
     (n = n' \<and> conforming fs attrs rest \<and>
      (if active attrs (Field n t yes no opt d) then
         (if v = PNone then opt \<and> d = Some PNone \<and> silent attrs fs else has_type t v)
       else d = Some v))"
| "conforming fs attrs rest = False"
  by pat_completeness auto
termination
  by (relation "measure (case_sum (size \<circ> fst) (size_list size \<circ> fst))") auto

lemma tag_serializable:
  assumes "serializable ser deser valid"
    and "\<And>v. valid' v \<Longrightarrow> \<exists>x. v = f x \<and> valid x \<and> ser' v = ser x"
  shows "serializable ser' (\<lambda>pos m. tag f (deser pos m)) valid'"
proof unfold_locales
  fix v assume "valid' v" then show "\<exists>bs. ser' v = Inr bs"
    using assms(2) serializable.serialize_total [OF assms(1)] by metis
next
  fix v bs and pre suf :: bytes
  assume "valid' v" "ser' v = Inr bs"
  then obtain x where "v = f x" "valid x" "ser x = Inr bs" using assms(2) by metis
  then show "tag f (deser (length pre) (pre @ bs @ suf)) = Inr (length pre + length bs, v)"
    using serializable.deserialize_serialize [OF assms(1), of x bs pre suf] by (simp add: tag_def)
qed

subsection \<open>Round trip of dataclasses\<close>

abbreviation codec_ok :: "ptype \<Rightarrow> bool" where
  "codec_ok t \<equiv> serializable (serialize_value t) (deserialize_value t) (has_type t)"

lemma codec_okI:
  assumes "serializable ser deser valid"
    and "\<And>v. has_type t v \<Longrightarrow> \<exists>x. v = f x \<and> valid x"
    and "\<And>x. serialize_value t (f x) = ser x"
    and "\<And>pos m. deserialize_value t pos m = tag f (deser pos m)"
  shows "codec_ok t"
  unfolding assms(4) [abs_def] by (rule tag_serializable [OF assms(1)]) (use assms(2,3) in blast)

lemma has_type_inv:
  "has_type TUint8 v \<longleftrightarrow> (\<exists>n. v = PInt n \<and> fits 1 n)"
  "has_type TUint16 v \<longleftrightarrow> (\<exists>n. v = PInt n \<and> fits 2 n)"
  "has_type TUint32 v \<longleftrightarrow> (\<exists>n. v = PInt n \<and> fits 4 n)"
  "has_type TUint64 v \<longleftrightarrow> (\<exists>n. v = PInt n \<and> fits 8 n)"
  "has_type TInt32 v \<longleftrightarrow> (\<exists>n. v = PInt n \<and> fits_signed n)"
  "has_type TPeerInitTicket v \<longleftrightarrow> (\<exists>n. v = PInt n \<and> fits 4 n)"
  "has_type TBoolean v \<longleftrightarrow> (\<exists>b. v = PBool b)"
  "has_type TString v \<longleftrightarrow> (\<exists>str. v = PStr str \<and> text_ok str)"
  "has_type TBytearr v \<longleftrightarrow> (\<exists>b. v = PBytes b \<and> length b < 2 ^ 32)"
  "has_type TIpaddr v \<longleftrightarrow> (\<exists>str. v = PStr str \<and> dotted_quad str)"
  "has_type (TArray t) v \<longleftrightarrow> (\<exists>vs. v = PList vs \<and> list_all (has_type t) vs \<and> length vs < 2 ^ 32)"
  "has_type (TData c fs) v \<longleftrightarrow> (\<exists>attrs. v = PObj c attrs \<and> conforming fs attrs attrs)"
  by (cases v; auto)+

lemma primitive_codec_ok:
  "codec_ok TUint8" "codec_ok TUint16" "codec_ok TUint32" "codec_ok TUint64" "codec_ok TInt32"
  "codec_ok TBoolean" "codec_ok TString" "codec_ok TBytearr" "codec_ok TIpaddr"
proof -
  show "codec_ok TUint8"
    by (rule codec_okI [where f = PInt, OF uint8.serializable_axioms]) (simp_all add: has_type_inv)
  show "codec_ok TUint16"
    by (rule codec_okI [where f = PInt, OF uint16.serializable_axioms]) (simp_all add: has_type_inv)
  show "codec_ok TUint32"
    by (rule codec_okI [where f = PInt, OF uint32.serializable_axioms]) (simp_all add: has_type_inv)
  show "codec_ok TUint64"
    by (rule codec_okI [where f = PInt, OF uint64.serializable_axioms]) (simp_all add: has_type_inv)
  show "codec_ok TInt32"
    by (rule codec_okI [where f = PInt, OF int32.serializable_axioms]) (simp_all add: has_type_inv)
  show "codec_ok TBoolean"
    by (rule codec_okI [where f = PBool, OF boolean.serializable_axioms]) (auto simp: has_type_inv)
  show "codec_ok TString"
    by (rule codec_okI [where f = PStr, OF string.serializable_axioms]) (simp_all add: has_type_inv)
  show "codec_ok TBytearr"
    by (rule codec_okI [where f = PBytes, OF bytearr.serializable_axioms]) (simp_all add: has_type_inv)
  show "codec_ok TIpaddr"
    by (rule codec_okI [where f = PStr, OF ipaddr.serializable_axioms]) (simp_all add: has_type_inv)
qed

lemma array_codec_ok: "codec_ok t \<Longrightarrow> codec_ok (TArray t)"
  by (rule codec_okI [where f = PList, OF serializable.array_serializable [of "serialize_value t" "deserialize_value t" "has_type t"]])
    (auto simp: has_type_inv)

text \<open>What \<open>get_value_for_field\<close> yields for a field of a conforming object.\<close>

definition present :: "(string \<times> pval) list \<Rightarrow> pfield \<Rightarrow> pval \<Rightarrow> bool" where
  "present attrs f v \<longleftrightarrow> active attrs f \<and> v \<noteq> PNone"

definition conditional :: "pfield \<Rightarrow> bool" where
  "conditional f \<longleftrightarrow> if_true f \<noteq> None \<or> if_false f \<noteq> None \<or> is_optional f"

definition knows :: "string set \<Rightarrow> (string \<times> pval) list \<Rightarrow> (string \<times> pval) list \<Rightarrow> bool" where
  \<comment> \<open>the field map agrees with the object on the known names\<close>
  "knows known fm attrs \<longleftrightarrow> (\<forall>c \<in> known. map_of attrs c \<noteq> None \<and> map_of fm c = map_of attrs c)"

lemma knows_after:
  assumes "knows known fm attrs" "map_of attrs (fname f) = Some v" "map_of fm (fname f) = Some v"
  shows "knows (known_after known f) fm attrs"
  using assms by (auto simp: knows_def known_after_def)

lemma knows_after_absent:
  assumes "knows known fm attrs" "conditional f"
  shows "knows (known_after known f) fm attrs"
  using assms by (auto simp: knows_def known_after_def conditional_def)

lemma get_value_for_field_eq:
  assumes "conditions_known known f" "knows known fm attrs" "map_of attrs (fname f) = Some v"
  shows "get_value_for_field attrs f = Inr (if present attrs f v then v else PNone)"
  using assms
  by (auto simp: get_value_for_field_def getattr_def get_or_def conditions_known_def knows_def
      present_def active_def split: option.splits)

lemma field_needed_eq:
  assumes "conditions_known known f" "knows known fm attrs"
  shows "field_needs_deserialization f fm pos m
       = Inr (active attrs f \<and> (is_optional f \<longrightarrow> pos < length m))"
  using assms
  by (auto simp: field_needs_deserialization_def getattr_def get_or_def conditions_known_def
      knows_def active_def split: option.splits)

lemma silent_serialize:
  assumes "silent attrs fs" "wf_fields known fs" "knows known attrs attrs"
    and "conforming fs attrs vs" "\<forall>(n, v) \<in> set vs. map_of attrs n = Some v"
  shows "serialize_fields fs attrs = Inr []"
  using assms
proof (induction fs arbitrary: known vs)
  case (Cons f fs)
  obtain n t yes no opt d where f: "f = Field n t yes no opt d" by (cases f)
  obtain v rest where vs: "vs = (n, v) # rest" using Cons.prems(4) f
    by (cases vs) auto
  have "map_of attrs n = Some v" using Cons.prems(5) vs by simp
  moreover from this have np: "\<not> present attrs f v"
    using Cons.prems(1) f by (auto simp: silent_def present_def)
  ultimately have g: "get_value_for_field attrs f = Inr PNone"
    using get_value_for_field_eq [of known f attrs attrs v] Cons.prems(2,3) f by simp
  have "knows (known_after known f) attrs attrs"
    by (rule knows_after [OF Cons.prems(3)]) (simp_all add: f \<open>map_of attrs n = Some v\<close>)
  then have "serialize_fields fs attrs = Inr []"
    using Cons.prems f vs by (intro Cons.IH [of "known_after known f" rest]) (auto simp: silent_def)
  with g f show ?case by simp
qed simp

lemma conforming_ConsD:
  assumes "conforming (f # fs) attrs vs"
  shows "\<exists>v rest. vs = (fname f, v) # rest \<and> conforming fs attrs rest
    \<and> (present attrs f v \<longrightarrow> has_type (ftype f) v)
    \<and> (active attrs f \<longrightarrow> v = PNone \<longrightarrow> is_optional f \<and> silent attrs fs)
    \<and> (\<not> present attrs f v \<longrightarrow> fdefault f = Some v)"
proof -
  obtain n t yes no opt d where f: "f = Field n t yes no opt d" by (cases f)
  with assms obtain v rest where vs: "vs = (n, v) # rest" by (cases vs) auto
  have i: "n = n \<and> conforming fs attrs rest \<and> (if active attrs (Field n t yes no opt d) then
         (if v = PNone then opt \<and> d = Some PNone \<and> silent attrs fs else has_type t v)
       else d = Some v)"
    using assms unfolding f vs conforming.simps by fast
  then have "present attrs f v \<longrightarrow> has_type t v" 
    "active attrs f \<longrightarrow> v = PNone \<longrightarrow> opt \<and> silent attrs fs" "\<not> present attrs f v \<longrightarrow> d = Some v"
    unfolding present_def f by argo+
  with i show ?thesis unfolding vs f pfield.sel by blast
qed

lemma serialize_fields_total:
  assumes "conforming fs attrs vs" "wf_fields known fs" "knows known attrs attrs"
    and "\<forall>(n, v) \<in> set vs. map_of attrs n = Some v"
    and "\<And>f. f \<in> set fs \<Longrightarrow> closed_type (ftype f) \<Longrightarrow> codec_ok (ftype f)"
  shows "\<exists>bs. serialize_fields fs attrs = Inr bs"
  using assms
proof (induction fs arbitrary: known vs)
  case (Cons f fs)
  obtain n t yes no opt d where f: "f = Field n t yes no opt d" by (cases f)
  from Cons.prems(1) obtain v rest where vs: "vs = (fname f, v) # rest"
    and c: "conforming fs attrs rest" and ht: "present attrs f v \<Longrightarrow> has_type (ftype f) v"
    by (blast dest: conforming_ConsD)
  have v: "map_of attrs (fname f) = Some v" using Cons.prems(4) vs by simp
  then have g: "get_value_for_field attrs f = Inr (if present attrs f v then v else PNone)"
    using get_value_for_field_eq [of known f attrs attrs v] Cons.prems(2,3) by simp
  have k: "knows (known_after known f) attrs attrs"
    by (rule knows_after [OF Cons.prems(3) v v])
  have w: "wf_fields (known_after known f) fs" using Cons.prems(2) by simp
  have m: "\<forall>(n, v) \<in> set rest. map_of attrs n = Some v" using Cons.prems(4) by (simp add: vs)
  have "\<And>f'. f' \<in> set fs \<Longrightarrow> closed_type (ftype f') \<Longrightarrow> codec_ok (ftype f')"
    using Cons.prems(5) by simp
  from Cons.IH [OF c w k m this] obtain r where r: "serialize_fields fs attrs = Inr r" by blast
  show ?case
  proof (cases "present attrs f v")
    case False
    then show ?thesis using g r f by simp
  next
    case True
    have "\<exists>b. serialize_value t v = Inr b"
    proof (cases "t = TPeerInitTicket")
      case True
      then show ?thesis using ht [OF \<open>present attrs f v\<close>] uint32.serialize_total
        by (auto simp: has_type_inv f)
    next
      case False
      then have "closed_type (ftype f)" using Cons.prems(2) f by simp
      then have "codec_ok t" using Cons.prems(5) [of f] f by simp
      moreover have "has_type t v" using ht [OF True] f by simp
      ultimately show ?thesis by (rule serializable.serialize_total)
    qed
    then show ?thesis using g r f True by (auto simp: present_def)
  qed
qed simp

lemma peer_init_ticket_codec:
  assumes "has_type TPeerInitTicket v" "serialize_value TPeerInitTicket v = Inr bs"
  shows "deserialize_value TPeerInitTicket (length pre) (pre @ bs) = Inr (length (pre @ bs), v)"
proof -
  obtain n where n: "v = PInt n" "fits 4 n" using assms(1) by (auto simp: has_type_inv)
  with assms(2) have b: "uint32_serialize n = Inr bs" by simp
  then have "length bs = 4" using n(2) by (auto simp: uint32_serialize_def dest: struct_pack_length)
  with uint32.deserialize_serialize [OF n(2) b, of pre "[]"] n(1) show ?thesis
    by (simp add: peer_init_ticket_deserialize_def tag_def)
qed

lemma inet_aton_length: "inet_aton str = Inr bs \<Longrightarrow> length bs = 4"
  unfolding inet_aton_def
  by (auto simp: be_bytes_def split: option.splits list.splits if_splits)

lemma array_serialize_pos: "array_serialize g vs = Inr bs \<Longrightarrow> bs \<noteq> []"
  by (auto simp: array_serialize_def uint32_serialize_def bindE_eq_Inr_iff dest!: struct_pack_length)

lemma length_serialized_pos:
  assumes "serialize_value t v = Inr bs" "\<not> is_data t"
  shows "bs \<noteq> []"
proof (cases t)
  case (TArray u)
  then show ?thesis using assms by (cases v) (simp_all add: array_serialize_pos)
next
  case TString
  then show ?thesis using assms
    by (cases v) (auto simp: string_serialize_def uint32_serialize_def bindE_eq_Inr_iff dest!: struct_pack_length)
next
  case TBytearr
  then show ?thesis using assms
    by (cases v) (auto simp: bytearr_serialize_def uint32_serialize_def bindE_eq_Inr_iff dest!: struct_pack_length)
next
  case TIpaddr
  then show ?thesis using assms
    by (cases v) (auto simp: ipaddr_serialize_def bindE_eq_Inr_iff dest!: inet_aton_length)
qed (use assms in \<open>auto simp: uint8_serialize_def uint16_serialize_def uint32_serialize_def
      uint64_serialize_def int32_serialize_def boolean_serialize_def bindE_eq_Inr_iff
      dest!: struct_pack_length split: if_splits\<close>)

lemma deserialize_serialize_fields:
  assumes "conforming fs attrs vs" "wf_fields known fs" "distinct (map fname fs)"
    and "knows known fm attrs" "knows known attrs attrs"
    and "\<forall>(n, v) \<in> set vs. map_of attrs n = Some v"
    and "\<forall>n \<in> fname ` set fs. map_of fm n = None"
    and "\<And>f. f \<in> set fs \<Longrightarrow> closed_type (ftype f) \<Longrightarrow> codec_ok (ftype f)"
    and "suf = [] \<or> (\<forall>f \<in> set fs. closed_type (ftype f) \<and> \<not> is_optional f)"
    and "serialize_fields fs attrs = Inr bs"
  shows "\<exists>fm'. deserialize_fields fs fm (length pre) (pre @ bs @ suf) = Inr (length (pre @ bs), fm')
     \<and> (\<forall>n. n \<notin> fname ` set fs \<longrightarrow> map_of fm' n = map_of fm n) \<and> construct fs fm' = Inr vs"
  using assms
proof (induction fs arbitrary: known vs fm pre bs)
  case Nil
  then show ?case by (cases vs) auto
next
  case (Cons f fs)
  obtain n t yes no opt d where f: "f = Field n t yes no opt d" by (cases f)
  from Cons.prems(1) obtain v rest where vs: "vs = (fname f, v) # rest"
    and c: "conforming fs attrs rest" and ht: "present attrs f v \<Longrightarrow> has_type (ftype f) v"
    and none: "active attrs f \<Longrightarrow> v = PNone \<Longrightarrow> is_optional f \<and> silent attrs fs"
    and dflt: "\<not> present attrs f v \<Longrightarrow> fdefault f = Some v"
    by (blast dest: conforming_ConsD)
  have v: "map_of attrs n = Some v" using Cons.prems(6) by (simp add: vs f)
  have cond: "conditions_known known f" using Cons.prems(2) by simp
  have g: "get_value_for_field attrs f = Inr (if present attrs f v then v else PNone)"
    by (rule get_value_for_field_eq [OF cond Cons.prems(5)]) (simp add: f v)
  have k: "knows (known_after known f) attrs attrs"
    by (rule knows_after [OF Cons.prems(5)]) (simp_all add: f v)
  have w: "wf_fields (known_after known f) fs" using Cons.prems(2) by simp
  have m: "\<forall>(n, v) \<in> set rest. map_of attrs n = Some v" using Cons.prems(6) by (simp add: vs)
  have dist: "distinct (map fname fs)" "n \<notin> fname ` set fs" using Cons.prems(3) by (simp_all add: f)
  have codec: "\<And>f'. f' \<in> set fs \<Longrightarrow> closed_type (ftype f') \<Longrightarrow> codec_ok (ftype f')"
    using Cons.prems(8) by simp
  have suf: "suf = [] \<or> (\<forall>f \<in> set fs. closed_type (ftype f) \<and> \<not> is_optional f)"
    using Cons.prems(9) by auto
  have needed: "field_needs_deserialization f fm pos msg
       = Inr (active attrs f \<and> (is_optional f \<longrightarrow> pos < length msg))" for pos msg
    by (rule field_needed_eq [OF cond Cons.prems(4)])
  show ?case
  proof (cases "present attrs f v")
    case True
    with Cons.prems(10) g obtain b r where b: "serialize_value t v = Inr b"
      and r: "serialize_fields fs attrs = Inr r" and bs: "bs = b @ r"
      by (auto simp: f bindE_eq_Inr_iff present_def split: if_splits)
    have "is_optional f \<longrightarrow> b \<noteq> []"
      using Cons.prems(2) length_serialized_pos [OF b] by (auto simp: f)
    then have n1: "field_needs_deserialization f fm (length pre) (pre @ bs @ suf) = Inr True"
      using True by (auto simp: needed present_def bs)
    have d1: "deserialize_value t (length pre) (pre @ bs @ suf) = Inr (length (pre @ b), v)"
    proof (cases "t = TPeerInitTicket")
      case True
      then have "fs = []" "suf = []" using Cons.prems(2,9) f by auto
      then show ?thesis using r bs peer_init_ticket_codec b ht [OF \<open>present attrs f v\<close>] True f by simp
    next
      case False
      then have "closed_type (ftype f)" using Cons.prems(2) f by simp
      then have "codec_ok t" using Cons.prems(8) [of f] f by simp
      moreover have "has_type t v" using ht [OF True] f by simp
      ultimately have "deserialize_value t (length pre) (pre @ b @ (r @ suf)) = Inr (length pre + length b, v)"
        using b by (rule serializable.deserialize_serialize)
      then show ?thesis by (simp add: bs)
    qed
    let ?fm = "dict_set n v fm"
    have k1: "knows (known_after known f) ?fm attrs"
      using Cons.prems(4,7) by (auto simp: knows_def known_after_def f update_conv' v)
    have "\<forall>m \<in> fname ` set fs. map_of ?fm m = None"
      using Cons.prems(7) dist(2) by (auto simp: update_conv')
    from Cons.IH [OF c w dist(1) k1 k m this codec suf r, of "pre @ b"]
    obtain fm' where
      "deserialize_fields fs ?fm (length (pre @ b)) (pre @ bs @ suf) = Inr (length (pre @ bs), fm')"
      and unch: "\<forall>m. m \<notin> fname ` set fs \<longrightarrow> map_of fm' m = map_of ?fm m"
      and con: "construct fs fm' = Inr rest"
      by (auto simp: bs)
    moreover have "map_of fm' n = Some v" using unch dist(2) by (simp add: update_conv')
    ultimately show ?thesis using n1 d1 unch con
      by (auto simp: f vs update_conv')
  next
    case False
    then have s1: "serialize_fields fs attrs = Inr bs"
      using Cons.prems(10) g by (simp add: f)
    have "bs @ suf = []" if "is_optional f" "active attrs f"
    proof -
      have "silent attrs fs" using that False none by (simp add: present_def)
      then have "bs = []" using silent_serialize [OF _ w k c m] s1 by simp
      moreover have "suf = []" using Cons.prems(9) that(1) by simp
      ultimately show ?thesis by simp
    qed
    moreover have "active attrs f \<Longrightarrow> is_optional f" using False none by (simp add: present_def)
    ultimately have n0: "field_needs_deserialization f fm (length pre) (pre @ bs @ suf) = Inr False"
      by (auto simp: needed)
    have "conditional f" using False none
      by (auto simp: present_def active_def conditional_def split: option.splits)
    with Cons.prems(4) have k1: "knows (known_after known f) fm attrs" by (rule knows_after_absent)
    have "\<forall>m \<in> fname ` set fs. map_of fm m = None" using Cons.prems(7) by simp
    from Cons.IH [OF c w dist(1) k1 k m this codec suf s1, of pre]
    obtain fm' where
      "deserialize_fields fs fm (length pre) (pre @ bs @ suf) = Inr (length (pre @ bs), fm')"
      and unch: "\<forall>m. m \<notin> fname ` set fs \<longrightarrow> map_of fm' m = map_of fm m"
      and con: "construct fs fm' = Inr rest"
      by auto
    moreover have "map_of fm' n = None" using unch dist(2) Cons.prems(7) by (simp add: f)
    ultimately show ?thesis using n0 dflt [OF False] con by (auto simp: f vs)
  qed
qed

subsection \<open>Every closed type is a codec\<close>

lemma wf_closed_fields: "closed_fields known fs \<Longrightarrow> wf_fields known fs"
proof (induction fs arbitrary: known)
  case (Cons f fs)
  then show ?case by (cases f) auto
qed simp

lemma closed_fieldsD:
  "closed_fields known fs \<Longrightarrow> f \<in> set fs \<Longrightarrow> closed_type (ftype f) \<and> \<not> is_optional f"
proof (induction fs arbitrary: known)
  case (Cons g fs)
  then show ?case by (cases g) auto
qed simp

lemma conforming_names: "conforming fs attrs vs \<Longrightarrow> map fst vs = map fname fs"
proof (induction fs arbitrary: vs)
  case (Cons f fs)
  from conforming_ConsD [OF Cons.prems] Cons.IH show ?case by auto
qed (case_tac vs, auto)

lemma conforming_map_of:
  assumes "conforming fs attrs attrs" "distinct (map fname fs)"
  shows "\<forall>(n, v) \<in> set attrs. map_of attrs n = Some v"
  using conforming_names [OF assms(1)] assms(2) by (auto simp: map_of_eq_Some_iff)

lemma knows_empty: "knows {} fm attrs"
  by (simp add: knows_def)

lemma data_codec_ok:
  assumes d: "distinct (map fname fs)" and c: "closed_fields {} fs"
    and "\<And>f. f \<in> set fs \<Longrightarrow> closed_type (ftype f) \<Longrightarrow> codec_ok (ftype f)"
  shows "codec_ok (TData c fs)"
proof unfold_locales
  fix v assume "has_type (TData c fs) v"
  then obtain attrs where "v = PObj c attrs" "conforming fs attrs attrs" by (auto simp: has_type_inv)
  then show "\<exists>bs. serialize_value (TData c fs) v = Inr bs"
    using serialize_fields_total [OF _ wf_closed_fields [OF c] knows_empty conforming_map_of assms(3)] d
    by simp
next
  fix v bs and pre suf :: bytes
  assume "has_type (TData c fs) v" and s: "serialize_value (TData c fs) v = Inr bs"
  then obtain attrs where v: "v = PObj c attrs" and conf: "conforming fs attrs attrs"
    by (auto simp: has_type_inv)
  have "serialize_fields fs attrs = Inr bs" using s v by simp
  moreover have "suf = [] \<or> (\<forall>f \<in> set fs. closed_type (ftype f) \<and> \<not> is_optional f)"
    using closed_fieldsD [OF c] by blast
  ultimately obtain fm' where
    "deserialize_fields fs [] (length pre) (pre @ bs @ suf) = Inr (length (pre @ bs), fm')"
    "construct fs fm' = Inr attrs"
    using deserialize_serialize_fields [OF conf wf_closed_fields [OF c] d knows_empty knows_empty
        conforming_map_of [OF conf d] _ assms(3), of "[]" suf bs pre] by auto
  then show "deserialize_value (TData c fs) (length pre) (pre @ bs @ suf) = Inr (length pre + length bs, v)"
    by (simp add: v)
qed

lemma closed_codec_ok:
  shows "closed_type t \<Longrightarrow> codec_ok t"
    and "closed_type (ftype f) \<Longrightarrow> codec_ok (ftype f)"
proof (induction t and f)
  case (TData c fs)
  then show ?case by (intro data_codec_ok) auto
qed (auto intro: primitive_codec_ok array_codec_ok)

text \<open>The round trip of a whole message body.\<close>

lemma schema_round_trip:
  assumes wf: "wf_schema fs" and conf: "conforming fs attrs attrs"
  shows "\<exists>bs fm. serialize_fields fs attrs = Inr bs
    \<and> deserialize_fields fs [] (length pre) (pre @ bs) = Inr (length (pre @ bs), fm)
    \<and> construct fs fm = Inr attrs"
proof -
  have w: "wf_fields {} fs" and d: "distinct (map fname fs)" using wf by (simp_all add: wf_schema_def)
  note m = conforming_map_of [OF conf d]
  obtain bs where bs: "serialize_fields fs attrs = Inr bs"
    using serialize_fields_total [OF conf w knows_empty m closed_codec_ok(2)] by blast
  have "\<exists>fm. deserialize_fields fs [] (length pre) (pre @ bs @ []) = Inr (length (pre @ bs), fm)
    \<and> (\<forall>n. n \<notin> fname ` set fs \<longrightarrow> map_of fm n = map_of [] n) \<and> construct fs fm = Inr attrs"
    by (rule deserialize_serialize_fields [OF conf w d knows_empty knows_empty m _ closed_codec_ok(2) _ bs])
      simp_all
  with bs show ?thesis by auto
qed

end
