(* ===== verification/Message_Codec.thy ===== *)
theory Message_Codec
  imports Dataclass
begin

text \<open>
\<open>MessageDataclass\<close> of \<open>src/aioslsk/protocol/primitives.py\<close> (length, message id,
  optional zlib compression) and the dispatchers of \<open>src/aioslsk/protocol/messages.py\<close>
  that pick a message class by its id. The two functions of \<open>zlib\<close> are parameters; what
  the code relies on is that decompression undoes compression. The locale
  \<open>message_family\<close> is the contract of a list of message classes that one dispatcher
  serves; it is interpreted on the catalogues of the protocol in theory \<open>Messages\<close>.
\<close>

subsection \<open>Message classes\<close>

datatype id_width = Uint8_Id | Uint32_Id

datatype msg_class =
  Msg (id_width: id_width) (MESSAGE_ID: nat) (compressed: bool) (msg_fields: "pfield list")

abbreviation required :: "string \<Rightarrow> ptype \<Rightarrow> pfield" where
  "required n t \<equiv> Field n t None None False None"

fun id_serialize :: "id_width \<Rightarrow> nat \<Rightarrow> bytes result" where
  "id_serialize Uint8_Id n = uint8_serialize (int n)"
| "id_serialize Uint32_Id n = uint32_serialize (int n)"

fun id_deserialize :: "id_width \<Rightarrow> nat \<Rightarrow> bytes \<Rightarrow> (nat \<times> int) result" where
  "id_deserialize Uint8_Id pos m = uint8_deserialize pos m"
| "id_deserialize Uint32_Id pos m = uint32_deserialize pos m"

fun id_fits :: "id_width \<Rightarrow> nat \<Rightarrow> bool" where
  "id_fits Uint8_Id n = (n < 2 ^ 8)"
| "id_fits Uint32_Id n = (n < 2 ^ 32)"

definition message_serialize ::
    "(bytes \<Rightarrow> bytes) \<Rightarrow> msg_class \<Rightarrow> (string \<times> pval) list \<Rightarrow> bytes result" where
  "message_serialize compress c attrs =
     bindE (id_serialize (id_width c) (MESSAGE_ID c)) (\<lambda>message_id.
     bindE (serialize_fields (msg_fields c) attrs) (\<lambda>body.
       let message = (if compressed c then compress body else body) in
       bindE (uint32_serialize (int (length message_id + length message))) (\<lambda>len.
         Inr (len @ message_id @ message))))"

definition message_deserialize ::
    "(bytes \<Rightarrow> bytes result) \<Rightarrow> msg_class \<Rightarrow> nat \<Rightarrow> bytes \<Rightarrow> (string \<times> pval) list result" where
  "message_deserialize decompress c pos message =
     bindE (uint32_deserialize pos message) (\<lambda>(pos, _).
     bindE (id_deserialize (id_width c) pos message) (\<lambda>(pos, message_id).
       if message_id \<noteq> int (MESSAGE_ID c) then Inl ValueError
       else if compressed c then
         bindE (decompress (drop pos message)) (\<lambda>message.
         bindE (deserialize_fields (msg_fields c) [] 0 message) (\<lambda>(_, field_map).
           construct (msg_fields c) field_map))
       else
         bindE (deserialize_fields (msg_fields c) [] pos message) (\<lambda>(_, field_map).
           construct (msg_fields c) field_map)))"

definition deserialize_family ::
    "id_width \<Rightarrow> msg_class list \<Rightarrow> (bytes \<Rightarrow> bytes result) \<Rightarrow> bytes
     \<Rightarrow> (msg_class \<times> (string \<times> pval) list) result" where
  \<comment> \<open>the loop over \<open>__subclasses__()\<close>: the first class with the id parses the message\<close>
  "deserialize_family width family decompress message =
     bindE (id_deserialize width 4 message) (\<lambda>(_, msg_id).
       case find (\<lambda>c. int (MESSAGE_ID c) = msg_id) family of
         Some c \<Rightarrow> bindE (message_deserialize decompress c 0 message) (\<lambda>obj. Inr (c, obj))
       | None \<Rightarrow> Inl (UnknownMessage (nat msg_id)))"

subsection \<open>Round trip of a message\<close>

lemma uint32_serializeD:
  assumes "uint32_serialize n = Inr bs"
  shows "length bs = 4" "uint32_deserialize (length pre) (pre @ bs @ suf) = Inr (length pre + 4, n)"
proof -
  show "length bs = 4" using assms by (auto simp: uint32_serialize_def dest: struct_pack_length)
  moreover have "fits 4 n"
    using assms by (auto simp: uint32_serialize_def struct_pack_def fits_def split: if_splits)
  ultimately show "uint32_deserialize (length pre) (pre @ bs @ suf) = Inr (length pre + 4, n)"
    using uint32.deserialize_serialize [OF _ assms, of pre suf] by simp
qed

lemma id_round_trip:
  assumes "id_fits w n"
  shows "\<exists>bs. id_serialize w n = Inr bs
    \<and> id_deserialize w (length pre) (pre @ bs @ suf) = Inr (length (pre @ bs), int n)"
proof (cases w)
  case Uint8_Id
  then have "fits 1 (int n)" using assms by (simp add: fits_def)
  with Uint8_Id show ?thesis
    using uint8.serialize_total uint8.deserialize_serialize [of "int n" _ pre suf] by fastforce
next
  case Uint32_Id
  then have "fits 4 (int n)" using assms by (simp add: fits_def)
  with Uint32_Id show ?thesis
    using uint32.serialize_total uint32.deserialize_serialize [of "int n" _ pre suf] by fastforce
qed

lemma message_parts:
  assumes wf: "wf_schema (msg_fields c)" and ids: "id_fits (id_width c) (MESSAGE_ID c)"
    and conf: "conforming (msg_fields c) attrs attrs"
    and ser: "message_serialize compress c attrs = Inr bs"
  obtains len mid body where "bs = len @ mid @ (if compressed c then compress body else body)"
    "length len = 4" "id_serialize (id_width c) (MESSAGE_ID c) = Inr mid"
    "serialize_fields (msg_fields c) attrs = Inr body"
    "uint32_deserialize 0 bs = Inr (4, int (length bs) - 4)"
proof -
  from ser obtain mid body len where i: "id_serialize (id_width c) (MESSAGE_ID c) = Inr mid"
    and b: "serialize_fields (msg_fields c) attrs = Inr body"
    and l: "uint32_serialize (int (length mid + length (if compressed c then compress body else body))) = Inr len"
    and bs: "bs = len @ mid @ (if compressed c then compress body else body)"
    unfolding message_serialize_def bindE_eq_Inr_iff Let_def by blast
  from uint32_serializeD(1) [OF l] uint32_serializeD(2) [OF l, of "[]"] bs
  have "uint32_deserialize 0 bs = Inr (4, int (length bs) - 4)" by (auto split: if_splits)
  with that [OF bs uint32_serializeD(1) [OF l] i b] show thesis by blast
qed

lemma message_round_trip:
  assumes wf: "wf_schema (msg_fields c)" and ids: "id_fits (id_width c) (MESSAGE_ID c)"
    and conf: "conforming (msg_fields c) attrs attrs"
    and zlib: "\<And>b. decompress (compress b) = Inr b"
    and ser: "message_serialize compress c attrs = Inr bs"
  shows "message_deserialize decompress c 0 bs = Inr attrs"
proof -
  obtain len mid body where bs: "bs = len @ mid @ (if compressed c then compress body else body)"
    and l: "length len = 4" and i: "id_serialize (id_width c) (MESSAGE_ID c) = Inr mid"
    and b: "serialize_fields (msg_fields c) attrs = Inr body"
    and d: "uint32_deserialize 0 bs = Inr (4, int (length bs) - 4)"
    by (rule message_parts [OF wf ids conf ser])
  have d2: "id_deserialize (id_width c) 4 (len @ mid @ suf) = Inr (4 + length mid, int (MESSAGE_ID c))" for suf
    using id_round_trip [OF ids, of len suf] i l by auto
  show ?thesis
  proof (cases "compressed c")
    case True
    then show ?thesis
      using schema_round_trip [OF wf conf, of "[]"] b d d2 l
      by (auto simp: message_deserialize_def bs zlib)
  next
    case False
    then show ?thesis
      using schema_round_trip [OF wf conf, of "len @ mid"] b d d2 l
      by (auto simp: message_deserialize_def bs zlib)
  qed
qed

lemma message_serialize_total:
  assumes wf: "wf_schema (msg_fields c)" and ids: "id_fits (id_width c) (MESSAGE_ID c)"
    and conf: "conforming (msg_fields c) attrs attrs"
  shows "\<exists>body. serialize_fields (msg_fields c) attrs = Inr body \<and>
     (length (if compressed c then compress body else body) + 4 < 2 ^ 32
        \<longrightarrow> (\<exists>bs. message_serialize compress c attrs = Inr bs))"
proof -
  obtain body where b: "serialize_fields (msg_fields c) attrs = Inr body"
    using schema_round_trip [OF wf conf] by blast
  obtain mid where i: "id_serialize (id_width c) (MESSAGE_ID c) = Inr mid"
    using id_round_trip [OF ids] by blast
  have "length mid \<le> 4" using i
    by (cases "id_width c") (auto simp: uint8_serialize_def uint32_serialize_def dest!: struct_pack_length)
  then have "\<exists>bs. message_serialize compress c attrs = Inr bs"
    if "length (if compressed c then compress body else body) + 4 < 2 ^ 32"
    using that i b uint32.serialize_total
      [of "int (length mid + length (if compressed c then compress body else body))"]
    by (auto simp: message_serialize_def Let_def fits_def)
  with b show ?thesis by blast
qed

subsection \<open>Families\<close>

text \<open>
  What the dispatcher of a family relies on: the id it reads identifies the class. One class
  of the distributed family has a 32-bit id although its dispatcher reads one byte, so the
  contract is about the byte or word the dispatcher finds at offset 4.
\<close>

definition member_ok :: "id_width \<Rightarrow> msg_class \<Rightarrow> bool" where
  "member_ok width c \<longleftrightarrow> wf_schema (msg_fields c) \<and> id_fits (id_width c) (MESSAGE_ID c)
       \<and> (id_width c = width \<or> width = Uint8_Id \<and> MESSAGE_ID c < 256)"

definition family_ok :: "id_width \<Rightarrow> msg_class list \<Rightarrow> bool" where
  "family_ok width family \<longleftrightarrow> distinct (map MESSAGE_ID family) \<and> list_all (member_ok width) family"

locale message_family =
  fixes width :: id_width and family :: "msg_class list"
  assumes ok: "family_ok width family"
begin

lemma unique: "c \<in> set family \<Longrightarrow> c' \<in> set family \<Longrightarrow> MESSAGE_ID c = MESSAGE_ID c' \<Longrightarrow> c = c'"
  using ok by (auto simp: family_ok_def distinct_map dest: inj_onD)

lemma member:
  "c \<in> set family \<Longrightarrow> wf_schema (msg_fields c)"
  "c \<in> set family \<Longrightarrow> id_fits (id_width c) (MESSAGE_ID c)"
  "c \<in> set family \<Longrightarrow> id_width c = width \<or> width = Uint8_Id \<and> MESSAGE_ID c < 256"
  using ok by (auto simp: family_ok_def member_ok_def list_all_iff)

lemma find_class:
  assumes "c \<in> set family"
  shows "find (\<lambda>c'. int (MESSAGE_ID c') = int (MESSAGE_ID c)) family = Some c"
proof (cases "find (\<lambda>c'. int (MESSAGE_ID c') = int (MESSAGE_ID c)) family")
  case None
  then show ?thesis using assms by (auto simp: find_None_iff)
next
  case (Some c')
  then have "c' \<in> set family" "MESSAGE_ID c' = MESSAGE_ID c" by (auto simp: find_Some_iff)
  then show ?thesis using Some unique assms by blast
qed

lemma wire_id:
  assumes "c \<in> set family" "id_serialize (id_width c) (MESSAGE_ID c) = Inr mid" "length len = 4"
  shows "\<exists>p. id_deserialize width 4 (len @ mid @ suf) = Inr (p, int (MESSAGE_ID c))"
proof (cases "id_width c = width")
  case True
  then show ?thesis
    using id_round_trip [OF member(2) [OF assms(1)], of len suf] assms(2,3) by auto
next
  case False
  then have w: "width = Uint8_Id" "MESSAGE_ID c < 256" "id_width c = Uint32_Id"
    using member(3) [OF assms(1)] by (cases "id_width c"; auto)+
  then have "mid = le_bytes 4 (MESSAGE_ID c)"
    using assms(2) by (auto simp: uint32_serialize_def struct_pack_def split: if_splits)
  also have "\<dots> = of_nat (MESSAGE_ID c) # le_bytes 3 (MESSAGE_ID c div 256)"
    using le_bytes.simps(2) [of 3] by (simp del: le_bytes.simps)
  finally obtain r where "mid = of_nat (MESSAGE_ID c) # r" by blast
  then show ?thesis
    using w struct_unpack_byte [of len "of_nat (MESSAGE_ID c)" "r @ suf"] assms(3)
    by (simp add: uint8_deserialize_def unat_of_nat_byte)
qed

theorem dispatch:
  assumes c: "c \<in> set family" and conf: "conforming (msg_fields c) attrs attrs"
    and zlib: "\<And>b. decompress (compress b) = Inr b"
    and ser: "message_serialize compress c attrs = Inr bs"
  shows "deserialize_family width family decompress bs = Inr (c, attrs)"
proof -
  obtain len mid body where "bs = len @ mid @ (if compressed c then compress body else body)"
    and "length len = 4" and "id_serialize (id_width c) (MESSAGE_ID c) = Inr mid"
    by (rule message_parts [OF member(1,2) [OF c] conf ser])
  with wire_id [OF c] obtain p where "id_deserialize width 4 bs = Inr (p, int (MESSAGE_ID c))"
    by blast
  with message_round_trip [OF member(1,2) [OF c] conf zlib ser] find_class [OF c]
  show ?thesis by (simp add: deserialize_family_def)
qed

end

end
