(* ===== verification/Protocol_Data.thy ===== *)
theory Protocol_Data
  imports Message_Codec
begin

text \<open>
The structures that messages carry (\<open>Attribute\<close>, \<open>FileData\<close>, \<open>DirectoryData\<close>,
  \<open>UserStats\<close>, \<dots>; \<open>src/aioslsk/protocol/primitives.py\<close>) as schemas, the hand-written
  codecs of the hot paths with their equality to the generic ones, and
  \<open>FileData.get_attribute_map\<close>.
\<close>

subsection \<open>The structures of \<open>primitives.py\<close>\<close>

definition Attribute :: ptype where
  "Attribute = TData ''Attribute'' [
     required ''key'' TUint32,
     required ''value'' TUint32]"

definition SimilarUser :: ptype where
  "SimilarUser = TData ''SimilarUser'' [
     required ''username'' TString,
     required ''score'' TUint32]"

definition Recommendation :: ptype where
  "Recommendation = TData ''Recommendation'' [
     required ''recommendation'' TString,
     required ''score'' TInt32]"

definition RoomTicker :: ptype where
  "RoomTicker = TData ''RoomTicker'' [
     required ''username'' TString,
     required ''ticker'' TString]"

definition PotentialParent :: ptype where
  "PotentialParent = TData ''PotentialParent'' [
     required ''username'' TString,
     required ''ip'' TIpaddr,
     required ''port'' TUint32]"

definition UserStats :: ptype where
  "UserStats = TData ''UserStats'' [
     required ''avg_speed'' TUint32,
     required ''uploads'' TUint64,
     required ''shared_file_count'' TUint32,
     required ''shared_folder_count'' TUint32]"

definition FileData :: ptype where
  "FileData = TData ''FileData'' [
     required ''unknown'' TUint8,
     required ''filename'' TString,
     required ''filesize'' TUint64,
     required ''extension'' TString,
     required ''attributes'' (TArray Attribute)]"

definition DirectoryData :: ptype where
  "DirectoryData = TData ''DirectoryData'' [
     required ''name'' TString,
     required ''files'' (TArray FileData)]"

lemmas data_defs = Attribute_def SimilarUser_def Recommendation_def RoomTicker_def
  PotentialParent_def UserStats_def FileData_def DirectoryData_def

lemma data_closed:
  "closed_type Attribute" "closed_type SimilarUser" "closed_type Recommendation"
  "closed_type RoomTicker" "closed_type PotentialParent" "closed_type UserStats"
  "closed_type FileData" "closed_type DirectoryData"
  by (simp_all add: data_defs conditions_known_def known_after_def)

subsection \<open>Hand-written codecs of the hot paths\<close>

text \<open>
  \<open>Attribute\<close>, \<open>FileData\<close> and \<open>DirectoryData\<close> override the generic methods. They are
  translated as they are written and shown equal to the generic ones.
\<close>

definition attr_unpack_from :: "bytes \<Rightarrow> nat \<Rightarrow> (int \<times> int) result" where
  \<comment> \<open>\<open>Struct('<II').unpack_from\<close>: both words or \<open>struct.error\<close>\<close>
  "attr_unpack_from message pos =
     (if pos + 8 \<le> length message
      then Inr (int (le_nat (slice message pos (pos + 4))), int (le_nat (slice message (pos + 4) (pos + 8))))
      else Inl StructError)"

definition attr_pack :: "int \<Rightarrow> int \<Rightarrow> bytes result" where
  "attr_pack key value = bindE (struct_pack 4 key) (\<lambda>k. bindE (struct_pack 4 value) (\<lambda>v. Inr (k @ v)))"

definition Attribute_deserialize :: "nat \<Rightarrow> bytes \<Rightarrow> (nat \<times> pval) result" where
  "Attribute_deserialize pos message =
     bindE (attr_unpack_from message pos) (\<lambda>(key, value).
       Inr (pos + 8, PObj ''Attribute'' [(''key'', PInt key), (''value'', PInt value)]))"

definition Attribute_serialize :: "pval \<Rightarrow> bytes result" where
  "Attribute_serialize v = (case v of
       PObj _ attrs \<Rightarrow>
         bindE (bindE (getattr attrs ''key'') as_int) (\<lambda>key.
         bindE (bindE (getattr attrs ''value'') as_int) (\<lambda>value. attr_pack key value))
     | _ \<Rightarrow> Inl TypeError)"

definition FileData_deserialize :: "nat \<Rightarrow> bytes \<Rightarrow> (nat \<times> pval) result" where
  "FileData_deserialize pos message =
     bindE (uint8_deserialize pos message) (\<lambda>(pos, unknown).
     bindE (string_deserialize pos message) (\<lambda>(pos, filename).
     bindE (uint64_deserialize pos message) (\<lambda>(pos, filesize).
     bindE (string_deserialize pos message) (\<lambda>(pos, ext).
     bindE (array_deserialize Attribute_deserialize pos message) (\<lambda>(pos, attrs).
       Inr (pos, PObj ''FileData'' [(''unknown'', PInt unknown), (''filename'', PStr filename),
         (''filesize'', PInt filesize), (''extension'', PStr ext), (''attributes'', PList attrs)]))))))"

definition DirectoryData_deserialize :: "nat \<Rightarrow> bytes \<Rightarrow> (nat \<times> pval) result" where
  "DirectoryData_deserialize pos message =
     bindE (string_deserialize pos message) (\<lambda>(pos, name).
     bindE (array_deserialize FileData_deserialize pos message) (\<lambda>(pos, files).
       Inr (pos, PObj ''DirectoryData'' [(''name'', PStr name), (''files'', PList files)])))"

definition FileData_serialize :: "pval \<Rightarrow> bytes result" where
  "FileData_serialize v = (case v of
       PObj _ attrs \<Rightarrow>
         bindE (bindE (getattr attrs ''unknown'') (serialize_value TUint8)) (\<lambda>unknown.
         bindE (bindE (getattr attrs ''filename'') (serialize_value TString)) (\<lambda>filename.
         bindE (bindE (getattr attrs ''filesize'') (serialize_value TUint64)) (\<lambda>filesize.
         bindE (bindE (getattr attrs ''extension'') (serialize_value TString)) (\<lambda>extension.
         bindE (bindE (getattr attrs ''attributes'')
             (\<lambda>xs. case xs of PList vs \<Rightarrow> array_serialize Attribute_serialize vs | _ \<Rightarrow> Inl TypeError))
           (\<lambda>attributes. Inr (unknown @ filename @ filesize @ extension @ attributes))))))
     | _ \<Rightarrow> Inl TypeError)"

definition DirectoryData_serialize :: "pval \<Rightarrow> bytes result" where
  "DirectoryData_serialize v = (case v of
       PObj _ attrs \<Rightarrow>
         bindE (bindE (getattr attrs ''name'') (serialize_value TString)) (\<lambda>name.
         bindE (bindE (getattr attrs ''files'')
             (\<lambda>xs. case xs of PList vs \<Rightarrow> array_serialize FileData_serialize vs | _ \<Rightarrow> Inl TypeError))
           (\<lambda>files. Inr (name @ files)))
     | _ \<Rightarrow> Inl TypeError)"

lemma bindE_assoc: "bindE (bindE r f) g = bindE r (\<lambda>x. bindE (f x) g)"
  by (cases r) auto

lemma field_needed_required [simp]:
  "field_needs_deserialization (required n t) fm pos m = Inr True"
  by (simp add: field_needs_deserialization_def)

lemma Attribute_deserialize_eq: "Attribute_deserialize = deserialize_value Attribute"
proof (intro ext)
  fix pos m
  show "Attribute_deserialize pos m = deserialize_value Attribute pos m"
    by (simp add: Attribute_deserialize_def attr_unpack_from_def Attribute_def tag_def
        uint32_deserialize_def struct_unpack_from_def bindE_assoc add.assoc)
qed

lemma FileData_deserialize_eq: "FileData_deserialize = deserialize_value FileData"
proof (intro ext)
  fix pos m
  show "FileData_deserialize pos m = deserialize_value FileData pos m"
    by (simp add: FileData_deserialize_def Attribute_deserialize_eq FileData_def tag_def bindE_assoc split_def)
qed

lemma DirectoryData_deserialize_eq: "DirectoryData_deserialize = deserialize_value DirectoryData"
proof (intro ext)
  fix pos m
  show "DirectoryData_deserialize pos m = deserialize_value DirectoryData pos m"
    by (simp add: DirectoryData_deserialize_def FileData_deserialize_eq DirectoryData_def tag_def bindE_assoc split_def)
qed

lemma mapE_cong_set: "(\<And>x. x \<in> set xs \<Longrightarrow> f x = g x) \<Longrightarrow> mapE f xs = mapE g xs"
  by (rule mapE_cong) auto

lemma conforming_required:
  "conforming (required n t # fs) attrs vs \<longleftrightarrow>
     (\<exists>v rest. vs = (n, v) # rest \<and> conforming fs attrs rest \<and> v \<noteq> PNone \<and> has_type t v)"
proof -
  have "\<not> has_type t PNone" by (cases t) auto
  then show ?thesis by (cases vs) (auto simp: active_def split: if_splits)
qed

lemma Attribute_serialize_eq:
  "has_type Attribute v \<Longrightarrow> Attribute_serialize v = serialize_value Attribute v"
  by (auto simp: Attribute_def has_type_inv conforming_required Attribute_serialize_def attr_pack_def
      getattr_def get_or_def get_value_for_field_def uint32_serialize_def bindE_assoc)

lemma conforming_Nil [simp]: "conforming [] attrs vs \<longleftrightarrow> vs = []"
  by (cases vs) auto

lemma array_serialize_eqI:
  "list_all P vs \<Longrightarrow> (\<And>v. P v \<Longrightarrow> f v = g v) \<Longrightarrow> array_serialize f vs = array_serialize g vs"
  by (rule array_serialize_cong) (auto simp: list_all_iff)

lemma FileData_serialize_eq:
  assumes "has_type FileData v"
  shows "FileData_serialize v = serialize_value FileData v"
proof -
  obtain u n sz e as where v: "v = PObj ''FileData'' [(''unknown'', u), (''filename'', n),
      (''filesize'', sz), (''extension'', e), (''attributes'', PList as)]"
    and np: "u \<noteq> PNone" "n \<noteq> PNone" "sz \<noteq> PNone" "e \<noteq> PNone" and "list_all (has_type Attribute) as"
    using assms by (auto simp: FileData_def has_type_inv(11,12) conforming_required)
  then have "array_serialize Attribute_serialize as = array_serialize (serialize_value Attribute) as"
    by (auto intro: array_serialize_eqI Attribute_serialize_eq)
  then show ?thesis
    unfolding v FileData_def
    by (simp add: FileData_serialize_def getattr_def get_or_def get_value_for_field_def np bindE_assoc)
qed

lemma DirectoryData_serialize_eq:
  assumes "has_type DirectoryData v"
  shows "DirectoryData_serialize v = serialize_value DirectoryData v"
proof -
  obtain n fs where v: "v = PObj ''DirectoryData'' [(''name'', n), (''files'', PList fs)]"
    and np: "n \<noteq> PNone" and "list_all (has_type FileData) fs"
    using assms by (auto simp: DirectoryData_def has_type_inv(11,12) conforming_required)
  then have "array_serialize FileData_serialize fs = array_serialize (serialize_value FileData) fs"
    by (auto intro: array_serialize_eqI FileData_serialize_eq)
  then show ?thesis
    unfolding v DirectoryData_def
    by (simp add: DirectoryData_serialize_def getattr_def get_or_def get_value_for_field_def np bindE_assoc)
qed

subsection \<open>Attribute map of a file\<close>

datatype attribute_key = BITRATE | DURATION | VBR | SAMPLE_RATE | BIT_DEPTH

definition AttributeKey :: "int \<Rightarrow> attribute_key option" where
  \<comment> \<open>\<open>AttributeKey(n)\<close>; \<open>None\<close> is the \<open>ValueError\<close> the loop ignores\<close>
  "AttributeKey n =
     (if n = 0 then Some BITRATE else if n = 1 then Some DURATION else if n = 2 then Some VBR
      else if n = 4 then Some SAMPLE_RATE else if n = 5 then Some BIT_DEPTH else None)"

definition get_attribute_map :: "(int \<times> int) list \<Rightarrow> (attribute_key \<times> int) list" where
  "get_attribute_map attributes =
     fold (\<lambda>(key, value) d. case AttributeKey key of Some k \<Rightarrow> dict_set k value d | None \<Rightarrow> d) attributes []"

lemma get_attribute_map_snoc:
  "get_attribute_map (attributes @ [(key, value)]) = (case AttributeKey key of
     Some k \<Rightarrow> dict_set k value (get_attribute_map attributes) | None \<Rightarrow> get_attribute_map attributes)"
  by (simp add: get_attribute_map_def split: option.split)

lemma get_attribute_map_distinct: "distinct (map fst (get_attribute_map attributes))"
proof (induction attributes rule: rev_induct)
  case (snoc kv attributes)
  then show ?case
    by (cases kv) (auto simp: get_attribute_map_snoc distinct_update split: option.splits)
qed (simp add: get_attribute_map_def)

text \<open>The last attribute with a known key wins; unknown keys leave no entry.\<close>

lemma get_attribute_map_lookup:
  "map_of (get_attribute_map attributes) k
     = map_option snd (find (\<lambda>(key, _). AttributeKey key = Some k) (rev attributes))"
proof (induction attributes rule: rev_induct)
  case (snoc kv attributes)
  then show ?case
    by (cases kv) (auto simp: get_attribute_map_snoc update_conv' split: option.splits)
qed (simp add: get_attribute_map_def)

end
