(* ===== verification/Server_Requests.thy ===== *)
theory Server_Requests
  imports Protocol_Data
begin

text \<open>
  The \<open>Request\<close> classes of the server messages of \<open>src/aioslsk/protocol/messages.py\<close>,
  in the order of the file: id width, id, compression, fields with their metadata.
\<close>

definition Login_Request :: msg_class where
  "Login_Request = Msg Uint32_Id 1 False [
     required ''username'' TString,
     required ''password'' TString,
     required ''client_version'' TUint32,
     required ''md5hash'' TString,
     required ''minor_version'' TUint32]"

definition SetListenPort_Request :: msg_class where
  "SetListenPort_Request = Msg Uint32_Id 2 False [
     required ''port'' TUint32,
     Field ''obfuscated_port_amount'' TUint32 None None True (Some PNone),
     Field ''obfuscated_port'' TUint32 None None True (Some PNone)]"

definition GetPeerAddress_Request :: msg_class where
  "GetPeerAddress_Request = Msg Uint32_Id 3 False [
     required ''username'' TString]"

definition AddUser_Request :: msg_class where
  "AddUser_Request = Msg Uint32_Id 5 False [
     required ''username'' TString]"

definition RemoveUser_Request :: msg_class where
  "RemoveUser_Request = Msg Uint32_Id 6 False [
     required ''username'' TString]"

definition GetUserStatus_Request :: msg_class where
  "GetUserStatus_Request = Msg Uint32_Id 7 False [
     required ''username'' TString]"

definition IgnoreUser_Request :: msg_class where
  "IgnoreUser_Request = Msg Uint32_Id 11 False [
     required ''username'' TString]"

definition UnignoreUser_Request :: msg_class where
  "UnignoreUser_Request = Msg Uint32_Id 12 False [
     required ''username'' TString]"

definition RoomChatMessage_Request :: msg_class where
  "RoomChatMessage_Request = Msg Uint32_Id 13 False [
     required ''room'' TString,
     required ''message'' TString]"

definition JoinRoom_Request :: msg_class where
  "JoinRoom_Request = Msg Uint32_Id 14 False [
     required ''room'' TString,
     Field ''is_private'' TUint32 None None True (Some (PBool False))]"

definition LeaveRoom_Request :: msg_class where
  "LeaveRoom_Request = Msg Uint32_Id 15 False [
     required ''room'' TString]"

definition ConnectToPeer_Request :: msg_class where
  "ConnectToPeer_Request = Msg Uint32_Id 18 False [
     required ''ticket'' TUint32,
     required ''username'' TString,
     required ''typ'' TString]"

definition PrivateChatMessage_Request :: msg_class where
  "PrivateChatMessage_Request = Msg Uint32_Id 22 False [
     required ''username'' TString,
     required ''message'' TString]"

definition PrivateChatMessageAck_Request :: msg_class where
  "PrivateChatMessageAck_Request = Msg Uint32_Id 23 False [
     required ''chat_id'' TUint32]"

definition FileSearchRoom_Request :: msg_class where
  "FileSearchRoom_Request = Msg Uint32_Id 25 False [
     required ''ticket'' TUint32,
     required ''room_id'' TUint32,
     required ''query'' TString]"

definition FileSearch_Request :: msg_class where
  "FileSearch_Request = Msg Uint32_Id 26 False [
     required ''ticket'' TUint32,
     required ''query'' TString]"

definition SetStatus_Request :: msg_class where
  "SetStatus_Request = Msg Uint32_Id 28 False [
     required ''status'' TUint32]"

definition Ping_Request :: msg_class where
  "Ping_Request = Msg Uint32_Id 32 False []"

definition SendConnectTicket_Request :: msg_class where
  "SendConnectTicket_Request = Msg Uint32_Id 33 False [
     required ''username'' TString,
     required ''ticket'' TUint32]"

definition SendDownloadSpeed_Request :: msg_class where
  "SendDownloadSpeed_Request = Msg Uint32_Id 34 False [
     required ''username'' TString,
     required ''speed'' TUint32]"

definition SharedFoldersFiles_Request :: msg_class where
  "SharedFoldersFiles_Request = Msg Uint32_Id 35 False [
     required ''shared_folder_count'' TUint32,
     required ''shared_file_count'' TUint32]"

definition GetUserStats_Request :: msg_class where
  "GetUserStats_Request = Msg Uint32_Id 36 False [
     required ''username'' TString]"

definition UserSearch_Request :: msg_class where
  "UserSearch_Request = Msg Uint32_Id 42 False [
     required ''username'' TString,
     required ''ticket'' TUint32,
     required ''query'' TString]"

definition DeprecatedGetItemRecommendations_Request :: msg_class where
  "DeprecatedGetItemRecommendations_Request = Msg Uint32_Id 50 False [
     required ''item'' TString]"

definition AddInterest_Request :: msg_class where
  "AddInterest_Request = Msg Uint32_Id 51 False [
     required ''interest'' TString]"

definition RemoveInterest_Request :: msg_class where
  "RemoveInterest_Request = Msg Uint32_Id 52 False [
     required ''interest'' TString]"

definition GetRecommendations_Request :: msg_class where
  "GetRecommendations_Request = Msg Uint32_Id 54 False []"

definition GetInterests_Request :: msg_class where
  "GetInterests_Request = Msg Uint32_Id 55 False []"

definition GetGlobalRecommendations_Request :: msg_class where
  "GetGlobalRecommendations_Request = Msg Uint32_Id 56 False []"

definition GetUserInterests_Request :: msg_class where
  "GetUserInterests_Request = Msg Uint32_Id 57 False [
     required ''username'' TString]"

definition ExecuteCommand_Request :: msg_class where
  "ExecuteCommand_Request = Msg Uint32_Id 58 False [
     required ''command_type'' TString,
     required ''arguments'' (TArray TString)]"

definition RoomList_Request :: msg_class where
  "RoomList_Request = Msg Uint32_Id 64 False []"

definition ExactFileSearch_Request :: msg_class where
  "ExactFileSearch_Request = Msg Uint32_Id 65 False [
     required ''ticket'' TUint32,
     required ''filename'' TString,
     required ''pathname'' TString,
     required ''filesize'' TUint64,
     required ''checksum'' TUint32,
     required ''unknown'' TUint8]"

definition GetUserList_Request :: msg_class where
  "GetUserList_Request = Msg Uint32_Id 67 False []"

definition TunneledMessage_Request :: msg_class where
  "TunneledMessage_Request = Msg Uint32_Id 68 False [
     required ''username'' TString,
     required ''ticket'' TUint32,
     required ''code'' TUint32,
     required ''message'' TString]"

definition ToggleParentSearch_Request :: msg_class where
  "ToggleParentSearch_Request = Msg Uint32_Id 71 False [
     required ''enable'' TBoolean]"

definition ParentIP_Request :: msg_class where
  "ParentIP_Request = Msg Uint32_Id 73 False [
     required ''ip'' TIpaddr]"

definition Unknown80_Request :: msg_class where
  "Unknown80_Request = Msg Uint32_Id 80 False []"

definition CheckPrivileges_Request :: msg_class where
  "CheckPrivileges_Request = Msg Uint32_Id 92 False []"

definition AcceptChildren_Request :: msg_class where
  "AcceptChildren_Request = Msg Uint32_Id 100 False [
     required ''accept'' TBoolean]"

definition WishlistSearch_Request :: msg_class where
  "WishlistSearch_Request = Msg Uint32_Id 103 False [
     required ''ticket'' TUint32,
     required ''query'' TString]"

definition GetSimilarUsers_Request :: msg_class where
  "GetSimilarUsers_Request = Msg Uint32_Id 110 False []"

definition GetItemRecommendations_Request :: msg_class where
  "GetItemRecommendations_Request = Msg Uint32_Id 111 False [
     required ''item'' TString]"

definition GetItemSimilarUsers_Request :: msg_class where
  "GetItemSimilarUsers_Request = Msg Uint32_Id 112 False [
     required ''item'' TString]"

definition SetRoomTicker_Request :: msg_class where
  "SetRoomTicker_Request = Msg Uint32_Id 116 False [
     required ''room'' TString,
     required ''ticker'' TString]"

definition AddHatedInterest_Request :: msg_class where
  "AddHatedInterest_Request = Msg Uint32_Id 117 False [
     required ''hated_interest'' TString]"

definition RemoveHatedInterest_Request :: msg_class where
  "RemoveHatedInterest_Request = Msg Uint32_Id 118 False [
     required ''hated_interest'' TString]"

definition RoomSearch_Request :: msg_class where
  "RoomSearch_Request = Msg Uint32_Id 120 False [
     required ''room'' TString,
     required ''ticket'' TUint32,
     required ''query'' TString]"

definition SendUploadSpeed_Request :: msg_class where
  "SendUploadSpeed_Request = Msg Uint32_Id 121 False [
     required ''speed'' TUint32]"

definition GetUserPrivileges_Request :: msg_class where
  "GetUserPrivileges_Request = Msg Uint32_Id 122 False [
     required ''username'' TString]"

definition GiveUserPrivileges_Request :: msg_class where
  "GiveUserPrivileges_Request = Msg Uint32_Id 123 False [
     required ''username'' TString,
     required ''days'' TUint32]"

definition PrivilegesNotification_Request :: msg_class where
  "PrivilegesNotification_Request = Msg Uint32_Id 124 False [
     required ''notification_id'' TUint32,
     required ''username'' TString]"

definition PrivilegesNotificationAck_Request :: msg_class where
  "PrivilegesNotificationAck_Request = Msg Uint32_Id 125 False [
     required ''notification_id'' TUint32]"

definition BranchLevel_Request :: msg_class where
  "BranchLevel_Request = Msg Uint32_Id 126 False [
     required ''level'' TUint32]"

definition BranchRoot_Request :: msg_class where
  "BranchRoot_Request = Msg Uint32_Id 127 False [
     required ''username'' TString]"

definition ChildDepth_Request :: msg_class where
  "ChildDepth_Request = Msg Uint32_Id 129 False [
     required ''depth'' TUint32]"

definition PrivateRoomGrantMembership_Request :: msg_class where
  "PrivateRoomGrantMembership_Request = Msg Uint32_Id 134 False [
     required ''room'' TString,
     required ''username'' TString]"

definition PrivateRoomRevokeMembership_Request :: msg_class where
  "PrivateRoomRevokeMembership_Request = Msg Uint32_Id 135 False [
     required ''room'' TString,
     required ''username'' TString]"

definition PrivateRoomDropMembership_Request :: msg_class where
  "PrivateRoomDropMembership_Request = Msg Uint32_Id 136 False [
     required ''room'' TString]"

definition PrivateRoomDropOwnership_Request :: msg_class where
  "PrivateRoomDropOwnership_Request = Msg Uint32_Id 137 False [
     required ''room'' TString]"

definition TogglePrivateRoomInvites_Request :: msg_class where
  "TogglePrivateRoomInvites_Request = Msg Uint32_Id 141 False [
     required ''enable'' TBoolean]"

definition NewPassword_Request :: msg_class where
  "NewPassword_Request = Msg Uint32_Id 142 False [
     required ''password'' TString]"

definition PrivateRoomGrantOperator_Request :: msg_class where
  "PrivateRoomGrantOperator_Request = Msg Uint32_Id 143 False [
     required ''room'' TString,
     required ''username'' TString]"

definition PrivateRoomRevokeOperator_Request :: msg_class where
  "PrivateRoomRevokeOperator_Request = Msg Uint32_Id 144 False [
     required ''room'' TString,
     required ''username'' TString]"

definition PrivateChatMessageUsers_Request :: msg_class where
  "PrivateChatMessageUsers_Request = Msg Uint32_Id 149 False [
     required ''usernames'' (TArray TString),
     required ''message'' TString]"

definition EnablePublicChat_Request :: msg_class where
  "EnablePublicChat_Request = Msg Uint32_Id 150 False []"

definition DisablePublicChat_Request :: msg_class where
  "DisablePublicChat_Request = Msg Uint32_Id 151 False []"

definition GetRelatedSearches_Request :: msg_class where
  "GetRelatedSearches_Request = Msg Uint32_Id 153 False [
     required ''query'' TString]"

definition CannotConnect_Request :: msg_class where
  "CannotConnect_Request = Msg Uint32_Id 1001 False [
     required ''ticket'' TUint32,
     required ''username'' TString]"

definition server_requests :: "msg_class list" where
  \<comment> \<open>subclasses of \<open>ServerMessage\<close> that have a \<open>Request\<close>\<close>
  "server_requests = [
    Login_Request, SetListenPort_Request, GetPeerAddress_Request, AddUser_Request,
    RemoveUser_Request, GetUserStatus_Request, IgnoreUser_Request, UnignoreUser_Request,
    RoomChatMessage_Request, JoinRoom_Request, LeaveRoom_Request, ConnectToPeer_Request,
    PrivateChatMessage_Request, PrivateChatMessageAck_Request, FileSearchRoom_Request,
    FileSearch_Request, SetStatus_Request, Ping_Request, SendConnectTicket_Request,
    SendDownloadSpeed_Request, SharedFoldersFiles_Request, GetUserStats_Request,
    UserSearch_Request, DeprecatedGetItemRecommendations_Request, AddInterest_Request,
    RemoveInterest_Request, GetRecommendations_Request, GetInterests_Request,
    GetGlobalRecommendations_Request, GetUserInterests_Request, ExecuteCommand_Request,
    RoomList_Request, ExactFileSearch_Request, GetUserList_Request, TunneledMessage_Request,
    ToggleParentSearch_Request, ParentIP_Request, Unknown80_Request, CheckPrivileges_Request,
    AcceptChildren_Request, WishlistSearch_Request, GetSimilarUsers_Request,
    GetItemRecommendations_Request, GetItemSimilarUsers_Request, SetRoomTicker_Request,
    AddHatedInterest_Request, RemoveHatedInterest_Request, RoomSearch_Request,
    SendUploadSpeed_Request, GetUserPrivileges_Request, GiveUserPrivileges_Request,
    PrivilegesNotification_Request, PrivilegesNotificationAck_Request, BranchLevel_Request,
    BranchRoot_Request, ChildDepth_Request, PrivateRoomGrantMembership_Request,
    PrivateRoomRevokeMembership_Request, PrivateRoomDropMembership_Request,
    PrivateRoomDropOwnership_Request, TogglePrivateRoomInvites_Request, NewPassword_Request,
    PrivateRoomGrantOperator_Request, PrivateRoomRevokeOperator_Request,
    PrivateChatMessageUsers_Request, EnablePublicChat_Request, DisablePublicChat_Request,
    GetRelatedSearches_Request, CannotConnect_Request]"

lemmas server_request_defs =
  Login_Request_def SetListenPort_Request_def GetPeerAddress_Request_def AddUser_Request_def
  RemoveUser_Request_def GetUserStatus_Request_def IgnoreUser_Request_def UnignoreUser_Request_def
  RoomChatMessage_Request_def JoinRoom_Request_def LeaveRoom_Request_def ConnectToPeer_Request_def
  PrivateChatMessage_Request_def PrivateChatMessageAck_Request_def FileSearchRoom_Request_def
  FileSearch_Request_def SetStatus_Request_def Ping_Request_def SendConnectTicket_Request_def
  SendDownloadSpeed_Request_def SharedFoldersFiles_Request_def GetUserStats_Request_def
  UserSearch_Request_def DeprecatedGetItemRecommendations_Request_def AddInterest_Request_def
  RemoveInterest_Request_def GetRecommendations_Request_def GetInterests_Request_def
  GetGlobalRecommendations_Request_def GetUserInterests_Request_def ExecuteCommand_Request_def
  RoomList_Request_def ExactFileSearch_Request_def GetUserList_Request_def
  TunneledMessage_Request_def ToggleParentSearch_Request_def ParentIP_Request_def
  Unknown80_Request_def CheckPrivileges_Request_def AcceptChildren_Request_def
  WishlistSearch_Request_def GetSimilarUsers_Request_def GetItemRecommendations_Request_def
  GetItemSimilarUsers_Request_def SetRoomTicker_Request_def AddHatedInterest_Request_def
  RemoveHatedInterest_Request_def RoomSearch_Request_def SendUploadSpeed_Request_def
  GetUserPrivileges_Request_def GiveUserPrivileges_Request_def PrivilegesNotification_Request_def
  PrivilegesNotificationAck_Request_def BranchLevel_Request_def BranchRoot_Request_def
  ChildDepth_Request_def PrivateRoomGrantMembership_Request_def
  PrivateRoomRevokeMembership_Request_def PrivateRoomDropMembership_Request_def
  PrivateRoomDropOwnership_Request_def TogglePrivateRoomInvites_Request_def
  NewPassword_Request_def PrivateRoomGrantOperator_Request_def
  PrivateRoomRevokeOperator_Request_def PrivateChatMessageUsers_Request_def
  EnablePublicChat_Request_def DisablePublicChat_Request_def GetRelatedSearches_Request_def
  CannotConnect_Request_def

end
