(* ===== verification/Server_Responses.thy ===== *)
theory Server_Responses
  imports Protocol_Data
begin

text \<open>
  The \<open>Response\<close> classes of the server messages of \<open>src/aioslsk/protocol/messages.py\<close>,
  in the order of the file: id width, id, compression, fields with their metadata.
\<close>

definition Login_Response :: msg_class where
  "Login_Response = Msg Uint32_Id 1 False [
     required ''success'' TBoolean,
     Field ''greeting'' TString (Some ''success'') None False (Some PNone),
     Field ''ip'' TIpaddr (Some ''success'') None False (Some PNone),
     Field ''md5hash'' TString (Some ''success'') None False (Some PNone),
     Field ''privileged'' TBoolean (Some ''success'') None False (Some PNone),
     Field ''reason'' TString None (Some ''success'') False (Some PNone)]"

definition GetPeerAddress_Response :: msg_class where
  "GetPeerAddress_Response = Msg Uint32_Id 3 False [
     required ''username'' TString,
     required ''ip'' TIpaddr,
     required ''port'' TUint32,
     Field ''obfuscated_port_amount'' TUint32 None None True (Some PNone),
     Field ''obfuscated_port'' TUint16 None None True (Some PNone)]"

definition AddUser_Response :: msg_class where
  "AddUser_Response = Msg Uint32_Id 5 False [
     required ''username'' TString,
     required ''exists'' TBoolean,
     Field ''status'' TUint32 (Some ''exists'') None False (Some PNone),
     Field ''user_stats'' UserStats (Some ''exists'') None False (Some PNone),
     Field ''country_code'' TString (Some ''exists'') None True (Some PNone)]"

definition GetUserStatus_Response :: msg_class where
  "GetUserStatus_Response = Msg Uint32_Id 7 False [
     required ''username'' TString,
     required ''status'' TUint32,
     required ''privileged'' TBoolean]"

definition IgnoreUser_Response :: msg_class where
  "IgnoreUser_Response = Msg Uint32_Id 11 False [
     required ''username'' TString]"

definition UnignoreUser_Response :: msg_class where
  "UnignoreUser_Response = Msg Uint32_Id 12 False [
     required ''username'' TString]"

definition RoomChatMessage_Response :: msg_class where
  "RoomChatMessage_Response = Msg Uint32_Id 13 False [
     required ''room'' TString,
     required ''username'' TString,
     required ''message'' TString]"

definition JoinRoom_Response :: msg_class where
  "JoinRoom_Response = Msg Uint32_Id 14 False [
     required ''room'' TString,
     required ''users'' (TArray TString),
     required ''users_status'' (TArray TUint32),
     required ''users_stats'' (TArray UserStats),
     required ''users_slots_free'' (TArray TUint32),
     required ''users_countries'' (TArray TString),
     Field ''owner'' TString None None True (Some PNone),
     Field ''operators'' (TArray TString) None None True (Some PNone)]"

definition LeaveRoom_Response :: msg_class where
  "LeaveRoom_Response = Msg Uint32_Id 15 False [
     required ''room'' TString]"

definition UserJoinedRoom_Response :: msg_class where
  "UserJoinedRoom_Response = Msg Uint32_Id 16 False [
     required ''room'' TString,
     required ''username'' TString,
     required ''status'' TUint32,
     required ''user_stats'' UserStats,
     required ''slots_free'' TUint32,
     required ''country_code'' TString]"

definition UserLeftRoom_Response :: msg_class where
  "UserLeftRoom_Response = Msg Uint32_Id 17 False [
     required ''room'' TString,
     required ''username'' TString]"

definition ConnectToPeer_Response :: msg_class where
  "ConnectToPeer_Response = Msg Uint32_Id 18 False [
     required ''username'' TString,
     required ''typ'' TString,
     required ''ip'' TIpaddr,
     required ''port'' TUint32,
     required ''ticket'' TUint32,
     required ''privileged'' TBoolean,
     Field ''obfuscated_port_amount'' TUint32 None None True (Some PNone),
     Field ''obfuscated_port'' TUint32 None None True (Some PNone)]"

definition PrivateChatMessage_Response :: msg_class where
  "PrivateChatMessage_Response = Msg Uint32_Id 22 False [
     required ''chat_id'' TUint32,
     required ''timestamp'' TUint32,
     required ''username'' TString,
     required ''message'' TString,
     Field ''is_direct'' TBoolean None None True (Some (PBool False))]"

definition FileSearch_Response :: msg_class where
  "FileSearch_Response = Msg Uint32_Id 26 False [
     required ''username'' TString,
     required ''ticket'' TUint32,
     required ''query'' TString]"

definition Ping_Response :: msg_class where
  "Ping_Response = Msg Uint32_Id 32 False []"

definition SendConnectTicket_Response :: msg_class where
  "SendConnectTicket_Response = Msg Uint32_Id 33 False [
     required ''username'' TString,
     required ''ticket'' TUint32]"

definition GetUserStats_Response :: msg_class where
  "GetUserStats_Response = Msg Uint32_Id 36 False [
     required ''username'' TString,
     required ''user_stats'' UserStats]"

definition Kicked_Response :: msg_class where
  "Kicked_Response = Msg Uint32_Id 41 False []"

definition DeprecatedGetItemRecommendations_Response :: msg_class where
  "DeprecatedGetItemRecommendations_Response = Msg Uint32_Id 50 False [
     required ''item'' TString,
     required ''recommendations'' (TArray TString)]"

definition GetRecommendations_Response :: msg_class where
  "GetRecommendations_Response = Msg Uint32_Id 54 False [
     required ''recommendations'' (TArray Recommendation),
     required ''unrecommendations'' (TArray Recommendation)]"

definition GetInterests_Response :: msg_class where
  "GetInterests_Response = Msg Uint32_Id 55 False [
     required ''interests'' (TArray TString)]"

definition GetGlobalRecommendations_Response :: msg_class where
  "GetGlobalRecommendations_Response = Msg Uint32_Id 56 False [
     required ''recommendations'' (TArray Recommendation),
     required ''unrecommendations'' (TArray Recommendation)]"

definition GetUserInterests_Response :: msg_class where
  "GetUserInterests_Response = Msg Uint32_Id 57 False [
     required ''username'' TString,
     required ''interests'' (TArray TString),
     required ''hated_interests'' (TArray TString)]"

definition RoomList_Response :: msg_class where
  "RoomList_Response = Msg Uint32_Id 64 False [
     required ''rooms'' (TArray TString),
     required ''rooms_user_count'' (TArray TUint32),
     required ''rooms_private_owned'' (TArray TString),
     required ''rooms_private_owned_user_count'' (TArray TUint32),
     required ''rooms_private'' (TArray TString),
     required ''rooms_private_user_count'' (TArray TUint32),
     required ''rooms_private_operated'' (TArray TString)]"

definition ExactFileSearch_Response :: msg_class where
  "ExactFileSearch_Response = Msg Uint32_Id 65 False [
     required ''username'' TString,
     required ''ticket'' TUint32,
     required ''filename'' TString,
     required ''pathname'' TString,
     required ''filesize'' TUint64,
     required ''checksum'' TUint32]"

definition AdminMessage_Response :: msg_class where
  "AdminMessage_Response = Msg Uint32_Id 66 False [
     required ''message'' TString]"

definition GetUserList_Response :: msg_class where
  "GetUserList_Response = Msg Uint32_Id 67 False [
     required ''users'' (TArray TString),
     required ''users_status'' (TArray TUint32),
     required ''users_stats'' (TArray UserStats),
     required ''users_slots_free'' (TArray TUint32),
     required ''users_countries'' (TArray TString)]"

definition TunneledMessage_Response :: msg_class where
  "TunneledMessage_Response = Msg Uint32_Id 68 False [
     required ''username'' TString,
     required ''ticket'' TUint32,
     required ''code'' TUint32,
     required ''ip'' TIpaddr,
     required ''port'' TUint32,
     required ''message'' TString]"

definition PrivilegedUsers_Response :: msg_class where
  "PrivilegedUsers_Response = Msg Uint32_Id 69 False [
     required ''users'' (TArray TString)]"

definition ParentMinSpeed_Response :: msg_class where
  "ParentMinSpeed_Response = Msg Uint32_Id 83 False [
     required ''speed'' TUint32]"

definition ParentSpeedRatio_Response :: msg_class where
  "ParentSpeedRatio_Response = Msg Uint32_Id 84 False [
     required ''ratio'' TUint32]"

definition ParentInactivityTimeout_Response :: msg_class where
  "ParentInactivityTimeout_Response = Msg Uint32_Id 86 False [
     required ''timeout'' TUint32]"

definition SearchInactivityTimeout_Response :: msg_class where
  "SearchInactivityTimeout_Response = Msg Uint32_Id 87 False [
     required ''timeout'' TUint32]"

definition MinParentsInCache_Response :: msg_class where
  "MinParentsInCache_Response = Msg Uint32_Id 88 False [
     required ''amount'' TUint32]"

definition DistributedDistributeInterval_Response :: msg_class where
  "DistributedDistributeInterval_Response = Msg Uint32_Id 89 False [
     required ''interval'' TUint32]"

definition DistributedAliveInterval_Response :: msg_class where
  "DistributedAliveInterval_Response = Msg Uint32_Id 90 False [
     required ''interval'' TUint32]"

definition AddPrivilegedUser_Response :: msg_class where
  "AddPrivilegedUser_Response = Msg Uint32_Id 91 False [
     required ''username'' TString]"

definition CheckPrivileges_Response :: msg_class where
  "CheckPrivileges_Response = Msg Uint32_Id 92 False [
     required ''time_left'' TUint32]"

definition ServerSearchRequest_Response :: msg_class where
  "ServerSearchRequest_Response = Msg Uint32_Id 93 False [
     required ''distributed_code'' TUint8,
     required ''unknown'' TUint32,
     required ''username'' TString,
     required ''ticket'' TUint32,
     required ''query'' TString]"

definition PotentialParents_Response :: msg_class where
  "PotentialParents_Response = Msg Uint32_Id 102 False [
     required ''entries'' (TArray PotentialParent)]"

definition WishlistInterval_Response :: msg_class where
  "WishlistInterval_Response = Msg Uint32_Id 104 False [
     required ''interval'' TUint32]"

definition GetSimilarUsers_Response :: msg_class where
  "GetSimilarUsers_Response = Msg Uint32_Id 110 False [
     required ''users'' (TArray SimilarUser)]"

definition GetItemRecommendations_Response :: msg_class where
  "GetItemRecommendations_Response = Msg Uint32_Id 111 False [
     required ''item'' TString,
     required ''recommendations'' (TArray Recommendation)]"

definition GetItemSimilarUsers_Response :: msg_class where
  "GetItemSimilarUsers_Response = Msg Uint32_Id 112 False [
     required ''item'' TString,
     required ''usernames'' (TArray TString)]"

definition RoomTickers_Response :: msg_class where
  "RoomTickers_Response = Msg Uint32_Id 113 False [
     required ''room'' TString,
     required ''tickers'' (TArray RoomTicker)]"

definition RoomTickerAdded_Response :: msg_class where
  "RoomTickerAdded_Response = Msg Uint32_Id 114 False [
     required ''room'' TString,
     required ''username'' TString,
     required ''ticker'' TString]"

definition RoomTickerRemoved_Response :: msg_class where
  "RoomTickerRemoved_Response = Msg Uint32_Id 115 False [
     required ''room'' TString,
     required ''username'' TString]"

definition GetUserPrivileges_Response :: msg_class where
  "GetUserPrivileges_Response = Msg Uint32_Id 122 False [
     required ''username'' TString,
     required ''privileged'' TBoolean]"

definition ResetDistributed_Response :: msg_class where
  "ResetDistributed_Response = Msg Uint32_Id 130 False []"

definition PrivateRoomMembers_Response :: msg_class where
  "PrivateRoomMembers_Response = Msg Uint32_Id 133 False [
     required ''room'' TString,
     required ''usernames'' (TArray TString)]"

definition PrivateRoomGrantMembership_Response :: msg_class where
  "PrivateRoomGrantMembership_Response = Msg Uint32_Id 134 False [
     required ''room'' TString,
     required ''username'' TString]"

definition PrivateRoomRevokeMembership_Response :: msg_class where
  "PrivateRoomRevokeMembership_Response = Msg Uint32_Id 135 False [
     required ''room'' TString,
     required ''username'' TString]"

definition PrivateRoomMembershipGranted_Response :: msg_class where
  "PrivateRoomMembershipGranted_Response = Msg Uint32_Id 139 False [
     required ''room'' TString]"

definition PrivateRoomMembershipRevoked_Response :: msg_class where
  "PrivateRoomMembershipRevoked_Response = Msg Uint32_Id 140 False [
     required ''room'' TString]"

definition TogglePrivateRoomInvites_Response :: msg_class where
  "TogglePrivateRoomInvites_Response = Msg Uint32_Id 141 False [
     required ''enabled'' TBoolean]"

definition PrivateRoomGrantOperator_Response :: msg_class where
  "PrivateRoomGrantOperator_Response = Msg Uint32_Id 143 False [
     required ''room'' TString,
     required ''username'' TString]"

definition PrivateRoomRevokeOperator_Response :: msg_class where
  "PrivateRoomRevokeOperator_Response = Msg Uint32_Id 144 False [
     required ''room'' TString,
     required ''username'' TString]"

definition PrivateRoomOperatorGranted_Response :: msg_class where
  "PrivateRoomOperatorGranted_Response = Msg Uint32_Id 145 False [
     required ''room'' TString]"

definition PrivateRoomOperatorRevoked_Response :: msg_class where
  "PrivateRoomOperatorRevoked_Response = Msg Uint32_Id 146 False [
     required ''room'' TString]"

definition PrivateRoomOperators_Response :: msg_class where
  "PrivateRoomOperators_Response = Msg Uint32_Id 148 False [
     required ''room'' TString,
     required ''usernames'' (TArray TString)]"

definition PublicChatMessage_Response :: msg_class where
  "PublicChatMessage_Response = Msg Uint32_Id 152 False [
     required ''room'' TString,
     required ''username'' TString,
     required ''message'' TString]"

definition GetRelatedSearches_Response :: msg_class where
  "GetRelatedSearches_Response = Msg Uint32_Id 153 False [
     required ''query'' TString,
     required ''related_searches'' (TArray TString)]"

definition ExcludedSearchPhrases_Response :: msg_class where
  "ExcludedSearchPhrases_Response = Msg Uint32_Id 160 False [
     required ''phrases'' (TArray TString)]"

definition CannotConnect_Response :: msg_class where
  "CannotConnect_Response = Msg Uint32_Id 1001 False [
     required ''ticket'' TUint32]"

definition CannotCreateRoom_Response :: msg_class where
  "CannotCreateRoom_Response = Msg Uint32_Id 1003 False [
     required ''room'' TString]"

definition server_responses :: "msg_class list" where
  \<comment> \<open>subclasses of \<open>ServerMessage\<close> that have a \<open>Response\<close>\<close>
  "server_responses = [
    Login_Response, GetPeerAddress_Response, AddUser_Response, GetUserStatus_Response,
    IgnoreUser_Response, UnignoreUser_Response, RoomChatMessage_Response, JoinRoom_Response,
    LeaveRoom_Response, UserJoinedRoom_Response, UserLeftRoom_Response, ConnectToPeer_Response,
    PrivateChatMessage_Response, FileSearch_Response, Ping_Response,
    SendConnectTicket_Response, GetUserStats_Response, Kicked_Response,
    DeprecatedGetItemRecommendations_Response, GetRecommendations_Response,
    GetInterests_Response, GetGlobalRecommendations_Response, GetUserInterests_Response,
    RoomList_Response, ExactFileSearch_Response, AdminMessage_Response, GetUserList_Response,
    TunneledMessage_Response, PrivilegedUsers_Response, ParentMinSpeed_Response,
    ParentSpeedRatio_Response, ParentInactivityTimeout_Response,
    SearchInactivityTimeout_Response, MinParentsInCache_Response,
    DistributedDistributeInterval_Response, DistributedAliveInterval_Response,
    AddPrivilegedUser_Response, CheckPrivileges_Response, ServerSearchRequest_Response,
    PotentialParents_Response, WishlistInterval_Response, GetSimilarUsers_Response,
    GetItemRecommendations_Response, GetItemSimilarUsers_Response, RoomTickers_Response,
    RoomTickerAdded_Response, RoomTickerRemoved_Response, GetUserPrivileges_Response,
    ResetDistributed_Response, PrivateRoomMembers_Response,
    PrivateRoomGrantMembership_Response, PrivateRoomRevokeMembership_Response,
    PrivateRoomMembershipGranted_Response, PrivateRoomMembershipRevoked_Response,
    TogglePrivateRoomInvites_Response, PrivateRoomGrantOperator_Response,
    PrivateRoomRevokeOperator_Response, PrivateRoomOperatorGranted_Response,
    PrivateRoomOperatorRevoked_Response, PrivateRoomOperators_Response,
    PublicChatMessage_Response, GetRelatedSearches_Response, ExcludedSearchPhrases_Response,
    CannotConnect_Response, CannotCreateRoom_Response]"

lemmas server_response_defs =
  Login_Response_def GetPeerAddress_Response_def AddUser_Response_def GetUserStatus_Response_def
  IgnoreUser_Response_def UnignoreUser_Response_def RoomChatMessage_Response_def
  JoinRoom_Response_def LeaveRoom_Response_def UserJoinedRoom_Response_def
  UserLeftRoom_Response_def ConnectToPeer_Response_def PrivateChatMessage_Response_def
  FileSearch_Response_def Ping_Response_def SendConnectTicket_Response_def
  GetUserStats_Response_def Kicked_Response_def DeprecatedGetItemRecommendations_Response_def
  GetRecommendations_Response_def GetInterests_Response_def GetGlobalRecommendations_Response_def
  GetUserInterests_Response_def RoomList_Response_def ExactFileSearch_Response_def
  AdminMessage_Response_def GetUserList_Response_def TunneledMessage_Response_def
  PrivilegedUsers_Response_def ParentMinSpeed_Response_def ParentSpeedRatio_Response_def
  ParentInactivityTimeout_Response_def SearchInactivityTimeout_Response_def
  MinParentsInCache_Response_def DistributedDistributeInterval_Response_def
  DistributedAliveInterval_Response_def AddPrivilegedUser_Response_def
  CheckPrivileges_Response_def ServerSearchRequest_Response_def PotentialParents_Response_def
  WishlistInterval_Response_def GetSimilarUsers_Response_def GetItemRecommendations_Response_def
  GetItemSimilarUsers_Response_def RoomTickers_Response_def RoomTickerAdded_Response_def
  RoomTickerRemoved_Response_def GetUserPrivileges_Response_def ResetDistributed_Response_def
  PrivateRoomMembers_Response_def PrivateRoomGrantMembership_Response_def
  PrivateRoomRevokeMembership_Response_def PrivateRoomMembershipGranted_Response_def
  PrivateRoomMembershipRevoked_Response_def TogglePrivateRoomInvites_Response_def
  PrivateRoomGrantOperator_Response_def PrivateRoomRevokeOperator_Response_def
  PrivateRoomOperatorGranted_Response_def PrivateRoomOperatorRevoked_Response_def
  PrivateRoomOperators_Response_def PublicChatMessage_Response_def GetRelatedSearches_Response_def
  ExcludedSearchPhrases_Response_def CannotConnect_Response_def CannotCreateRoom_Response_def

end
