(* ===== verification/Peer_Messages.thy ===== *)
theory Peer_Messages
  imports Protocol_Data
begin

text \<open>
  The peer initialization, peer and distributed messages of
  \<open>src/aioslsk/protocol/messages.py\<close>, in the order of the file.
\<close>

definition PeerPierceFirewall_Request :: msg_class where
  "PeerPierceFirewall_Request = Msg Uint8_Id 0 False [
     required ''ticket'' TUint32]"

definition PeerInit_Request :: msg_class where
  "PeerInit_Request = Msg Uint8_Id 1 False [
     required ''username'' TString,
     required ''typ'' TString,
     required ''ticket'' TPeerInitTicket]"

definition PeerSharesRequest_Request :: msg_class where
  "PeerSharesRequest_Request = Msg Uint32_Id 4 False [
     Field ''ticket'' TUint32 None None True (Some PNone)]"

definition PeerSharesReply_Request :: msg_class where
  "PeerSharesReply_Request = Msg Uint32_Id 5 True [
     required ''directories'' (TArray DirectoryData),
     Field ''unknown'' TUint32 None None False (Some (PInt 0)),
     Field ''locked_directories'' (TArray DirectoryData) None None True (Some PNone)]"

definition PeerSearchReply_Request :: msg_class where
  "PeerSearchReply_Request = Msg Uint32_Id 9 True [
     required ''username'' TString,
     required ''ticket'' TUint32,
     required ''results'' (TArray FileData),
     required ''has_slots_free'' TBoolean,
     required ''avg_speed'' TUint32,
     required ''queue_size'' TUint32,
     Field ''unknown'' TUint32 None None False (Some (PInt 0)),
     Field ''locked_results'' (TArray FileData) None None True (Some PNone)]"

definition PeerUserInfoRequest_Request :: msg_class where
  "PeerUserInfoRequest_Request = Msg Uint32_Id 15 False []"

definition PeerUserInfoReply_Request :: msg_class where
  "PeerUserInfoReply_Request = Msg Uint32_Id 16 False [
     required ''description'' TString,
     required ''has_picture'' TBoolean,
     Field ''picture'' TBytearr (Some ''has_picture'') None False (Some PNone),
     Field ''upload_slots'' TUint32 None None False (Some (PInt 0)),
     Field ''queue_size'' TUint32 None None False (Some (PInt 0)),
     Field ''has_slots_free'' TBoolean None None False (Some (PBool False)),
     Field ''upload_permissions'' TUint32 None None True (Some PNone)]"

definition PeerDirectoryContentsRequest_Request :: msg_class where
  "PeerDirectoryContentsRequest_Request = Msg Uint32_Id 36 False [
     required ''ticket'' TUint32,
     required ''directory'' TString]"

definition PeerDirectoryContentsReply_Request :: msg_class where
  "PeerDirectoryContentsReply_Request = Msg Uint32_Id 37 True [
     required ''ticket'' TUint32,
     required ''directory'' TString,
     required ''directories'' (TArray DirectoryData)]"

definition PeerTransferRequest_Request :: msg_class where
  "PeerTransferRequest_Request = Msg Uint32_Id 40 False [
     required ''direction'' TUint32,
     required ''ticket'' TUint32,
     required ''filename'' TString,
     Field ''filesize'' TUint64 None None True (Some PNone)]"

definition PeerTransferReply_Request :: msg_class where
  "PeerTransferReply_Request = Msg Uint32_Id 41 False [
     required ''ticket'' TUint32,
     required ''allowed'' TBoolean,
     Field ''filesize'' TUint64 (Some ''allowed'') None True (Some PNone),
     Field ''reason'' TString None (Some ''allowed'') True (Some PNone)]"

definition PeerTransferQueue_Request :: msg_class where
  "PeerTransferQueue_Request = Msg Uint32_Id 43 False [
     required ''filename'' TString]"

definition PeerPlaceInQueueReply_Request :: msg_class where
  "PeerPlaceInQueueReply_Request = Msg Uint32_Id 44 False [
     required ''filename'' TString,
     required ''place'' TUint32]"

definition PeerUploadFailed_Request :: msg_class where
  "PeerUploadFailed_Request = Msg Uint32_Id 46 False [
     required ''filename'' TString]"

definition PeerTransferQueueFailed_Request :: msg_class where
  "PeerTransferQueueFailed_Request = Msg Uint32_Id 50 False [
     required ''filename'' TString,
     required ''reason'' TString]"

definition PeerPlaceInQueueRequest_Request :: msg_class where
  "PeerPlaceInQueueRequest_Request = Msg Uint32_Id 51 False [
     required ''filename'' TString]"

definition PeerUploadQueueNotification_Request :: msg_class where
  "PeerUploadQueueNotification_Request = Msg Uint32_Id 52 False []"

definition DistributedPing_Request :: msg_class where
  "DistributedPing_Request = Msg Uint8_Id 0 False []"

definition DistributedInit_Request :: msg_class where
  "DistributedInit_Request = Msg Uint8_Id 1 False [
     required ''unknown1'' TUint32,
     required ''unknown2'' TUint32,
     required ''unknown3'' TUint8,
     required ''port'' TUint32]"

definition DistributedSearchRequest_Request :: msg_class where
  "DistributedSearchRequest_Request = Msg Uint8_Id 3 False [
     required ''unknown'' TUint32,
     required ''username'' TString,
     required ''ticket'' TUint32,
     required ''query'' TString]"

definition DistributedBranchLevel_Request :: msg_class where
  "DistributedBranchLevel_Request = Msg Uint8_Id 4 False [
     required ''level'' TUint32]"

definition DistributedBranchRoot_Request :: msg_class where
  "DistributedBranchRoot_Request = Msg Uint8_Id 5 False [
     required ''username'' TString]"

definition DistributedChildDepth_Request :: msg_class where
  "DistributedChildDepth_Request = Msg Uint8_Id 7 False [
     required ''depth'' TUint32]"

definition DistributedServerSearchRequest_Request :: msg_class where
  "DistributedServerSearchRequest_Request = Msg Uint32_Id 93 False [
     required ''distributed_code'' TUint8,
     required ''unknown'' TUint32,
     required ''username'' TString,
     required ''ticket'' TUint32,
     required ''query'' TString]"

definition peer_init_messages :: "msg_class list" where
  \<comment> \<open>subclasses of \<open>PeerInitializationMessage\<close>\<close>
  "peer_init_messages = [
    PeerPierceFirewall_Request, PeerInit_Request]"

definition peer_messages :: "msg_class list" where
  \<comment> \<open>subclasses of \<open>PeerMessage\<close>\<close>
  "peer_messages = [
    PeerSharesRequest_Request, PeerSharesReply_Request, PeerSearchReply_Request,
    PeerUserInfoRequest_Request, PeerUserInfoReply_Request,
    PeerDirectoryContentsRequest_Request, PeerDirectoryContentsReply_Request,
    PeerTransferRequest_Request, PeerTransferReply_Request, PeerTransferQueue_Request,
    PeerPlaceInQueueReply_Request, PeerUploadFailed_Request, PeerTransferQueueFailed_Request,
    PeerPlaceInQueueRequest_Request, PeerUploadQueueNotification_Request]"

definition distributed_messages :: "msg_class list" where
  \<comment> \<open>subclasses of \<open>DistributedMessage\<close>\<close>
  "distributed_messages = [
    DistributedPing_Request, DistributedInit_Request, DistributedSearchRequest_Request,
    DistributedBranchLevel_Request, DistributedBranchRoot_Request,
    DistributedChildDepth_Request, DistributedServerSearchRequest_Request]"

lemmas peer_init_defs =
  PeerPierceFirewall_Request_def PeerInit_Request_def

lemmas peer_defs =
  PeerSharesRequest_Request_def PeerSharesReply_Request_def PeerSearchReply_Request_def
  PeerUserInfoRequest_Request_def PeerUserInfoReply_Request_def
  PeerDirectoryContentsRequest_Request_def PeerDirectoryContentsReply_Request_def
  PeerTransferRequest_Request_def PeerTransferReply_Request_def PeerTransferQueue_Request_def
  PeerPlaceInQueueReply_Request_def PeerUploadFailed_Request_def
  PeerTransferQueueFailed_Request_def PeerPlaceInQueueRequest_Request_def
  PeerUploadQueueNotification_Request_def

lemmas distributed_defs =
  DistributedPing_Request_def DistributedInit_Request_def DistributedSearchRequest_Request_def
  DistributedBranchLevel_Request_def DistributedBranchRoot_Request_def
  DistributedChildDepth_Request_def DistributedServerSearchRequest_Request_def

end
