(* ===== verification/Messages.thy ===== *)
theory Messages
  imports Server_Requests Server_Responses Peer_Messages
begin

text \<open>
The five dispatchers of \<open>src/aioslsk/protocol/messages.py\<close> and the proof that their
  catalogues keep the contract of \<open>message_family\<close>: ids are unique in a family and fit
  their width, every schema is well-formed. All 158 message classes of the file are covered.
\<close>

subsection \<open>The dispatchers\<close>

definition ServerMessage_deserialize_request :: "(bytes \<Rightarrow> bytes result) \<Rightarrow> bytes \<Rightarrow> (msg_class \<times> (string \<times> pval) list) result" where
  "ServerMessage_deserialize_request = deserialize_family Uint32_Id server_requests"

definition ServerMessage_deserialize_response :: "(bytes \<Rightarrow> bytes result) \<Rightarrow> bytes \<Rightarrow> (msg_class \<times> (string \<times> pval) list) result" where
  "ServerMessage_deserialize_response = deserialize_family Uint32_Id server_responses"

definition PeerInitializationMessage_deserialize_request :: "(bytes \<Rightarrow> bytes result) \<Rightarrow> bytes \<Rightarrow> (msg_class \<times> (string \<times> pval) list) result" where
  "PeerInitializationMessage_deserialize_request = deserialize_family Uint8_Id peer_init_messages"

definition PeerMessage_deserialize_request :: "(bytes \<Rightarrow> bytes result) \<Rightarrow> bytes \<Rightarrow> (msg_class \<times> (string \<times> pval) list) result" where
  "PeerMessage_deserialize_request = deserialize_family Uint32_Id peer_messages"

definition DistributedMessage_deserialize_request :: "(bytes \<Rightarrow> bytes result) \<Rightarrow> bytes \<Rightarrow> (msg_class \<times> (string \<times> pval) list) result" where
  "DistributedMessage_deserialize_request = deserialize_family Uint8_Id distributed_messages"

subsection \<open>The catalogues keep the contract\<close>

lemmas schema_simps = member_ok_def wf_schema_def conditions_known_def known_after_def data_closed

lemma server_requests_ok: "family_ok Uint32_Id server_requests"
  by (simp add: family_ok_def server_requests_def server_request_defs schema_simps)

lemma server_responses_ok: "family_ok Uint32_Id server_responses"
  by (simp add: family_ok_def server_responses_def server_response_defs schema_simps)

lemma peer_init_ok: "family_ok Uint8_Id peer_init_messages"
  by (simp add: family_ok_def peer_init_messages_def peer_init_defs schema_simps)

lemma peer_ok: "family_ok Uint32_Id peer_messages"
  by (simp add: family_ok_def peer_messages_def peer_defs schema_simps)

lemma distributed_ok: "family_ok Uint8_Id distributed_messages"
  by (simp add: family_ok_def distributed_messages_def distributed_defs schema_simps)

interpretation server_req: message_family Uint32_Id server_requests
  by unfold_locales (rule server_requests_ok)

interpretation server_resp: message_family Uint32_Id server_responses
  by unfold_locales (rule server_responses_ok)

interpretation peer_init: message_family Uint8_Id peer_init_messages
  by unfold_locales (rule peer_init_ok)

interpretation peer: message_family Uint32_Id peer_messages
  by unfold_locales (rule peer_ok)

interpretation distributed: message_family Uint8_Id distributed_messages
  by unfold_locales (rule distributed_ok)

end
