(* ===== verification/Obfuscation.thy ===== *)
theory Obfuscation
  imports Prelude
begin

text \<open>
  \<open>src/aioslsk/protocol/obfuscation.py\<close>: the rotating-key XOR scheme used on obfuscated
  peer connections. Python's unbounded integers are naturals here; the key is read and
  written little-endian.
\<close>

definition KEY_SIZE :: nat where "KEY_SIZE = 4"

definition int_from_bytes_little :: "bytes \<Rightarrow> nat" where
  "int_from_bytes_little key = le_nat key"

definition to_bytes_little :: "nat \<Rightarrow> nat \<Rightarrow> bytes result" where
  \<comment> \<open>\<open>int.to_bytes(n, 'little')\<close> raises when the value does not fit\<close>
  "to_bytes_little n v = (if v < 256 ^ n then Inr (le_bytes n v) else Inl OverflowError)"

definition rotate_key :: "bytes \<Rightarrow> nat \<Rightarrow> bytes result" where
  "rotate_key key rot_bits =
     (if 0x20 < rot_bits then Inl ValueError \<comment> \<open>negative shift count\<close>
      else
        let key_i = int_from_bytes_little key;
            key_i_rot = drop_bit rot_bits key_i OR (push_bit (0x20 - rot_bits) key_i AND 0xFFFFFFFF)
        in to_bytes_little 4 key_i_rot)"

definition rotate_key_orig :: "bytes \<Rightarrow> nat \<Rightarrow> bytes result" where
  "rotate_key_orig key const =
     (let key_i = int_from_bytes_little key;
          char_bit = 8;
          mask = char_bit * int (length key) - 1;
          c = int const AND mask;
          key_i_rot = drop_bit (nat c) key_i
            OR (push_bit (nat ((0xFFFFFFFF - (c - 1)) AND mask)) key_i AND 0xFFFFFFFF)
      in to_bytes_little 4 key_i_rot)"

text \<open>The key schedule of \<open>decode\<close>: \<open>range(31, 31 - key_amount, -1)\<close>, concatenated.\<close>

definition key_amount :: "nat \<Rightarrow> nat" where
  "key_amount message_len = min ((message_len + (KEY_SIZE - 1)) div KEY_SIZE) 32"

definition full_key :: "bytes \<Rightarrow> nat \<Rightarrow> bytes result" where
  "full_key key amount =
     bindE (mapE (\<lambda>i. rotate_key key (31 - i)) [0..<amount]) (\<lambda>ks. Inr (concat ks))"

definition decode :: "bytes \<Rightarrow> bytes result" where
  "decode data =
     (let key = take KEY_SIZE data;
          message = drop KEY_SIZE data;
          message_len = length message
      in bindE (full_key key (key_amount message_len)) (\<lambda>fk.
           mapE (\<lambda>idx. bindE (nth_or IndexError fk (idx mod length fk))
                   (\<lambda>k. Inr (message ! idx XOR k)))
             [0..<message_len]))"

text \<open>The loop of \<open>encode\<close> at index \<open>idx\<close> with the current key.\<close>

fun encode_loop :: "nat \<Rightarrow> bytes \<Rightarrow> bytes \<Rightarrow> bytes result" where
  "encode_loop idx key [] = Inr []"
| "encode_loop idx key (byt # rest) =
     bindE (if idx mod KEY_SIZE = 0 then rotate_key key 31 else Inr key) (\<lambda>key'.
     bindE (nth_or IndexError key' (idx mod KEY_SIZE)) (\<lambda>k.
     bindE (encode_loop (Suc idx) key' rest) (\<lambda>out. Inr ((k XOR byt) # out))))"

definition encode :: "bytes \<Rightarrow> bytes \<Rightarrow> bytes option \<Rightarrow> bytes result" where
  \<comment> \<open>\<open>token\<close> is what \<open>secrets.token_bytes(KEY_SIZE)\<close> returns in this call\<close>
  "encode token data key =
     (let orig_key = (case key of None \<Rightarrow> token | Some k \<Rightarrow> k)
      in bindE (encode_loop 0 orig_key data) (\<lambda>enc. Inr (orig_key @ enc)))"

subsection \<open>Rotation is the 32-bit rotation\<close>

definition word_of_key :: "bytes \<Rightarrow> 32 word" where
  "word_of_key key = of_nat (le_nat key)"

definition key_of_word :: "32 word \<Rightarrow> bytes" where
  "key_of_word w = le_bytes 4 (unat w)"

lemma length_key_of_word [simp]: "length (key_of_word w) = 4"
  by (simp add: key_of_word_def)

lemma word_of_key_of_word [simp]: "word_of_key (key_of_word w) = w"
proof -
  have "unat w < 256 ^ 4" using unsigned_less [of w] by simp
  then show ?thesis by (simp add: word_of_key_def key_of_word_def)
qed

lemma key_of_word_of_key: "length key = 4 \<Longrightarrow> key_of_word (word_of_key key) = key"
proof -
  assume l: "length key = 4"
  have "le_nat key < 2 ^ 32" using le_nat_less [of key] l by simp
  then have "unat (word_of_key key) = le_nat key"
    by (simp add: word_of_key_def unat_of_nat)
  then show ?thesis using l by (simp add: key_of_word_def le_bytes_le_nat')
qed

lemma word_of_key_bit: "length key = 4 \<Longrightarrow> bit (word_of_key key) i \<longleftrightarrow> bit (le_nat key) i"
proof -
  assume "length key = 4"
  then have "le_nat key < 2 ^ 32" using le_nat_less [of key] by simp
  then have t: "take_bit 32 (le_nat key) = le_nat key"
    by (simp add: take_bit_nat_eq_self_iff)
  have "bit (word_of_key key) i \<longleftrightarrow> bit (take_bit 32 (le_nat key)) i"
    unfolding word_of_key_def by (simp add: bit_of_nat_iff bit_take_bit_iff)
  then show ?thesis by (simp add: t)
qed

lemma mask_0xFFFFFFFF: "(0xFFFFFFFF :: nat) = mask 32"
  by (simp add: mask_eq_exp_minus_1)

lemma bit_le_nat_32: "length key = 4 \<Longrightarrow> bit (le_nat key) i \<Longrightarrow> i < 32"
  using word_of_key_bit [of key i] bit_imp_le_length [of "word_of_key key" i] by auto

lemma rotated_bits:
  assumes "length key = 4" "r \<le> 32"
  shows "drop_bit r (le_nat key) OR (push_bit (32 - r) (le_nat key) AND 0xFFFFFFFF)
       = unat (word_rotr r (word_of_key key))"
proof (rule bit_eqI)
  fix n
  have w: "bit (unat (word_rotr r (word_of_key key))) n
        \<longleftrightarrow> n < 32 \<and> bit (le_nat key) ((n + r) mod 32)"
    using assms(1) by (simp add: bit_unsigned_iff bit_word_rotr_iff word_of_key_bit)
  have *: "bit (le_nat key) m \<Longrightarrow> m < 32" for m
    using assms(1) bit_le_nat_32 by blast
  show "bit (drop_bit r (le_nat key) OR (push_bit (32 - r) (le_nat key) AND 0xFFFFFFFF)) n
     = bit (unat (word_rotr r (word_of_key key))) n"
  proof (cases "n < 32")
    case False
    then show ?thesis
      unfolding w mask_0xFFFFFFFF using * [of "r + n"]
      by (auto simp: bit_or_iff bit_and_iff bit_drop_bit_eq bit_mask_iff)
  next
    case True
    show ?thesis
    proof (cases "n + r < 32")
      case True
      then show ?thesis
        unfolding w mask_0xFFFFFFFF using \<open>n < 32\<close>
        by (auto simp: bit_or_iff bit_and_iff bit_drop_bit_eq bit_push_bit_iff bit_mask_iff add.commute)
    next
      case False
      then have "(n + r) mod 32 = n + r - 32" using \<open>n < 32\<close> assms(2)
        by (simp add: mod_if)
      moreover have "n - (32 - r) = n + r - 32" using False assms(2) by simp
      ultimately show ?thesis
        unfolding w mask_0xFFFFFFFF using \<open>n < 32\<close> False assms(2) * [of "r + n"]
        by (auto simp: bit_or_iff bit_and_iff bit_drop_bit_eq bit_push_bit_iff bit_mask_iff)
    qed
  qed
qed

lemma rotate_key_word:
  assumes "length key = 4" "r \<le> 32"
  shows "rotate_key key r = Inr (key_of_word (word_rotr r (word_of_key key)))"
proof -
  have "unat (word_rotr r (word_of_key key)) < 256 ^ 4"
    using unsigned_less [of "word_rotr r (word_of_key key)"] by simp
  then show ?thesis using assms
    by (simp add: rotate_key_def int_from_bytes_little_def Let_def rotated_bits
        to_bytes_little_def key_of_word_def)
qed

lemma full_key_word:
  assumes "length key = 4"
  shows "full_key key amount
       = Inr (concat (map (\<lambda>i. key_of_word (word_rotr (31 - i) (word_of_key key))) [0..<amount]))"
proof -
  have "mapE (\<lambda>i. rotate_key key (31 - i)) [0..<amount]
      = Inr (map (\<lambda>i. key_of_word (word_rotr (31 - i) (word_of_key key))) [0..<amount])"
    by (rule mapE_Inr) (simp add: rotate_key_word assms)
  then show ?thesis by (simp add: full_key_def)
qed
lemma length_concat_4:
  "(\<And>i. length (f i) = 4) \<Longrightarrow> length (concat (map f [0..<a])) = 4 * a"
  by (induction a) auto

lemma nth_concat_4:
  assumes "\<And>i. length (f i) = 4" "m < 4 * a"
  shows "concat (map f [0..<a]) ! m = f (m div 4) ! (m mod 4)"
  using assms(2)
proof (induction a)
  case (Suc a)
  have l: "length (concat (map f [0..<a])) = 4 * a"
    by (rule length_concat_4) (rule assms(1))
  show ?case
  proof (cases "m < 4 * a")
    case True
    then show ?thesis using Suc.IH by (simp add: nth_append l)
  next
    case False
    with Suc.prems have d: "m div 4 = a" by (intro div_nat_eqI) auto
    then have "m - 4 * a = m mod 4" using minus_mult_div_eq_mod [of m 4] by simp
    with False d show ?thesis by (simp add: nth_append l)
  qed
qed simp

definition stream_key :: "bytes \<Rightarrow> nat \<Rightarrow> bytes" where
  \<comment> \<open>the key that masks byte \<open>idx\<close>\<close>
  "stream_key key idx = key_of_word (word_rotr (31 * (idx div 4 + 1)) (word_of_key key))"

lemma length_stream_key [simp]: "length (stream_key key idx) = 4"
  by (simp add: stream_key_def)

definition masked :: "bytes \<Rightarrow> bytes \<Rightarrow> bytes" where
  "masked key data = map (\<lambda>i. data ! i XOR stream_key key i ! (i mod 4)) [0..<length data]"

lemma length_masked [simp]: "length (masked key data) = length data"
  by (simp add: masked_def)

lemma ceil_div_4:
  "(idx + 3) div 4 = (if idx mod 4 = 0 then idx div 4 else idx div 4 + (1::nat))"
proof -
  define q r where "q = idx div 4" and "r = idx mod 4"
  have i: "idx + 3 = (r + 3) + 4 * q" using mult_div_mod_eq [of 4 idx] by (simp add: q_def r_def)
  have r: "r \<in> {0, 1, 2, 3}" using mod_less_divisor [of 4 idx] by (auto simp: r_def)
  have "(idx + 3) div 4 = q + (r + 3) div 4" unfolding i by simp
  then show ?thesis using r unfolding q_def [symmetric] r_def [symmetric] by auto
qed

lemma encode_loop_eq:
  assumes "length key = 4"
    and "cur = key_of_word (word_rotr (31 * ((idx + 3) div 4)) (word_of_key key))"
  shows "encode_loop idx cur data
       = Inr (map (\<lambda>i. stream_key key (idx + i) ! ((idx + i) mod 4) XOR data ! i) [0..<length data])"
  using assms(2)
proof (induction data arbitrary: idx cur)
  case (Cons byt rest)
  let ?cur = "stream_key key idx"
  have step: "(if idx mod KEY_SIZE = 0 then rotate_key cur 31 else Inr cur) = Inr ?cur"
  proof (cases "idx mod 4 = 0")
    case True
    then have "(idx + 3) div 4 = idx div 4" by (simp add: ceil_div_4)
    with True Cons.prems show ?thesis
      by (simp add: KEY_SIZE_def rotate_key_word stream_key_def word_rotr_word_rotr_eq add.commute)
  next
    case False
    then have "(idx + 3) div 4 = idx div 4 + 1" by (simp add: ceil_div_4)
    with False Cons.prems show ?thesis by (simp add: KEY_SIZE_def stream_key_def)
  qed
  have next_eq: "?cur = key_of_word (word_rotr (31 * ((Suc idx + 3) div 4)) (word_of_key key))"
  proof -
    have "(Suc idx + 3) div 4 = idx div 4 + 1" using div_add_self2 [of 4 idx] by simp
    then show ?thesis by (simp add: stream_key_def)
  qed
  show ?case
    using Cons.IH [OF next_eq] step
    by (simp add: KEY_SIZE_def nth_or_def upt_conv_Cons map_Suc_upt [symmetric] comp_def
        del: upt_Suc map_Suc_upt)
qed simp

lemma word_rotr_zero: "word_rotr 0 (w :: 32 word) = w"
  by (rule bit_word_eqI) (simp add: bit_word_rotr_iff)

lemma encode_eq:
  assumes "length key = 4"
  shows "encode token data (Some key) = Inr (key @ masked key data)"
proof -
  have "key = key_of_word (word_rotr (31 * ((0 + 3) div 4)) (word_of_key key))"
    by (simp add: key_of_word_of_key assms word_rotr_zero)
  from encode_loop_eq [OF assms this, of data] show ?thesis
    by (simp add: encode_def masked_def xor.commute)
qed

lemma schedule_mod:
  "word_rotr (31 - (i mod 32)) (w :: 32 word) = word_rotr (31 * (i + 1)) w"
proof -
  have "(n + (31 - i mod 32)) mod 32 = (n + 31 * (i + 1)) mod 32" for n :: nat
  proof -
    obtain q r where i: "i = 32 * q + r" "r < 32"
      using mult_div_mod_eq [of 32 i] by (metis mod_less_divisor zero_less_numeral)
    then have r: "i mod 32 = r" by simp
    from i have "n + 31 * (i + 1) = (n + (31 - r)) + (31 * q + r) * 32" by simp
    then show ?thesis unfolding r by (metis mod_mult_self1)
  qed
  then show ?thesis
    by (intro bit_word_eqI) (simp add: bit_word_rotr_iff)
qed

lemma decode_stream:
  assumes "length key = 4" "idx < n"
  defines "f \<equiv> \<lambda>i. key_of_word (word_rotr (31 - i) (word_of_key key))"
  defines "fk \<equiv> concat (map f [0..<key_amount n])"
  shows "idx mod length fk < length fk \<and> fk ! (idx mod length fk) = stream_key key idx ! (idx mod 4)"
proof -
  have l: "length fk = 4 * key_amount n"
    unfolding fk_def by (rule length_concat_4) (simp add: f_def)
  have pos: "0 < key_amount n" using assms(2) by (simp add: key_amount_def KEY_SIZE_def)
  then have lt: "idx mod length fk < 4 * key_amount n" by (simp add: l)
  have chunk: "idx mod length fk div 4 = (idx div 4) mod 32"
  proof (cases "key_amount n = 32")
    case True
    then have "idx mod length fk = idx mod 128" by (simp add: l)
    moreover have "idx mod 128 div 4 = idx div 4 mod 32" using mod_mult2_eq [of idx 4 32] by simp
    ultimately show ?thesis by simp
  next
    case False
    then have k: "key_amount n = (n + 3) div 4" "(n + 3) div 4 < 32"
      by (auto simp: key_amount_def KEY_SIZE_def)
    then have "idx < 4 * key_amount n"
      using assms(2) ceil_div_4 [of n] mult_div_mod_eq [of 4 n] mod_less_divisor [of 4 n]
      by (simp split: if_splits)
    then have "idx mod length fk = idx" by (simp add: l)
    moreover have "idx div 4 < 32"
      using k \<open>idx < 4 * key_amount n\<close> by (intro less_mult_imp_div_less) linarith
    ultimately show ?thesis by simp
  qed
  have mod4: "idx mod length fk mod 4 = idx mod 4"
    unfolding l by (rule mod_mod_cancel) simp
  have "fk ! (idx mod length fk) = f ((idx div 4) mod 32) ! (idx mod 4)"
    unfolding fk_def using nth_concat_4 [of f "idx mod length fk" "key_amount n"] lt chunk mod4
    by (simp add: f_def fk_def)
  then show ?thesis using lt l by (simp add: f_def schedule_mod stream_key_def)
qed

lemma decode_eq:
  assumes "length key = 4"
  shows "decode (key @ data) = Inr (masked key data)"
proof -
  let ?fk = "concat (map (\<lambda>i. key_of_word (word_rotr (31 - i) (word_of_key key))) [0..<key_amount (length data)])"
  have "mapE (\<lambda>idx. bindE (nth_or IndexError ?fk (idx mod length ?fk)) (\<lambda>k. Inr (data ! idx XOR k)))
          [0..<length data] = Inr (masked key data)"
    unfolding masked_def
    by (rule mapE_Inr) (use decode_stream [OF assms] in \<open>simp add: nth_or_def\<close>)
  then show ?thesis
    using assms by (simp add: decode_def KEY_SIZE_def full_key_word Let_def)
qed

lemma masked_masked: "masked key (masked key data) = data"
  by (rule nth_equalityI) (simp_all add: masked_def xor.assoc)

lemma take_masked: "take n (masked key data) = masked key (take n data)"
  by (rule nth_equalityI) (simp_all add: masked_def)

lemma decode_encode:
  "length key = 4 \<Longrightarrow> bindE (encode token data (Some key)) decode = Inr data"
  by (simp add: encode_eq decode_eq masked_masked)

lemma and_31: "x AND 31 = x mod (32 :: int)"
  using take_bit_eq_mask [of 5 x] take_bit_eq_mod [of 5 x] by (simp add: mask_eq_exp_minus_1)

lemma rotate_key_orig_eq:
  assumes "length key = 4" "c < 32"
  shows "rotate_key_orig key c = rotate_key key c"
proof (cases "c = 0")
  case True
  have "le_nat key < 2 ^ 32" using le_nat_less [of key] assms(1) by simp
  then have m: "le_nat key AND 0xFFFFFFFF = le_nat key"
    unfolding mask_0xFFFFFFFF take_bit_eq_mask [symmetric] by (simp add: take_bit_nat_eq_self_iff)
  have "push_bit 32 (le_nat key) AND 0xFFFFFFFF = 0"
    unfolding mask_0xFFFFFFFF take_bit_eq_mask [symmetric] by (simp add: take_bit_push_bit)
  with True m assms(1) show ?thesis
    by (simp add: rotate_key_orig_def rotate_key_def int_from_bytes_little_def Let_def and_31)
next
  case False
  have c: "int c AND 31 = int c" using assms(2) by (simp add: and_31)
  have "(0xFFFFFFFF - (int c - 1)) mod 32 = 32 - int c"
    using False assms(2) by (intro int_mod_pos_eq [where q = 134217727]) auto
  then have n: "nat ((0xFFFFFFFF - (int c - 1)) AND 31) = 32 - c"
    by (simp add: and_31 nat_diff_distrib)
  show ?thesis
    using assms c n by (simp add: rotate_key_orig_def rotate_key_def int_from_bytes_little_def Let_def)
qed
end
