(* ===== verification/Protocol_Properties.thy ===== *)
theory Protocol_Properties
  imports Messages Obfuscation
begin

text \<open>
The properties of the protocol layer (\<open>src/aioslsk/protocol/\<close>): obfuscation, text,
  primitives, dataclasses and the dispatch of messages.
\<close>

subsection \<open>Obfuscation\<close>

text \<open>De-obfuscating what was obfuscated gives the message back, whether the key was given or
  drawn at random.\<close>

theorem obfuscation_round_trip:
  assumes "length key = KEY_SIZE"
  shows "bindE (encode token data (Some key)) decode = Inr data
    \<and> bindE (encode key data None) decode = Inr data"
  using assms decode_encode [of key] by (simp add: KEY_SIZE_def encode_def)

lemma obfuscation_round_trip_witness:
  "bindE (encode [0, 0, 0, 0] [1, 2, 3, 4, 5] (Some [9, 8, 7, 6])) decode = Inr [1, 2, 3, 4, 5]
    \<and> bindE (encode [9, 8, 7, 6] [1, 2, 3, 4, 5] None) decode = Inr [1, 2, 3, 4, 5]"
  by (rule obfuscation_round_trip) (simp add: KEY_SIZE_def)

text \<open>The simplified \<open>rotate_key\<close> computes what the original \<open>_rotate_key_orig\<close> computed, for
  every rotation the code asks for, and is the rotation of a 32-bit word to the right.\<close>

theorem rotate_key_equals_original:
  assumes "length key = 4" "c < 32"
  shows "rotate_key key c = rotate_key_orig key c
    \<and> rotate_key key c = Inr (key_of_word (word_rotr c (word_of_key key)))"
  using rotate_key_orig_eq [OF assms] rotate_key_word [OF assms(1), of c] assms(2) by simp

lemma rotate_key_equals_original_witness:
  "rotate_key [1, 2, 3, 4] 31 = rotate_key_orig [1, 2, 3, 4] 31"
  using rotate_key_equals_original [of "[1, 2, 3, 4]" 31] by simp

subsection \<open>Text\<close>

text \<open>\<open>decode_string\<close> inverts the UTF-8 encoding \<open>string.serialize\<close> uses, and on foreign bytes
  it fails exactly when they are not UTF-8 and contain one of the five bytes that
  \<open>cp1252\<close> leaves undefined.\<close>

theorem decode_string_correct:
  "(\<forall>str \<in> {str. list_all valid_cp str}. bindE (utf8_encode str) decode_string = Inr str)
   \<and> ((\<exists>e. decode_string bs = Inl e) \<longleftrightarrow>
        utf8_decode bs = None \<and> (\<exists>b \<in> set bs. unat b \<in> {0x81, 0x8D, 0x8F, 0x90, 0x9D}))"
  using decode_string_encode decode_string_fails_iff by (auto simp: utf8_encode_def)

lemma decode_string_correct_witness:
  "bindE (utf8_encode [0x20AC]) decode_string = Inr [0x20AC]"
  using conjunct1 [OF decode_string_correct] by (simp add: valid_cp_def)

subsection \<open>Primitives and schemas\<close>

text \<open>A string that is cut short is refused, while a byte array that is cut short is accepted:
  the value is shorter than announced and the position lies behind the end of the data.\<close>

theorem truncated_string_and_bytearr:
  assumes "uint32_deserialize pos data = Inr (p, len)" and "length data < p + nat len"
  shows "string_deserialize pos data = Inl LengthMismatch
    \<and> (\<exists>value. bytearr_deserialize pos data = Inr (p + nat len, value) \<and> length value < nat len
        \<and> length data < p + nat len)"
proof -
  have p: "p = pos + 4" "pos + 4 \<le> length data"
    using assms(1) by (auto simp: uint32_deserialize_def struct_unpack_from_def split: if_splits)
  then have "length (slice data p (p + nat len)) < nat len"
    using assms(2) by (simp add: slice_def)
  then show ?thesis
    using assms by (simp add: string_deserialize_def bytearr_deserialize_def Let_def)
qed

lemma truncated_string_and_bytearr_witness:
  "string_deserialize 0 [5, 0, 0, 0, 65] = Inl LengthMismatch
   \<and> (\<exists>value. bytearr_deserialize 0 [5, 0, 0, 0, 65] = Inr (9, value) \<and> length value < 5)"
proof -
  have u: "uint32_deserialize 0 [5, 0, 0, 0, 65] = Inr (4, 5)"
    by (simp add: uint32_deserialize_def struct_unpack_from_def slice_def)
  from truncated_string_and_bytearr [OF u] show ?thesis by auto
qed

text \<open>C17: The round trip of every dataclass with a well-formed schema, including conditional and
  optional fields: an object that conforms to the schema is serialized, and the bytes are
  parsed back to the same object, wherever the message starts in the buffer.\<close>

theorem dataclass_round_trip:
  assumes "wf_schema fs" and "conforming fs attrs attrs"
  shows "\<exists>bs fm. serialize_fields fs attrs = Inr bs
    \<and> deserialize_fields fs [] (length pre) (pre @ bs) = Inr (length (pre @ bs), fm)
    \<and> construct fs fm = Inr attrs"
  by (rule schema_round_trip [OF assms])

lemma dataclass_round_trip_witness:
  "\<exists>bs fm. serialize_fields (msg_fields PeerTransferReply_Request)
      [(''ticket'', PInt 7), (''allowed'', PBool False), (''filesize'', PNone), (''reason'', PStr [0x51])] = Inr bs
    \<and> deserialize_fields (msg_fields PeerTransferReply_Request) [] (length ([] :: bytes)) ([] @ bs) = Inr (length ([] @ bs), fm)
    \<and> construct (msg_fields PeerTransferReply_Request) fm
      = Inr [(''ticket'', PInt 7), (''allowed'', PBool False), (''filesize'', PNone), (''reason'', PStr [0x51])]"
  by (rule dataclass_round_trip)
    (simp_all add: PeerTransferReply_Request_def schema_simps active_def fits_def text_ok_def valid_cp_def utf8_cp_def)

text \<open>C18: The hand-written fast paths of \<open>FileData\<close> and \<open>DirectoryData\<close> are the generic codecs:
  they read the same from every buffer, with the same errors, and write the same for every
  well-typed value.\<close>

theorem hot_paths_are_generic:
  "FileData_deserialize = deserialize_value FileData
   \<and> DirectoryData_deserialize = deserialize_value DirectoryData
   \<and> (\<forall>v \<in> {v. has_type FileData v}. FileData_serialize v = serialize_value FileData v)
   \<and> (\<forall>v \<in> {v. has_type DirectoryData v}. DirectoryData_serialize v = serialize_value DirectoryData v)"
  using FileData_deserialize_eq DirectoryData_deserialize_eq FileData_serialize_eq DirectoryData_serialize_eq
  by simp

lemma hot_paths_are_generic_witness:
  "FileData_serialize (PObj ''FileData'' [(''unknown'', PInt 1), (''filename'', PStr [0x61]),
      (''filesize'', PInt 3), (''extension'', PStr []), (''attributes'', PList [])])
   = serialize_value FileData (PObj ''FileData'' [(''unknown'', PInt 1), (''filename'', PStr [0x61]),
      (''filesize'', PInt 3), (''extension'', PStr []), (''attributes'', PList [])])"
  using hot_paths_are_generic
  by (simp add: FileData_def active_def fits_def text_ok_def valid_cp_def utf8_cp_def)

text \<open>\<open>get_attribute_map\<close> is a dictionary (no key twice) that holds, for each known attribute
  key, the value of its last occurrence in the list, and nothing for unknown keys.\<close>

theorem attribute_map_correct:
  "distinct (map fst (get_attribute_map attributes))
   \<and> map_of (get_attribute_map attributes) k
       = map_option snd (find (\<lambda>(key, _). AttributeKey key = Some k) (rev attributes))"
  using get_attribute_map_distinct get_attribute_map_lookup by blast

subsection \<open>Dispatch\<close>

text \<open>The message ids of each of the five families are unique and fit their width, and all 158
  message schemas of the protocol are well-formed, so every dispatcher picks the class the
  sender meant.\<close>

theorem catalogues_ok:
  "family_ok Uint32_Id server_requests \<and> family_ok Uint32_Id server_responses
   \<and> family_ok Uint8_Id peer_init_messages \<and> family_ok Uint32_Id peer_messages
   \<and> family_ok Uint8_Id distributed_messages
   \<and> length server_requests + length server_responses + length peer_init_messages
     + length peer_messages + length distributed_messages = 158"
  using server_requests_ok server_responses_ok peer_init_ok peer_ok distributed_ok
  by (simp add: server_requests_def server_responses_def peer_init_messages_def peer_messages_def
      distributed_messages_def)

text \<open>A dispatcher never hands a message to the wrong class: when it parses a message, the
  class belongs to the family and its id is the one on the wire; an id that no class of the
  family has is refused as unknown, with that id.\<close>

theorem dispatch_by_id:
  assumes "id_deserialize width 4 message = Inr (p, msg_id)"
  shows "(\<forall>c attrs. deserialize_family width family decompress message = Inr (c, attrs) \<longrightarrow>
            c \<in> set family \<and> int (MESSAGE_ID c) = msg_id
            \<and> message_deserialize decompress c 0 message = Inr attrs)
       \<and> (msg_id \<notin> int ` MESSAGE_ID ` set family \<longrightarrow>
            deserialize_family width family decompress message = Inl (UnknownMessage (nat msg_id)))"
  using assms
  by (auto simp: deserialize_family_def bindE_eq_Inr_iff find_Some_iff find_None_iff split: option.splits)

lemma dispatch_by_id_witness:
  "deserialize_family Uint8_Id peer_init_messages Inr [1, 0, 0, 0, 2] = Inl (UnknownMessage 2)"
proof -
  have "id_deserialize Uint8_Id 4 [1, 0, 0, 0, 2] = Inr (5, 2)"
    by (simp add: uint8_deserialize_def struct_unpack_from_def slice_def)
  from dispatch_by_id [OF this, of peer_init_messages Inr] show ?thesis
    by (simp add: peer_init_messages_def peer_init_defs)
qed

end
