(* ===== verification/Rate_Limiter.thy ===== *)
theory Rate_Limiter
  imports Complex_Main Prelude
begin

text \<open>
\<open>src/aioslsk/network/rate_limiter.py\<close>: the token bucket that paces file transfers.
  Clock readings are rational numbers of seconds and an argument of the operations: one
  reading per call of \<open>time.monotonic()\<close>. The chunk sizes of the code are
  \<open>int(limit_bps * 0.01)\<close> and \<open>int(limit_bps * 0.1)\<close>; for a limit the settings can
  hold these are the integer quotients by 100 and 10 (the two doubles are slightly above
  the fractions and the limit is a multiple of 1024 far below \<open>2 ^ 52\<close>). The fair lock of
  \<open>take_tokens\<close> is not modelled: one caller holds the limiter at a time.
\<close>

subsection \<open>State and operations\<close>

definition INTERVAL :: rat where
  "INTERVAL = 1 / 100"

record rate_limiter =
  limit_bps :: nat
  bucket :: nat
  last_refill :: rat

datatype limiter = UnlimitedRateLimiter rate_limiter | LimitedRateLimiter rate_limiter

fun base :: "limiter \<Rightarrow> rate_limiter" where
  "base (UnlimitedRateLimiter l) = l"
| "base (LimitedRateLimiter l) = l"

definition CHUNK_SIZE :: nat where
  "CHUNK_SIZE = 256 * 1024"

definition MIN_CHUNK_SIZE :: nat where
  "MIN_CHUNK_SIZE = 128"

definition MAX_CHUNK_SIZE :: nat where
  "MAX_CHUNK_SIZE = 64 * 1024"

definition clamp_chunk_size :: "nat \<Rightarrow> nat" where
  "clamp_chunk_size n = max MIN_CHUNK_SIZE (min MAX_CHUNK_SIZE n)"

definition min_chunk_size :: "rate_limiter \<Rightarrow> nat" where
  "min_chunk_size l = clamp_chunk_size (limit_bps l div 100)"

definition max_chunk_size :: "rate_limiter \<Rightarrow> nat" where
  "max_chunk_size l = clamp_chunk_size (limit_bps l div 10)"

definition create_limiter :: "nat \<Rightarrow> limiter" where
  "create_limiter limit_kbps =
     (if limit_kbps = 0
      then UnlimitedRateLimiter \<lparr>limit_bps = 0, bucket = 0, last_refill = 0\<rparr>
      else LimitedRateLimiter \<lparr>limit_bps = limit_kbps * 1024, bucket = 0, last_refill = 0\<rparr>)"

fun is_empty :: "limiter \<Rightarrow> bool" where
  "is_empty (UnlimitedRateLimiter l) = False"
| "is_empty (LimitedRateLimiter l) = (bucket l < MIN_CHUNK_SIZE)"

fun add_tokens :: "limiter \<Rightarrow> nat \<Rightarrow> limiter" where
  "add_tokens (UnlimitedRateLimiter l) n = UnlimitedRateLimiter l"
| "add_tokens (LimitedRateLimiter l) n =
     LimitedRateLimiter (l\<lparr>bucket := if bucket l + n > limit_bps l then limit_bps l else bucket l + n\<rparr>)"

fun copy_tokens :: "limiter \<Rightarrow> limiter \<Rightarrow> limiter" where
  "copy_tokens (UnlimitedRateLimiter l) other = UnlimitedRateLimiter l"
| "copy_tokens (LimitedRateLimiter l) other =
     (case add_tokens (LimitedRateLimiter l) (bucket (base other)) of
        LimitedRateLimiter l' \<Rightarrow> LimitedRateLimiter (l'\<lparr>last_refill := last_refill (base other)\<rparr>)
      | l' \<Rightarrow> l')"

fun refill :: "limiter \<Rightarrow> rat \<Rightarrow> limiter \<times> bool" where
  \<comment> \<open>the second argument is the reading of \<open>time.monotonic()\<close>\<close>
  "refill (UnlimitedRateLimiter l) current_time = (UnlimitedRateLimiter l, False)"
| "refill (LimitedRateLimiter l) current_time =
     (if limit_bps l = bucket l then (LimitedRateLimiter l, False)
      else
        let l1 = (if bucket l < limit_bps l
                  then base (add_tokens (LimitedRateLimiter l)
                    (nat \<lfloor>of_nat (limit_bps l - bucket l) * (current_time - last_refill l)\<rfloor>))
                  else l);
            l2 = LimitedRateLimiter (l1\<lparr>last_refill := current_time\<rparr>)
        in (l2, is_empty l2))"

fun take_tokens :: "limiter \<Rightarrow> rat list \<Rightarrow> (nat \<times> limiter \<times> rat list) option" where
  \<comment> \<open>one clock reading per turn of the loop; \<open>None\<close> when it still waits after the last one\<close>
  "take_tokens (UnlimitedRateLimiter l) clock = Some (CHUNK_SIZE, UnlimitedRateLimiter l, clock)"
| "take_tokens (LimitedRateLimiter l) [] = None"
| "take_tokens (LimitedRateLimiter l) (now # clock) =
     (case refill (LimitedRateLimiter l) now of (l', _) \<Rightarrow>
        let b = base l' in
        if bucket b \<ge> min_chunk_size b then
          let amount = min (bucket b) (max_chunk_size b)
          in Some (amount, LimitedRateLimiter (b\<lparr>bucket := bucket b - amount\<rparr>), clock)
        else take_tokens (LimitedRateLimiter b) clock)"

subsection \<open>The bucket\<close>

fun limiter_inv :: "limiter \<Rightarrow> bool" where
  "limiter_inv (UnlimitedRateLimiter l) = True"
| "limiter_inv (LimitedRateLimiter l) = (bucket l \<le> limit_bps l \<and> 1024 \<le> limit_bps l)"

lemma chunk_sizes:
  "MIN_CHUNK_SIZE \<le> min_chunk_size l" "min_chunk_size l \<le> max_chunk_size l"
  "max_chunk_size l \<le> MAX_CHUNK_SIZE"
  by (auto simp: min_chunk_size_def max_chunk_size_def clamp_chunk_size_def MIN_CHUNK_SIZE_def MAX_CHUNK_SIZE_def)

lemma limiter_inv_create: "limiter_inv (create_limiter n)"
  by (simp add: create_limiter_def)

lemma limiter_inv_add: "limiter_inv l \<Longrightarrow> limiter_inv (add_tokens l n)"
  by (cases l) auto

lemma limiter_inv_copy: "limiter_inv l \<Longrightarrow> limiter_inv (copy_tokens l other)"
  by (cases l) auto

lemma refill_Limited:
  assumes "bucket l \<le> limit_bps l"
  obtains l' e where "refill (LimitedRateLimiter l) now = (LimitedRateLimiter l', e)"
    "limit_bps l' = limit_bps l" "bucket l \<le> bucket l'" "bucket l' \<le> limit_bps l"
    "last_refill l' = now \<and>
       bucket l' = min (limit_bps l) (bucket l + nat \<lfloor>of_nat (limit_bps l - bucket l) * (now - last_refill l)\<rfloor>)
     \<or> l' = l \<and> bucket l = limit_bps l"
proof (cases "limit_bps l = bucket l")
  case True
  then show thesis using that [of l False] by simp
next
  case False
  let ?b = "min (limit_bps l) (bucket l + nat \<lfloor>of_nat (limit_bps l - bucket l) * (now - last_refill l)\<rfloor>)"
  let ?l = "l\<lparr>bucket := ?b, last_refill := now\<rparr>"
  show thesis
  proof (rule that [of ?l "is_empty (LimitedRateLimiter ?l)"])
    show "refill (LimitedRateLimiter l) now = (LimitedRateLimiter ?l, is_empty (LimitedRateLimiter ?l))"
      using False assms by (simp add: Let_def min_def)
  qed (use assms in auto)
qed

lemma limiter_inv_refill: "limiter_inv l \<Longrightarrow> limiter_inv (fst (refill l now))"
proof (cases l)
  case (LimitedRateLimiter b)
  assume "limiter_inv l"
  with LimitedRateLimiter have "bucket b \<le> limit_bps b" "1024 \<le> limit_bps b" by auto
  then show ?thesis unfolding LimitedRateLimiter
    by (elim refill_Limited [of b now]) (simp del: refill.simps)
qed simp

lemma take_Limited_step:
  assumes "bucket l \<le> limit_bps l"
    and "take_tokens (LimitedRateLimiter l) (now # clock) = Some (amount, l'', rest)"
  obtains l' e where "refill (LimitedRateLimiter l) now = (LimitedRateLimiter l', e)"
    "limit_bps l' = limit_bps l" "bucket l \<le> bucket l'" "bucket l' \<le> limit_bps l"
    "bucket l' < min_chunk_size l' \<and> take_tokens (LimitedRateLimiter l') clock = Some (amount, l'', rest)
     \<or> min_chunk_size l' \<le> bucket l' \<and> amount = min (bucket l') (max_chunk_size l') \<and> rest = clock
       \<and> l'' = LimitedRateLimiter (l'\<lparr>bucket := bucket l' - amount\<rparr>)"
proof -
  obtain l' e where r: "refill (LimitedRateLimiter l) now = (LimitedRateLimiter l', e)"
    "limit_bps l' = limit_bps l" "bucket l \<le> bucket l'" "bucket l' \<le> limit_bps l"
    by (rule refill_Limited [OF assms(1), of now])
  show thesis
    using assms(2) by (intro that [OF r]) (auto simp: r(1) Let_def simp del: refill.simps split: if_splits)
qed

lemma take_Limited_amount:
  assumes "take_tokens (LimitedRateLimiter l) clock = Some (amount, l'', rest)"
    and "bucket l \<le> limit_bps l"
  shows "\<exists>b. l'' = LimitedRateLimiter b \<and> limit_bps b = limit_bps l \<and> bucket b + amount \<le> limit_bps l
    \<and> min_chunk_size l \<le> amount \<and> amount \<le> max_chunk_size l"
  using assms
proof (induction clock arbitrary: l)
  case (Cons now clock)
  obtain l' e where r: "limit_bps l' = limit_bps l" "bucket l' \<le> limit_bps l"
    "bucket l' < min_chunk_size l' \<and> take_tokens (LimitedRateLimiter l') clock = Some (amount, l'', rest)
     \<or> min_chunk_size l' \<le> bucket l' \<and> amount = min (bucket l') (max_chunk_size l') \<and> rest = clock
       \<and> l'' = LimitedRateLimiter (l'\<lparr>bucket := bucket l' - amount\<rparr>)"
    by (rule take_Limited_step [OF Cons.prems(2,1)])
  have sizes: "min_chunk_size l' = min_chunk_size l" "max_chunk_size l' = max_chunk_size l"
    using r(1) by (simp_all add: min_chunk_size_def max_chunk_size_def)
  from r(3) show ?case
  proof (elim disjE conjE)
    assume "take_tokens (LimitedRateLimiter l') clock = Some (amount, l'', rest)"
    then show ?thesis using Cons.IH [of l'] r(1,2) sizes by simp
  next
    assume "min_chunk_size l' \<le> bucket l'" "amount = min (bucket l') (max_chunk_size l')"
      "l'' = LimitedRateLimiter (l'\<lparr>bucket := bucket l' - amount\<rparr>)"
    then show ?thesis using r(1,2) sizes chunk_sizes(2) [of l] by auto
  qed
qed simp

subsection \<open>Rate: the tokens granted are covered by the time that passed\<close>

definition potential :: "rate_limiter \<Rightarrow> rat \<Rightarrow> rat" where
  "potential l t = of_nat (bucket l) + of_nat (limit_bps l) * (t - last_refill l)"

lemma refill_potential:
  assumes "bucket l \<le> limit_bps l" "last_refill l \<le> now" "now \<le> t"
    and "refill (LimitedRateLimiter l) now = (LimitedRateLimiter l', e)"
  shows "potential l' t \<le> potential l t \<and> last_refill l' \<le> now"
proof -
  let ?gain = "of_nat (limit_bps l - bucket l) * (now - last_refill l) :: rat"
  obtain l0 e0 where "refill (LimitedRateLimiter l) now = (LimitedRateLimiter l0, e0)"
    and lim: "limit_bps l0 = limit_bps l"
    and alt: "last_refill l0 = now \<and> bucket l0 = min (limit_bps l) (bucket l + nat \<lfloor>?gain\<rfloor>)
      \<or> l0 = l \<and> bucket l = limit_bps l"
    by (rule refill_Limited [OF assms(1), of now])
  with assms(4) have l0: "l0 = l'" by simp
  have "of_nat (nat \<lfloor>?gain\<rfloor>) \<le> ?gain" using assms(2) by simp
  also have "?gain \<le> of_nat (limit_bps l) * (now - last_refill l)"
    using assms(1,2) by (intro mult_right_mono) auto
  finally have g: "of_nat (nat \<lfloor>?gain\<rfloor>) \<le> (of_nat (limit_bps l) * (now - last_refill l) :: rat)" .
  from alt show ?thesis unfolding l0
  proof (elim disjE conjE)
    assume "last_refill l' = now" "bucket l' = min (limit_bps l) (bucket l + nat \<lfloor>?gain\<rfloor>)"
    moreover from this have "(of_nat (bucket l') :: rat) \<le> of_nat (bucket l + nat \<lfloor>?gain\<rfloor>)"
      by (intro of_nat_mono) simp
    ultimately show ?thesis using g lim by (simp add: potential_def l0 algebra_simps)
  qed (use assms(2) in simp)
qed

lemma take_potential:
  assumes "take_tokens (LimitedRateLimiter l) clock = Some (amount, LimitedRateLimiter l'', rest)"
    and "bucket l \<le> limit_bps l" "sorted (last_refill l # clock)" "\<forall>x \<in> set clock. x \<le> t"
  shows "of_nat amount + potential l'' t \<le> potential l t \<and> sorted (last_refill l'' # rest)
    \<and> set rest \<subseteq> set clock \<and> (last_refill l \<le> t \<longrightarrow> last_refill l'' \<le> t)"
  using assms
proof (induction clock arbitrary: l)
  case (Cons now clock)
  obtain l' e where r: "refill (LimitedRateLimiter l) now = (LimitedRateLimiter l', e)"
    "limit_bps l' = limit_bps l" "bucket l' \<le> limit_bps l"
    "bucket l' < min_chunk_size l' \<and> take_tokens (LimitedRateLimiter l') clock = Some (amount, LimitedRateLimiter l'', rest)
     \<or> min_chunk_size l' \<le> bucket l' \<and> amount = min (bucket l') (max_chunk_size l') \<and> rest = clock
       \<and> LimitedRateLimiter l'' = LimitedRateLimiter (l'\<lparr>bucket := bucket l' - amount\<rparr>)"
    by (rule take_Limited_step [OF Cons.prems(2,1)])
  have p: "potential l' t \<le> potential l t" "last_refill l' \<le> now"
    using refill_potential [OF Cons.prems(2) _ _ r(1), of t] Cons.prems(3,4) by auto
  from r(4) show ?case
  proof (elim disjE conjE)
    assume "take_tokens (LimitedRateLimiter l') clock = Some (amount, LimitedRateLimiter l'', rest)"
    then have "of_nat amount + potential l'' t \<le> potential l' t \<and> sorted (last_refill l'' # rest)
      \<and> set rest \<subseteq> set clock \<and> (last_refill l' \<le> t \<longrightarrow> last_refill l'' \<le> t)"
      using Cons.prems r(2,3) p(2) by (intro Cons.IH) auto
    then show ?thesis using p Cons.prems(4) by auto
  next
    assume a: "amount = min (bucket l') (max_chunk_size l')" "rest = clock"
      "LimitedRateLimiter l'' = LimitedRateLimiter (l'\<lparr>bucket := bucket l' - amount\<rparr>)"
    then have "of_nat amount + potential l'' t = potential l' t"
      by (simp add: potential_def flip: of_nat_add)
    then show ?thesis using a p Cons.prems(3,4) by auto
  qed
qed simp


fun take_many :: "nat \<Rightarrow> limiter \<Rightarrow> rat list \<Rightarrow> (nat list \<times> limiter \<times> rat list) option" where
  \<comment> \<open>\<open>k\<close> chunks in a row\<close>
  "take_many 0 l clock = Some ([], l, clock)"
| "take_many (Suc k) l clock =
     (case take_tokens l clock of
        None \<Rightarrow> None
      | Some (amount, l', clock') \<Rightarrow>
          (case take_many k l' clock' of
             None \<Rightarrow> None
           | Some (amounts, l'', rest) \<Rightarrow> Some (amount # amounts, l'', rest)))"

lemma take_many_potential:
  assumes "take_many k (LimitedRateLimiter l) clock = Some (amounts, l', rest)"
    and "bucket l \<le> limit_bps l" "sorted (last_refill l # clock)" "\<forall>x \<in> set clock. x \<le> t"
    and "last_refill l \<le> t"
  shows "of_nat (sum_list amounts) \<le> potential l t"
  using assms
proof (induction k arbitrary: l clock amounts)
  case 0
  then show ?case by (simp add: potential_def)
next
  case (Suc k)
  from Suc.prems(1) obtain amount l1 clock' rest' amounts' where
    a: "take_tokens (LimitedRateLimiter l) clock = Some (amount, l1, clock')"
    and b: "take_many k l1 clock' = Some (amounts', l', rest)" and c: "amounts = amount # amounts'"
    by (auto split: option.splits)
  from take_Limited_amount [OF a Suc.prems(2)] obtain b1 where l1: "l1 = LimitedRateLimiter b1"
    "limit_bps b1 = limit_bps l" "bucket b1 + amount \<le> limit_bps l" by blast
  have p: "of_nat amount + potential b1 t \<le> potential l t" "sorted (last_refill b1 # clock')"
    "set clock' \<subseteq> set clock" "last_refill b1 \<le> t"
    using Suc.prems(5) take_potential [OF a [unfolded l1(1)] Suc.prems(2,3,4)] by auto
  have "of_nat (sum_list amounts') \<le> potential b1 t"
    using Suc.IH [OF b [unfolded l1(1)]] l1 p Suc.prems(4) by auto
  then show ?case using p(1) c by simp
qed

subsection \<open>Waiting ends\<close>

fun spaced :: "rat \<Rightarrow> rat list \<Rightarrow> bool" where
  "spaced t [] = True"
| "spaced t (u # us) = (t + INTERVAL \<le> u \<and> spaced u us)"

lemma div_100_bound:
  fixes L b :: nat
  assumes "1024 \<le> L" "b < clamp_chunk_size (L div 100)"
  shows "clamp_chunk_size (L div 100) \<le> 16 * ((L - b) div 100)"
proof -
  define q where "q = L div 100"
  have L: "100 * q \<le> L" "L < 100 * q + 100" by (simp_all add: q_def)
  define g where "g = (L - b) div 100"
  have g: "L - b < 100 * g + 100" by (simp add: g_def)
  show ?thesis using assms L g unfolding q_def [symmetric] g_def [symmetric]
    by (auto simp: clamp_chunk_size_def MIN_CHUNK_SIZE_def MAX_CHUNK_SIZE_def max_def min_def split: if_splits)
qed

lemma refill_progress:
  assumes "limiter_inv (LimitedRateLimiter l)" "last_refill l + INTERVAL \<le> now"
    and "bucket l < min_chunk_size l"
    and "refill (LimitedRateLimiter l) now = (LimitedRateLimiter l', e)"
  shows "min_chunk_size l \<le> bucket l' \<or> last_refill l' = now \<and> 16 * bucket l + min_chunk_size l \<le> 16 * bucket l'"
proof -
  let ?gain = "of_nat (limit_bps l - bucket l) * (now - last_refill l) :: rat"
  have inv: "bucket l \<le> limit_bps l" "1024 \<le> limit_bps l" using assms(1) by auto
  obtain l0 e0 where "refill (LimitedRateLimiter l) now = (LimitedRateLimiter l0, e0)"
    and alt: "last_refill l0 = now \<and> bucket l0 = min (limit_bps l) (bucket l + nat \<lfloor>?gain\<rfloor>)
      \<or> l0 = l \<and> bucket l = limit_bps l"
    by (rule refill_Limited [OF inv(1), of now])
  with assms(4) have l0: "l0 = l'" by simp
  have "min_chunk_size l \<le> limit_bps l" using inv(2)
    by (auto simp: min_chunk_size_def clamp_chunk_size_def MIN_CHUNK_SIZE_def)
  moreover have "(of_nat ((limit_bps l - bucket l) div 100) :: rat) \<le> ?gain"
  proof -
    have "(of_nat ((limit_bps l - bucket l) div 100) :: rat) \<le> of_nat (limit_bps l - bucket l) / 100"
    proof -
      have "(of_nat (100 * ((limit_bps l - bucket l) div 100)) :: rat) \<le> of_nat (limit_bps l - bucket l)"
        by (rule of_nat_mono) simp
      then show ?thesis by (simp add: field_simps del: of_nat_diff)
    qed
    also have "\<dots> \<le> of_nat (limit_bps l - bucket l) * (now - last_refill l)"
      using assms(2) mult_left_mono [of "1 / 100" "now - last_refill l" "of_nat (limit_bps l - bucket l)"]
      by (simp add: INTERVAL_def)
    finally show ?thesis .
  qed
  then have "int ((limit_bps l - bucket l) div 100) \<le> \<lfloor>?gain\<rfloor>" by (simp add: le_floor_iff)
  then have "(limit_bps l - bucket l) div 100 \<le> nat \<lfloor>?gain\<rfloor>" by linarith
  moreover have "min_chunk_size l \<le> 16 * ((limit_bps l - bucket l) div 100)"
    unfolding min_chunk_size_def using inv(2) assms(3) by (intro div_100_bound) (simp_all add: min_chunk_size_def)
  moreover from alt have "last_refill l' = now \<and> bucket l' = min (limit_bps l) (bucket l + nat \<lfloor>?gain\<rfloor>)
      \<or> bucket l' = limit_bps l" unfolding l0 by blast
  ultimately show ?thesis using assms(3)
    by (cases "bucket l + nat \<lfloor>?gain\<rfloor> \<le> limit_bps l") (elim disjE conjE; linarith)+
qed

lemma take_returns:
  assumes "limiter_inv (LimitedRateLimiter l)" "spaced (last_refill l) clock"
    and "1 \<le> m" "m \<le> length clock" "m \<le> 16" "(16 - m) * min_chunk_size l \<le> 16 * bucket l"
  shows "\<exists>r. take_tokens (LimitedRateLimiter l) clock = Some r"
  using assms
proof (induction clock arbitrary: l m)
  case (Cons now clock)
  have inv: "bucket l \<le> limit_bps l" using Cons.prems(1) by simp
  obtain l' e where r: "refill (LimitedRateLimiter l) now = (LimitedRateLimiter l', e)"
    "limit_bps l' = limit_bps l" "bucket l \<le> bucket l'" "bucket l' \<le> limit_bps l"
    by (rule refill_Limited [OF inv, of now])
  have mc: "min_chunk_size l' = min_chunk_size l" using r(2) by (simp add: min_chunk_size_def)
  show ?case
  proof (cases "min_chunk_size l \<le> bucket l'")
    case True
    then show ?thesis using r(1) mc by (simp add: Let_def del: refill.simps)
  next
    case False
    then have step: "last_refill l' = now" "16 * bucket l + min_chunk_size l \<le> 16 * bucket l'"
      using refill_progress [OF Cons.prems(1) _ _ r(1)] Cons.prems(2) r(3) by auto
    obtain k where k: "m = Suc k" using Cons.prems(3) by (cases m) auto
    have "(16 - k) * min_chunk_size l = (16 - m) * min_chunk_size l + min_chunk_size l"
    proof -
      have "16 - k = Suc (16 - m)" using Cons.prems(5) k by simp
      then show ?thesis by simp
    qed
    then have b: "(16 - k) * min_chunk_size l' \<le> 16 * bucket l'"
      using step(2) Cons.prems(6) unfolding mc by simp
    have "k \<noteq> 0" using b False mc by (intro notI) simp
    then have "\<exists>r. take_tokens (LimitedRateLimiter l') clock = Some r"
      using Cons.prems b k r(2,4) step(1) by (intro Cons.IH [of l' k]) auto
    then show ?thesis using False r(1) mc by (simp add: Let_def del: refill.simps)
  qed
qed simp

subsection \<open>The contract of the abstract class\<close>

text \<open>
  What the file transfers rely on in \<open>RateLimiter\<close>: a chunk is never empty (an empty read
  would be taken for the end of the file) and the operations keep the state valid.
\<close>

locale token_source =
  fixes inv :: "'l \<Rightarrow> bool"
    and take_chunk :: "'l \<Rightarrow> rat list \<Rightarrow> (nat \<times> 'l \<times> rat list) option"
    and add :: "'l \<Rightarrow> nat \<Rightarrow> 'l" and copy :: "'l \<Rightarrow> 'l \<Rightarrow> 'l"
  assumes chunk_pos: "inv l \<Longrightarrow> take_chunk l clock = Some (n, l', rest) \<Longrightarrow> 0 < n"
    and take_inv: "inv l \<Longrightarrow> take_chunk l clock = Some (n, l', rest) \<Longrightarrow> inv l'"
    and add_inv: "inv l \<Longrightarrow> inv (add l k)"
    and copy_inv: "inv l \<Longrightarrow> inv (copy l other)"

interpretation limiter: token_source limiter_inv take_tokens add_tokens copy_tokens
proof unfold_locales
  fix l clock n l' rest
  assume inv: "limiter_inv l" and t: "take_tokens l clock = Some (n, l', rest)"
  show "0 < n"
  proof (cases l)
    case (LimitedRateLimiter b)
    then show ?thesis using take_Limited_amount [of b clock n l' rest] inv t chunk_sizes(1) [of b]
      by (auto simp: MIN_CHUNK_SIZE_def)
  qed (use t in \<open>auto simp: CHUNK_SIZE_def\<close>)
  show "limiter_inv l'"
  proof (cases l)
    case (LimitedRateLimiter b)
    then show ?thesis using take_Limited_amount [of b clock n l' rest] inv t by auto
  qed (use t in auto)
qed (rule limiter_inv_add limiter_inv_copy, assumption)+

subsection \<open>Properties\<close>

lemmas chunk_defs = min_chunk_size_def max_chunk_size_def clamp_chunk_size_def
  MIN_CHUNK_SIZE_def MAX_CHUNK_SIZE_def

text \<open>A chunk handed out by the limited rate limiter is never below the minimum and never
  above the maximum chunk size, it is taken out of the bucket, and the bucket never holds
  more than one second of the limit.\<close>

theorem take_tokens_chunk:
  assumes "limiter_inv (LimitedRateLimiter l)"
    and "take_tokens (LimitedRateLimiter l) clock = Some (amount, l', rest)"
  shows "min_chunk_size l \<le> amount \<and> amount \<le> max_chunk_size l
    \<and> bucket (base l') + amount \<le> limit_bps l \<and> limiter_inv l'"
  using take_Limited_amount [OF assms(2)] limiter.take_inv [OF assms] assms(1) by auto

lemma take_tokens_chunk_witness:
  "\<exists>amount l' rest. take_tokens (LimitedRateLimiter \<lparr>limit_bps = 2048, bucket = 512, last_refill = 0\<rparr>) [1]
     = Some (amount, l', rest) \<and> amount = 204 \<and> 128 \<le> amount \<and> amount \<le> 204"
proof -
  let ?l = "\<lparr>limit_bps = 2048, bucket = 512, last_refill = 0\<rparr>"
  have t: "take_tokens (LimitedRateLimiter ?l) [1]
      = Some (204, LimitedRateLimiter \<lparr>limit_bps = 2048, bucket = 1844, last_refill = 1\<rparr>, [])"
    by (simp add: Let_def chunk_defs)
  from take_tokens_chunk [OF _ t] show ?thesis using t by simp
qed

text \<open>C19: The limiter keeps its rate: however many chunks are taken in a row, up to time \<open>t\<close> they
  amount to no more than what was in the bucket plus the limit times the time since the last
  refill.\<close>

theorem take_tokens_rate:
  assumes "limiter_inv (LimitedRateLimiter l)"
    and "take_many k (LimitedRateLimiter l) clock = Some (amounts, l', rest)"
    and "sorted (last_refill l # clock)" and "\<forall>x \<in> set clock. x \<le> t" and "last_refill l \<le> t"
  shows "of_nat (sum_list amounts) \<le> of_nat (bucket l) + of_nat (limit_bps l) * (t - last_refill l)"
  using take_many_potential [OF assms(2) _ assms(3,4,5)] assms(1) by (simp add: potential_def)

lemma take_tokens_rate_witness:
  "(of_nat (sum_list [204, 204]) :: rat) \<le> of_nat (512 :: nat) + of_nat (2048 :: nat) * (2 - 0)"
proof -
  let ?l = "\<lparr>limit_bps = 2048, bucket = 512, last_refill = 0\<rparr>"
  have t: "take_many 2 (LimitedRateLimiter ?l) [1, 2]
      = Some ([204, 204], LimitedRateLimiter \<lparr>limit_bps = 2048, bucket = 1844, last_refill = 2\<rparr>, [])"
    by (simp add: Let_def chunk_defs numeral_2_eq_2)
  from take_tokens_rate [OF _ t, of 2] show ?thesis by simp
qed

text \<open>C20: Waiting for tokens ends: a caller that polls with at least \<open>INTERVAL\<close> seconds between
  two polls has its chunk after at most seventeen polls, whatever the limit.\<close>

theorem take_tokens_returns:
  assumes "limiter_inv (LimitedRateLimiter l)" "last_refill l \<le> now"
    and "spaced now polls" "16 \<le> length polls"
  shows "\<exists>amount l' rest. take_tokens (LimitedRateLimiter l) (now # polls) = Some (amount, l', rest)"
proof -
  have inv: "bucket l \<le> limit_bps l" using assms(1) by simp
  obtain l' e where r: "refill (LimitedRateLimiter l) now = (LimitedRateLimiter l', e)"
    "limit_bps l' = limit_bps l" "bucket l' \<le> limit_bps l"
    "last_refill l' = now \<or> bucket l' = limit_bps l"
    by (rule refill_Limited [OF inv, of now]) auto
  show ?thesis
  proof (cases "min_chunk_size l' \<le> bucket l'")
    case True
    then show ?thesis using r(1) by (simp add: Let_def del: refill.simps)
  next
    case False
    moreover have "min_chunk_size l' \<le> limit_bps l" using assms(1) r(2)
      by (auto simp: min_chunk_size_def clamp_chunk_size_def MIN_CHUNK_SIZE_def)
    ultimately have "last_refill l' = now" using r(4) by auto
    then have "\<exists>r. take_tokens (LimitedRateLimiter l') polls = Some r"
      using assms r(2,3) by (intro take_returns [of l' polls 16]) auto
    then show ?thesis using False r(1) by (auto simp: Let_def simp del: refill.simps)
  qed
qed

lemma take_tokens_returns_witness:
  "\<exists>amount l' rest. take_tokens (LimitedRateLimiter \<lparr>limit_bps = 1024, bucket = 0, last_refill = 0\<rparr>)
     (0 # map of_nat [1..<17]) = Some (amount, l', rest)"
  by (rule take_tokens_returns) (simp_all add: upt_rec INTERVAL_def)

end
