(* ===== verification/Connection.thy ===== *)
theory Connection
  imports Messages Obfuscation Rate_Limiter
begin

text \<open>
\<open>src/aioslsk/network/connection.py\<close>: the state of a connection, connecting and
  disconnecting, the framing of messages on the stream, the reader loop, sending and the
  transfer of files. The
  operating system is a set of outcomes (what a read or a write returned); the stream of the
  reader loop is the bytes the peer sends before it closes its side. The calls of
  \<open>network.on_state_changed\<close> are recorded in \<open>notified\<close>; the awaits inside one operation
  are not interleaved with other operations.
\<close>

subsection \<open>State\<close>

datatype connection_status = UNINITIALIZED | CONNECTING | CONNECTED | CLOSING | CLOSED

datatype close_reason =
  UNKNOWN | CONNECT_FAILED | REQUESTED | READ_ERROR | WRITE_ERROR | TIMEOUT | EOF

datatype peer_connection_state =
  AWAITING_INIT | ESTABLISHED | NEGOTIATING_TRANSFER | TRANSFERRING

text \<open>\<open>PeerConnectionType\<close>: one-letter strings, as they travel in \<open>PeerInit\<close>.\<close>

definition FILE :: pystr where "FILE = [0x46]"
definition PEER :: pystr where "PEER = [0x50]"
definition DISTRIBUTED :: pystr where "DISTRIBUTED = [0x44]"

datatype connection_class = ServerConnection | PeerConnection

datatype connection_error =
    ConnectionFailedError
  | ConnectionReadError
  | ConnectionWriteError
  | MessageDeserializationError
  | MessageSerializationError
  | Uncaught py_error \<comment> \<open>an exception that no handler of the connection catches\<close>

record connection =
  connection_class :: connection_class
  state :: connection_status
  is_closing :: bool
  obfuscated :: bool
  has_streams :: bool            \<comment> \<open>\<open>_reader\<close> and \<open>_writer\<close> are set\<close>
  reader_task :: bool            \<comment> \<open>a reader task is running\<close>
  queued_messages :: "nat list"  \<comment> \<open>pending send tasks\<close>
  connection_type :: pystr
  connection_state :: peer_connection_state
  incoming :: bool
  notified :: "(connection_status \<times> close_reason) list" \<comment> \<open>calls of \<open>network.on_state_changed\<close>\<close>

definition new_connection :: "connection_class \<Rightarrow> bool \<Rightarrow> pystr \<Rightarrow> bool \<Rightarrow> connection" where
  "new_connection cls obf typ inc =
     \<lparr>connection_class = cls, state = UNINITIALIZED, is_closing = False, obfuscated = obf,
      has_streams = False, reader_task = False, queued_messages = [], connection_type = typ,
      connection_state = AWAITING_INIT, incoming = inc, notified = []\<rparr>"

definition set_state :: "connection_status \<Rightarrow> close_reason \<Rightarrow> connection \<Rightarrow> connection" where
  "set_state st reason c =
     c\<lparr>state := st, is_closing := (st = CLOSING \<or> st = CLOSED), notified := notified c @ [(st, reason)]\<rparr>"

definition cancel_queued_messages :: "connection \<Rightarrow> connection" where
  "cancel_queued_messages c = c\<lparr>queued_messages := []\<rparr>"

definition disconnect :: "close_reason \<Rightarrow> connection \<Rightarrow> connection" where
  \<comment> \<open>a failure while closing the streams is only logged; the \<open>finally\<close> block always runs\<close>
  "disconnect reason c =
     (if state c = CLOSED \<or> state c = CLOSING then c
      else (set_state CLOSED reason (cancel_queued_messages (set_state CLOSING reason c)))
             \<lparr>reader_task := False, has_streams := False\<rparr>)"

definition connect :: "bool \<Rightarrow> connection \<Rightarrow> (connection_error + unit) \<times> connection" where
  \<comment> \<open>the first argument: whether \<open>asyncio.open_connection\<close> succeeds within the timeout\<close>
  "connect opened c =
     (let c1 = set_state CONNECTING UNKNOWN c in
      if opened then (Inr (), set_state CONNECTED UNKNOWN (c1\<lparr>has_streams := True\<rparr>))
      else (Inl ConnectionFailedError, disconnect CONNECT_FAILED c1))"

definition accept :: "bool \<Rightarrow> (connection \<Rightarrow> connection) \<Rightarrow> connection" where
  \<comment> \<open>\<open>ListeningConnection.accept\<close>: the network registers the connection before it is connected\<close>
  "accept obf on_peer_accepted =
     set_state CONNECTED UNKNOWN
       (on_peer_accepted ((new_connection PeerConnection obf PEER True)\<lparr>has_streams := True\<rparr>))"

definition set_connection_state :: "peer_connection_state \<Rightarrow> connection \<Rightarrow> connection" where
  "set_connection_state st c =
     (let c1 = (if st \<noteq> AWAITING_INIT \<and> connection_type c \<noteq> PEER then c\<lparr>obfuscated := False\<rparr> else c)
      in c1\<lparr>connection_state := st, reader_task := (st = ESTABLISHED)\<rparr>)"

subsection \<open>Reading\<close>

datatype read_outcome =
    Data bytes
  | IncompleteRead bytes \<comment> \<open>\<open>asyncio.IncompleteReadError\<close> with its partial data\<close>
  | ReadTimeout
  | ReadFailed           \<comment> \<open>any other exception\<close>

definition read_data :: "read_outcome \<Rightarrow> connection \<Rightarrow> (connection_error + bytes option) \<times> connection" where
  \<comment> \<open>\<open>DataConnection._read\<close>\<close>
  "read_data r c = (case r of
       IncompleteRead partial \<Rightarrow>
         if partial \<noteq> [] then (Inl ConnectionReadError, disconnect READ_ERROR c)
         else (Inr None, disconnect EOF c)
     | ReadTimeout \<Rightarrow> (Inl ConnectionReadError, disconnect TIMEOUT c)
     | ReadFailed \<Rightarrow> (Inl ConnectionReadError, disconnect READ_ERROR c)
     | Data data \<Rightarrow> if data = [] then (Inr None, disconnect EOF c) else (Inr (Some data), c))"

definition readexactly :: "nat \<Rightarrow> bytes \<Rightarrow> read_outcome \<times> bytes" where
  \<comment> \<open>on a stream that holds these bytes and then ends\<close>
  "readexactly n stream =
     (if n \<le> length stream then (Data (take n stream), drop n stream) else (IncompleteRead stream, []))"

definition HEADER_SIZE_OBFUSCATED :: nat where "HEADER_SIZE_OBFUSCATED = KEY_SIZE + 4"
definition HEADER_SIZE_UNOBFUSCATED :: nat where "HEADER_SIZE_UNOBFUSCATED = 4"

definition read_message :: "connection \<Rightarrow> bytes \<Rightarrow> read_outcome \<times> bytes" where
  "read_message c stream =
     (if \<not> has_streams c then (ReadFailed, stream)
      else let header_size = (if obfuscated c then HEADER_SIZE_OBFUSCATED else HEADER_SIZE_UNOBFUSCATED) in
      case readexactly header_size stream of
        (Data header, stream1) \<Rightarrow>
          (case bindE (if obfuscated c then decode header else Inr header) (uint32_deserialize 0) of
             Inl _ \<Rightarrow> (ReadFailed, stream1)
           | Inr (_, message_len) \<Rightarrow>
               (case readexactly (nat message_len) stream1 of
                  (Data message, stream2) \<Rightarrow> (Data (header @ message), stream2)
                | (r, stream2) \<Rightarrow> (r, stream2)))
      | (r, stream1) \<Rightarrow> (r, stream1))"

definition receive_message :: "connection \<Rightarrow> bytes \<Rightarrow> (connection_error + bytes option) \<times> connection \<times> bytes" where
  "receive_message c stream =
     (case read_message c stream of (r, stream') \<Rightarrow>
      case read_data r c of (res, c') \<Rightarrow> (res, c', stream'))"

type_synonym message_object = "msg_class \<times> (string \<times> pval) list"

definition deserialize_message :: "(bytes \<Rightarrow> bytes result) \<Rightarrow> connection \<Rightarrow> bytes \<Rightarrow> message_object result" where
  "deserialize_message decompress c data =
     (case connection_class c of
        ServerConnection \<Rightarrow> ServerMessage_deserialize_response decompress data
      | PeerConnection \<Rightarrow>
          if connection_state c = AWAITING_INIT then PeerInitializationMessage_deserialize_request decompress data
          else if connection_type c = PEER then PeerMessage_deserialize_request decompress data
          else DistributedMessage_deserialize_request decompress data)"

definition decode_message_data ::
    "(bytes \<Rightarrow> bytes result) \<Rightarrow> connection \<Rightarrow> bytes \<Rightarrow> connection_error + message_object" where
  "decode_message_data decompress c data =
     (case (if obfuscated c then decode data else Inr data) of
        Inl e \<Rightarrow> Inl (Uncaught e)
      | Inr data \<Rightarrow> (case deserialize_message decompress c data of
            Inl e \<Rightarrow> Inl MessageDeserializationError
          | Inr obj \<Rightarrow> Inr obj))"

definition receive_message_object ::
    "(bytes \<Rightarrow> bytes result) \<Rightarrow> connection \<Rightarrow> bytes
     \<Rightarrow> (connection_error + message_object option) \<times> connection \<times> bytes" where
  "receive_message_object decompress c stream =
     (case receive_message c stream of
        (Inl e, c', stream') \<Rightarrow> (Inl e, c', stream')
      | (Inr None, c', stream') \<Rightarrow> (Inr None, c', stream')
      | (Inr (Some data), c', stream') \<Rightarrow>
          ((case decode_message_data decompress c' data of Inl e \<Rightarrow> Inl e | Inr obj \<Rightarrow> Inr (Some obj)),
           c', stream'))"

lemma readexactly_length: "readexactly n stream = (r, stream') \<Longrightarrow> length stream' \<le> length stream"
  by (auto simp: readexactly_def split: if_splits)

lemma read_message_consumes:
  assumes "read_message c stream = (r, stream')" "has_streams c"
  shows "length stream' < length stream \<or> r = IncompleteRead [] \<and> stream = []"
proof -
  define hs where "hs = (if obfuscated c then HEADER_SIZE_OBFUSCATED else HEADER_SIZE_UNOBFUSCATED)"
  have hs: "0 < hs" by (simp add: hs_def HEADER_SIZE_OBFUSCATED_def HEADER_SIZE_UNOBFUSCATED_def)
  show ?thesis
  proof (cases "hs \<le> length stream")
    case True
    then have "length stream' \<le> length (drop hs stream)"
      using assms unfolding read_message_def hs_def [symmetric] Let_def
      by (auto simp: readexactly_def split: sum.splits if_splits)
    then have "length stream' < length stream" using hs True by (simp add: less_le_trans)
    then show ?thesis ..
  next
    case False
    then show ?thesis
      using assms unfolding read_message_def hs_def [symmetric] Let_def by (auto simp: readexactly_def)
  qed
qed

text \<open>
  The reader loop, on the bytes the peer sends before it closes its side. The callback
  (\<open>network.on_message_received\<close>) may change the connection. Delivered messages are returned
  in order; an exception that escapes ends the task.
\<close>

function (sequential) message_reader_loop ::
    "(bytes \<Rightarrow> bytes result) \<Rightarrow> (message_object \<Rightarrow> connection \<Rightarrow> connection) \<Rightarrow> connection \<Rightarrow> bytes
     \<Rightarrow> message_object list \<times> connection" where
  "message_reader_loop decompress callback c stream =
     (if is_closing c then ([], c)
      else case receive_message_object decompress c stream of
        (Inl ConnectionReadError, c', stream') \<Rightarrow>
          if length stream' < length stream then message_reader_loop decompress callback c' stream'
          else ([], c')
      | (Inl MessageDeserializationError, c', stream') \<Rightarrow>
          if length stream' < length stream then message_reader_loop decompress callback c' stream'
          else ([], c')
      | (Inl e, c', stream') \<Rightarrow> ([], c')
      | (Inr None, c', stream') \<Rightarrow> ([], c')
      | (Inr (Some message), c', stream') \<Rightarrow>
          if length stream' < length stream then
            if is_closing c' then message_reader_loop decompress callback c' stream'
            else (case message_reader_loop decompress callback (callback message c') stream' of
                    (rest, c'') \<Rightarrow> (message # rest, c''))
          else ([], c'))"
  by pat_completeness auto
termination
  by (relation "measure (\<lambda>(d, cb, c, stream). length stream)") auto


declare message_reader_loop.simps [simp del]

subsection \<open>Sending\<close>

datatype message_data = Raw bytes | Obj message_object

definition serialize_message :: "(bytes \<Rightarrow> bytes) \<Rightarrow> message_data \<Rightarrow> bytes result" where
  "serialize_message compress m = (case m of
       Raw b \<Rightarrow> Inr b
     | Obj (c, attrs) \<Rightarrow> message_serialize compress c attrs)"

definition encode_message_data ::
    "(bytes \<Rightarrow> bytes) \<Rightarrow> bytes \<Rightarrow> connection \<Rightarrow> message_data \<Rightarrow> connection_error + bytes" where
  \<comment> \<open>\<open>token\<close>: the random key \<open>obfuscation.encode\<close> draws\<close>
  "encode_message_data compress token c m =
     (case serialize_message compress m of
        Inl _ \<Rightarrow> Inl MessageSerializationError
      | Inr data \<Rightarrow>
          if obfuscated c then
            (case encode token data None of Inl e \<Rightarrow> Inl (Uncaught e) | Inr out \<Rightarrow> Inr out)
          else Inr data)"

datatype write_outcome = WriteOk | WriteTimeout | WriteFailed

definition send_bytes :: "write_outcome \<Rightarrow> connection \<Rightarrow> (connection_error + unit) \<times> connection" where
  \<comment> \<open>\<open>DataConnection._send\<close>\<close>
  "send_bytes w c =
     (if \<not> has_streams c then (Inl ConnectionWriteError, c)
      else (case w of
          WriteOk \<Rightarrow> (Inr (), c)
        | WriteTimeout \<Rightarrow> (Inl ConnectionWriteError, disconnect TIMEOUT c)
        | WriteFailed \<Rightarrow> (Inl ConnectionWriteError, disconnect WRITE_ERROR c)))"

definition send_message ::
    "(bytes \<Rightarrow> bytes) \<Rightarrow> bytes \<Rightarrow> write_outcome \<Rightarrow> message_data \<Rightarrow> connection
     \<Rightarrow> (connection_error + bytes) \<times> connection" where
  \<comment> \<open>the bytes are what is handed to the writer; nothing when the message is skipped\<close>
  "send_message compress token w m c =
     (if is_closing c then (Inr [], c)
      else case encode_message_data compress token c m of
        Inl MessageSerializationError \<Rightarrow> (Inr [], c)
      | Inl e \<Rightarrow> (Inl e, c)
      | Inr data \<Rightarrow> (case send_bytes w c of
            (Inl e, c') \<Rightarrow> (Inl e, c')
          | (Inr _, c') \<Rightarrow> (Inr data, c')))"

definition queue_message :: "nat \<Rightarrow> connection \<Rightarrow> connection" where
  \<comment> \<open>a task with a fresh number is queued; its end removes it\<close>
  "queue_message task c = c\<lparr>queued_messages := queued_messages c @ [task]\<rparr>"

subsection \<open>State invariant\<close>

definition connection_inv :: "connection \<Rightarrow> bool" where
  "connection_inv c \<longleftrightarrow> (is_closing c \<longleftrightarrow> state c = CLOSING \<or> state c = CLOSED)
     \<and> (state c = CLOSED \<longrightarrow> \<not> has_streams c)"

lemmas connection_defs = disconnect_def set_state_def cancel_queued_messages_def

lemma disconnect_inv: "connection_inv c \<Longrightarrow> connection_inv (disconnect reason c)"
  by (auto simp: connection_inv_def connection_defs)

lemma disconnect_idem: "disconnect r (disconnect reason c) = disconnect reason c"
  by (simp add: connection_defs)

lemma disconnect_is_closing: "connection_inv c \<Longrightarrow> is_closing (disconnect reason c)"
  by (auto simp: connection_inv_def connection_defs)

lemma read_data_open:
  assumes "read_data r c = (res, c')"
  shows "c' = c \<and> (\<exists>d. d \<noteq> [] \<and> res = Inr (Some d)) \<or> (\<exists>reason. c' = disconnect reason c) \<and> \<not> (\<exists>d. res = Inr (Some d))"
  using assms by (auto simp: read_data_def split: read_outcome.splits if_splits)

lemma receive_object_open:
  assumes "receive_message_object decompress c stream = (res, c', stream')"
  shows "c' = c \<or> (\<exists>reason. c' = disconnect reason c)"
    and "res = Inl ConnectionReadError \<Longrightarrow> connection_inv c \<Longrightarrow> is_closing c'"
proof -
  obtain r s1 where r: "read_message c stream = (r, s1)" by (cases "read_message c stream")
  obtain res1 c1 where d: "read_data r c = (res1, c1)" by (cases "read_data r c")
  from assms r d have c1: "c' = c1"
    by (auto simp: receive_message_object_def receive_message_def split: sum.splits option.splits)
  with read_data_open [OF d] show "c' = c \<or> (\<exists>reason. c' = disconnect reason c)" by blast
  assume res: "res = Inl ConnectionReadError" "connection_inv c"
  have "\<not> (\<exists>x. res1 = Inr (Some x))"
    using assms r d res(1)
    by (auto simp: receive_message_object_def receive_message_def decode_message_data_def
        split: sum.splits option.splits)
  with read_data_open [OF d] show "is_closing c'" using c1 disconnect_is_closing [OF res(2)] by auto
qed

text \<open>
  The loop of the source has no test on the stream: with the invariant, a turn that reads
  nothing leaves the loop anyway.
\<close>

lemma reader_loop_stops:
  assumes "connection_inv c" "receive_message_object decompress c stream = (res, c', stream')"
    and "\<not> length stream' < length stream" "\<not> is_closing c"
  shows "res = Inr None \<or> res = Inl ConnectionReadError \<and> is_closing c'"
proof (cases "has_streams c")
  case True
  obtain r s1 where r: "read_message c stream = (r, s1)" by (cases "read_message c stream")
  then have "s1 = stream'" using assms(2)
    by (auto simp: receive_message_object_def receive_message_def split: sum.splits option.splits prod.splits)
  then have "r = IncompleteRead []" using read_message_consumes [OF r True] assms(3) by simp
  then show ?thesis using assms(2) r
    by (auto simp: receive_message_object_def receive_message_def read_data_def)
next
  case False
  then have "res = Inl ConnectionReadError" using assms(2)
    by (auto simp: receive_message_object_def receive_message_def read_message_def read_data_def)
  then show ?thesis using receive_object_open(2) [OF assms(2)] assms(1) by blast
qed

theorem message_reader_loop_source:
  assumes "connection_inv c"
  shows "message_reader_loop decompress callback c stream =
     (if is_closing c then ([], c)
      else case receive_message_object decompress c stream of
        (Inl ConnectionReadError, c', stream') \<Rightarrow> message_reader_loop decompress callback c' stream'
      | (Inl MessageDeserializationError, c', stream') \<Rightarrow> message_reader_loop decompress callback c' stream'
      | (Inl e, c', stream') \<Rightarrow> ([], c')
      | (Inr None, c', stream') \<Rightarrow> ([], c')
      | (Inr (Some message), c', stream') \<Rightarrow>
          if is_closing c' then message_reader_loop decompress callback c' stream'
          else (case message_reader_loop decompress callback (callback message c') stream' of
                  (rest, c'') \<Rightarrow> (message # rest, c'')))"
proof (cases "is_closing c")
  case True
  then show ?thesis by (simp add: message_reader_loop.simps)
next
  case False
  obtain res c' stream' where r: "receive_message_object decompress c stream = (res, c', stream')"
    by (cases "receive_message_object decompress c stream")
  have closed: "message_reader_loop decompress callback d str = ([], d)" if "is_closing d" for d str
    using that by (simp add: message_reader_loop.simps)
  show ?thesis
  proof (cases "length stream' < length stream")
    case True
    then show ?thesis using False r
      by (subst message_reader_loop.simps) (simp split: sum.split connection_error.split option.split)
  next
    case less: False
    from reader_loop_stops [OF assms r less False] show ?thesis using False r less closed
      by (subst message_reader_loop.simps) auto
  qed
qed

subsection \<open>Messages survive the connection\<close>

lemma message_header:
  assumes "message_serialize compress c attrs = Inr bs"
  shows "4 \<le> length bs" "uint32_deserialize 0 (take 4 bs) = Inr (4, int (length bs - 4))"
proof -
  from assms obtain len rest where l: "uint32_serialize (int (length rest)) = Inr len" and bs: "bs = len @ rest"
    unfolding message_serialize_def bindE_eq_Inr_iff Let_def by (auto simp flip: of_nat_add length_append)
  then show "4 \<le> length bs" using uint32_serializeD(1) [OF l] by simp
  show "uint32_deserialize 0 (take 4 bs) = Inr (4, int (length bs - 4))"
    using uint32_serializeD(1) [OF l] uint32_serializeD(2) [OF l, of "[]" "[]"] bs by simp
qed

lemma encoded_cases:
  assumes "encode_message_data compress token sender (Obj (cls, attrs)) = Inr out" "length token = 4"
  obtains data where "message_serialize compress cls attrs = Inr data"
    "out = (if obfuscated sender then token @ masked token data else data)"
  using assms encode_eq [OF assms(2), of token]
  by (auto simp: encode_message_data_def serialize_message_def encode_def split: sum.splits if_splits)

lemma read_encoded:
  assumes enc: "encode_message_data compress token sender (Obj (cls, attrs)) = Inr out"
    and tok: "length token = 4" and rcv: "has_streams rcv" "obfuscated rcv = obfuscated sender"
  shows "read_message rcv (out @ rest) = (Data out, rest) \<and> out \<noteq> []"
proof -
  obtain data where data: "message_serialize compress cls attrs = Inr data"
    and out: "out = (if obfuscated sender then token @ masked token data else data)"
    by (rule encoded_cases [OF enc tok])
  note h = message_header [OF data]
  show ?thesis
  proof (cases "obfuscated sender")
    case True
    have "take 8 out = token @ masked token (take 4 data)"
      using tok True by (simp add: out take_masked [symmetric])
    then have "decode (take 8 out) = Inr (take 4 data)" by (simp add: decode_eq [OF tok] masked_masked)
    moreover have "length out = 4 + length data" using tok True by (simp add: out)
    ultimately show ?thesis
      using True rcv h tok
      by (auto simp: read_message_def readexactly_def HEADER_SIZE_OBFUSCATED_def KEY_SIZE_def)
  next
    case False
    then show ?thesis
      using out rcv h by (auto simp: read_message_def readexactly_def HEADER_SIZE_UNOBFUSCATED_def)
  qed
qed

lemma decode_encoded:
  assumes enc: "encode_message_data compress token sender (Obj (cls, attrs)) = Inr out"
    and tok: "length token = 4" and obf: "obfuscated rcv = obfuscated sender"
    and fam: "family_ok width family" "deserialize_message decompress rcv = deserialize_family width family decompress"
    and cls: "cls \<in> set family" "conforming (msg_fields cls) attrs attrs"
    and zlib: "\<And>b. decompress (compress b) = Inr b"
  shows "decode_message_data decompress rcv out = Inr (cls, attrs)"
proof -
  note dispatch = message_family.dispatch [OF message_family.intro [OF fam(1)]]
  obtain data where data: "message_serialize compress cls attrs = Inr data"
    and out: "out = (if obfuscated sender then token @ masked token data else data)"
    by (rule encoded_cases [OF enc tok])
  have "(if obfuscated rcv then decode out else Inr out) = Inr data"
    using out obf by (simp add: decode_eq [OF tok] masked_masked)
  then show ?thesis using dispatch [OF cls zlib data] fam(2) by (simp add: decode_message_data_def)
qed

text \<open>What a sequence of sent messages puts on the wire.\<close>

fun encode_all :: "(bytes \<Rightarrow> bytes) \<Rightarrow> connection \<Rightarrow> (bytes \<times> message_object) list \<Rightarrow> connection_error + bytes" where
  "encode_all compress c [] = Inr []"
| "encode_all compress c ((token, m) # ms) =
     bindE (encode_message_data compress token c (Obj m)) (\<lambda>out.
     bindE (encode_all compress c ms) (\<lambda>rest. Inr (out @ rest)))"

lemma stream_delivery:
  assumes rcv: "connection_inv rcv" "\<not> is_closing rcv" "has_streams rcv" "obfuscated rcv = obfuscated sender"
    and fam: "family_ok width family" "deserialize_message decompress rcv = deserialize_family width family decompress"
    and zlib: "\<And>b. decompress (compress b) = Inr b"
    and ms: "\<forall>(token, cls, attrs) \<in> set ms. length token = 4 \<and> cls \<in> set family \<and> conforming (msg_fields cls) attrs attrs"
    and enc: "encode_all compress sender ms = Inr stream"
  shows "message_reader_loop decompress (\<lambda>_ c. c) rcv stream = (map snd ms, disconnect EOF rcv)"
  using ms enc
proof (induction ms arbitrary: stream)
  case Nil
  then show ?case using rcv
    by (simp add: message_reader_loop_source receive_message_object_def receive_message_def read_message_def
        readexactly_def read_data_def HEADER_SIZE_OBFUSCATED_def HEADER_SIZE_UNOBFUSCATED_def)
next
  case (Cons m ms)
  obtain token cls attrs where m: "m = (token, cls, attrs)" by (cases m)
  from Cons.prems(2) m obtain out rest where e: "encode_message_data compress token sender (Obj (cls, attrs)) = Inr out"
    and r: "encode_all compress sender ms = Inr rest" and s: "stream = out @ rest"
    by (auto simp: bindE_eq_Inr_iff)
  have hyp: "length token = 4" "cls \<in> set family" "conforming (msg_fields cls) attrs attrs"
    using Cons.prems(1) m by auto
  have "receive_message_object decompress rcv stream = (Inr (Some (cls, attrs)), rcv, rest)"
    using read_encoded [OF e hyp(1) rcv(3,4), of rest] decode_encoded [OF e hyp(1) rcv(4) fam hyp(2,3) zlib]
    by (simp add: receive_message_object_def receive_message_def read_data_def s)
  moreover have "message_reader_loop decompress (\<lambda>_ c. c) rcv rest = (map snd ms, disconnect EOF rcv)"
    using Cons.prems(1) r by (intro Cons.IH) auto
  ultimately show ?case
    using rcv(1,2) m by (simp add: message_reader_loop_source)
qed

subsection \<open>File transfers\<close>

definition receive_data :: "read_outcome \<Rightarrow> connection \<Rightarrow> (connection_error + bytes option) \<times> connection" where
  "receive_data r c = (if \<not> has_streams c then (Inl ConnectionReadError, c) else read_data r c)"

fun receive_file ::
    "nat \<Rightarrow> nat \<Rightarrow> read_outcome list \<Rightarrow> connection \<Rightarrow> (connection_error + unit) option \<times> bytes list \<times> connection" where
  \<comment> \<open>\<open>bytes_received\<close>, \<open>filesize\<close>, what each read returns; the chunks written to the file
     (and passed to the callback). \<open>None\<close>: the transfer is still waiting for data\<close>
  "receive_file received filesize [] c = (None, [], c)"
| "receive_file received filesize (r # reads) c =
     (case receive_data r c of
        (Inl e, c') \<Rightarrow> (Some (Inl e), [], c')
      | (Inr None, c') \<Rightarrow> (Some (Inr ()), [], c')
      | (Inr (Some data), c') \<Rightarrow>
          if received + length data \<ge> filesize then (Some (Inr ()), [data], c')
          else (case receive_file (received + length data) filesize reads c' of
                  (res, written, c'') \<Rightarrow> (res, data # written, c'')))"

definition send_data :: "write_outcome \<Rightarrow> connection \<Rightarrow> (connection_error + unit) \<times> connection" where
  "send_data w c = send_bytes w c"

function send_file ::
    "('l \<Rightarrow> rat list \<Rightarrow> (nat \<times> 'l \<times> rat list) option) \<Rightarrow> 'l \<Rightarrow> rat list \<Rightarrow> bytes \<Rightarrow> write_outcome list
     \<Rightarrow> connection \<Rightarrow> (connection_error + unit) option \<times> bytes list \<times> connection" where
  \<comment> \<open>\<open>content\<close>: what is left to read in the file; a missing write outcome is success\<close>
  "send_file take_chunk l clock content writes c =
     (case take_chunk l clock of
        None \<Rightarrow> (None, [], c)
      | Some (bytes_to_write, l', clock') \<Rightarrow>
          let data = take bytes_to_write content in
          if data = [] then (Some (Inr ()), [], c)
          else (case send_data (case writes of [] \<Rightarrow> WriteOk | w # _ \<Rightarrow> w) c of
              (Inl e, c') \<Rightarrow> (Some (Inl e), [], c')
            | (Inr _, c') \<Rightarrow>
                (case send_file take_chunk l' clock' (drop bytes_to_write content) (tl writes) c' of
                   (res, sent, c'') \<Rightarrow> (res, data # sent, c''))))"
  by pat_completeness auto
termination
  by (relation "measure (\<lambda>(t, l, clock, content, w, c). length content)") auto

declare send_file.simps [simp del]

text \<open>Whatever was sent is a prefix of the file, and all of it when the transfer returns.\<close>

context token_source
begin

lemma send_file_content:
  assumes "inv l" "send_file take_chunk l clock content writes c = (res, sent, c')"
  shows "\<exists>rest. content = concat sent @ rest \<and> (res = Some (Inr ()) \<longrightarrow> rest = [])"
  using assms
proof (induction content arbitrary: l clock writes c sent res c' rule: length_induct)
  case (1 content)
  show ?case
  proof (cases "take_chunk l clock")
    case None
    then show ?thesis using 1(3) by (simp add: send_file.simps [of _ l])
  next
    case (Some x)
    then obtain n l' clock' where t: "take_chunk l clock = Some (n, l', clock')" by (cases x) auto
    have n: "0 < n" "inv l'" using chunk_pos [OF 1(2) t] take_inv [OF 1(2) t] by auto
    show ?thesis
    proof (cases "take n content = []")
      case True
      then show ?thesis using 1(3) t n by (simp add: send_file.simps [of _ l])
    next
      case False
      obtain r c1 where w: "send_data (case writes of [] \<Rightarrow> WriteOk | w # _ \<Rightarrow> w) c = (r, c1)"
        by (cases "send_data (case writes of [] \<Rightarrow> WriteOk | w # _ \<Rightarrow> w) c")
      show ?thesis
      proof (cases r)
        case (Inl e)
        then show ?thesis using 1(3) t False w by (auto simp: send_file.simps [of _ l])
      next
        case (Inr u)
        obtain res' sent' c'' where rec: "send_file take_chunk l' clock' (drop n content) (tl writes) c1 = (res', sent', c'')"
          by (cases "send_file take_chunk l' clock' (drop n content) (tl writes) c1")
        have "length (drop n content) < length content" using False n by auto
        from 1(1) [rule_format, OF this n(2) rec] obtain rest where
          "drop n content = concat sent' @ rest" "res' = Some (Inr ()) \<longrightarrow> rest = []" by blast
        moreover have "res = res'" "sent = take n content # sent'"
          using 1(3) t False w Inr rec by (auto simp: send_file.simps [of _ l])
        ultimately show ?thesis
          by (metis append_take_drop_id append.assoc concat.simps(2))
      qed
    qed
  qed
qed

end

lemma receive_file_result:
  assumes "receive_file received filesize reads c = (res, written, c')" "received < filesize"
  shows "(res = Some (Inr ()) \<longrightarrow> filesize \<le> received + length (concat written) \<or> c' = disconnect EOF c)
    \<and> received + length (concat (butlast written)) < filesize \<and> [] \<notin> set written"
  using assms
proof (induction reads arbitrary: received written)
  case (Cons r reads)
  obtain x c1 where d: "receive_data r c = (x, c1)" by (cases "receive_data r c")
  have open1: "c1 = c \<and> (\<exists>d. d \<noteq> [] \<and> x = Inr (Some d)) \<or>
     \<not> (\<exists>d. x = Inr (Some d)) \<and> (x = Inr None \<longrightarrow> c1 = disconnect EOF c)"
    using d by (auto simp: receive_data_def read_data_def split: if_splits read_outcome.splits)
  consider (err) e where "x = Inl e" | (eof) "x = Inr None" | (data) data where "x = Inr (Some data)"
    by (metis not_None_eq sumE)
  then show ?case
  proof cases
    case (data dat)
    then have c1: "c1 = c" "dat \<noteq> []" using open1 by auto
    show ?thesis
    proof (cases "filesize \<le> received + length dat")
      case True
      then show ?thesis using Cons.prems d data c1 by auto
    next
      case False
      obtain res' w' c'' where rec: "receive_file (received + length dat) filesize reads c = (res', w', c'')"
        by (cases "receive_file (received + length dat) filesize reads c")
      moreover from this have "res = res'" "written = dat # w'" "c' = c''"
        using Cons.prems(1) d data c1(1) False by auto
      ultimately show ?thesis using Cons.IH [of "received + length dat" w'] False c1(2) by auto
    qed
  qed (use Cons.prems d open1 in auto)
qed simp


subsection \<open>Runs of a connection\<close>

text \<open>
  One completed operation of a peer or server connection. The stream a read sees is
  arbitrary, so the relation covers every peer.
\<close>

inductive connection_step :: "connection \<Rightarrow> connection \<Rightarrow> bool" where
  Connect: "connection_step c (snd (connect opened c))"
| Disconnect: "connection_step c (disconnect reason c)"
| Set_connection_state: "connection_step c (set_connection_state st c)"
| Start_reader: "connection_step c (c\<lparr>reader_task := True\<rparr>)"
| Queue: "connection_step c (queue_message task c)"
| Message_done: "connection_step c (c\<lparr>queued_messages := removeAll task (queued_messages c)\<rparr>)"
| Send: "connection_step c (snd (send_message compress token w m c))"
| Receive: "receive_message c stream = (res, c', stream') \<Longrightarrow> connection_step c c'"
| Receive_data: "connection_step c (snd (receive_data r c))"

inductive reachable_connection :: "connection \<Rightarrow> bool" where
  New: "reachable_connection (new_connection cls obf typ inc)"
| Accepted: "reachable_connection (accept obf (\<lambda>c. c))"
| Step: "reachable_connection c \<Longrightarrow> connection_step c c' \<Longrightarrow> reachable_connection c'"

text \<open>In the log every \<open>CLOSED\<close> follows a \<open>CLOSING\<close> with the same reason, directly.\<close>

fun closes_paired :: "(connection_status \<times> close_reason) list \<Rightarrow> bool" where
  "closes_paired [] = True"
| "closes_paired ((CLOSED, r) # rest) = False"
| "closes_paired [(CLOSING, r)] = False"
| "closes_paired ((CLOSING, r) # (st, r') # rest) = (st = CLOSED \<and> r' = r \<and> closes_paired rest)"
| "closes_paired ((st, r) # rest) = closes_paired rest"

lemma closes_paired_append: "closes_paired xs \<Longrightarrow> closes_paired ys \<Longrightarrow> closes_paired (xs @ ys)"
  by (induction xs rule: closes_paired.induct) auto

definition connection_ok :: "connection \<Rightarrow> bool" where
  "connection_ok c \<longleftrightarrow> connection_inv c \<and> closes_paired (notified c) \<and> state c \<noteq> CLOSING
     \<and> state c = (if notified c = [] then UNINITIALIZED else fst (last (notified c)))"

lemma connection_ok_disconnect: "connection_ok c \<Longrightarrow> connection_ok (disconnect reason c)"
  by (auto simp: connection_ok_def connection_inv_def connection_defs closes_paired_append)

lemma connection_ok_connect: "connection_ok c \<Longrightarrow> connection_ok (snd (connect opened c))"
  by (auto simp: connection_ok_def connection_inv_def connect_def connection_defs closes_paired_append Let_def)

lemma connection_ok_read: "connection_ok c \<Longrightarrow> connection_ok (snd (read_data r c))"
  using read_data_open [of r c] connection_ok_disconnect by (cases "read_data r c") auto

lemma connection_ok_send_bytes: "connection_ok c \<Longrightarrow> connection_ok (snd (send_bytes w c))"
  by (auto simp: send_bytes_def connection_ok_disconnect split: write_outcome.split)

lemma connection_ok_send:
  assumes "connection_ok c"
  shows "connection_ok (snd (send_message compress token w m c))"
proof -
  obtain r c1 where sb: "send_bytes w c = (r, c1)" by (cases "send_bytes w c")
  then have c1: "connection_ok c1" using connection_ok_send_bytes [OF assms, of w] by simp
  show ?thesis
  proof (cases "encode_message_data compress token c m")
    case (Inl e)
    then show ?thesis using assms by (cases e) (simp_all add: send_message_def)
  next
    case (Inr data)
    then show ?thesis using assms c1 by (cases r) (simp_all add: send_message_def sb)
  qed
qed

lemma connection_ok_fields:
  "connection_ok (c\<lparr>reader_task := b\<rparr>) = connection_ok c"
  "connection_ok (c\<lparr>queued_messages := q\<rparr>) = connection_ok c"
  "connection_ok (c\<lparr>obfuscated := b\<rparr>) = connection_ok c"
  "connection_ok (c\<lparr>connection_state := st\<rparr>) = connection_ok c"
  by (simp_all add: connection_ok_def connection_inv_def)

lemma connection_ok_set_connection_state: "connection_ok c \<Longrightarrow> connection_ok (set_connection_state st c)"
  by (simp add: set_connection_state_def Let_def connection_ok_fields)

lemma connection_ok_step: "connection_step c c' \<Longrightarrow> connection_ok c \<Longrightarrow> connection_ok c'"
proof (induction rule: connection_step.induct)
  case (Receive c stream res c' stream')
  then show ?case using connection_ok_read [of c "fst (read_message c stream)"]
    by (auto simp: receive_message_def split: prod.splits)
next
  case (Receive_data c r)
  then show ?case using connection_ok_read [of c r] by (auto simp: receive_data_def)
qed (simp_all add: connection_ok_disconnect connection_ok_connect connection_ok_send connection_ok_fields
      connection_ok_set_connection_state queue_message_def)

lemma connection_ok_new: "connection_ok (new_connection cls obf typ inc)"
  by (simp add: connection_ok_def connection_inv_def new_connection_def)

lemma connection_ok_accept: "connection_ok (accept obf (\<lambda>c. c))"
  by (simp add: connection_ok_def connection_inv_def new_connection_def accept_def set_state_def)

lemma connection_ok_reachable: "reachable_connection c \<Longrightarrow> connection_ok c"
  by (induction rule: reachable_connection.induct)
    (rule connection_ok_new connection_ok_accept connection_ok_step; assumption)+

subsection \<open>Properties\<close>

definition connection_family :: "connection \<Rightarrow> id_width \<times> msg_class list" where
  \<comment> \<open>the catalogue a connection reads from\<close>
  "connection_family c = (case connection_class c of
       ServerConnection \<Rightarrow> (Uint32_Id, server_responses)
     | PeerConnection \<Rightarrow>
         if connection_state c = AWAITING_INIT then (Uint8_Id, peer_init_messages)
         else if connection_type c = PEER then (Uint32_Id, peer_messages)
         else (Uint8_Id, distributed_messages))"

lemma connection_family_ok: "family_ok (fst (connection_family c)) (snd (connection_family c))"
  by (simp add: connection_family_def server_responses_ok peer_init_ok peer_ok distributed_ok
      split: connection_class.split)

lemma deserialize_message_family:
  "deserialize_message decompress c
     = deserialize_family (fst (connection_family c)) (snd (connection_family c)) decompress"
  by (rule ext) (simp add: deserialize_message_def connection_family_def
      ServerMessage_deserialize_response_def PeerInitializationMessage_deserialize_request_def
      PeerMessage_deserialize_request_def DistributedMessage_deserialize_request_def
      split: connection_class.split)

text \<open>C1: End to end: whatever conforming messages a client encodes onto a connection, one after
  the other and with fresh obfuscation keys, the reader loop on the other side delivers
  exactly these messages in this order, for every kind of connection, obfuscated or not, and
  then closes its side with the reason \<open>EOF\<close>. zlib only has to undo its own compression.\<close>

theorem messages_survive_the_stream:
  assumes "connection_inv rcv" "\<not> is_closing rcv" "has_streams rcv" "obfuscated rcv = obfuscated sender"
    and "\<And>b. decompress (compress b) = Inr b"
    and "\<forall>(token, cls, attrs) \<in> set ms. length token = 4 \<and> cls \<in> set (snd (connection_family rcv))
           \<and> conforming (msg_fields cls) attrs attrs"
    and "encode_all compress sender ms = Inr stream"
  shows "message_reader_loop decompress (\<lambda>_ c. c) rcv stream = (map snd ms, disconnect EOF rcv)"
  by (rule stream_delivery [OF assms(1-4) connection_family_ok deserialize_message_family assms(5-7)])

lemma encode_total:
  assumes "message_serialize compress cls attrs = Inr data" "length token = 4"
  shows "\<exists>out. encode_message_data compress token c (Obj (cls, attrs)) = Inr out"
  using assms encode_eq [OF assms(2), of token data]
  by (simp add: encode_message_data_def serialize_message_def encode_def)

definition example_peer :: connection where
  "example_peer = set_connection_state ESTABLISHED (accept True (\<lambda>c. c))"

definition example_sent :: "(bytes \<times> message_object) list" where
  "example_sent = [([1, 2, 3, 4], PeerUserInfoRequest_Request, []),
     ([250, 7, 0, 129], PeerPlaceInQueueReply_Request, [(''filename'', PStr [0x61, 0xE9]), (''place'', PInt 7)])]"

lemma messages_survive_the_stream_witness:
  "\<exists>stream. encode_all (\<lambda>b. b) example_peer example_sent = Inr stream
     \<and> message_reader_loop Inr (\<lambda>_ c. c) example_peer stream = (map snd example_sent, disconnect EOF example_peer)"
proof -
  have inv: "connection_inv example_peer" "\<not> is_closing example_peer" "has_streams example_peer"
    by (simp_all add: example_peer_def set_connection_state_def accept_def new_connection_def
        set_state_def connection_inv_def Let_def)
  have fam: "snd (connection_family example_peer) = peer_messages"
    by (simp add: connection_family_def example_peer_def set_connection_state_def accept_def
        new_connection_def set_state_def Let_def)
  have ms: "\<forall>(token, cls, attrs) \<in> set example_sent. length token = 4
      \<and> cls \<in> set (snd (connection_family example_peer)) \<and> conforming (msg_fields cls) attrs attrs"
    unfolding fam
    by (simp add: example_sent_def peer_messages_def peer_defs text_ok_def utf8_encode_def fits_def active_def valid_cp_def utf8_cp_def)
  have "\<exists>data. message_serialize (\<lambda>b. b) PeerUserInfoRequest_Request [] = Inr data"
    by (simp add: message_serialize_def PeerUserInfoRequest_Request_def uint32_serialize_def struct_pack_def)
  moreover have "\<exists>data. message_serialize (\<lambda>b. b) PeerPlaceInQueueReply_Request
      [(''filename'', PStr [0x61, 0xE9]), (''place'', PInt 7)] = Inr data"
    by (simp add: message_serialize_def PeerPlaceInQueueReply_Request_def uint32_serialize_def struct_pack_def
        get_value_for_field_def getattr_def get_or_def string_serialize_def utf8_encode_def valid_cp_def utf8_cp_def)
  ultimately obtain out1 out2 where
    "encode_message_data (\<lambda>b. b) [1, 2, 3, 4] example_peer (Obj (PeerUserInfoRequest_Request, [])) = Inr out1"
    "encode_message_data (\<lambda>b. b) [250, 7, 0, 129] example_peer (Obj (PeerPlaceInQueueReply_Request,
      [(''filename'', PStr [0x61, 0xE9]), (''place'', PInt 7)])) = Inr out2"
    using encode_total [of _ _ _ _ "[1, 2, 3, 4]" example_peer]
      encode_total [of _ _ _ _ "[250, 7, 0, 129]" example_peer] by fastforce
  then have "\<exists>stream. encode_all (\<lambda>b. b) example_peer example_sent = Inr stream"
    by (simp add: example_sent_def)
  then show ?thesis using messages_survive_the_stream [OF inv refl _ ms, of Inr "\<lambda>b. b"] by auto
qed

text \<open>A message that cannot be parsed does not stop the reader: it is skipped and the messages
  behind it are read as if it had not been there.\<close>

theorem malformed_message_is_skipped:
  assumes "connection_inv c" "\<not> is_closing c" "has_streams c" "\<not> obfuscated c"
    and "length body < 2 ^ 32"
    and "deserialize_message decompress c (le_bytes 4 (length body) @ body) = Inl e"
  shows "message_reader_loop decompress callback c ((le_bytes 4 (length body) @ body) @ rest)
       = message_reader_loop decompress callback c rest"
proof -
  let ?len = "le_bytes 4 (length body)"
  have "uint32_serialize (int (length body)) = Inr ?len"
    using assms(5) by (simp add: uint32_serialize_def struct_pack_def)
  from uint32_serializeD(2) [OF this, of "[]" "[]"]
  have h: "uint32_deserialize 0 ?len = Inr (4, int (length body))" by simp
  have "read_message c ((?len @ body) @ rest) = (Data (?len @ body), rest)"
    using assms(3,4) h by (simp add: read_message_def readexactly_def HEADER_SIZE_UNOBFUSCATED_def)
  then have "receive_message_object decompress c ((?len @ body) @ rest)
      = (Inl MessageDeserializationError, c, rest)"
    using assms(4,6) by (simp add: receive_message_object_def receive_message_def read_data_def decode_message_data_def)
  then show ?thesis
    using assms(2) message_reader_loop_source [OF assms(1), of decompress callback "(?len @ body) @ rest"]
    by (simp del: append_assoc)
qed

lemma malformed_message_is_skipped_witness:
  "message_reader_loop Inr (\<lambda>_ c. c) (snd (connect True (new_connection ServerConnection False PEER False)))
       ((le_bytes 4 (length [1, 2, 3 :: byte]) @ [1, 2, 3]) @ [])
     = message_reader_loop Inr (\<lambda>_ c. c) (snd (connect True (new_connection ServerConnection False PEER False))) []"
  by (rule malformed_message_is_skipped [where e = StructError])
    (simp_all add: connect_def new_connection_def set_state_def connection_inv_def Let_def
      deserialize_message_def ServerMessage_deserialize_response_def deserialize_family_def
      uint32_deserialize_def struct_unpack_from_def)



text \<open>An upload sends the file: at every moment what was sent is a prefix of the content, with
  any limiter the code can create, and when \<open>send_file\<close> returns without an error the whole
  file was sent, because no limiter hands out an empty chunk.\<close>

theorem send_file_sends_the_file:
  assumes "limiter_inv l"
    and "send_file take_tokens l clock content writes c = (res, sent, c')"
  shows "\<exists>rest. content = concat sent @ rest \<and> (res = Some (Inr ()) \<longrightarrow> rest = [])"
  by (rule limiter.send_file_content [OF assms])

lemma send_file_sends_the_file_witness:
  "\<exists>res sent c'. send_file take_tokens (create_limiter 0) [] [1, 2, 3] []
       (snd (connect True (new_connection PeerConnection False FILE False))) = (res, sent, c')
     \<and> res = Some (Inr ()) \<and> concat sent = [1, 2, 3]"
proof -
  let ?c = "snd (connect True (new_connection PeerConnection False FILE False))"
  obtain res sent c' where s: "send_file take_tokens (create_limiter 0) [] [1, 2, 3] [] ?c = (res, sent, c')"
    by (cases "send_file take_tokens (create_limiter 0) [] [1, 2, 3] [] ?c")
  then have "res = Some (Inr ())"
    by (simp add: send_file.simps create_limiter_def CHUNK_SIZE_def send_data_def send_bytes_def
        connect_def new_connection_def set_state_def Let_def)
  with send_file_sends_the_file [OF limiter_inv_create s] s show ?thesis by simp
qed

text \<open>A download stops as soon as the announced size has arrived: everything before the last
  chunk is less than the file size, no empty chunk is written, and when the method returns
  without an error either the size was reached or the peer closed the connection.\<close>

theorem receive_file_stops:
  assumes "receive_file 0 filesize reads c = (res, written, c')" "0 < filesize"
  shows "length (concat (butlast written)) < filesize \<and> [] \<notin> set written
    \<and> (res = Some (Inr ()) \<longrightarrow> filesize \<le> length (concat written) \<or> c' = disconnect EOF c)"
  using receive_file_result [OF assms] by auto

lemma receive_file_stops_witness:
  "\<exists>res written c'. receive_file 0 4 [Data [1, 2], Data [3, 4, 5], Data [6]]
      (snd (connect True (new_connection PeerConnection False FILE False))) = (res, written, c')
    \<and> written = [[1, 2], [3, 4, 5]] \<and> length (concat (butlast written)) < 4"
proof -
  let ?c = "snd (connect True (new_connection PeerConnection False FILE False))"
  have "receive_file 0 4 [Data [1, 2], Data [3, 4, 5], Data [6]] ?c = (Some (Inr ()), [[1, 2], [3, 4, 5]], ?c)"
    by (simp add: receive_data_def read_data_def connect_def new_connection_def set_state_def Let_def)
  from receive_file_stops [OF this] this show ?thesis by simp
qed

end
