(* ===== verification/Transfer_Model.thy ===== *)
theory Transfer_Model
  imports Complex_Main Prelude
begin

text \<open>
\<open>src/aioslsk/transfer/model.py\<close> and \<open>src/aioslsk/transfer/state.py\<close>: a transfer, its
  variables, and the state classes with their transitions. A call of a state method returns
  the new transfer, what the code does to the outside in order (tasks cancelled, files
  removed, listeners told) and the method's result. Times are readings of the clock; tasks
  are numbers. The attribute \<open>_offset\<close> that only \<open>reset_progress_vars\<close> writes is left out.
\<close>

subsection \<open>Data\<close>

datatype transfer_state =
  UNSET | VIRGIN | QUEUED | INITIALIZING | INCOMPLETE | DOWNLOADING | UPLOADING
  | COMPLETE | FAILED | ABORTED | PAUSED

datatype direction = UPLOAD | DOWNLOAD

text \<open>\<open>FailReason\<close> and \<open>AbortReason\<close>: string constants.\<close>

definition text_of :: "string \<Rightarrow> pystr" where "text_of str = map of_char str"

definition FAIL_CANCELLED :: pystr where "FAIL_CANCELLED = text_of ''Cancelled''"
definition FAIL_COMPLETE :: pystr where "FAIL_COMPLETE = text_of ''Complete''"
definition FAIL_QUEUED :: pystr where "FAIL_QUEUED = text_of ''Queued''"
definition FAIL_FILE_NOT_SHARED :: pystr where "FAIL_FILE_NOT_SHARED = text_of ''File not shared.''"
definition FAIL_FILE_READ_ERROR :: pystr where "FAIL_FILE_READ_ERROR = text_of ''File read error.''"

definition ABORT_REQUESTED :: pystr where "ABORT_REQUESTED = text_of ''Requested''"
definition ABORT_BLOCKED :: pystr where "ABORT_BLOCKED = text_of ''Blocked''"
definition ABORT_FILE_NOT_SHARED :: pystr where "ABORT_FILE_NOT_SHARED = text_of ''File not shared''"

definition SPEED_LOG_INTERVAL :: rat where "SPEED_LOG_INTERVAL = 1 / 10"
definition SPEED_LOG_ENTRIES :: nat where "SPEED_LOG_ENTRIES = 30"

record snapshot =
  snap_state :: transfer_state
  snap_bytes_transfered :: nat
  snap_speed :: rat
  snap_start_time :: "rat option"
  snap_complete_time :: "rat option"
  snap_fail_reason :: "pystr option"
  snap_abort_reason :: "pystr option"

record transfer =
  state :: transfer_state
  direction :: direction
  username :: pystr
  remote_path :: pystr
  local_path :: "pystr option"
  remotely_queued :: bool
  place_in_queue :: "nat option"
  fail_reason :: "pystr option"
  abort_reason :: "pystr option"
  filesize :: "nat option"
  bytes_transfered :: nat
  queue_attempts :: nat
  last_queue_attempt :: rat
  upload_request_attempts :: nat
  last_upload_request_attempt :: rat
  start_time :: "rat option"
  complete_time :: "rat option"
  progress_snapshot :: "snapshot option"
  speed_log :: "(rat \<times> nat) list"
  remotely_queue_task :: "nat option" \<comment> \<open>the number of the task\<close>
  transfer_task :: "nat option"

datatype effect =
    Cancel_Task nat
  | Remove_File pystr
  | State_Changed transfer_state transfer_state \<comment> \<open>the listeners are told the old and new state\<close>

type_synonym outcome = "transfer \<times> effect list \<times> bool"

definition is_upload :: "transfer \<Rightarrow> bool" where
  "is_upload t \<longleftrightarrow> direction t = UPLOAD"

definition is_download :: "transfer \<Rightarrow> bool" where
  "is_download t \<longleftrightarrow> direction t = DOWNLOAD"

definition is_finalized :: "transfer \<Rightarrow> bool" where
  "is_finalized t \<longleftrightarrow> state t \<in> {COMPLETE, ABORTED, FAILED}"

definition is_processing :: "transfer \<Rightarrow> bool" where
  "is_processing t \<longleftrightarrow> state t \<in> {DOWNLOADING, UPLOADING, INITIALIZING}"

definition is_transferring :: "transfer \<Rightarrow> bool" where
  "is_transferring t \<longleftrightarrow> state t \<in> {DOWNLOADING, UPLOADING}"

definition is_transfered :: "transfer \<Rightarrow> bool" where
  "is_transfered t \<longleftrightarrow> filesize t = Some (bytes_transfered t)"

subsection \<open>Variables\<close>

definition reset_local_vars :: "transfer \<Rightarrow> transfer" where
  "reset_local_vars t = t\<lparr>local_path := None, filesize := None\<rparr>"

definition reset_progress_vars :: "transfer \<Rightarrow> transfer" where
  "reset_progress_vars t = t\<lparr>bytes_transfered := 0\<rparr>"

definition reset_queue_attempts :: "transfer \<Rightarrow> transfer" where
  "reset_queue_attempts t = t\<lparr>queue_attempts := 0, last_queue_attempt := 0\<rparr>"

definition increase_queue_attempts :: "rat \<Rightarrow> transfer \<Rightarrow> transfer" where
  "increase_queue_attempts now t =
     t\<lparr>queue_attempts := queue_attempts t + 1, last_queue_attempt := now\<rparr>"

definition reset_upload_request_attempts :: "transfer \<Rightarrow> transfer" where
  "reset_upload_request_attempts t =
     t\<lparr>upload_request_attempts := 0, last_upload_request_attempt := 0\<rparr>"

definition increase_upload_request_attempt :: "rat \<Rightarrow> transfer \<Rightarrow> transfer" where
  "increase_upload_request_attempt now t =
     t\<lparr>upload_request_attempts := upload_request_attempts t + 1, last_upload_request_attempt := now\<rparr>"

definition reset_queue_vars :: "transfer \<Rightarrow> transfer" where
  "reset_queue_vars t = reset_upload_request_attempts (reset_queue_attempts
     (t\<lparr>place_in_queue := None, remotely_queued := False\<rparr>))"

definition reset_time_vars :: "transfer \<Rightarrow> transfer" where
  "reset_time_vars t = t\<lparr>start_time := None, complete_time := None, speed_log := []\<rparr>"

definition set_start_time :: "rat \<Rightarrow> transfer \<Rightarrow> transfer" where
  "set_start_time now t = t\<lparr>start_time := Some now, complete_time := None, speed_log := []\<rparr>"

definition set_complete_time :: "rat \<Rightarrow> transfer \<Rightarrow> transfer" where
  "set_complete_time now t =
     (if start_time t \<noteq> None then t\<lparr>complete_time := Some now, speed_log := []\<rparr> else t)"

subsection \<open>Speed\<close>

definition append_log :: "rat \<times> nat \<Rightarrow> (rat \<times> nat) list \<Rightarrow> (rat \<times> nat) list" where
  \<comment> \<open>\<open>deque(maxlen=...)\<close>: the oldest entry falls out\<close>
  "append_log e entries = (let l = entries @ [e] in drop (length l - SPEED_LOG_ENTRIES) l)"

definition add_speed_log_entry :: "rat \<Rightarrow> nat \<Rightarrow> transfer \<Rightarrow> transfer" where
  "add_speed_log_entry current_time n t =
     (let entries = speed_log t in
      if entries = [] then t\<lparr>speed_log := append_log (current_time, n) entries\<rparr>
      else if current_time - fst (last entries) < SPEED_LOG_INTERVAL then
        t\<lparr>speed_log := append_log (fst (last entries), n + snd (last entries)) (butlast entries)\<rparr>
      else t\<lparr>speed_log := append_log (current_time, n) entries\<rparr>)"

definition transfer_progress_callback :: "rat \<Rightarrow> nat \<Rightarrow> transfer \<Rightarrow> transfer" where
  \<comment> \<open>\<open>n\<close> is the length of the chunk\<close>
  "transfer_progress_callback current_time n t =
     add_speed_log_entry current_time n (t\<lparr>bytes_transfered := bytes_transfered t + n\<rparr>)"

definition get_speed :: "rat \<Rightarrow> rat \<Rightarrow> transfer \<Rightarrow> rat" where
  \<comment> \<open>readings of \<open>time.time()\<close> and \<open>time.monotonic()\<close>\<close>
  "get_speed wall monot t =
     (case start_time t of
        None \<Rightarrow> 0
      | Some start \<Rightarrow>
          if is_transferring t then
            (case speed_log t of
               [] \<Rightarrow> 0
             | (oldest_time, _) # _ \<Rightarrow>
                 if monot - oldest_time = 0 then 0
                 else of_nat (sum_list (map snd (speed_log t))) / (monot - oldest_time))
          else
            let duration = (case complete_time t of None \<Rightarrow> wall - start | Some c \<Rightarrow> c - start) in
            if duration = 0 then 0 else of_nat (bytes_transfered t) / duration)"

definition take_progress_snapshot :: "rat \<Rightarrow> rat \<Rightarrow> transfer \<Rightarrow> transfer" where
  "take_progress_snapshot wall monot t = t\<lparr>progress_snapshot := Some
     \<lparr>snap_state = state t, snap_bytes_transfered = bytes_transfered t,
      snap_speed = get_speed wall monot t, snap_start_time = start_time t,
      snap_complete_time = complete_time t, snap_fail_reason = fail_reason t,
      snap_abort_reason = abort_reason t\<rparr>\<rparr>"

definition new_transfer :: "pystr \<Rightarrow> pystr \<Rightarrow> direction \<Rightarrow> transfer" where
  "new_transfer user path dir =
     \<lparr>state = VIRGIN, direction = dir, username = user, remote_path = path, local_path = None,
      remotely_queued = False, place_in_queue = None, fail_reason = None, abort_reason = None,
      filesize = None, bytes_transfered = 0, queue_attempts = 0, last_queue_attempt = 0,
      upload_request_attempts = 0, last_upload_request_attempt = 0, start_time = None,
      complete_time = None,
      progress_snapshot = Some \<lparr>snap_state = VIRGIN, snap_bytes_transfered = 0, snap_speed = 0,
        snap_start_time = None, snap_complete_time = None, snap_fail_reason = None, snap_abort_reason = None\<rparr>,
      speed_log = [], remotely_queue_task = None, transfer_task = None\<rparr>"

definition transfer_eq :: "transfer \<Rightarrow> transfer \<Rightarrow> bool" where
  \<comment> \<open>\<open>Transfer.__eq__\<close>\<close>
  "transfer_eq a b \<longleftrightarrow> remote_path b = remote_path a \<and> username b = username a \<and> direction b = direction a"

subsection \<open>Tasks and local files\<close>

definition get_tasks :: "transfer \<Rightarrow> nat list" where
  "get_tasks t = (case remotely_queue_task t of None \<Rightarrow> [] | Some n \<Rightarrow> [n])
     @ (case transfer_task t of None \<Rightarrow> [] | Some n \<Rightarrow> [n])"

definition cancel_transfer_tasks :: "transfer \<Rightarrow> transfer \<times> effect list" where
  \<comment> \<open>the cancelled tasks are awaited; their done callbacks clear the two fields\<close>
  "cancel_transfer_tasks t =
     (t\<lparr>remotely_queue_task := None, transfer_task := None\<rparr>, map Cancel_Task (get_tasks t))"

definition stop_transfer :: "rat \<Rightarrow> transfer \<Rightarrow> transfer \<times> effect list" where
  "stop_transfer now t = (case cancel_transfer_tasks t of (t', es) \<Rightarrow> (set_complete_time now t', es))"

definition remove_local_file :: "transfer \<Rightarrow> transfer \<times> effect list" where
  \<comment> \<open>a missing file or an \<open>OSError\<close> does not change the outcome\<close>
  "remove_local_file t =
     (if \<not> is_download t then (t, [])
      else case local_path t of
        Some p \<Rightarrow> if p \<noteq> [] then (t\<lparr>local_path := None\<rparr>, [Remove_File p]) else (t, [])
      | None \<Rightarrow> (t, []))"

subsection \<open>The state classes\<close>

definition transition :: "transfer_state \<Rightarrow> transfer \<Rightarrow> transfer \<times> effect list" where
  "transition new t = (t\<lparr>state := new\<rparr>, [State_Changed (state t) new])"

datatype operation =
    Fail "pystr option" | Abort "pystr option" | Queue bool | Initialize
  | Complete | Incomplete | Start_Transferring | Pause

definition undefined_transition :: "transfer \<Rightarrow> outcome" where
  \<comment> \<open>the methods of the base class: a warning, and \<open>False\<close>\<close>
  "undefined_transition t = (t, [], False)"

definition enter :: "transfer_state \<Rightarrow> transfer \<times> effect list \<Rightarrow> outcome" where
  \<comment> \<open>the last two lines of every transition: notify and return \<open>True\<close>\<close>
  "enter new r = (case r of (t, es) \<Rightarrow> case transition new t of (t', es') \<Rightarrow> (t', es @ es', True))"

definition pure_step :: "transfer \<Rightarrow> transfer \<times> effect list" where
  "pure_step t = (t, [])"

definition then_step :: "transfer \<times> effect list \<Rightarrow> (transfer \<Rightarrow> transfer \<times> effect list) \<Rightarrow> transfer \<times> effect list" where
  "then_step r f = (case r of (t, es) \<Rightarrow> case f t of (t', es') \<Rightarrow> (t', es @ es'))"

fun VirginState :: "operation \<Rightarrow> rat \<Rightarrow> transfer \<Rightarrow> outcome" where
  "VirginState (Queue remotely) now t = enter QUEUED (pure_step (t\<lparr>remotely_queued := remotely\<rparr>))"
| "VirginState Pause now t = enter PAUSED (pure_step t)"
| "VirginState _ now t = undefined_transition t"

fun QueuedState :: "operation \<Rightarrow> rat \<Rightarrow> transfer \<Rightarrow> outcome" where
  "QueuedState Initialize now t = enter INITIALIZING (pure_step t)"
| "QueuedState (Fail reason) now t = enter FAILED (pure_step (t\<lparr>fail_reason := reason\<rparr>))"
| "QueuedState (Abort reason) now t =
     enter ABORTED (then_step (then_step (cancel_transfer_tasks t) remove_local_file)
       (\<lambda>t. pure_step (t\<lparr>abort_reason := reason\<rparr>)))"
| "QueuedState Pause now t = enter PAUSED (cancel_transfer_tasks t)"
| "QueuedState _ now t = undefined_transition t"

fun InitializingState :: "operation \<Rightarrow> rat \<Rightarrow> transfer \<Rightarrow> outcome" where
  "InitializingState (Abort reason) now t =
     enter ABORTED (then_step (then_step (cancel_transfer_tasks t) remove_local_file)
       (\<lambda>t. pure_step (t\<lparr>abort_reason := reason\<rparr>)))"
| "InitializingState Pause now t = enter PAUSED (cancel_transfer_tasks t)"
| "InitializingState (Queue remotely) now t = enter QUEUED (pure_step (t\<lparr>remotely_queued := remotely\<rparr>))"
| "InitializingState (Fail reason) now t = enter FAILED (pure_step (t\<lparr>fail_reason := reason\<rparr>))"
| "InitializingState Start_Transferring now t =
     (let t1 = reset_queue_vars (set_start_time now t)
      in if is_upload t1 then enter UPLOADING (pure_step t1) else enter DOWNLOADING (pure_step t1))"
| "InitializingState _ now t = undefined_transition t"

fun DownloadingState :: "operation \<Rightarrow> rat \<Rightarrow> transfer \<Rightarrow> outcome" where
  "DownloadingState (Fail reason) now t =
     enter FAILED (pure_step (set_complete_time now (t\<lparr>fail_reason := reason\<rparr>)))"
| "DownloadingState Complete now t = enter COMPLETE (pure_step (set_complete_time now t))"
| "DownloadingState (Abort reason) now t =
     enter ABORTED (then_step (then_step (stop_transfer now t) remove_local_file)
       (\<lambda>t. pure_step (t\<lparr>abort_reason := reason\<rparr>)))"
| "DownloadingState Pause now t = enter PAUSED (stop_transfer now t)"
| "DownloadingState Incomplete now t = enter INCOMPLETE (pure_step (set_complete_time now t))"
| "DownloadingState _ now t = undefined_transition t"

fun UploadingState :: "operation \<Rightarrow> rat \<Rightarrow> transfer \<Rightarrow> outcome" where
  "UploadingState (Fail reason) now t =
     enter FAILED (pure_step (set_complete_time now (t\<lparr>fail_reason := reason\<rparr>)))"
| "UploadingState Complete now t = enter COMPLETE (pure_step (set_complete_time now t))"
| "UploadingState (Abort reason) now t =
     enter ABORTED (then_step (stop_transfer now t) (\<lambda>t. pure_step (t\<lparr>abort_reason := reason\<rparr>)))"
| "UploadingState Pause now t = enter PAUSED (stop_transfer now t)"
| "UploadingState _ now t = undefined_transition t"

fun CompleteState :: "operation \<Rightarrow> rat \<Rightarrow> transfer \<Rightarrow> outcome" where
  "CompleteState (Queue remotely) now t =
     (let t1 = reset_time_vars t;
          t2 = (if is_download t1 then reset_local_vars (reset_progress_vars t1) else t1)
      in enter QUEUED (pure_step (t2\<lparr>remotely_queued := remotely\<rparr>)))"
| "CompleteState _ now t = undefined_transition t"

fun IncompleteState :: "operation \<Rightarrow> rat \<Rightarrow> transfer \<Rightarrow> outcome" where
  "IncompleteState (Fail reason) now t = enter FAILED (pure_step (t\<lparr>fail_reason := reason\<rparr>))"
| "IncompleteState (Queue remotely) now t =
     enter QUEUED (pure_step ((reset_time_vars t)\<lparr>remotely_queued := remotely\<rparr>))"
| "IncompleteState Initialize now t = enter INITIALIZING (pure_step (reset_time_vars t))"
| "IncompleteState (Abort reason) now t =
     enter ABORTED (then_step (then_step (cancel_transfer_tasks t) remove_local_file)
       (\<lambda>t. pure_step (t\<lparr>abort_reason := reason\<rparr>)))"
| "IncompleteState Pause now t = enter PAUSED (cancel_transfer_tasks t)"
| "IncompleteState _ now t = undefined_transition t"

fun FailedState :: "operation \<Rightarrow> rat \<Rightarrow> transfer \<Rightarrow> outcome" where
  "FailedState (Queue remotely) now t =
     enter QUEUED (pure_step ((reset_time_vars t)
       \<lparr>remotely_queued := remotely, fail_reason := None, abort_reason := None\<rparr>))"
| "FailedState _ now t = undefined_transition t"

fun PausedState :: "operation \<Rightarrow> rat \<Rightarrow> transfer \<Rightarrow> outcome" where
  "PausedState (Queue remotely) now t =
     enter QUEUED (pure_step ((reset_time_vars t)\<lparr>remotely_queued := remotely\<rparr>))"
| "PausedState (Abort reason) now t =
     enter ABORTED (then_step (then_step (cancel_transfer_tasks t) remove_local_file)
       (\<lambda>t. pure_step (t\<lparr>abort_reason := reason\<rparr>)))"
| "PausedState (Fail reason) now t = enter FAILED (pure_step (t\<lparr>fail_reason := reason\<rparr>))"
| "PausedState _ now t = undefined_transition t"

fun AbortedState :: "operation \<Rightarrow> rat \<Rightarrow> transfer \<Rightarrow> outcome" where
  "AbortedState (Queue remotely) now t =
     (let t1 = reset_time_vars t;
          t2 = (if is_download t1 then reset_local_vars (reset_progress_vars t1) else t1)
      in enter QUEUED (pure_step
           (t2\<lparr>fail_reason := None, abort_reason := None, remotely_queued := remotely\<rparr>)))"
| "AbortedState _ now t = undefined_transition t"

fun call_state :: "transfer_state \<Rightarrow> operation \<Rightarrow> rat \<Rightarrow> transfer \<Rightarrow> outcome" where
  \<comment> \<open>the method of the state object: the class is the one the object was created with\<close>
  "call_state VIRGIN = VirginState"
| "call_state QUEUED = QueuedState"
| "call_state INITIALIZING = InitializingState"
| "call_state INCOMPLETE = IncompleteState"
| "call_state DOWNLOADING = DownloadingState"
| "call_state UPLOADING = UploadingState"
| "call_state COMPLETE = CompleteState"
| "call_state FAILED = FailedState"
| "call_state ABORTED = AbortedState"
| "call_state PAUSED = PausedState"
| "call_state UNSET = (\<lambda>op now t. undefined_transition t)"

definition call :: "operation \<Rightarrow> rat \<Rightarrow> transfer \<Rightarrow> outcome" where
  \<comment> \<open>\<open>transfer.state.<operation>(...)\<close> when no other call is in progress\<close>
  "call op now t = call_state (state t) op now t"

end
