(* ===== verification/Transfer_State.thy ===== *)
theory Transfer_State
  imports Transfer_Model
begin

text \<open>
The state machine of a transfer: its diagram, the functional behaviour of every
  transition, the invariant, calls that wait for the lock of the transfer, the speed log, and
  storing a transfer in the cache.
\<close>

subsection \<open>Specification: the state diagram\<close>

text \<open>Which operation leads where; everything else is refused.\<close>

fun next_state :: "transfer_state \<Rightarrow> operation \<Rightarrow> direction \<Rightarrow> transfer_state option" where
  "next_state VIRGIN (Queue _) d = Some QUEUED"
| "next_state VIRGIN Pause d = Some PAUSED"
| "next_state QUEUED Initialize d = Some INITIALIZING"
| "next_state QUEUED (Fail _) d = Some FAILED"
| "next_state QUEUED (Abort _) d = Some ABORTED"
| "next_state QUEUED Pause d = Some PAUSED"
| "next_state INITIALIZING Start_Transferring d = Some (if d = UPLOAD then UPLOADING else DOWNLOADING)"
| "next_state INITIALIZING (Queue _) d = Some QUEUED"
| "next_state INITIALIZING (Fail _) d = Some FAILED"
| "next_state INITIALIZING (Abort _) d = Some ABORTED"
| "next_state INITIALIZING Pause d = Some PAUSED"
| "next_state DOWNLOADING Complete d = Some COMPLETE"
| "next_state DOWNLOADING Incomplete d = Some INCOMPLETE"
| "next_state DOWNLOADING (Fail _) d = Some FAILED"
| "next_state DOWNLOADING (Abort _) d = Some ABORTED"
| "next_state DOWNLOADING Pause d = Some PAUSED"
| "next_state UPLOADING Complete d = Some COMPLETE"
| "next_state UPLOADING (Fail _) d = Some FAILED"
| "next_state UPLOADING (Abort _) d = Some ABORTED"
| "next_state UPLOADING Pause d = Some PAUSED"
| "next_state INCOMPLETE (Queue _) d = Some QUEUED"
| "next_state INCOMPLETE Initialize d = Some INITIALIZING"
| "next_state INCOMPLETE (Fail _) d = Some FAILED"
| "next_state INCOMPLETE (Abort _) d = Some ABORTED"
| "next_state INCOMPLETE Pause d = Some PAUSED"
| "next_state PAUSED (Queue _) d = Some QUEUED"
| "next_state PAUSED (Fail _) d = Some FAILED"
| "next_state PAUSED (Abort _) d = Some ABORTED"
| "next_state COMPLETE (Queue _) d = Some QUEUED"
| "next_state FAILED (Queue _) d = Some QUEUED"
| "next_state ABORTED (Queue _) d = Some QUEUED"
| "next_state _ _ d = None"

lemmas variable_defs = reset_local_vars_def reset_progress_vars_def reset_queue_attempts_def
  reset_upload_request_attempts_def reset_queue_vars_def reset_time_vars_def set_start_time_def
  set_complete_time_def is_upload_def is_download_def

lemma enter_eq: "enter new r = ((fst r)\<lparr>state := new\<rparr>, snd r @ [State_Changed (state (fst r)) new], True)"
  by (simp add: enter_def transition_def split_def)

lemma then_step_eq: "then_step r f = (fst (f (fst r)), snd r @ snd (f (fst r)))"
  by (simp add: then_step_def split_def)

lemma cancel_fields [simp]:
  "fst (cancel_transfer_tasks t) = t\<lparr>remotely_queue_task := None, transfer_task := None\<rparr>"
  "e \<in> set (snd (cancel_transfer_tasks t)) \<longleftrightarrow> e \<in> Cancel_Task ` set (get_tasks t)"
  by (simp_all add: cancel_transfer_tasks_def)

lemma stop_fields [simp]:
  "fst (stop_transfer now t) = set_complete_time now (t\<lparr>remotely_queue_task := None, transfer_task := None\<rparr>)"
  "snd (stop_transfer now t) = snd (cancel_transfer_tasks t)"
  by (simp_all add: stop_transfer_def cancel_transfer_tasks_def)

lemma remove_fields [simp]:
  "fst (remove_local_file t) =
     (if is_download t \<and> local_path t \<noteq> Some [] then t\<lparr>local_path := None\<rparr> else t)"
  "e \<in> set (snd (remove_local_file t)) \<longleftrightarrow>
     (\<exists>p. e = Remove_File p \<and> is_download t \<and> local_path t = Some p \<and> p \<noteq> [])"
  by (cases t; auto simp: remove_local_file_def split: option.splits)+

lemmas step_eqs = enter_eq then_step_eq pure_step_def undefined_transition_def

lemma call_cases:
  "call_state st op now t =
    (case st of VIRGIN \<Rightarrow> VirginState op now t | QUEUED \<Rightarrow> QueuedState op now t
     | INITIALIZING \<Rightarrow> InitializingState op now t | INCOMPLETE \<Rightarrow> IncompleteState op now t
     | DOWNLOADING \<Rightarrow> DownloadingState op now t | UPLOADING \<Rightarrow> UploadingState op now t
     | COMPLETE \<Rightarrow> CompleteState op now t | FAILED \<Rightarrow> FailedState op now t
     | ABORTED \<Rightarrow> AbortedState op now t | PAUSED \<Rightarrow> PausedState op now t
     | UNSET \<Rightarrow> undefined_transition t)"
  by (cases st) simp_all

lemma butlast_snoc2 [simp]: "butlast (xs @ ys @ [y]) = xs @ ys"
  by (simp add: butlast_append)

lemma call_state_diagram:
  assumes "call_state st op now t = (t', es, ok)"
  shows "(case next_state st op (direction t) of
           Some new \<Rightarrow> ok \<and> state t' = new \<and> es \<noteq> [] \<and> last es = State_Changed (state t) new
              \<and> (\<forall>e \<in> set (butlast es). (\<exists>n. e = Cancel_Task n) \<or> (\<exists>p. e = Remove_File p))
         | None \<Rightarrow> \<not> ok \<and> t' = t \<and> es = [])"
  using assms
  by (cases st; cases op) (auto simp: step_eqs variable_defs Let_def split: if_splits)

subsection \<open>Functional behaviour of the transitions\<close>

lemma call_direction: "call_state st op now t = (t', es, ok) \<Longrightarrow> direction t' = direction t"
  by (cases st; cases op) (auto simp: step_eqs variable_defs Let_def split: if_splits)

lemma call_fail_reason:
  "call_state st op now t = (t', es, ok) \<Longrightarrow> fail_reason t' =
     (case op of Fail reason \<Rightarrow> if ok then reason else fail_reason t
      | Queue _ \<Rightarrow> if st \<in> {FAILED, ABORTED} then None else fail_reason t
      | _ \<Rightarrow> fail_reason t)"
  by (cases st; cases op) (auto simp: step_eqs variable_defs Let_def split: if_splits)

lemma call_abort_reason:
  "call_state st op now t = (t', es, ok) \<Longrightarrow> abort_reason t' =
     (case op of Abort reason \<Rightarrow> if ok then reason else abort_reason t
      | Queue _ \<Rightarrow> if st \<in> {FAILED, ABORTED} then None else abort_reason t
      | _ \<Rightarrow> abort_reason t)"
  by (cases st; cases op) (auto simp: step_eqs variable_defs Let_def split: if_splits)

definition resets_time :: "transfer_state \<Rightarrow> operation \<Rightarrow> bool" where
  "resets_time st op \<longleftrightarrow> (case op of
       Queue _ \<Rightarrow> st \<in> {COMPLETE, INCOMPLETE, FAILED, PAUSED, ABORTED}
     | Initialize \<Rightarrow> st = INCOMPLETE
     | _ \<Rightarrow> False)"

lemma call_start_time:
  "call_state st op now t = (t', es, ok) \<Longrightarrow> start_time t' =
     (if resets_time st op then None
      else if st = INITIALIZING \<and> op = Start_Transferring then Some now else start_time t)"
  by (cases st; cases op) (auto simp: step_eqs variable_defs resets_time_def Let_def split: if_splits)

lemma call_complete_time:
  "call_state st op now t = (t', es, ok) \<Longrightarrow> complete_time t' =
     (if resets_time st op \<or> st = INITIALIZING \<and> op = Start_Transferring then None
      else if st \<in> {DOWNLOADING, UPLOADING} \<and> ok \<and> start_time t \<noteq> None then Some now
      else complete_time t)"
  by (cases st; cases op) (auto simp: step_eqs variable_defs resets_time_def Let_def split: if_splits)

subsection \<open>Invariant\<close>

definition times_ok :: "transfer \<Rightarrow> bool" where
  "times_ok t \<longleftrightarrow> (complete_time t \<noteq> None \<longrightarrow> start_time t \<noteq> None)
     \<and> (state t \<in> {VIRGIN, QUEUED, INITIALIZING} \<longrightarrow> start_time t = None)
     \<and> (state t \<in> {DOWNLOADING, UPLOADING} \<longrightarrow> start_time t \<noteq> None \<and> complete_time t = None)
     \<and> (state t \<in> {COMPLETE, INCOMPLETE} \<longrightarrow> complete_time t \<noteq> None)"

definition direction_ok :: "transfer \<Rightarrow> bool" where
  "direction_ok t \<longleftrightarrow> (state t \<in> {DOWNLOADING, INCOMPLETE} \<longrightarrow> direction t = DOWNLOAD)
     \<and> (state t = UPLOADING \<longrightarrow> direction t = UPLOAD)"

definition reasons_ok :: "transfer \<Rightarrow> bool" where
  "reasons_ok t \<longleftrightarrow> (fail_reason t \<noteq> None \<longrightarrow> state t = FAILED)
     \<and> (abort_reason t \<noteq> None \<longrightarrow> state t = ABORTED)"

definition transfer_inv :: "transfer \<Rightarrow> bool" where
  "transfer_inv t \<longleftrightarrow> state t \<noteq> UNSET \<and> times_ok t \<and> direction_ok t \<and> reasons_ok t"

lemmas inv_defs = transfer_inv_def times_ok_def direction_ok_def reasons_ok_def

lemma transfer_inv_new: "transfer_inv (new_transfer user path dir)"
  by (simp add: inv_defs new_transfer_def)

lemma transfer_inv_step:
  assumes inv: "transfer_inv t" and "call op now t = (t', es, ok)"
  shows "transfer_inv t'"
proof (cases "next_state (state t) op (direction t)")
  case None
  then show ?thesis using assms call_state_diagram [of "state t" op now t t' es ok] by (simp add: call_def)
next
  case (Some new)
  have c: "call_state (state t) op now t = (t', es, ok)" using assms(2) by (simp add: call_def)
  have st: "state t' = new" "ok" using call_state_diagram [OF c] Some by simp_all
  note facts = call_direction [OF c] call_fail_reason [OF c] call_abort_reason [OF c]
    call_start_time [OF c] call_complete_time [OF c] st Some
  show ?thesis
    using inv facts unfolding inv_defs
    by (cases "state t"; cases op; cases "direction t") (simp_all add: resets_time_def split: if_splits)
qed


lemma transfer_inv_finalized: "transfer_inv t \<Longrightarrow> is_finalized t \<Longrightarrow> \<not> is_processing t"
  by (auto simp: is_finalized_def is_processing_def)

subsection \<open>Effects\<close>

lemma call_effects:
  assumes "call_state st op now t = (t', es, ok)"
  shows "Remove_File p \<in> set es \<longleftrightarrow> ok \<and> is_download t \<and> local_path t = Some p \<and> p \<noteq> []
           \<and> (\<exists>reason. op = Abort reason) \<and> st \<noteq> UPLOADING"
    and "Cancel_Task n \<in> set es \<longleftrightarrow> ok \<and> n \<in> set (get_tasks t) \<and> (op = Pause \<and> st \<noteq> VIRGIN \<or> (\<exists>reason. op = Abort reason))"
  using assms
  by (cases st; cases op; auto simp: step_eqs variable_defs Let_def get_tasks_def split: if_splits)+

lemma call_progress:
  "call_state st op now t = (t', es, ok) \<Longrightarrow> bytes_transfered t' =
     (if (\<exists>r. op = Queue r) \<and> st \<in> {COMPLETE, ABORTED} \<and> is_download t then 0 else bytes_transfered t)"
  by (cases st; cases op) (auto simp: step_eqs variable_defs Let_def split: if_splits)

subsection \<open>Calls that wait for the lock\<close>

text \<open>
  Every method of a state object takes the lock of the transfer before it runs, but the
  object is looked up (\<open>transfer.state\<close>) before the lock is free. A call that waited runs
  the method of the class it was looked up in.
\<close>

type_synonym waiting = "transfer \<times> (transfer_state \<times> operation) list"

inductive lock_step :: "waiting \<Rightarrow> waiting \<Rightarrow> bool" where
  Invoke: "lock_step (t, calls) (t, calls @ [(state t, op)])"
| Run: "call_state st op now t = (t', es, ok) \<Longrightarrow> lock_step (t, (st, op) # calls) (t', calls)"

inductive_cases lock_stepE: "lock_step c c'"

definition alone :: "waiting \<Rightarrow> bool" where
  \<comment> \<open>at most one call, and it was looked up in the current state\<close>
  "alone c \<longleftrightarrow> snd c = [] \<or> (\<exists>op. snd c = [(state (fst c), op)])"

lemma lock_step_alone_inv:
  assumes "lock_step c c'" "alone c" "transfer_inv (fst c)"
  shows "transfer_inv (fst c')"
  using assms(1)
proof cases
  case (Run st op now t t' es ok calls)
  then have "st = state t" using assms(2) by (simp add: alone_def)
  then show ?thesis using Run assms(3) transfer_inv_step [of t op now t' es ok] by (simp add: call_def)
qed (use assms(3) in simp)

subsection \<open>Speed log\<close>

fun log_spaced :: "(rat \<times> nat) list \<Rightarrow> bool" where
  "log_spaced (a # b # entries) = (SPEED_LOG_INTERVAL \<le> fst b - fst a \<and> log_spaced (b # entries))"
| "log_spaced _ = True"

lemma log_spaced_tl: "log_spaced xs \<Longrightarrow> log_spaced (drop n xs)"
proof (induction n arbitrary: xs)
  case (Suc n)
  have "log_spaced (tl xs)" using Suc.prems by (cases xs rule: log_spaced.cases) auto
  then show ?case using Suc.IH [of "tl xs"] by (simp add: drop_Suc)
qed simp

lemma log_spaced_snoc:
  "log_spaced (xs @ [e]) \<longleftrightarrow> log_spaced xs \<and> (xs \<noteq> [] \<longrightarrow> SPEED_LOG_INTERVAL \<le> fst e - fst (last xs))"
  by (induction xs rule: log_spaced.induct) auto

lemma append_log_length: "length (append_log e xs) \<le> SPEED_LOG_ENTRIES"
  by (auto simp: append_log_def Let_def SPEED_LOG_ENTRIES_def)

lemma append_log_spaced: "log_spaced (xs @ [e]) \<Longrightarrow> log_spaced (append_log e xs)"
  unfolding append_log_def Let_def by (rule log_spaced_tl)

lemma add_speed_log_entry_spaced:
  assumes "log_spaced (speed_log t)"
  shows "log_spaced (speed_log (add_speed_log_entry now n t))"
proof (cases "speed_log t" rule: rev_cases)
  case Nil
  then show ?thesis by (simp add: add_speed_log_entry_def append_log_def SPEED_LOG_ENTRIES_def)
next
  case (snoc xs e)
  then have xs: "log_spaced xs" "xs \<noteq> [] \<longrightarrow> SPEED_LOG_INTERVAL \<le> fst e - fst (last xs)"
    using assms by (simp_all add: log_spaced_snoc)
  show ?thesis
  proof (cases "now - fst e < SPEED_LOG_INTERVAL")
    case True
    then have "speed_log (add_speed_log_entry now n t) = append_log (fst e, n + snd e) xs"
      using snoc by (simp add: add_speed_log_entry_def)
    then show ?thesis using xs by (simp add: append_log_spaced log_spaced_snoc)
  next
    case False
    then have "speed_log (add_speed_log_entry now n t) = append_log (now, n) (xs @ [e])"
      using snoc by (simp add: add_speed_log_entry_def)
    then show ?thesis using assms snoc False append_log_spaced [of "xs @ [e]" "(now, n)"]
      log_spaced_snoc [of "xs @ [e]" "(now, n)"] by simp
  qed
qed

lemma add_speed_log_entry_length:
  "length (speed_log t) \<le> SPEED_LOG_ENTRIES \<Longrightarrow> length (speed_log (add_speed_log_entry now n t)) \<le> SPEED_LOG_ENTRIES"
  by (simp add: add_speed_log_entry_def Let_def append_log_length)

subsection \<open>Storing a transfer\<close>

record pickled =
  stored :: transfer                          \<comment> \<open>the fields that are stored\<close>
  stored_abort_reason :: "pystr option option" \<comment> \<open>missing in old caches\<close>

definition getstate :: "transfer \<Rightarrow> pickled" where
  "getstate t = \<lparr>stored = t\<lparr>progress_snapshot := None, speed_log := [], remotely_queue_task := None,
      transfer_task := None\<rparr>, stored_abort_reason = Some (abort_reason t)\<rparr>"

definition setstate :: "rat \<Rightarrow> rat \<Rightarrow> pickled \<Rightarrow> transfer option" where
  \<comment> \<open>\<open>None\<close>: there is no state class for the stored value\<close>
  "setstate wall monot p =
     (if state (stored p) = UNSET then None
      else
        let reason = (case stored_abort_reason p of None \<Rightarrow> None | Some r \<Rightarrow> r);
            reason' = (if reason = None \<and> state (stored p) = ABORTED then Some ABORT_REQUESTED else reason);
            t = (stored p)\<lparr>abort_reason := reason', speed_log := [], remotely_queue_task := None,
                  transfer_task := None\<rparr>
        in Some (take_progress_snapshot wall monot t))"

lemma get_speed_snapshot [simp]:
  "get_speed wall monot (t\<lparr>progress_snapshot := x\<rparr>) = get_speed wall monot t"
  by (simp add: get_speed_def is_transferring_def Let_def split: option.split list.split)

lemma take_snapshot_again:
  "take_progress_snapshot wall monot (t\<lparr>progress_snapshot := x\<rparr>) = take_progress_snapshot wall monot t"
  by (simp add: take_progress_snapshot_def)

lemma setstate_getstate:
  assumes "state t \<noteq> UNSET"
  shows "setstate wall monot (getstate t) = Some (take_progress_snapshot wall monot
     (t\<lparr>speed_log := [], remotely_queue_task := None, transfer_task := None,
        abort_reason := (if abort_reason t = None \<and> state t = ABORTED then Some ABORT_REQUESTED else abort_reason t)\<rparr>))"
    (is "_ = Some (take_progress_snapshot wall monot ?t)")
proof -
  have "setstate wall monot (getstate t) = Some (take_progress_snapshot wall monot (?t\<lparr>progress_snapshot := None\<rparr>))"
    using assms by (cases t) (simp add: setstate_def getstate_def Let_def)
  then show ?thesis unfolding take_snapshot_again .
qed

subsection \<open>Properties\<close>

text \<open>C13: The state classes implement the state diagram: an operation that the diagram knows is
  done, leads to the state of the diagram and tells the listeners the old and the new state
  as its last act; every other operation is refused and changes nothing at all.\<close>

theorem transitions_follow_the_diagram:
  assumes "call op now t = (t', es, ok)"
  shows "(case next_state (state t) op (direction t) of
           Some new \<Rightarrow> ok \<and> state t' = new \<and> es \<noteq> [] \<and> last es = State_Changed (state t) new
         | None \<Rightarrow> \<not> ok \<and> t' = t \<and> es = [])"
  using call_state_diagram [of "state t" op now t t' es ok] assms
  by (auto simp: call_def split: option.splits)

lemma transitions_follow_the_diagram_witness:
  "\<exists>t' es ok. call (Queue True) 5 (new_transfer [] [] DOWNLOAD) = (t', es, ok) \<and> ok \<and> state t' = QUEUED"
proof -
  obtain t' es ok where c: "call (Queue True) 5 (new_transfer [] [] DOWNLOAD) = (t', es, ok)"
    by (cases "call (Queue True) 5 (new_transfer [] [] DOWNLOAD)")
  from transitions_follow_the_diagram [OF c] have "ok \<and> state t' = QUEUED" by (simp add: new_transfer_def)
  with c show ?thesis by blast
qed

text \<open>What happens to a transfer during its life when calls do not overlap.\<close>

inductive reachable_transfer :: "transfer \<Rightarrow> bool" where
  New: "reachable_transfer (new_transfer user path dir)"
| Call: "reachable_transfer t \<Longrightarrow> call op now t = (t', es, ok) \<Longrightarrow> reachable_transfer t'"
| Progress: "reachable_transfer t \<Longrightarrow> reachable_transfer (transfer_progress_callback now n t)"
| Queue_Attempt: "reachable_transfer t \<Longrightarrow> reachable_transfer (increase_queue_attempts now t)"
| Reset_Queue_Attempts: "reachable_transfer t \<Longrightarrow> reachable_transfer (reset_queue_attempts t)"
| Upload_Attempt: "reachable_transfer t \<Longrightarrow> reachable_transfer (increase_upload_request_attempt now t)"
| Snapshot: "reachable_transfer t \<Longrightarrow> reachable_transfer (take_progress_snapshot wall monot t)"
| File: "reachable_transfer t \<Longrightarrow> reachable_transfer (t\<lparr>local_path := p, filesize := n, bytes_transfered := b\<rparr>)"
| Place: "reachable_transfer t \<Longrightarrow> reachable_transfer (t\<lparr>place_in_queue := pl, remotely_queued := r\<rparr>)"
| Tasks: "reachable_transfer t \<Longrightarrow> reachable_transfer (t\<lparr>remotely_queue_task := a, transfer_task := b\<rparr>)"

lemma call_speed_log:
  "call_state st op now t = (t', es, ok) \<Longrightarrow> speed_log t' = speed_log t \<or> speed_log t' = []"
  by (cases st; cases op) (auto simp: step_eqs variable_defs Let_def split: if_splits)

lemma add_speed_log_entry_fields [simp]:
  "transfer_inv (add_speed_log_entry now n t) = transfer_inv t"
  by (simp add: add_speed_log_entry_def Let_def inv_defs)

lemma transfer_inv_bytes [simp]: "transfer_inv (t\<lparr>bytes_transfered := b\<rparr>) = transfer_inv t"
  by (simp add: inv_defs)

lemma reachable_transfer_ok:
  assumes "reachable_transfer t"
  shows "transfer_inv t \<and> log_spaced (speed_log t) \<and> length (speed_log t) \<le> SPEED_LOG_ENTRIES"
  using assms
proof induction
  case (New user path dir)
  then show ?case by (simp add: transfer_inv_new) (simp add: new_transfer_def)
next
  case (Call t op now t' es ok)
  then show ?case
    using transfer_inv_step [of t op now t' es ok] call_speed_log [of "state t" op now t t' es ok]
    by (auto simp: call_def)
next
  case (Progress t now n)
  then show ?case
    using add_speed_log_entry_spaced [of "t\<lparr>bytes_transfered := bytes_transfered t + n\<rparr>" now n]
      add_speed_log_entry_length [of "t\<lparr>bytes_transfered := bytes_transfered t + n\<rparr>" now n]
    by (simp add: transfer_progress_callback_def)
qed (simp_all add: inv_defs increase_queue_attempts_def reset_queue_attempts_def
    increase_upload_request_attempt_def take_progress_snapshot_def)



text \<open>A file is only ever removed by aborting a download, and then it is the download's own
  file: neither pausing, failing, completing nor requeueing removes one, no upload does, and
  a finalized transfer never does.\<close>

theorem only_abort_removes_a_file:
  assumes "call op now t = (t', es, ok)" and "Remove_File p \<in> set es"
  shows "(\<exists>reason. op = Abort reason) \<and> is_download t \<and> local_path t = Some p \<and> state t' = ABORTED
    \<and> local_path t' = None \<and> \<not> is_finalized t"
proof -
  have c: "call_state (state t) op now t = (t', es, ok)" using assms(1) by (simp add: call_def)
  have e: "ok" "is_download t" "local_path t = Some p" "p \<noteq> []" "\<exists>reason. op = Abort reason" "state t \<noteq> UPLOADING"
    using call_effects(1) [OF c, of p] assms(2) by blast+
  then obtain reason where op: "op = Abort reason" by blast
  have "next_state (state t) op (direction t) \<noteq> None"
    using call_state_diagram [OF c] e(1) by (auto split: option.splits)
  then have st: "state t \<in> {QUEUED, INITIALIZING, DOWNLOADING, INCOMPLETE, PAUSED}" using op e(6)
    by (cases "state t") auto
  moreover have "state t' = ABORTED \<and> local_path t' = None"
    using c st op e by (elim insertE emptyE) (auto simp: step_eqs variable_defs split: if_splits)
  ultimately show ?thesis using e by (auto simp: is_finalized_def)
qed

lemma only_abort_removes_a_file_witness:
  "\<exists>t' es ok. call (Abort None) 3 ((new_transfer [] [] DOWNLOAD)\<lparr>state := PAUSED, local_path := Some [0x61]\<rparr>) = (t', es, ok)
     \<and> local_path t' = None \<and> state t' = ABORTED"
proof -
  let ?t = "(new_transfer [] [] DOWNLOAD)\<lparr>state := PAUSED, local_path := Some [0x61]\<rparr>"
  obtain t' es ok where c: "call (Abort None) 3 ?t = (t', es, ok)" by (cases "call (Abort None) 3 ?t")
  then have "Remove_File [0x61] \<in> set es"
    using call_effects(1) [of PAUSED "Abort None" 3 ?t t' es ok "[0x61]"]
    by (auto simp: call_def new_transfer_def step_eqs is_download_def)
  from only_abort_removes_a_file [OF c this] c show ?thesis by auto
qed

text \<open>Overlapping calls break the invariant: when \<open>abort\<close> and \<open>pause\<close> are both called on a
  running download before the first of them has finished, the second runs in the class of
  the old state; the transfer ends up PAUSED with an abort reason, its file removed but its
  progress kept, and the abort reason survives the next requeue.\<close>

theorem overlapping_abort_and_pause:
  assumes "state t = DOWNLOADING" "direction t = DOWNLOAD"
  shows "\<exists>t'. lock_step\<^sup>*\<^sup>* (t, []) (t', []) \<and> state t' = PAUSED \<and> abort_reason t' = Some reason
     \<and> bytes_transfered t' = bytes_transfered t \<and> (local_path t \<noteq> Some [] \<longrightarrow> local_path t' = None)
     \<and> (case call (Queue remotely) now t' of (t'', _, ok) \<Rightarrow>
          ok \<and> state t'' = QUEUED \<and> abort_reason t'' = Some reason)"
proof -
  obtain t1 es1 ok1 where c1: "call_state DOWNLOADING (Abort (Some reason)) now t = (t1, es1, ok1)"
    by (cases "call_state DOWNLOADING (Abort (Some reason)) now t")
  obtain t2 es2 ok2 where c2: "call_state DOWNLOADING Pause now t1 = (t2, es2, ok2)"
    by (cases "call_state DOWNLOADING Pause now t1")
  have "lock_step (t, []) (t, [(DOWNLOADING, Abort (Some reason))])"
    using lock_step.Invoke [of t "[]" "Abort (Some reason)"] assms by simp
  moreover have "lock_step (t, [(DOWNLOADING, Abort (Some reason))])
      (t, [(DOWNLOADING, Abort (Some reason)), (DOWNLOADING, Pause)])"
    using lock_step.Invoke [of t "[(DOWNLOADING, Abort (Some reason))]" Pause] assms by simp
  moreover note lock_step.Run [OF c1, of "[(DOWNLOADING, Pause)]"] lock_step.Run [OF c2, of "[]"]
  ultimately have "lock_step\<^sup>*\<^sup>* (t, []) (t2, [])"
    by (meson converse_rtranclp_into_rtranclp rtranclp.rtrancl_refl)
  moreover have "state t2 = PAUSED \<and> abort_reason t2 = Some reason \<and> bytes_transfered t2 = bytes_transfered t
      \<and> (local_path t \<noteq> Some [] \<longrightarrow> local_path t2 = None)"
  proof -
    have d: "direction t1 = DOWNLOAD" using call_direction [OF c1] assms by simp
    have s1: "ok1" "state t1 = ABORTED" using call_state_diagram [OF c1] by simp_all
    have s2: "ok2" "state t2 = PAUSED" using call_state_diagram [OF c2] by simp_all
    have "local_path t \<noteq> Some [] \<longrightarrow> local_path t1 = None"
      using c1 assms by (auto simp: step_eqs variable_defs split: if_splits)
    moreover have "local_path t2 = local_path t1"
      using c2 by (auto simp: step_eqs variable_defs split: if_splits)
    ultimately show ?thesis
      using s1 s2 call_abort_reason [OF c1] call_abort_reason [OF c2] call_progress [OF c1] call_progress [OF c2]
      by simp
  qed
  moreover from this have "case call (Queue remotely) now t2 of (t'', _, ok) \<Rightarrow>
      ok \<and> state t'' = QUEUED \<and> abort_reason t'' = Some reason"
  proof -
    obtain t3 es3 ok3 where c3: "call (Queue remotely) now t2 = (t3, es3, ok3)"
      by (cases "call (Queue remotely) now t2")
    have p: "state t2 = PAUSED" "abort_reason t2 = Some reason"
      using \<open>state t2 = PAUSED \<and> abort_reason t2 = Some reason \<and> _ \<and> _\<close> by blast+
    then have c: "call_state PAUSED (Queue remotely) now t2 = (t3, es3, ok3)" using c3 by (simp add: call_def)
    show ?thesis using call_state_diagram [OF c] call_abort_reason [OF c] p by (simp add: c3)
  qed
  ultimately show ?thesis by (intro exI [of _ t2] conjI) (assumption | elim conjE, assumption)+
qed

lemma overlapping_abort_and_pause_witness:
  "\<exists>t'. lock_step\<^sup>*\<^sup>* ((new_transfer [] [] DOWNLOAD)\<lparr>state := DOWNLOADING\<rparr>, []) (t', [])
     \<and> state t' = PAUSED \<and> abort_reason t' = Some ABORT_REQUESTED"
proof -
  have "state ((new_transfer [] [] DOWNLOAD)\<lparr>state := DOWNLOADING\<rparr>) = DOWNLOADING"
    "direction ((new_transfer [] [] DOWNLOAD)\<lparr>state := DOWNLOADING\<rparr>) = DOWNLOAD"
    by (simp_all add: new_transfer_def)
  from overlapping_abort_and_pause [OF this, of ABORT_REQUESTED False 0] show ?thesis
    by (elim exE conjE) (intro exI conjI)
qed

text \<open>C0: When calls do not overlap (each is looked up in the current state and runs alone), the
  lock keeps the invariant.\<close>

theorem calls_alone_keep_the_invariant:
  assumes "lock_step c c'" "alone c" "transfer_inv (fst c)"
  shows "transfer_inv (fst c')"
  by (rule lock_step_alone_inv [OF assms])

lemma calls_alone_keep_the_invariant_witness:
  "transfer_inv (fst (call Pause 0 (new_transfer [] [] UPLOAD)))"
proof -
  let ?t = "new_transfer [] [] UPLOAD"
  have "lock_step (?t, [(VIRGIN, Pause)]) (fst (call Pause 0 ?t), [])"
    by (cases "call Pause 0 ?t") (auto intro: lock_step.Run simp: call_def new_transfer_def)
  moreover have "alone (?t, [(VIRGIN, Pause)])" by (simp add: alone_def new_transfer_def)
  ultimately show ?thesis using calls_alone_keep_the_invariant transfer_inv_new by fastforce
qed

text \<open>Storing and loading a transfer gives it back, apart from the speed log, the tasks, a new
  progress snapshot, and the reason \<open>Requested\<close> for an aborted transfer without one.\<close>

theorem pickle_round_trip:
  assumes "state t \<noteq> UNSET"
  shows "setstate wall monot (getstate t) = Some (take_progress_snapshot wall monot
     (t\<lparr>speed_log := [], remotely_queue_task := None, transfer_task := None,
        abort_reason := (if abort_reason t = None \<and> state t = ABORTED then Some ABORT_REQUESTED else abort_reason t)\<rparr>))"
  by (rule setstate_getstate [OF assms])

lemma pickle_round_trip_witness:
  "map_option abort_reason (setstate 0 0 (getstate ((new_transfer [] [] UPLOAD)\<lparr>state := ABORTED\<rparr>))) = Some (Some ABORT_REQUESTED)"
  by (subst pickle_round_trip) (simp_all add: new_transfer_def take_progress_snapshot_def)

end
