(* ===== verification/Users.thy ===== *)
theory Users
  imports Prelude
begin

text \<open>
\<open>src/aioslsk/user/model.py\<close>, \<open>src/aioslsk/user/manager.py\<close> and \<open>is_blocked\<close> of
  \<open>src/aioslsk/settings.py\<close>: the users known to the client, the block list, and the tracking of
  users on the server, one queue and one task for each user. The dictionary of users holds weak
  references: \<open>forget_user\<close> is what happens when nothing else refers to an object.
\<close>

subsection \<open>Users\<close>

datatype user_status = STATUS_UNKNOWN | STATUS_OFFLINE | STATUS_AWAY | STATUS_ONLINE

definition UserStatus :: "int \<Rightarrow> user_status result" where
  "UserStatus n = (if n = -1 then Inr STATUS_UNKNOWN else if n = 0 then Inr STATUS_OFFLINE
     else if n = 1 then Inr STATUS_AWAY else if n = 2 then Inr STATUS_ONLINE else Inl ValueError)"

datatype upload_permissions = PERMISSIONS_UNKNOWN | NOONE | EVERYONE | USER_LIST | PERMITTED_LIST

definition UploadPermissions :: "int \<Rightarrow> upload_permissions result" where
  "UploadPermissions n = (if n = -1 then Inr PERMISSIONS_UNKNOWN else if n = 0 then Inr NOONE
     else if n = 1 then Inr EVERYONE else if n = 2 then Inr USER_LIST
     else if n = 3 then Inr PERMITTED_LIST else Inl ValueError)"

text \<open>\<open>BlockingFlag\<close>: an \<open>IntFlag\<close>.\<close>

type_synonym blocking = nat

definition BLOCK_NONE :: blocking where "BLOCK_NONE = 0"
definition PRIVATE_MESSAGES :: blocking where "PRIVATE_MESSAGES = 1"
definition ROOM_MESSAGES :: blocking where "ROOM_MESSAGES = 2"
definition SEARCHES :: blocking where "SEARCHES = 4"
definition SHARES :: blocking where "SHARES = 8"
definition INFO :: blocking where "INFO = 16"
definition UPLOADS :: blocking where "UPLOADS = 32"
definition IGNORE :: blocking where "IGNORE = PRIVATE_MESSAGES OR ROOM_MESSAGES"
definition BLOCK_ALL :: blocking where "BLOCK_ALL = IGNORE OR SEARCHES OR SHARES OR INFO OR UPLOADS"

type_synonym block_list = "(pystr \<times> blocking) list" \<comment> \<open>a dictionary: the names are distinct\<close>

definition is_blocked :: "block_list \<Rightarrow> pystr \<Rightarrow> blocking \<Rightarrow> bool" where
  "is_blocked blocked username flag =
     ((case map_of blocked username of None \<Rightarrow> BLOCK_NONE | Some fs \<Rightarrow> fs) AND flag \<noteq> 0)"

record user_stats =
  stats_avg_speed :: nat
  stats_uploads :: nat
  stats_shared_file_count :: nat
  stats_shared_folder_count :: nat

record user =
  user_name :: pystr
  status :: user_status
  is_privileged :: bool
  description :: "pystr option"
  picture :: "bytes option"
  country :: "pystr option"
  avg_speed :: "nat option"
  upload_count :: "nat option"
  shared_file_count :: "nat option"
  shared_folder_count :: "nat option"
  user_slots_free :: "bool option"     \<comment> \<open>\<open>has_slots_free\<close>\<close>
  slots_free :: "nat option"
  user_upload_slots :: "nat option"
  queue_length :: "nat option"
  permissions :: upload_permissions
  interests :: "pystr set"
  hated_interests :: "pystr set"

definition new_user :: "pystr \<Rightarrow> bool \<Rightarrow> user" where
  "new_user username priv = \<lparr>user_name = username, status = STATUS_UNKNOWN, is_privileged = priv,
     description = None, picture = None, country = None, avg_speed = None, upload_count = None,
     shared_file_count = None, shared_folder_count = None, user_slots_free = None, slots_free = None,
     user_upload_slots = None, queue_length = None, permissions = PERMISSIONS_UNKNOWN,
     interests = {}, hated_interests = {}\<rparr>"

definition update_from_user_stats :: "user_stats \<Rightarrow> user \<Rightarrow> user" where
  "update_from_user_stats st u = u\<lparr>avg_speed := Some (stats_avg_speed st),
     shared_file_count := Some (stats_shared_file_count st),
     shared_folder_count := Some (stats_shared_folder_count st), upload_count := Some (stats_uploads st)\<rparr>"

definition clear_user :: "bool \<Rightarrow> bool \<Rightarrow> bool \<Rightarrow> bool \<Rightarrow> user \<Rightarrow> user" where
  "clear_user info ints stats upload_info u0 =
     (let u1 = (if info then u0\<lparr>picture := None, description := None\<rparr> else u0);
          u2 = (if ints then u1\<lparr>interests := {}, hated_interests := {}\<rparr> else u1);
          u3 = (if stats then u2\<lparr>avg_speed := None, user_slots_free := None, slots_free := None,
                  queue_length := None, upload_count := None\<rparr> else u2)
      in if upload_info then u3\<lparr>permissions := PERMISSIONS_UNKNOWN, user_upload_slots := None,
           user_slots_free := None, queue_length := None, slots_free := None\<rparr> else u3)"

definition clear_all :: "user \<Rightarrow> user" where
  "clear_all = clear_user True True True True"

subsection \<open>The user manager\<close>

record user_manager =
  session_name :: "pystr option"
  known_users :: "pystr \<rightharpoonup> user"   \<comment> \<open>\<open>_users\<close>, a dictionary of weak references\<close>
  privileged_users :: "pystr set"
  privileges_time_left :: "nat option" \<comment> \<open>of the manager and of its session\<close>

definition no_users :: user_manager where
  "no_users = \<lparr>session_name = None, known_users = Map.empty, privileged_users = {}, privileges_time_left = None\<rparr>"

definition get_user_object :: "pystr \<Rightarrow> user_manager \<Rightarrow> user \<times> user_manager" where
  "get_user_object username um =
     (case known_users um username of
        Some u \<Rightarrow> (u, um)
      | None \<Rightarrow>
          let u = new_user username (username \<in> privileged_users um)
          in (u, um\<lparr>known_users := (known_users um)(username \<mapsto> u)\<rparr>))"

definition set_user :: "user \<Rightarrow> user_manager \<Rightarrow> user_manager" where
  "set_user u um = um\<lparr>known_users := (known_users um)(user_name u \<mapsto> u)\<rparr>"

definition modify_user :: "pystr \<Rightarrow> (user \<Rightarrow> user) \<Rightarrow> user_manager \<Rightarrow> user_manager" where
  \<comment> \<open>get the object and write to its attributes\<close>
  "modify_user username f um =
     (case get_user_object username um of (u, um1) \<Rightarrow>
        um1\<lparr>known_users := (known_users um1)(username \<mapsto> f u)\<rparr>)"

definition forget_user :: "pystr \<Rightarrow> user_manager \<Rightarrow> user_manager" where
  \<comment> \<open>the last strong reference to the object is dropped\<close>
  "forget_user username um = um\<lparr>known_users := (known_users um)(username := None)\<rparr>"

definition reset_users :: "user_manager \<Rightarrow> user_manager" where
  "reset_users um = um\<lparr>known_users := Map.empty, privileged_users := {}\<rparr>"

datatype user_event =
    Friends_Changed "pystr set" "pystr set"                  \<comment> \<open>added, removed\<close>
  | Block_List_Changed "(pystr \<times> blocking \<times> blocking) list"  \<comment> \<open>user, old, new\<close>
  | Private_Message pystr nat nat pystr bool                 \<comment> \<open>user, id, timestamp, text, direct\<close>
  | Message_Ack nat
  | Status_Update user user
  | Stats_Update user user
  | Info_Update user user
  | Privileged_Users_Set "pystr list"
  | Privileged_User_Added user
  | Admin_Message_Received pystr
  | Client_Kicked
  | Privileges_Updated nat

text \<open>The job compares the settings with its last copies.\<close>

record user_context =
  ctx_friends :: "pystr set"
  ctx_blocked :: block_list

definition lookup_blocked :: "block_list \<Rightarrow> pystr \<Rightarrow> blocking" where
  "lookup_blocked blocked u = (case map_of blocked u of None \<Rightarrow> BLOCK_NONE | Some fs \<Rightarrow> fs)"

definition block_changes :: "block_list \<Rightarrow> block_list \<Rightarrow> (pystr \<times> blocking \<times> blocking) list" where
  "block_changes old new =
     map (\<lambda>(u, fs). (u, fs, BLOCK_NONE)) (filter (\<lambda>(u, fs). map_of new u = None) old)
     @ map (\<lambda>(u, fs). (u, lookup_blocked old u, fs)) (filter (\<lambda>(u, fs). fs \<noteq> lookup_blocked old u) new)"

definition same_dict :: "('k \<times> 'v) list \<Rightarrow> ('k \<times> 'v) list \<Rightarrow> bool" where
  \<comment> \<open>equality of dictionaries does not depend on the order\<close>
  "same_dict a b \<longleftrightarrow> (\<forall>k \<in> fst ` set a \<union> fst ` set b. map_of a k = map_of b k)"

definition users_management_job ::
    "pystr set \<Rightarrow> block_list \<Rightarrow> user_context \<Rightarrow> user_event list \<times> user_context" where
  "users_management_job friends blocked ctx =
     (let es = (if ctx_friends ctx \<noteq> friends
                then [Friends_Changed (friends - ctx_friends ctx) (ctx_friends ctx - friends)] else [])
             @ (if \<not> same_dict (ctx_blocked ctx) blocked
                then [Block_List_Changed (block_changes (ctx_blocked ctx) blocked)] else [])
      in (es, if es \<noteq> [] then \<lparr>ctx_friends = friends, ctx_blocked = blocked\<rparr> else ctx))"

definition on_private_message ::
    "block_list \<Rightarrow> pystr \<Rightarrow> nat \<Rightarrow> nat \<Rightarrow> pystr \<Rightarrow> bool \<Rightarrow> user_manager \<Rightarrow> user_event list \<times> user_manager" where
  \<comment> \<open>a message of a blocked user is acknowledged and dropped\<close>
  "on_private_message blocked username chat_id timestamp message direct um =
     (if is_blocked blocked username PRIVATE_MESSAGES then ([Message_Ack chat_id], um)
      else ([Message_Ack chat_id, Private_Message username chat_id timestamp message direct],
            snd (get_user_object username um)))"

definition is_server_message :: "pystr \<Rightarrow> bool" where
  "is_server_message username \<longleftrightarrow> username = [115, 101, 114, 118, 101, 114]" \<comment> \<open>\<open>'server'\<close>\<close>

definition on_admin_message :: "pystr \<Rightarrow> user_event list" where
  "on_admin_message message = [Admin_Message_Received message]"

definition on_kicked :: "user_event list" where
  "on_kicked = [Client_Kicked]"

definition on_check_privileges :: "nat \<Rightarrow> user_manager \<Rightarrow> (unit + user_event list) \<times> user_manager" where
  \<comment> \<open>\<open>Inl\<close>: \<open>InvalidSessionError\<close>\<close>
  "on_check_privileges time_left um =
     (if session_name um = None then (Inl (), um)
      else (Inr [Privileges_Updated time_left], um\<lparr>privileges_time_left := Some time_left\<rparr>))"

definition on_privileged_users :: "pystr list \<Rightarrow> user_manager \<Rightarrow> user_event list \<times> user_manager" where
  \<comment> \<open>the users that the event carries are made where they are not known\<close>
  "on_privileged_users names um =
     ([Privileged_Users_Set names],
      fold (\<lambda>n um. snd (get_user_object n um)) names
        (um\<lparr>known_users := (\<lambda>n. map_option (\<lambda>u. u\<lparr>is_privileged := user_name u \<in> set names\<rparr>) (known_users um n)),
           privileged_users := set names\<rparr>))"

definition on_add_privileged_user :: "pystr \<Rightarrow> user_manager \<Rightarrow> user_event list \<times> user_manager" where
  "on_add_privileged_user username um =
     (let um1 = modify_user username (\<lambda>u. u\<lparr>is_privileged := True\<rparr>) um
      in ([Privileged_User_Added (fst (get_user_object username um1))], um1))"

definition on_add_user ::
    "pystr \<Rightarrow> bool \<Rightarrow> int option \<Rightarrow> user_stats option \<Rightarrow> pystr option \<Rightarrow> user_manager \<Rightarrow> unit result \<times> user_manager" where
  "on_add_user username exists stat stats cc um =
     (case get_user_object username um of (u, um1) \<Rightarrow>
        if \<not> exists then (Inr (), um1)
        else case (case stat of None \<Rightarrow> Inl ValueError | Some n \<Rightarrow> UserStatus n) of
            Inl e \<Rightarrow> (Inl e, um1)
          | Inr s \<Rightarrow>
              (Inr (), modify_user username (\<lambda>u.
                 (case stats of None \<Rightarrow> u\<lparr>status := s\<rparr> | Some st \<Rightarrow> update_from_user_stats st (u\<lparr>status := s\<rparr>))
                   \<lparr>country := cc\<rparr>) um1))"

definition on_user_status ::
    "pystr \<Rightarrow> int \<Rightarrow> bool \<Rightarrow> user_manager \<Rightarrow> user_event list result \<times> user_manager" where
  "on_user_status username stat priv um =
     (case get_user_object username um of (before, um1) \<Rightarrow>
        case UserStatus stat of
          Inl e \<Rightarrow> (Inl e, um1)
        | Inr s \<Rightarrow>
            let um2 = modify_user username (\<lambda>u. u\<lparr>status := s, is_privileged := priv\<rparr>) um1
            in (Inr [Status_Update before (fst (get_user_object username um2))], um2))"

definition on_user_stats :: "pystr \<Rightarrow> user_stats \<Rightarrow> user_manager \<Rightarrow> user_event list \<times> user_manager" where
  "on_user_stats username stats um =
     (case get_user_object username um of (before, um1) \<Rightarrow>
        let um2 = modify_user username (update_from_user_stats stats) um1
        in ([Stats_Update before (fst (get_user_object username um2))], um2))"

definition on_peer_user_info_reply ::
    "pystr option \<Rightarrow> pystr \<Rightarrow> bytes option \<Rightarrow> nat \<Rightarrow> nat \<Rightarrow> bool \<Rightarrow> int option \<Rightarrow> user_manager
     \<Rightarrow> user_event list result \<times> user_manager" where
  \<comment> \<open>the attributes before the permissions are written even when the permissions raise\<close>
  "on_peer_user_info_reply conn_user desc pic slots queue_size has_free perms um =
     (case conn_user of
        None \<Rightarrow> (Inr [], um)
      | Some username \<Rightarrow>
          if username = [] then (Inr [], um)
          else case get_user_object username um of (before, um1) \<Rightarrow>
            let um2 = modify_user username (\<lambda>u. u\<lparr>description := Some desc, picture := pic,
                  user_upload_slots := Some slots, queue_length := Some queue_size,
                  user_slots_free := Some has_free\<rparr>) um1
            in case (case perms of None \<Rightarrow> Inr PERMISSIONS_UNKNOWN | Some n \<Rightarrow> UploadPermissions n) of
                Inl e \<Rightarrow> (Inl e, um2)
              | Inr p \<Rightarrow>
                  let um3 = modify_user username (\<lambda>u. u\<lparr>permissions := p\<rparr>) um2
                  in (Inr [Info_Update before (fst (get_user_object username um3))], um3))"

definition on_peer_search_reply :: "pystr \<Rightarrow> nat \<Rightarrow> nat \<Rightarrow> bool \<Rightarrow> user_manager \<Rightarrow> user_manager" where
  "on_peer_search_reply username speed queue_size has_free um =
     modify_user username (\<lambda>u. u\<lparr>avg_speed := Some speed, queue_length := Some queue_size,
       user_slots_free := Some has_free\<rparr>) um"

subsection \<open>Tracking of users\<close>

datatype tracking_flag = REQUESTED | TRANSFER | FRIEND

datatype tracking_state = UNTRACKED | TRACKED | RETRY_PENDING

datatype tracking_request = Add_Flag tracking_flag | Remove_Flag tracking_flag
  | Retry \<comment> \<open>adds the empty flag\<close>

record tracked_user =
  flags :: "tracking_flag set"
  tracking :: tracking_state
  requests :: "tracking_request list" \<comment> \<open>the queue\<close>
  retry_timer :: bool                 \<comment> \<open>a retry task sleeps\<close>
  task_done :: bool                   \<comment> \<open>the task returned; its callback has not run yet\<close>

type_synonym tracking_manager = "pystr \<rightharpoonup> tracked_user"

datatype tracking_out =
    Send_Add_User | Send_Remove_User
  | Tracking_Event | Untracking_Event \<comment> \<open>deprecated\<close>
  | State_Event tracking_state

datatype add_outcome = Not_Sent | No_Answer | Answer bool
  \<comment> \<open>sending failed, no answer in time, or \<open>AddUser.Response\<close> with \<open>exists\<close>\<close>

definition new_tracked :: tracked_user where
  "new_tracked = \<lparr>flags = {}, tracking = UNTRACKED, requests = [], retry_timer = False, task_done = False\<rparr>"

definition put_request :: "tracking_request \<Rightarrow> tracked_user \<Rightarrow> tracked_user" where
  "put_request r t = t\<lparr>requests := requests t @ [r]\<rparr>"

definition track_user :: "pystr \<Rightarrow> tracking_flag \<Rightarrow> tracking_manager \<Rightarrow> tracking_manager" where
  "track_user username flag tm =
     tm(username \<mapsto> put_request (Add_Flag flag) (case tm username of None \<Rightarrow> new_tracked | Some t \<Rightarrow> t))"

definition untrack_user :: "pystr \<Rightarrow> tracking_flag \<Rightarrow> tracking_manager \<Rightarrow> tracking_manager" where
  "untrack_user username flag tm =
     (case tm username of None \<Rightarrow> tm | Some t \<Rightarrow> tm(username \<mapsto> put_request (Remove_Flag flag) t))"

definition get_tracking_flags :: "pystr \<Rightarrow> tracking_manager \<Rightarrow> tracking_flag set" where
  "get_tracking_flags username tm = (case tm username of None \<Rightarrow> {} | Some t \<Rightarrow> flags t)"

definition get_tracking_state :: "pystr \<Rightarrow> tracking_manager \<Rightarrow> tracking_state" where
  "get_tracking_state username tm = (case tm username of None \<Rightarrow> UNTRACKED | Some t \<Rightarrow> tracking t)"

definition is_tracked :: "pystr \<Rightarrow> tracking_manager \<Rightarrow> bool" where
  "is_tracked username tm \<longleftrightarrow> get_tracking_state username tm = TRACKED"

definition track_friends :: "pystr list \<Rightarrow> tracking_manager \<Rightarrow> tracking_manager" where
  "track_friends friends tm = fold (\<lambda>u. track_user u FRIEND) friends tm"

fun request_operation_on :: "tracking_request \<Rightarrow> tracking_flag set \<Rightarrow> tracking_flag set" where
  "request_operation_on (Add_Flag f) fs = insert f fs"
| "request_operation_on (Remove_Flag f) fs = fs - {f}"
| "request_operation_on Retry fs = fs"

definition tracking_events :: "tracking_state \<Rightarrow> tracking_out list" where
  \<comment> \<open>the events of \<open>_set_tracking_state\<close>\<close>
  "tracking_events st = (case st of TRACKED \<Rightarrow> [Tracking_Event] | UNTRACKED \<Rightarrow> [Untracking_Event] | _ \<Rightarrow> []) @ [State_Event st]"

definition RETRY_TIMEOUT_NET_ERROR :: nat where "RETRY_TIMEOUT_NET_ERROR = 10"
definition RETRY_TIMEOUT_NON_EXISTING_USER :: nat where "RETRY_TIMEOUT_NON_EXISTING_USER = 600"

definition retry_timeout :: "add_outcome \<Rightarrow> nat option" where
  \<comment> \<open>after which the retry task asks again; none for a user that is tracked\<close>
  "retry_timeout outcome = (case outcome of
      Answer True \<Rightarrow> None
    | Answer False \<Rightarrow> Some RETRY_TIMEOUT_NON_EXISTING_USER
    | _ \<Rightarrow> Some RETRY_TIMEOUT_NET_ERROR)"

lemma retry_timeout_None [simp]: "retry_timeout outcome = None \<longleftrightarrow> outcome = Answer True"
  by (cases outcome rule: add_outcome.exhaust) (auto simp: retry_timeout_def split: bool.split)

definition request_tracking :: "add_outcome \<Rightarrow> tracked_user \<Rightarrow> tracked_user \<times> tracking_out list" where
  \<comment> \<open>\<open>_request_tracking\<close> and \<open>_set_tracking_state\<close> with its outcome\<close>
  "request_tracking outcome t =
     (let new = (if retry_timeout outcome = None then TRACKED else RETRY_PENDING);
          sent = (if outcome = Not_Sent then [] else [Send_Add_User])
      in (t\<lparr>tracking := new, retry_timer := (new = RETRY_PENDING \<or> retry_timer t)\<rparr>, sent @ tracking_events new))"

definition tracking_step :: "add_outcome \<Rightarrow> bool \<Rightarrow> tracked_user \<Rightarrow> tracked_user \<times> tracking_out list" where
  \<comment> \<open>one turn of the loop of \<open>_tracking_task\<close>; the flag tells whether \<open>RemoveUser\<close> can be sent\<close>
  "tracking_step outcome can_send t =
     (if task_done t then (t, [])
      else case requests t of
        [] \<Rightarrow> (t, [])
      | r # rs \<Rightarrow>
          let previous = flags t;
              t1 = t\<lparr>requests := rs, flags := request_operation_on r previous\<rparr> in
          if flags t1 = {} then
            let t2 = t1\<lparr>retry_timer := False\<rparr>;
                t3 = (if previous \<noteq> {} then t2\<lparr>tracking := UNTRACKED\<rparr> else t2);
                es = (if previous \<noteq> {} then (if can_send then [Send_Remove_User] else []) @ tracking_events UNTRACKED else [])
            in (t3\<lparr>task_done := (rs = [])\<rparr>, es)
          else if previous = {} \<or> r = Retry then request_tracking outcome t1
          else (t1, []))"

definition retry_elapsed :: "tracked_user \<Rightarrow> tracked_user" where
  "retry_elapsed t = (if retry_timer t then put_request Retry (t\<lparr>retry_timer := False\<rparr>) else t)"

definition on_tracking_task_done :: "pystr \<Rightarrow> tracking_manager \<Rightarrow> tracking_manager" where
  "on_tracking_task_done username tm = tm(username := None)"


definition tracking_stop :: "tracking_manager \<Rightarrow> tracking_manager" where
  \<comment> \<open>the server connection is closed: all tasks are cancelled, their callbacks remove the users\<close>
  "tracking_stop tm = Map.empty"

definition on_users_session_initialized ::
    "pystr \<Rightarrow> pystr list \<Rightarrow> user_manager \<Rightarrow> tracking_manager \<Rightarrow> user_manager \<times> tracking_manager" where
  \<comment> \<open>the own user is set ONLINE and tracked as a friend, then the friends are tracked\<close>
  "on_users_session_initialized me friends um tm =
     (modify_user me (\<lambda>u. u\<lparr>status := STATUS_ONLINE\<rparr>) (um\<lparr>session_name := Some me\<rparr>),
      track_friends friends (track_user me FRIEND tm))"

definition on_friend_list_changed ::
    "pystr list \<Rightarrow> pystr list \<Rightarrow> user_manager \<Rightarrow> tracking_manager \<Rightarrow> tracking_manager" where
  "on_friend_list_changed added removed um tm =
     (if session_name um = None then tm
      else fold (\<lambda>u. untrack_user u FRIEND) removed (fold (\<lambda>u. track_user u FRIEND) added tm))"

end
