(* ===== verification/Transfer_Manager.thy ===== *)
theory Transfer_Manager
  imports Transfer_State Users "HOL-Library.Multiset"
begin

text \<open>
\<open>src/aioslsk/transfer/manager.py\<close>, first part: the list of transfers, the queries, and
  the scheduling of queued transfers. Transfers are identified by user, remote path and
  direction, as \<open>Transfer.__eq__\<close> does. The settings, the user manager and the shares
  manager are the \<open>environment\<close>, a record of the answers they give.
\<close>

subsection \<open>State and collaborators\<close>

text \<open>What the manager asks its settings, the user manager and the shares manager.\<close>

record environment =
  upload_slots :: nat
  friends :: "pystr set"
  user_status :: "pystr \<Rightarrow> user_status"
  privileged :: "pystr \<Rightarrow> bool"
  uploads_blocked :: "pystr \<Rightarrow> bool"          \<comment> \<open>\<open>users.is_blocked(username, BlockingFlag.UPLOADS)\<close>\<close>
  shared_item :: "pystr \<Rightarrow> pystr \<Rightarrow> (pystr \<times> nat) option"
    \<comment> \<open>remote path and user to local path and size; \<open>None\<close>: missing or not shared with the user\<close>
  indexed :: "pystr \<Rightarrow> pystr \<Rightarrow> bool"             \<comment> \<open>\<open>find_shared_item_cache\<close>: shared, but maybe gone from the disk\<close>

type_synonym transfer_key = "pystr \<times> pystr \<times> direction"

definition tkey :: "transfer \<Rightarrow> transfer_key" where
  "tkey t = (username t, remote_path t, direction t)"

datatype event = Transfer_Added transfer_key | Transfer_Removed transfer_key

record manager =
  transfers :: "transfer list"
  shares_change :: bool      \<comment> \<open>\<open>_management_flags\<close>\<close>
  transfer_change :: bool
  cycle_requested :: bool    \<comment> \<open>an entry in \<open>_management_queue\<close>\<close>
  next_task :: nat           \<comment> \<open>the number of the next task\<close>
  events :: "event list"     \<comment> \<open>events emitted, in order\<close>

datatype request_flag = SHARES_CHANGE | TRANSFER_CHANGE

definition request_management_cycle :: "request_flag \<Rightarrow> manager \<Rightarrow> manager" where
  "request_management_cycle flag m =
     (case flag of SHARES_CHANGE \<Rightarrow> m\<lparr>shares_change := True, cycle_requested := True\<rparr>
      | TRANSFER_CHANGE \<Rightarrow> m\<lparr>transfer_change := True, cycle_requested := True\<rparr>)"

definition emit :: "event \<Rightarrow> manager \<Rightarrow> manager" where
  "emit e m = m\<lparr>events := events m @ [e]\<rparr>"

text \<open>A transfer object is shared by reference; the list holds at most one object per key.\<close>

definition update_transfer :: "transfer_key \<Rightarrow> (transfer \<Rightarrow> transfer) \<Rightarrow> manager \<Rightarrow> manager" where
  "update_transfer k f m = m\<lparr>transfers := map (\<lambda>t. if tkey t = k then f t else t) (transfers m)\<rparr>"

definition find_transfer :: "pystr \<Rightarrow> pystr \<Rightarrow> direction \<Rightarrow> manager \<Rightarrow> transfer option" where
  "find_transfer user path dir m = find (\<lambda>t. transfer_eq t (new_transfer user path dir)) (transfers m)"

definition get_transfer :: "pystr \<Rightarrow> pystr \<Rightarrow> direction \<Rightarrow> manager \<Rightarrow> transfer result" where
  "get_transfer user path dir m =
     (case find (\<lambda>t. transfer_eq t (new_transfer user path dir)) (transfers m) of
        Some t \<Rightarrow> Inr t | None \<Rightarrow> Inl ValueError)"

subsection \<open>Adding and removing\<close>

definition add_transfer :: "transfer \<Rightarrow> manager \<Rightarrow> transfer \<times> manager" where
  "add_transfer t m =
     (case find (\<lambda>q. transfer_eq q t) (transfers m) of
        Some q \<Rightarrow> (q, m)
      | None \<Rightarrow> (t, emit (Transfer_Added (tkey t))
          (request_management_cycle TRANSFER_CHANGE (m\<lparr>transfers := transfers m @ [t]\<rparr>))))"

datatype manager_error = TransferNotFoundError | InvalidStateTransition transfer_state transfer_state

definition call_transfer ::
    "operation \<Rightarrow> rat \<Rightarrow> transfer_key \<Rightarrow> manager \<Rightarrow> bool \<times> effect list \<times> manager" where
  \<comment> \<open>\<open>await transfer.state.<operation>()\<close>; the manager listens to the state and requests a cycle\<close>
  "call_transfer op now k m =
     (case find (\<lambda>t. tkey t = k) (transfers m) of
        None \<Rightarrow> (False, [], m)
      | Some t \<Rightarrow> (case call op now t of (t', es, ok) \<Rightarrow>
          (ok, es, (if ok then request_management_cycle TRANSFER_CHANGE else (\<lambda>m. m))
                     (update_transfer k (\<lambda>_. t') m))))"

definition request_operation ::
    "operation \<Rightarrow> transfer_state \<Rightarrow> rat \<Rightarrow> transfer_key \<Rightarrow> manager \<Rightarrow> (manager_error + effect list) \<times> manager" where
  \<comment> \<open>the shape of \<open>abort\<close>, \<open>queue\<close> and \<open>pause\<close>\<close>
  "request_operation op desired now k m =
     (case find (\<lambda>t. tkey t = k) (transfers m) of
        None \<Rightarrow> (Inl TransferNotFoundError, m)
      | Some t \<Rightarrow> (case call_transfer op now k m of (ok, es, m') \<Rightarrow>
          if ok then (Inr es, m') else (Inl (InvalidStateTransition (state t) desired), m')))"

definition abort :: "rat \<Rightarrow> transfer_key \<Rightarrow> manager \<Rightarrow> (manager_error + effect list) \<times> manager" where
  "abort = request_operation (Abort (Some ABORT_REQUESTED)) ABORTED"

definition queue :: "rat \<Rightarrow> transfer_key \<Rightarrow> manager \<Rightarrow> (manager_error + effect list) \<times> manager" where
  "queue = request_operation (Queue False) QUEUED"

definition pause :: "rat \<Rightarrow> transfer_key \<Rightarrow> manager \<Rightarrow> (manager_error + effect list) \<times> manager" where
  "pause = request_operation Pause PAUSED"

definition remove :: "rat \<Rightarrow> transfer_key \<Rightarrow> manager \<Rightarrow> (manager_error + effect list) \<times> manager" where
  \<comment> \<open>a refused abort does not prevent the removal\<close>
  "remove now k m =
     (case find (\<lambda>t. tkey t = k) (transfers m) of
        None \<Rightarrow> (Inl TransferNotFoundError, m)
      | Some t \<Rightarrow> (case abort now k m of (r, m1) \<Rightarrow>
          (Inr (case r of Inr es \<Rightarrow> es | Inl _ \<Rightarrow> []),
           request_management_cycle TRANSFER_CHANGE (emit (Transfer_Removed k)
             (m1\<lparr>transfers := filter (\<lambda>t. tkey t \<noteq> k) (transfers m1)\<rparr>)))))"

definition download :: "rat \<Rightarrow> pystr \<Rightarrow> pystr \<Rightarrow> bool \<Rightarrow> manager \<Rightarrow> transfer_key \<times> manager" where
  \<comment> \<open>a refused transition is ignored\<close>
  "download now user path paused m =
     (case add_transfer (new_transfer user path DOWNLOAD) m of (t, m1) \<Rightarrow>
        (tkey t, snd (snd (call_transfer (if paused then Pause else Queue False) now (tkey t) m1))))"

subsection \<open>Queries\<close>

definition get_uploads :: "manager \<Rightarrow> transfer list" where
  "get_uploads m = filter is_upload (transfers m)"

definition get_downloads :: "manager \<Rightarrow> transfer list" where
  "get_downloads m = filter is_download (transfers m)"

definition get_uploading :: "manager \<Rightarrow> transfer list" where
  "get_uploading m = filter (\<lambda>t. is_upload t \<and> is_processing t) (transfers m)"

definition get_downloading :: "manager \<Rightarrow> transfer list" where
  "get_downloading m = filter (\<lambda>t. is_download t \<and> is_processing t) (transfers m)"

definition get_finished_transfers :: "manager \<Rightarrow> transfer list" where
  "get_finished_transfers m = filter is_finalized (transfers m)"

definition get_unfinished_transfers :: "manager \<Rightarrow> transfer list" where
  "get_unfinished_transfers m = filter (\<lambda>t. \<not> is_finalized t) (transfers m)"

definition get_free_upload_slots :: "environment \<Rightarrow> manager \<Rightarrow> nat" where
  \<comment> \<open>\<open>max(0, slots - uploading)\<close>\<close>
  "get_free_upload_slots env m = nat (max 0 (int (upload_slots env) - int (length (get_uploading m))))"

definition has_slots_free :: "environment \<Rightarrow> manager \<Rightarrow> bool" where
  "has_slots_free env m \<longleftrightarrow> get_free_upload_slots env m > 0"

text \<open>
  \<open>get_queue_size\<close> compares \<open>transfer.state\<close>, a state object, with the enumeration value
  \<open>TransferState.QUEUED\<close>. State objects define no equality, so Python compares identities and
  the comparison is false for every state.
\<close>

datatype python_object =
    State_Object transfer_key transfer_state \<comment> \<open>the object of this transfer, by identity\<close>
  | State_Value transfer_state

definition python_eq :: "python_object \<Rightarrow> python_object \<Rightarrow> bool" where
  "python_eq a b = (case (a, b) of
       (State_Value x, State_Value y) \<Rightarrow> x = y
     | (State_Object i x, State_Object j y) \<Rightarrow> i = j
     | _ \<Rightarrow> False)"

definition get_queue_size :: "manager \<Rightarrow> nat" where
  "get_queue_size m = length (filter (\<lambda>t. is_upload t
     \<and> python_eq (State_Object (tkey t) (state t)) (State_Value QUEUED)) (transfers m))"

definition get_download_speed :: "rat \<Rightarrow> rat \<Rightarrow> manager \<Rightarrow> rat" where
  "get_download_speed wall monot m = sum_list (map (get_speed wall monot) (get_downloading m))"

definition get_upload_speed :: "rat \<Rightarrow> rat \<Rightarrow> manager \<Rightarrow> rat" where
  "get_upload_speed wall monot m = sum_list (map (get_speed wall monot) (get_uploading m))"

definition get_average_upload_speed :: "rat \<Rightarrow> rat \<Rightarrow> manager \<Rightarrow> rat" where
  "get_average_upload_speed wall monot m =
     (let speeds = map (get_speed wall monot) (filter (\<lambda>t. state t = COMPLETE \<and> is_upload t) (transfers m))
      in if speeds = [] then 0 else sum_list speeds / of_nat (length speeds))"

subsection \<open>Scheduling\<close>

fun queued_transfers ::
    "environment \<Rightarrow> pystr set \<Rightarrow> pystr set \<Rightarrow> transfer list \<Rightarrow> transfer list \<times> transfer list" where
  \<comment> \<open>the loop of \<open>_get_queued_transfers\<close>: \<open>uploading_users\<close>, \<open>users_with_queued_upload\<close>\<close>
  "queued_transfers env uploading queued [] = ([], [])"
| "queued_transfers env uploading queued (t # ts) =
     (if user_status env (username t) = STATUS_OFFLINE then queued_transfers env uploading queued ts
      else if direction t = UPLOAD then
        if username t \<in> uploading then queued_transfers env uploading queued ts
        else if username t \<in> queued then queued_transfers env uploading queued ts
        else if state t = QUEUED then
          (case queued_transfers env uploading (insert (username t) queued) ts of
             (ds, us) \<Rightarrow> (ds, t # us))
        else queued_transfers env uploading queued ts
      else
        if remotely_queued t then queued_transfers env uploading queued ts
        else case queued_transfers env uploading queued ts of
          (ds, us) \<Rightarrow>
            if state t \<in> {QUEUED, INCOMPLETE} then (t # ds, us)
            else if state t = FAILED \<and> fail_reason t = None then (t # ds, us)
            else (ds, us))"

definition rank :: "environment \<Rightarrow> transfer \<Rightarrow> nat" where
  "rank env t =
     (if user_status env (username t) \<in> {STATUS_ONLINE, STATUS_AWAY} then 1 else 0)
     + (if username t \<in> friends env then 5 else 0)
     + (if privileged env (username t) then 100 else 0)"

definition prioritize_uploads :: "environment \<Rightarrow> transfer list \<Rightarrow> transfer list" where
  "prioritize_uploads env uploads = rev (sort_key (rank env) uploads)"

definition get_queued_transfers :: "environment \<Rightarrow> manager \<Rightarrow> transfer list \<times> transfer list" where
  "get_queued_transfers env m =
     (let uploading_users = username ` {t \<in> set (transfers m). is_upload t \<and> is_processing t} in
      case queued_transfers env uploading_users {} (transfers m) of
        (downloads, uploads) \<Rightarrow> (downloads, prioritize_uploads env uploads))"

fun index_of :: "(transfer \<Rightarrow> bool) \<Rightarrow> transfer list \<Rightarrow> nat option" where
  "index_of P [] = None"
| "index_of P (x # xs) = (if P x then Some 0 else map_option Suc (index_of P xs))"

definition get_place_in_queue :: "environment \<Rightarrow> transfer \<Rightarrow> manager \<Rightarrow> nat" where
  \<comment> \<open>\<open>list.index\<close>, and \<open>0\<close> for its \<open>ValueError\<close>\<close>
  "get_place_in_queue env t m =
     (case index_of (\<lambda>u. transfer_eq u t) (snd (get_queued_transfers env m)) of
        Some i \<Rightarrow> i | None \<Rightarrow> 0)"

datatype job = Queue_Remotely transfer_key | Initialize_Upload transfer_key

fun start_queue_tasks :: "transfer list \<Rightarrow> manager \<Rightarrow> (nat \<times> job) list \<times> manager" where
  "start_queue_tasks [] m = ([], m)"
| "start_queue_tasks (d # ds) m =
     (let n = next_task m;
          m1 = (update_transfer (tkey d) (\<lambda>t. t\<lparr>remotely_queue_task := Some n\<rparr>) m)\<lparr>next_task := n + 1\<rparr>
      in case start_queue_tasks ds m1 of (jobs, m2) \<Rightarrow> ((n, Queue_Remotely (tkey d)) # jobs, m2))"

fun start_upload_tasks :: "transfer list \<Rightarrow> manager \<Rightarrow> (nat \<times> job) list \<times> manager" where
  "start_upload_tasks [] m = ([], m)"
| "start_upload_tasks (u # us) m =
     (let n = next_task m;
          m1 = (update_transfer (tkey u) (\<lambda>t. t\<lparr>transfer_task := Some n\<rparr>) m)\<lparr>next_task := n + 1\<rparr>
      in case start_upload_tasks us m1 of (jobs, m2) \<Rightarrow> ((n, Initialize_Upload (tkey u)) # jobs, m2))"

definition manage_transfers :: "environment \<Rightarrow> manager \<Rightarrow> (nat \<times> job) list \<times> manager" where
  "manage_transfers env m =
     (case get_queued_transfers env m of (downloads, uploads) \<Rightarrow>
      let free_upload_slots = get_free_upload_slots env m in
      case start_queue_tasks downloads m of (jobs, m1) \<Rightarrow>
      case start_upload_tasks (take free_upload_slots uploads) m1 of (jobs', m2) \<Rightarrow>
        (jobs @ jobs', m2))"

definition manage_user_tracking :: "manager \<Rightarrow> pystr set \<times> pystr set" where
  \<comment> \<open>the users that are tracked and the users that are untracked\<close>
  "manage_user_tracking m =
     (let unfinished_users = username ` set (get_unfinished_transfers m);
          finished_users = username ` set (get_finished_transfers m)
      in (unfinished_users, finished_users - unfinished_users))"

subsection \<open>One object per key\<close>

definition manager_inv :: "manager \<Rightarrow> bool" where
  "manager_inv m \<longleftrightarrow> distinct (map tkey (transfers m)) \<and> list_all transfer_inv (transfers m)"

lemma transfer_eq_tkey: "transfer_eq a b \<longleftrightarrow> tkey a = tkey b"
  by (auto simp: transfer_eq_def tkey_def)

lemma tkey_new [simp]: "tkey (new_transfer user path dir) = (user, path, dir)"
  by (simp add: tkey_def new_transfer_def)

lemma cycle_fields [simp]:
  "transfers (request_management_cycle flag m) = transfers m"
  "next_task (request_management_cycle flag m) = next_task m"
  by (simp_all add: request_management_cycle_def split: request_flag.split)

lemma emit_fields [simp]: "transfers (emit e m) = transfers m"
  by (simp add: emit_def)

lemma call_tkey: "call op now t = (t', es, ok) \<Longrightarrow> tkey t' = tkey t"
  unfolding call_def
  by (cases "state t"; cases op) (auto simp: tkey_def step_eqs variable_defs Let_def split: if_splits)

lemma update_keys:
  "(\<And>t. tkey t = k \<Longrightarrow> tkey (f t) = k) \<Longrightarrow> map tkey (transfers (update_transfer k f m)) = map tkey (transfers m)"
  by (auto simp: update_transfer_def)

lemma find_key:
  "find (\<lambda>t. tkey t = k) ts = Some t \<Longrightarrow> t \<in> set ts \<and> tkey t = k"
  by (auto simp: find_Some_iff)

lemma find_transfer_eq:
  "find_transfer user path dir m = find (\<lambda>t. tkey t = (user, path, dir)) (transfers m)"
  by (simp add: find_transfer_def transfer_eq_tkey)

lemma manager_inv_update:
  assumes "manager_inv m" "\<And>t. t \<in> set (transfers m) \<Longrightarrow> tkey t = k \<Longrightarrow> transfer_inv (f t)"
    and "\<And>t. tkey t = k \<Longrightarrow> tkey (f t) = k"
  shows "manager_inv (update_transfer k f m)"
proof -
  have "distinct (map tkey (transfers (update_transfer k f m)))"
    using assms(1) update_keys [of k f m, OF assms(3)] by (simp add: manager_inv_def)
  then show ?thesis using assms(1,2) by (auto simp: manager_inv_def list_all_iff update_transfer_def)
qed

lemma manager_inv_cycle [simp]: "manager_inv (request_management_cycle flag m) = manager_inv m"
  by (simp add: manager_inv_def)

lemma manager_inv_emit [simp]: "manager_inv (emit e m) = manager_inv m"
  by (simp add: manager_inv_def)

lemma manager_inv_add:
  assumes "manager_inv m" "transfer_inv t" "add_transfer t m = (t', m')"
  shows "manager_inv m' \<and> t' \<in> set (transfers m') \<and> tkey t' = tkey t"
proof (cases "find (\<lambda>q. transfer_eq q t) (transfers m)")
  case None
  then have "\<forall>q \<in> set (transfers m). tkey q \<noteq> tkey t" by (simp add: find_None_iff transfer_eq_tkey)
  then have "tkey t \<notin> tkey ` set (transfers m)" by (metis imageE)
  then show ?thesis using assms None by (auto simp: add_transfer_def manager_inv_def)
next
  case (Some q)
  then have "q \<in> set (transfers m)" "tkey q = tkey t" by (auto simp: find_Some_iff transfer_eq_tkey)
  then show ?thesis using assms Some by (simp add: add_transfer_def)
qed

lemma manager_inv_call:
  assumes "manager_inv m" "call_transfer op now k m = (ok, es, m')"
  shows "manager_inv m' \<and> map tkey (transfers m') = map tkey (transfers m)"
proof (cases "find (\<lambda>t. tkey t = k) (transfers m)")
  case None
  then show ?thesis using assms by (simp add: call_transfer_def)
next
  case (Some t)
  then have t: "t \<in> set (transfers m)" "tkey t = k" using find_key by blast+
  obtain t' es' ok' where c: "call op now t = (t', es', ok')" by (cases "call op now t")
  have "transfer_inv t" using assms(1) t(1) by (simp add: manager_inv_def list_all_iff)
  then have t': "transfer_inv t'" "tkey t' = k"
    using transfer_inv_step [OF _ c] call_tkey [OF c] t(2) by simp_all
  have "manager_inv (update_transfer k (\<lambda>_. t') m)"
    by (rule manager_inv_update [OF assms(1)]) (simp_all add: t')
  moreover have "map tkey (transfers (update_transfer k (\<lambda>_. t') m)) = map tkey (transfers m)"
    by (rule update_keys) (simp add: t')
  ultimately show ?thesis using assms(2) Some c by (auto simp: call_transfer_def split: if_splits)
qed

lemma manager_inv_request:
  "manager_inv m \<Longrightarrow> request_operation op desired now k m = (r, m') \<Longrightarrow>
     manager_inv m' \<and> map tkey (transfers m') = map tkey (transfers m)"
  using manager_inv_call [of m op now k]
  by (cases "call_transfer op now k m") (auto simp: request_operation_def split: option.splits if_splits)

lemma manager_inv_remove:
  assumes "manager_inv m" "remove now k m = (r, m')"
  shows "manager_inv m' \<and> k \<notin> tkey ` set (transfers m')"
proof -
  obtain r1 m1 where a: "abort now k m = (r1, m1)" by (cases "abort now k m")
  then have "manager_inv m1" using manager_inv_request assms(1) unfolding abort_def by blast
  then show ?thesis
    using assms a by (auto simp: remove_def manager_inv_def list_all_iff distinct_map_filter find_None_iff
        split: option.splits)
qed

subsection \<open>Scheduling\<close>

definition eligible_download :: "environment \<Rightarrow> transfer \<Rightarrow> bool" where
  "eligible_download env t \<longleftrightarrow> user_status env (username t) \<noteq> STATUS_OFFLINE \<and> is_download t
     \<and> \<not> remotely_queued t
     \<and> (state t \<in> {QUEUED, INCOMPLETE} \<or> state t = FAILED \<and> fail_reason t = None)"

definition eligible_upload :: "environment \<Rightarrow> pystr set \<Rightarrow> transfer \<Rightarrow> bool" where
  "eligible_upload env busy t \<longleftrightarrow> user_status env (username t) \<noteq> STATUS_OFFLINE \<and> is_upload t
     \<and> username t \<notin> busy \<and> state t = QUEUED"

lemma not_upload [simp]: "direction t \<noteq> UPLOAD \<longleftrightarrow> direction t = DOWNLOAD"
  by (cases "direction t") auto

lemma queued_downloads: "fst (queued_transfers env uploading queued ts) = filter (eligible_download env) ts"
  by (induction ts arbitrary: queued) (auto simp: eligible_download_def is_download_def split_def)

lemma queued_uploads_Cons:
  "snd (queued_transfers env busy queued (t # ts)) =
     (if eligible_upload env busy t \<and> username t \<notin> queued
      then t # snd (queued_transfers env busy (insert (username t) queued) ts)
      else snd (queued_transfers env busy queued ts))"
  by (cases "direction t") (simp_all add: eligible_upload_def is_upload_def split_def)

lemma queued_uploads_sound:
  "u \<in> set (snd (queued_transfers env busy queued ts)) \<Longrightarrow>
     u \<in> set ts \<and> eligible_upload env busy u \<and> username u \<notin> queued"
proof (induction ts arbitrary: queued)
  case (Cons t ts)
  then show ?case
    by (cases "eligible_upload env busy t \<and> username t \<notin> queued")
      (auto simp: queued_uploads_Cons simp del: queued_transfers.simps)
qed simp

lemma queued_uploads_distinct:
  "distinct (map username (snd (queued_transfers env busy queued ts)))"
proof (induction ts arbitrary: queued)
  case (Cons t ts)
  have "username t \<notin> username ` set (snd (queued_transfers env busy (insert (username t) queued) ts))"
  proof
    assume "username t \<in> username ` set (snd (queued_transfers env busy (insert (username t) queued) ts))"
    then obtain u where "u \<in> set (snd (queued_transfers env busy (insert (username t) queued) ts))"
      "username u = username t" by fastforce
    with queued_uploads_sound [OF this(1)] show False by simp
  qed
  then show ?case using Cons.IH by (simp add: queued_uploads_Cons del: queued_transfers.simps)
qed simp

lemma queued_uploads_complete:
  "t \<in> set ts \<Longrightarrow> eligible_upload env busy t \<Longrightarrow> username t \<notin> queued \<Longrightarrow>
     username t \<in> username ` set (snd (queued_transfers env busy queued ts))"
proof (induction ts arbitrary: queued)
  case (Cons x xs)
  consider "x = t" | "t \<in> set xs" "username x = username t" | "t \<in> set xs" "username x \<noteq> username t"
    using Cons.prems(1) by auto
  then show ?case
  proof cases
    case 1
    then show ?thesis using Cons.prems by (simp add: queued_uploads_Cons del: queued_transfers.simps)
  next
    case 2
    then show ?thesis using Cons.IH [OF 2(1) Cons.prems(2,3)]
      by (simp add: queued_uploads_Cons del: queued_transfers.simps)
  next
    case 3
    then show ?thesis
      using Cons.IH [OF 3(1) Cons.prems(2), of queued] Cons.IH [OF 3(1) Cons.prems(2), of "insert (username x) queued"] Cons.prems(3)
      by (simp add: queued_uploads_Cons del: queued_transfers.simps)
  qed
qed simp

lemma prioritize_mset: "mset (prioritize_uploads env us) = mset us"
  by (simp add: prioritize_uploads_def)

lemma prioritize_set [simp]: "set (prioritize_uploads env us) = set us"
  by (simp add: prioritize_uploads_def)

lemma prioritize_sorted: "sorted_wrt (\<lambda>a b. rank env b \<le> rank env a) (prioritize_uploads env us)"
proof -
  have "sorted_wrt (\<lambda>a b. rank env a \<le> rank env b) (sort_key (rank env) us)"
    using sorted_sort_key [of "rank env" us] by (simp add: sorted_map)
  then show ?thesis by (simp add: prioritize_uploads_def sorted_wrt_rev)
qed

lemma prioritize_equal_rank:
  "filter (\<lambda>u. rank env u = k) (prioritize_uploads env us) = rev (filter (\<lambda>u. rank env u = k) us)"
  by (simp add: prioritize_uploads_def rev_filter [symmetric] sort_key_stable)

lemma prioritize_distinct: "distinct (map username us) \<Longrightarrow> distinct (map username (prioritize_uploads env us))"
  by (metis mset_map prioritize_mset mset_eq_imp_distinct_iff)

definition busy_users :: "manager \<Rightarrow> pystr set" where
  "busy_users m = username ` {t \<in> set (transfers m). is_upload t \<and> is_processing t}"

lemma get_queued_transfers_eq:
  "get_queued_transfers env m = (filter (eligible_download env) (transfers m),
     prioritize_uploads env (snd (queued_transfers env (busy_users m) {} (transfers m))))"
  using queued_downloads [of env "busy_users m" "{}" "transfers m"]
  by (simp add: get_queued_transfers_def busy_users_def split_def)

lemma get_queued_uploads:
  assumes "get_queued_transfers env m = (ds, us)"
  shows "set us \<subseteq> set (transfers m)" "\<forall>u \<in> set us. eligible_upload env (busy_users m) u"
    "distinct (map username us)"
    "sorted_wrt (\<lambda>a b. rank env b \<le> rank env a) us"
    "t \<in> set (transfers m) \<Longrightarrow> eligible_upload env (busy_users m) t \<Longrightarrow> username t \<in> username ` set us"
proof -
  have us: "us = prioritize_uploads env (snd (queued_transfers env (busy_users m) {} (transfers m)))"
    using assms by (simp add: get_queued_transfers_eq)
  show "set us \<subseteq> set (transfers m)" "\<forall>u \<in> set us. eligible_upload env (busy_users m) u"
    using queued_uploads_sound [of _ env "busy_users m" "{}" "transfers m"] us by auto
  show "distinct (map username us)" unfolding us by (rule prioritize_distinct [OF queued_uploads_distinct])
  show "sorted_wrt (\<lambda>a b. rank env b \<le> rank env a) us" unfolding us by (rule prioritize_sorted)
  show "username t \<in> username ` set us"
    if "t \<in> set (transfers m)" "eligible_upload env (busy_users m) t"
    using queued_uploads_complete [OF that, of "{}"] us by simp
qed

lemma start_upload_jobs: "map snd (fst (start_upload_tasks us m)) = map (Initialize_Upload \<circ> tkey) us"
  by (induction us arbitrary: m) (simp_all add: split_def Let_def)

lemma start_queue_jobs: "map snd (fst (start_queue_tasks ds m)) = map (Queue_Remotely \<circ> tkey) ds"
  by (induction ds arbitrary: m) (simp_all add: split_def Let_def)

end
