(* ===== verification/Transfer_Handlers.thy ===== *)
theory Transfer_Handlers
  imports Transfer_Manager
begin

text \<open>
\<open>src/aioslsk/transfer/manager.py\<close>, second part: the messages of the peers, changes of
  the shares and of the block list, the management job, the cache and the progress reports.
  A handler returns the messages it sends (or the task it starts) and the new manager. The
  time of a state change is an argument.
\<close>

subsection \<open>Replies and jobs\<close>

datatype reply =
    Queue_Failed pystr pystr                 \<comment> \<open>\<open>PeerTransferQueueFailed(filename, reason)\<close>\<close>
  | Transfer_Reply nat bool "pystr option"   \<comment> \<open>\<open>PeerTransferReply(ticket, allowed, reason)\<close>\<close>
  | Place_Reply pystr nat                    \<comment> \<open>\<open>PeerPlaceInQueueReply(filename, place)\<close>\<close>
  | Start_Download transfer_key nat "nat option" \<comment> \<open>task \<open>_initialize_download\<close>: ticket, file size\<close>

text \<open>\<open>connection.username\<close> is \<open>None\<close> or empty on a connection that was not initialized.\<close>

definition username_of :: "pystr option \<Rightarrow> pystr option" where
  "username_of u = (case u of None \<Rightarrow> None | Some name \<Rightarrow> if name = [] then None else Some name)"

definition ops :: "operation \<Rightarrow> rat \<Rightarrow> transfer_key \<Rightarrow> manager \<Rightarrow> manager" where
  "ops op now k m = snd (snd (call_transfer op now k m))"

definition add_upload ::
    "environment \<Rightarrow> pystr \<Rightarrow> pystr \<Rightarrow> manager \<Rightarrow> (unit + transfer_key) \<times> manager" where
  \<comment> \<open>\<open>Inl\<close>: the file does not exist or is not shared with the user\<close>
  "add_upload env user path m =
     (case shared_item env path user of
        None \<Rightarrow> (Inl (), m)
      | Some (absolute_path, fsize) \<Rightarrow>
          let t = (new_transfer user path UPLOAD)\<lparr>local_path := Some absolute_path, filesize := Some fsize\<rparr>
          in (Inr (tkey t), snd (add_transfer t m)))"

subsection \<open>Messages of the peers\<close>

definition on_peer_transfer_queue ::
    "environment \<Rightarrow> rat \<Rightarrow> pystr option \<Rightarrow> pystr \<Rightarrow> manager \<Rightarrow> reply list \<times> manager" where
  "on_peer_transfer_queue env now conn_user filename m =
     (case username_of conn_user of
        None \<Rightarrow> ([], m)
      | Some user \<Rightarrow>
          if uploads_blocked env user then ([Queue_Failed filename FAIL_FILE_NOT_SHARED], m)
          else case find_transfer user filename UPLOAD m of
            None \<Rightarrow>
              (case add_upload env user filename m of
                 (Inl _, m1) \<Rightarrow> ([Queue_Failed filename FAIL_FILE_NOT_SHARED], m1)
               | (Inr k, m1) \<Rightarrow> ([], ops (Queue False) now k m1))
          | Some t \<Rightarrow>
              if shared_item env filename user = None then
                ([Queue_Failed filename FAIL_FILE_NOT_SHARED],
                 ops (Fail (Some FAIL_FILE_NOT_SHARED)) now (tkey t) m)
              else if state t = ABORTED then ([Queue_Failed filename FAIL_CANCELLED], m)
              else if state t \<in> {FAILED, COMPLETE} then ([], ops (Queue False) now (tkey t) m)
              else ([], m))"

definition refuse :: "nat \<Rightarrow> pystr \<Rightarrow> reply" where
  "refuse ticket reason = Transfer_Reply ticket False (Some reason)"

definition fail_reason_map :: "transfer_state \<Rightarrow> pystr option" where
  "fail_reason_map st =
     (if st = PAUSED then Some FAIL_CANCELLED else if st = ABORTED then Some FAIL_CANCELLED
      else if st = COMPLETE then Some FAIL_COMPLETE else if st = QUEUED then Some FAIL_QUEUED
      else None)"

definition request_upload ::
    "environment \<Rightarrow> rat \<Rightarrow> pystr \<Rightarrow> pystr \<Rightarrow> nat \<Rightarrow> manager \<Rightarrow> reply list \<times> manager" where
  \<comment> \<open>the branch of \<open>_on_peer_transfer_request\<close> in which the peer asks for a file\<close>
  "request_upload env now user filename ticket m =
     (case find_transfer user filename UPLOAD m of
        None \<Rightarrow>
          (case add_upload env user filename m of
             (Inl _, m1) \<Rightarrow> ([refuse ticket FAIL_FILE_NOT_SHARED], m1)
           | (Inr k, m1) \<Rightarrow> ([refuse ticket FAIL_QUEUED], ops (Queue False) now k m1))
      | Some t \<Rightarrow>
          if shared_item env filename user = None then
            ([refuse ticket FAIL_FILE_NOT_SHARED], ops (Fail (Some FAIL_FILE_NOT_SHARED)) now (tkey t) m)
          else (case fail_reason_map (state t) of
              Some reason \<Rightarrow> ([refuse ticket reason], m)
            | None \<Rightarrow> ([], m)))"

definition request_download ::
    "rat \<Rightarrow> pystr \<Rightarrow> pystr \<Rightarrow> nat \<Rightarrow> nat option \<Rightarrow> manager \<Rightarrow> reply list \<times> manager" where
  \<comment> \<open>the branch in which the peer is ready to send us a file\<close>
  "request_download now user filename ticket fsize m =
     (case find_transfer user filename DOWNLOAD m of
        None \<Rightarrow> ([refuse ticket FAIL_CANCELLED], m)
      | Some t \<Rightarrow>
          if state t \<in> {ABORTED, PAUSED} then ([refuse ticket FAIL_CANCELLED], m)
          else if state t = COMPLETE then ([refuse ticket FAIL_COMPLETE], m)
          else if is_processing t then ([], m)
          else
            let m1 = (if state t = FAILED then ops (Queue True) now (tkey t) m else m);
                n = next_task m1;
                m2 = (update_transfer (tkey t) (\<lambda>t. t\<lparr>transfer_task := Some n\<rparr>) m1)\<lparr>next_task := n + 1\<rparr>
            in ([Start_Download (tkey t) ticket fsize], m2))"

definition TransferDirection :: "nat \<Rightarrow> direction result" where
  "TransferDirection n = (if n = 0 then Inr UPLOAD else if n = 1 then Inr DOWNLOAD else Inl ValueError)"

definition on_peer_transfer_request ::
    "environment \<Rightarrow> rat \<Rightarrow> pystr option \<Rightarrow> nat \<Rightarrow> nat \<Rightarrow> pystr \<Rightarrow> nat option \<Rightarrow> manager
     \<Rightarrow> (reply list \<times> manager) result" where
  "on_peer_transfer_request env now conn_user dir ticket filename fsize m =
     (case username_of conn_user of
        None \<Rightarrow> Inr ([], m)
      | Some user \<Rightarrow>
          bindE (TransferDirection dir) (\<lambda>d.
            if uploads_blocked env user \<and> d = UPLOAD then Inr ([refuse ticket FAIL_FILE_NOT_SHARED], m)
            else if d = UPLOAD then Inr (request_upload env now user filename ticket m)
            else Inr (request_download now user filename ticket fsize m)))"

definition on_peer_place_in_queue_request ::
    "environment \<Rightarrow> pystr option \<Rightarrow> pystr \<Rightarrow> manager \<Rightarrow> reply list" where
  "on_peer_place_in_queue_request env conn_user filename m =
     (case username_of conn_user of
        None \<Rightarrow> []
      | Some user \<Rightarrow>
          (case find_transfer user filename UPLOAD m of
             None \<Rightarrow> []
           | Some t \<Rightarrow>
               let place = get_place_in_queue env t m in
               if place \<noteq> 0 then [Place_Reply filename place] else []))"

definition on_peer_place_in_queue_reply :: "pystr option \<Rightarrow> pystr \<Rightarrow> nat \<Rightarrow> manager \<Rightarrow> manager" where
  "on_peer_place_in_queue_reply conn_user filename place m =
     (case username_of conn_user of
        None \<Rightarrow> m
      | Some user \<Rightarrow>
          (case find_transfer user filename DOWNLOAD m of
             None \<Rightarrow> m
           | Some t \<Rightarrow> update_transfer (tkey t) (\<lambda>t. t\<lparr>place_in_queue := Some place\<rparr>) m))"

definition on_peer_upload_failed :: "pystr option \<Rightarrow> pystr \<Rightarrow> manager \<Rightarrow> manager" where
  "on_peer_upload_failed conn_user filename m =
     (case username_of conn_user of
        None \<Rightarrow> m
      | Some user \<Rightarrow>
          (case find_transfer user filename DOWNLOAD m of
             None \<Rightarrow> m
           | Some t \<Rightarrow> request_management_cycle TRANSFER_CHANGE
               (update_transfer (tkey t) (\<lambda>t. t\<lparr>remotely_queued := False\<rparr>) m)))"

definition on_peer_transfer_queue_failed :: "rat \<Rightarrow> pystr option \<Rightarrow> pystr \<Rightarrow> pystr \<Rightarrow> manager \<Rightarrow> manager" where
  "on_peer_transfer_queue_failed now conn_user filename reason m =
     (case username_of conn_user of
        None \<Rightarrow> m
      | Some user \<Rightarrow>
          (case find_transfer user filename DOWNLOAD m of
             None \<Rightarrow> m
           | Some t \<Rightarrow> ops (Fail (Some reason)) now (tkey t) m))"

definition reset_remotely_queued_flags :: "pystr \<Rightarrow> manager \<Rightarrow> manager" where
  "reset_remotely_queued_flags user m = m\<lparr>transfers :=
     map (\<lambda>t. if direction t = DOWNLOAD \<and> username t = user then t\<lparr>remotely_queued := False\<rparr> else t)
       (transfers m)\<rparr>"

definition on_get_user_status :: "pystr \<Rightarrow> nat \<Rightarrow> manager \<Rightarrow> manager" where
  \<comment> \<open>\<open>UserStatus.OFFLINE\<close> is 0 on the wire\<close>
  "on_get_user_status user stat m =
     request_management_cycle TRANSFER_CHANGE
       (if stat = 0 then reset_remotely_queued_flags user m else m)"

subsection \<open>Changes of the shares and of the block list\<close>

definition evaluate_aborted_state :: "environment \<Rightarrow> transfer \<Rightarrow> bool \<times> pystr option" where
  "evaluate_aborted_state env upload =
     (let reason =
        (if abort_reason upload = Some ABORT_REQUESTED then Some ABORT_REQUESTED
         else if uploads_blocked env (username upload) then Some ABORT_BLOCKED
         else if \<not> indexed env (remote_path upload) (username upload) then Some ABORT_FILE_NOT_SHARED
         else None)
      in ((state upload = ABORTED) \<noteq> (reason \<noteq> None), reason))"

fun shares_changed :: "environment \<Rightarrow> rat \<Rightarrow> transfer list \<Rightarrow> manager \<Rightarrow> manager" where
  \<comment> \<open>the loop over the uploads; what an upload needs depends on that upload alone\<close>
  "shares_changed env now [] m = m"
| "shares_changed env now (u # us) m =
     shares_changed env now us
       (case evaluate_aborted_state env u of (should_change, reason) \<Rightarrow>
          if should_change then
            if state u = ABORTED then ops (Queue False) now (tkey u) m
            else ops (Abort reason) now (tkey u) m
          else if reason \<noteq> None then update_transfer (tkey u) (\<lambda>t. t\<lparr>abort_reason := reason\<rparr>) m
          else m)"

definition manage_shares_changed :: "environment \<Rightarrow> rat \<Rightarrow> manager \<Rightarrow> manager" where
  "manage_shares_changed env now m =
     shares_changed env now
       (filter (\<lambda>t. is_upload t \<and> state t \<notin> {COMPLETE, FAILED}) (transfers m)) m"

definition management_job :: "environment \<Rightarrow> rat \<Rightarrow> manager \<Rightarrow> (nat \<times> job) list \<times> manager" where
  \<comment> \<open>one turn of \<open>_management_job\<close>, taken only when a cycle was requested\<close>
  "management_job env now m =
     (if \<not> cycle_requested m then ([], m)
      else
        let flagged = shares_change m;
            m1 = m\<lparr>cycle_requested := False, shares_change := False, transfer_change := False\<rparr>;
            m2 = (if flagged then manage_shares_changed env now m1 else m1)
        in manage_transfers env m2)"

subsection \<open>The cache\<close>

definition restore :: "transfer \<Rightarrow> transfer" where
  \<comment> \<open>the body of the loop of \<open>read_cache\<close>\<close>
  "restore t0 =
     (let t = t0\<lparr>remotely_queued := False\<rparr> in
      if state t = INITIALIZING then fst (call (Queue False) 0 t)
      else if is_transferring t then
        reset_time_vars (t\<lparr>state := (if is_transfered t then COMPLETE else INCOMPLETE)\<rparr>)
      else t)"

definition read_cache :: "transfer list \<Rightarrow> manager \<Rightarrow> manager" where
  "read_cache cached m = fold (\<lambda>t m. snd (add_transfer (restore t) m)) cached m"

subsection \<open>Progress reports\<close>

definition progress_reporting_job ::
    "rat \<Rightarrow> rat \<Rightarrow> manager \<Rightarrow> (transfer_key \<times> snapshot option \<times> snapshot option) list \<times> manager" where
  "progress_reporting_job wall monot m =
     (let ts = map (take_progress_snapshot wall monot) (transfers m) in
      (map (\<lambda>(old, new). (tkey old, progress_snapshot old, progress_snapshot new))
         (filter (\<lambda>(old, new). progress_snapshot old \<noteq> progress_snapshot new) (zip (transfers m) ts)),
       m\<lparr>transfers := ts\<rparr>))"

end
