(* ===== verification/Transfer_Manager_Properties.thy ===== *)
theory Transfer_Manager_Properties
  imports Transfer_Handlers
begin

text \<open>
The invariant of the list of transfers, kept by every operation and message handler of
  \<open>Transfer_Handlers\<close>, the reaction to changed shares as one function applied to each transfer,
  and the properties of the scheduling.
\<close>

subsection \<open>Invariant of the manager\<close>

definition manager_ok :: "manager \<Rightarrow> bool" where
  "manager_ok m \<longleftrightarrow> distinct (map tkey (transfers m)) \<and> (\<forall>t \<in> set (transfers m). reasons_ok t)"

lemma call_reasons:
  assumes "call op now t = (t', es, ok)" "reasons_ok t"
  shows "reasons_ok t'"
proof -
  have c: "call_state (state t) op now t = (t', es, ok)" using assms(1) by (simp add: call_def)
  show ?thesis
    using call_fail_reason [OF c] call_abort_reason [OF c] call_state_diagram [OF c] assms(2)
    unfolding reasons_ok_def
    by (cases "state t"; cases op) (simp_all split: if_splits)
qed

lemma manager_ok_fields [simp]:
  "manager_ok (request_management_cycle flag m) = manager_ok m"
  "manager_ok (emit e m) = manager_ok m"
  "manager_ok (m\<lparr>next_task := n\<rparr>) = manager_ok m"
  "manager_ok (m\<lparr>cycle_requested := b, shares_change := s1, transfer_change := s2\<rparr>) = manager_ok m"
  by (simp_all add: manager_ok_def)

lemma manager_ok_update:
  assumes "manager_ok m" "\<And>t. t \<in> set (transfers m) \<Longrightarrow> tkey t = k \<Longrightarrow> reasons_ok (f t)"
    and "\<And>t. tkey t = k \<Longrightarrow> tkey (f t) = k"
  shows "manager_ok (update_transfer k f m)"
proof -
  have "distinct (map tkey (transfers (update_transfer k f m)))"
    using assms(1) update_keys [of k f m, OF assms(3)] by (simp add: manager_ok_def)
  then show ?thesis using assms(1,2) by (auto simp: manager_ok_def update_transfer_def)
qed

lemma ops_cases:
  obtains "ops op now k m = m" "k \<notin> tkey ` set (transfers m)"
  | t t' es ok where "t \<in> set (transfers m)" "tkey t = k" "call op now t = (t', es, ok)"
    "ops op now k m = (if ok then request_management_cycle TRANSFER_CHANGE else (\<lambda>m. m)) (update_transfer k (\<lambda>_. t') m)"
proof (cases "find (\<lambda>t. tkey t = k) (transfers m)")
  case None
  then have "k \<notin> tkey ` set (transfers m)" by (auto simp: find_None_iff)
  then show thesis using that(1) None by (simp add: ops_def call_transfer_def)
next
  case (Some t)
  obtain t' es ok where c: "call op now t = (t', es, ok)" by (cases "call op now t")
  then show thesis using that(2) [OF _ _ c] find_key [OF Some] Some by (simp add: ops_def call_transfer_def)
qed

lemma manager_ok_ops: "manager_ok m \<Longrightarrow> manager_ok (ops op now k m)"
proof (rule ops_cases [of op now k m])
  fix t t' es ok
  assume m: "manager_ok m" and t: "t \<in> set (transfers m)" "tkey t = k" "call op now t = (t', es, ok)"
    and o1: "ops op now k m = (if ok then request_management_cycle TRANSFER_CHANGE else (\<lambda>m. m)) (update_transfer k (\<lambda>_. t') m)"
  have "reasons_ok t'" using call_reasons [OF t(3)] m t(1) by (simp add: manager_ok_def)
  moreover have "tkey t' = k" using call_tkey [OF t(3)] t(2) by simp
  ultimately have "manager_ok (update_transfer k (\<lambda>_. t') m)" by (intro manager_ok_update [OF m]) simp_all
  then show ?thesis by (simp add: o1)
qed simp

lemma manager_ok_add:
  assumes "manager_ok m" "reasons_ok t"
  shows "manager_ok (snd (add_transfer t m))"
proof (cases "find (\<lambda>q. transfer_eq q t) (transfers m)")
  case None
  then have "tkey t \<notin> tkey ` set (transfers m)" by (auto simp: find_None_iff transfer_eq_tkey)
  then show ?thesis using assms None by (simp add: add_transfer_def manager_ok_def)
qed (use assms in \<open>simp add: add_transfer_def\<close>)

lemma reasons_ok_new: "reasons_ok (new_transfer user path dir)"
  by (simp add: reasons_ok_def new_transfer_def)

lemma manager_ok_add_upload: "manager_ok m \<Longrightarrow> manager_ok (snd (add_upload env user path m))"
  by (auto simp: add_upload_def Let_def reasons_ok_def new_transfer_def intro!: manager_ok_add split: option.split)

lemma manager_ok_flag:
  "manager_ok m \<Longrightarrow> (\<And>t. reasons_ok (f t) = reasons_ok t) \<Longrightarrow> (\<And>t. tkey (f t) = tkey t) \<Longrightarrow>
     manager_ok (update_transfer k f m)"
  by (rule manager_ok_update) (auto simp: manager_ok_def)

lemma plain_fields [simp]:
  "reasons_ok (t\<lparr>transfer_task := x\<rparr>) = reasons_ok t" "tkey (t\<lparr>transfer_task := x\<rparr>) = tkey t"
  "reasons_ok (t\<lparr>remotely_queue_task := x\<rparr>) = reasons_ok t" "tkey (t\<lparr>remotely_queue_task := x\<rparr>) = tkey t"
  "reasons_ok (t\<lparr>remotely_queued := b\<rparr>) = reasons_ok t" "tkey (t\<lparr>remotely_queued := b\<rparr>) = tkey t"
  "reasons_ok (t\<lparr>place_in_queue := p\<rparr>) = reasons_ok t" "tkey (t\<lparr>place_in_queue := p\<rparr>) = tkey t"
  "reasons_ok (take_progress_snapshot w mo t) = reasons_ok t" "tkey (take_progress_snapshot w mo t) = tkey t"
  by (simp_all add: reasons_ok_def tkey_def take_progress_snapshot_def)

lemma manager_ok_queue_message:
  assumes "manager_ok m"
  shows "manager_ok (snd (on_peer_transfer_queue env now u filename m))"
proof (cases "username_of u")
  case (Some user)
  obtain r m1 where e: "add_upload env user filename m = (r, m1)" by (cases "add_upload env user filename m")
  then have "manager_ok m1" using manager_ok_add_upload [OF assms, of env user filename] by simp
  then show ?thesis using assms e Some
    by (cases r) (simp_all add: on_peer_transfer_queue_def manager_ok_ops split: option.split)
qed (simp add: on_peer_transfer_queue_def assms)

lemma manager_ok_request_upload:
  assumes "manager_ok m"
  shows "manager_ok (snd (request_upload env now user filename ticket m))"
proof -
  obtain r m1 where e: "add_upload env user filename m = (r, m1)" by (cases "add_upload env user filename m")
  then have "manager_ok m1" using manager_ok_add_upload [OF assms, of env user filename] by simp
  then show ?thesis using assms e
    by (cases r) (simp_all add: request_upload_def manager_ok_ops split: option.split)
qed

lemma manager_ok_request_download:
  "manager_ok m \<Longrightarrow> manager_ok (snd (request_download now user filename ticket fsize m))"
  by (auto simp: request_download_def Let_def manager_ok_ops intro!: manager_ok_flag split: option.split)

lemma manager_ok_request:
  assumes "manager_ok m" "on_peer_transfer_request env now u dir ticket filename fsize m = Inr (rs, m')"
  shows "manager_ok m'"
proof -
  have "manager_ok m1" if "request_upload env now user filename ticket m = (rs, m1)" for user m1
    using manager_ok_request_upload [OF assms(1), of env now user filename ticket] that by simp
  moreover have "manager_ok m1" if "request_download now user filename ticket fsize m = (rs, m1)" for user m1
    using manager_ok_request_download [OF assms(1), of now user filename ticket fsize] that by simp
  ultimately show ?thesis using assms
    by (auto simp: on_peer_transfer_request_def bindE_eq_Inr_iff split: option.splits if_splits)
qed

lemma manager_ok_messages:
  "manager_ok m \<Longrightarrow> manager_ok (on_peer_place_in_queue_reply u filename place m)"
  "manager_ok m \<Longrightarrow> manager_ok (on_peer_upload_failed u filename m)"
  "manager_ok m \<Longrightarrow> manager_ok (on_peer_transfer_queue_failed now u filename reason m)"
  by (auto simp: on_peer_place_in_queue_reply_def on_peer_upload_failed_def on_peer_transfer_queue_failed_def
      manager_ok_ops intro!: manager_ok_flag split: option.split)

lemma manager_ok_map:
  assumes "manager_ok m" "\<And>t. tkey (f t) = tkey t" "\<And>t. reasons_ok t \<Longrightarrow> reasons_ok (f t)"
  shows "manager_ok (m\<lparr>transfers := map f (transfers m)\<rparr>)"
proof -
  have "map (tkey \<circ> f) (transfers m) = map tkey (transfers m)" using assms(2) by simp
  then show ?thesis using assms by (simp add: manager_ok_def comp_def)
qed

lemma manager_ok_user_status: "manager_ok m \<Longrightarrow> manager_ok (on_get_user_status user st m)"
  by (auto simp: on_get_user_status_def reset_remotely_queued_flags_def intro!: manager_ok_map)

lemma manager_ok_progress: "manager_ok m \<Longrightarrow> manager_ok (snd (progress_reporting_job wall monot m))"
  by (simp add: progress_reporting_job_def Let_def manager_ok_map)

lemma manager_ok_request_operation:
  "manager_ok m \<Longrightarrow> manager_ok (snd (request_operation op desired now k m))"
  using manager_ok_ops [of m op now k]
  by (auto simp: request_operation_def ops_def split: option.split prod.split)

lemma manager_ok_remove: "manager_ok m \<Longrightarrow> manager_ok (snd (remove now k m))"
proof -
  assume m: "manager_ok m"
  obtain r m1 where a: "abort now k m = (r, m1)" by (cases "abort now k m")
  then have "manager_ok m1" using manager_ok_request_operation [OF m, of "Abort (Some ABORT_REQUESTED)" ABORTED now k]
    by (simp add: abort_def)
  then show ?thesis using m a by (auto simp: remove_def manager_ok_def distinct_map_filter split: option.split)
qed

lemma manager_ok_download:
  assumes "manager_ok m"
  shows "manager_ok (snd (download now user path paused m))"
proof -
  obtain t m1 where a: "add_transfer (new_transfer user path DOWNLOAD) m = (t, m1)"
    by (cases "add_transfer (new_transfer user path DOWNLOAD) m")
  then have "manager_ok m1" using manager_ok_add [OF assms reasons_ok_new, of user path DOWNLOAD] by simp
  then have "manager_ok (ops op now k m1)" for op k by (rule manager_ok_ops)
  then show ?thesis using a by (simp add: download_def ops_def)
qed

lemma manager_ok_start_step:
  assumes "manager_ok m" "\<And>t. reasons_ok (f t) = reasons_ok t" "\<And>t. tkey (f t) = tkey t"
  shows "manager_ok ((update_transfer k f m)\<lparr>next_task := n\<rparr>)"
  using manager_ok_flag [OF assms] by simp

lemma manager_ok_start_queue: "manager_ok m \<Longrightarrow> manager_ok (snd (start_queue_tasks ds m))"
proof (induction ds arbitrary: m)
  case (Cons d ds)
  have "manager_ok (snd (start_queue_tasks ds ((update_transfer (tkey d)
      (\<lambda>t. t\<lparr>remotely_queue_task := Some (next_task m)\<rparr>) m)\<lparr>next_task := next_task m + 1\<rparr>)))"
    by (rule Cons.IH, rule manager_ok_start_step [OF Cons.prems]) simp_all
  then show ?case by (simp add: Let_def split_def)
qed simp

lemma manager_ok_start_upload: "manager_ok m \<Longrightarrow> manager_ok (snd (start_upload_tasks us m))"
proof (induction us arbitrary: m)
  case (Cons u us)
  have "manager_ok (snd (start_upload_tasks us ((update_transfer (tkey u)
      (\<lambda>t. t\<lparr>transfer_task := Some (next_task m)\<rparr>) m)\<lparr>next_task := next_task m + 1\<rparr>)))"
    by (rule Cons.IH, rule manager_ok_start_step [OF Cons.prems]) simp_all
  then show ?case by (simp add: Let_def split_def)
qed simp

lemma manager_ok_manage: "manager_ok m \<Longrightarrow> manager_ok (snd (manage_transfers env m))"
  by (auto simp: manage_transfers_def Let_def split_def intro!: manager_ok_start_queue manager_ok_start_upload)

lemma reasons_ok_restore:
  assumes "reasons_ok t"
  shows "reasons_ok (restore t)"
proof (cases "state t = INITIALIZING")
  case True
  let ?t = "t\<lparr>remotely_queued := False\<rparr>"
  obtain t' es ok where c: "call (Queue False) 0 ?t = (t', es, ok)" by (cases "call (Queue False) 0 ?t")
  from call_reasons [OF c] assms have "reasons_ok t'" by simp
  then show ?thesis using True c by (simp add: restore_def)
next
  case False
  then show ?thesis using assms
    by (auto simp: restore_def Let_def reasons_ok_def is_transferring_def reset_time_vars_def)
qed

lemma manager_ok_read_cache:
  "manager_ok m \<Longrightarrow> list_all reasons_ok cached \<Longrightarrow> manager_ok (read_cache cached m)"
  unfolding read_cache_def
  by (induction cached arbitrary: m) (auto intro!: manager_ok_add reasons_ok_restore)


subsection \<open>Changes of the shares, per transfer\<close>

definition share_step :: "environment \<Rightarrow> rat \<Rightarrow> transfer \<Rightarrow> transfer" where
  "share_step env now u =
     (case evaluate_aborted_state env u of (should_change, reason) \<Rightarrow>
        if should_change then
          (if state u = ABORTED then fst (call (Queue False) now u) else fst (call (Abort reason) now u))
        else if reason \<noteq> None then u\<lparr>abort_reason := reason\<rparr>
        else u)"

definition share_change :: "environment \<Rightarrow> rat \<Rightarrow> transfer \<Rightarrow> transfer" where
  \<comment> \<open>the specification: what a change of the shares does to one transfer\<close>
  "share_change env now u =
     (if is_upload u \<and> state u \<notin> {COMPLETE, FAILED} then share_step env now u else u)"

lemma tkey_call [simp]: "tkey (fst (call op now t)) = tkey t"
  using call_tkey by (cases "call op now t") auto

lemma tkey_abort_reason [simp]: "tkey (t\<lparr>abort_reason := r\<rparr>) = tkey t"
  by (simp add: tkey_def)

lemma tkey_share_step [simp]: "tkey (share_step env now u) = tkey u"
  by (simp add: share_step_def split_def)

lemma ops_transfers:
  assumes "distinct (map tkey (transfers m))" "u \<in> set (transfers m)"
  shows "transfers (ops op now (tkey u) m) = map (\<lambda>t. if t = u then fst (call op now u) else t) (transfers m)"
proof (rule ops_cases [of op now "tkey u" m])
  fix t t' es ok
  assume t: "t \<in> set (transfers m)" "tkey t = tkey u" "call op now t = (t', es, ok)"
    and eq: "ops op now (tkey u) m = (if ok then request_management_cycle TRANSFER_CHANGE else (\<lambda>m. m))
      (update_transfer (tkey u) (\<lambda>_. t') m)"
  have key: "x \<in> set (transfers m) \<Longrightarrow> tkey x = tkey u \<longleftrightarrow> x = u" for x
    using assms by (auto simp: distinct_map dest: inj_onD)
  then have "t = u" using t by simp
  with eq t(3) key show ?thesis by (auto simp: update_transfer_def)
qed (use assms in auto)

lemma update_transfers:
  assumes "distinct (map tkey (transfers m))" "u \<in> set (transfers m)"
  shows "transfers (update_transfer (tkey u) f m) = map (\<lambda>t. if t = u then f u else t) (transfers m)"
  using assms by (auto simp: update_transfer_def distinct_map dest: inj_onD)

lemma shares_changed_map:
  assumes "distinct (map tkey (transfers m))" "distinct us" "set us \<subseteq> set (transfers m)"
  shows "transfers (shares_changed env now us m)
       = map (\<lambda>t. if t \<in> set us then share_step env now t else t) (transfers m)"
  using assms
proof (induction us arbitrary: m)
  case (Cons u us)
  have u: "u \<in> set (transfers m)" using Cons.prems(3) by simp
  define m1 where "m1 = (case evaluate_aborted_state env u of (should_change, reason) \<Rightarrow>
          if should_change then
            if state u = ABORTED then ops (Queue False) now (tkey u) m
            else ops (Abort reason) now (tkey u) m
          else if reason \<noteq> None then update_transfer (tkey u) (\<lambda>t. t\<lparr>abort_reason := reason\<rparr>) m
          else m)"
  have m1: "transfers m1 = map (\<lambda>t. if t = u then share_step env now u else t) (transfers m)"
    unfolding m1_def share_step_def split_def
    using ops_transfers [OF Cons.prems(1) u] update_transfers [OF Cons.prems(1) u] by (auto simp: map_idI)
  have keys: "map tkey (transfers m1) = map tkey (transfers m)" by (auto simp: m1)
  have inj: "\<And>x y. x \<in> set (transfers m) \<Longrightarrow> y \<in> set (transfers m) \<Longrightarrow> tkey x = tkey y \<Longrightarrow> x = y"
    using Cons.prems(1) by (auto simp: distinct_map dest: inj_onD)
  have sub: "set us \<subseteq> set (transfers m1)" using Cons.prems(2,3) by (auto simp: m1)
  have notin: "share_step env now u \<notin> set us"
  proof
    assume s: "share_step env now u \<in> set us"
    then have "share_step env now u = u" using inj [of "share_step env now u" u] Cons.prems(3) u by auto
    with s Cons.prems(2) show False by simp
  qed
  have "transfers (shares_changed env now us m1)
      = map (\<lambda>t. if t \<in> set us then share_step env now t else t) (transfers m1)"
    using Cons.prems(1,2) keys sub by (intro Cons.IH) simp_all
  also have "\<dots> = map (\<lambda>t. if t \<in> set (u # us) then share_step env now t else t) (transfers m)"
    unfolding m1 using notin Cons.prems(2) by auto
  finally show ?case by (simp add: m1_def)
qed simp

lemma manage_shares_changed_map:
  assumes "manager_ok m"
  shows "transfers (manage_shares_changed env now m) = map (share_change env now) (transfers m)"
proof -
  have d: "distinct (map tkey (transfers m))" using assms by (simp add: manager_ok_def)
  then have "distinct (transfers m)" by (simp add: distinct_map)
  then have "transfers (manage_shares_changed env now m) = map (\<lambda>t. if t \<in> set (filter (\<lambda>t. is_upload t
      \<and> state t \<notin> {COMPLETE, FAILED}) (transfers m)) then share_step env now t else t) (transfers m)"
    unfolding manage_shares_changed_def by (intro shares_changed_map [OF d]) auto
  then show ?thesis by (auto simp: share_change_def)
qed

lemma reasons_ok_share_change:
  assumes "reasons_ok t"
  shows "reasons_ok (share_change env now t)"
proof -
  have "reasons_ok (fst (call op now t))" for op
    using call_reasons [of op now t] assms by (cases "call op now t") auto
  then show ?thesis using assms
    by (auto simp: share_change_def share_step_def evaluate_aborted_state_def Let_def reasons_ok_def split: if_splits)
qed

lemma manager_ok_shares: "manager_ok m \<Longrightarrow> manager_ok (manage_shares_changed env now m)"
proof -
  assume m: "manager_ok m"
  have keys: "map (tkey \<circ> share_change env now) (transfers m) = map tkey (transfers m)"
    by (simp add: share_change_def)
  have "distinct (map tkey (map (share_change env now) (transfers m)))"
    using m by (simp add: keys manager_ok_def)
  then show ?thesis
    using m by (simp add: manager_ok_def manage_shares_changed_map [OF m] reasons_ok_share_change)
qed

lemma manager_ok_job: "manager_ok m \<Longrightarrow> manager_ok (snd (management_job env now m))"
  by (simp add: management_job_def Let_def manager_ok_manage manager_ok_shares)

subsection \<open>Runs of the manager\<close>

definition empty_manager :: manager where
  "empty_manager = \<lparr>transfers = [], shares_change = False, transfer_change = False,
     cycle_requested = False, next_task = 0, events = []\<rparr>"

inductive manager_step :: "manager \<Rightarrow> manager \<Rightarrow> bool" where
  Add: "reasons_ok t \<Longrightarrow> manager_step m (snd (add_transfer t m))"
| Remove: "manager_step m (snd (remove now k m))"
| Download: "manager_step m (snd (download now user path paused m))"
| Request: "manager_step m (snd (request_operation op desired now k m))"
| Operation: "manager_step m (ops op now k m)"
| Job: "manager_step m (snd (management_job env now m))"
| Cycle: "manager_step m (request_management_cycle flag m)"
| Read_Cache: "list_all reasons_ok cached \<Longrightarrow> manager_step m (read_cache cached m)"
| Progress: "manager_step m (snd (progress_reporting_job wall monot m))"
| Queue_Request: "manager_step m (snd (on_peer_transfer_queue env now u filename m))"
| Transfer_Request: "on_peer_transfer_request env now u dir ticket filename fsize m = Inr (rs, m') \<Longrightarrow> manager_step m m'"
| Place: "manager_step m (on_peer_place_in_queue_reply u filename place m)"
| Upload_Failed: "manager_step m (on_peer_upload_failed u filename m)"
| Queue_Failed: "manager_step m (on_peer_transfer_queue_failed now u filename reason m)"
| User_Status: "manager_step m (on_get_user_status user st m)"

inductive reachable_manager :: "manager \<Rightarrow> bool" where
  Start: "reachable_manager empty_manager"
| Step: "reachable_manager m \<Longrightarrow> manager_step m m' \<Longrightarrow> reachable_manager m'"

lemma manager_ok_step: "manager_step m m' \<Longrightarrow> manager_ok m \<Longrightarrow> manager_ok m'"
proof (induction rule: manager_step.induct)
  case (Transfer_Request env now u dir ticket filename fsize m rs m')
  then show ?case using manager_ok_request by blast
qed (simp_all add: manager_ok_add manager_ok_remove manager_ok_download manager_ok_request_operation
      manager_ok_ops manager_ok_job manager_ok_read_cache manager_ok_progress manager_ok_queue_message
      manager_ok_messages manager_ok_user_status)

lemma manager_ok_reachable: "reachable_manager m \<Longrightarrow> manager_ok m"
proof (induction rule: reachable_manager.induct)
  case Start
  then show ?case by (simp add: manager_ok_def empty_manager_def)
next
  case (Step m m')
  then show ?case using manager_ok_step by blast
qed

subsection \<open>Properties\<close>

lemma tkey_inj_on:
  "manager_ok m \<Longrightarrow> x \<in> set (transfers m) \<Longrightarrow> y \<in> set (transfers m) \<Longrightarrow> tkey x = tkey y \<Longrightarrow> x = y"
  by (auto simp: manager_ok_def distinct_map dest: inj_onD)

text \<open>C14: However the manager is used - transfers added, removed, queued, aborted and paused,
  messages of peers, management cycles, reading the cache, in any order - its list holds at
  most one transfer for a user, path and direction, a transfer has a reason of failure only
  while it is FAILED and a reason of the abort only while it is ABORTED.\<close>

theorem manager_invariant:
  assumes "reachable_manager m"
  shows "distinct (map tkey (transfers m))
    \<and> (\<forall>t \<in> set (transfers m). (fail_reason t \<noteq> None \<longrightarrow> state t = FAILED)
           \<and> (abort_reason t \<noteq> None \<longrightarrow> state t = ABORTED))"
  using manager_ok_reachable [OF assms] by (simp_all add: manager_ok_def reasons_ok_def)

lemma manager_invariant_witness:
  "\<exists>m. reachable_manager m \<and> length (transfers m) = 1
     \<and> (\<forall>t \<in> set (transfers m). fail_reason t \<noteq> None \<longrightarrow> state t = FAILED)"
proof -
  let ?m = "snd (download 0 [] [] False (snd (download 0 [] [] False empty_manager)))"
  have r: "reachable_manager ?m"
    by (rule Step [OF Step [OF Start Download] Download])
  have "length (transfers ?m) = 1"
    by (simp add: download_def empty_manager_def add_transfer_def call_transfer_def call_def transfer_eq_tkey
        step_eqs new_transfer_def emit_def request_management_cycle_def update_transfer_def tkey_def)
  with r manager_invariant [OF r] show ?thesis by blast
qed

lemma rank_username: "username t = username u \<Longrightarrow> rank env t = rank env u"
  by (simp add: rank_def)

lemma take_outranks:
  assumes "sorted_wrt (\<lambda>a b. rank env b \<le> rank env a) us" "u \<in> set us" "u \<notin> set (take n us)"
    and "v \<in> set (take n us)"
  shows "length (take n us) = n" "rank env u \<le> rank env v"
proof -
  have "u \<in> set (drop n us)" using assms(2,3) by (metis append_take_drop_id set_append UnE)
  then have "n < length us" by (metis drop_eq_Nil linorder_not_less list.set(1) empty_iff)
  then show "length (take n us) = n" by simp
  have "sorted_wrt (\<lambda>a b. rank env b \<le> rank env a) (take n us @ drop n us)" using assms(1) by simp
  then show "rank env u \<le> rank env v"
    using assms(4) \<open>u \<in> set (drop n us)\<close> unfolding sorted_wrt_append by blast
qed

lemma manage_transfers_jobs:
  assumes "manage_transfers env m = (jobs, m')" "get_queued_transfers env m = (ds, us)"
  shows "map snd jobs = map (Queue_Remotely \<circ> tkey) ds
     @ map (Initialize_Upload \<circ> tkey) (take (get_free_upload_slots env m) us)"
proof -
  let ?us = "take (get_free_upload_slots env m) us"
  let ?q = "start_queue_tasks ds m"
  have "jobs = fst ?q @ fst (start_upload_tasks ?us (snd ?q))"
    using assms by (simp add: manage_transfers_def Let_def split_def)
  then show ?thesis by (simp add: start_queue_jobs start_upload_jobs)
qed

definition started_uploads :: "(nat \<times> job) list \<Rightarrow> transfer_key set" where
  "started_uploads jobs = {k. Initialize_Upload k \<in> snd ` set jobs}"

lemma started_uploads_eq:
  assumes "manage_transfers env m = (jobs, m')" "get_queued_transfers env m = (ds, us)"
  shows "started_uploads jobs = tkey ` set (take (get_free_upload_slots env m) us)"
proof -
  have "snd ` set jobs = set (map (Queue_Remotely \<circ> tkey) ds
      @ map (Initialize_Upload \<circ> tkey) (take (get_free_upload_slots env m) us))"
    using manage_transfers_jobs [OF assms] by (metis list.set_map)
  then show ?thesis by (auto simp: started_uploads_def)
qed

definition witness_env :: environment where
  "witness_env = \<lparr>upload_slots = 1, friends = {}, user_status = (\<lambda>_. STATUS_ONLINE), privileged = (\<lambda>_. False),
     uploads_blocked = (\<lambda>_. False), shared_item = (\<lambda>_ _. None), indexed = (\<lambda>_ _. False)\<rparr>"

text \<open>C8: A management cycle starts uploads within the free slots only, and only QUEUED uploads
  of users that are not offline and have no upload in progress, at most one for a user. An
  eligible upload whose user gets nothing is left out only because the free slots are used up
  by uploads of users of the same or a higher rank.\<close>

theorem upload_scheduling:
  assumes "reachable_manager m" "manage_transfers env m = (jobs, m')"
  shows "card (started_uploads jobs) \<le> get_free_upload_slots env m
    \<and> inj_on fst (started_uploads jobs)
    \<and> (\<forall>k \<in> started_uploads jobs. \<exists>t \<in> set (transfers m). tkey t = k \<and> eligible_upload env (busy_users m) t)
    \<and> (\<forall>t \<in> set (transfers m). eligible_upload env (busy_users m) t
         \<longrightarrow> username t \<notin> fst ` started_uploads jobs
         \<longrightarrow> card (started_uploads jobs) = get_free_upload_slots env m
           \<and> (\<forall>u \<in> set (transfers m). tkey u \<in> started_uploads jobs \<longrightarrow> rank env t \<le> rank env u))"
proof -
  obtain ds us where q: "get_queued_transfers env m = (ds, us)" by (cases "get_queued_transfers env m")
  note us = get_queued_uploads [OF q]
  let ?n = "get_free_upload_slots env m"
  let ?us = "take ?n us"
  have ok: "manager_ok m" by (rule manager_ok_reachable [OF assms(1)])
  have eq: "started_uploads jobs = tkey ` set ?us" by (rule started_uploads_eq [OF assms(2) q])
  have fst_key: "fst (tkey u) = username u" for u by (simp add: tkey_def)
  have dist: "distinct (map username ?us)" using us(3) by (metis distinct_take take_map)
  then have dk: "distinct (map fst (map tkey ?us))" by (simp add: comp_def fst_key)
  then have d2: "distinct (map tkey ?us)" using distinct_map by blast
  have card: "card (started_uploads jobs) = length ?us"
    unfolding eq using distinct_card [OF d2] by simp
  have bound: "card (started_uploads jobs) \<le> ?n" by (simp add: card)
  have sound: "\<exists>t \<in> set (transfers m). tkey t = k \<and> eligible_upload env (busy_users m) t" if k: "k \<in> started_uploads jobs" for k
  proof -
    obtain u where "u \<in> set ?us" "k = tkey u" using k eq by auto
    then show ?thesis using us(1,2) in_set_takeD by fastforce
  qed
  have inj: "inj_on fst (started_uploads jobs)" using distinct_map [THEN iffD1, OF dk] unfolding eq by simp
  have full: "card (started_uploads jobs) = ?n
      \<and> (\<forall>u \<in> set (transfers m). tkey u \<in> started_uploads jobs \<longrightarrow> rank env t \<le> rank env u)"
    if t: "t \<in> set (transfers m)" "eligible_upload env (busy_users m) t" "username t \<notin> fst ` started_uploads jobs" for t
  proof -
  obtain c where c: "c \<in> set us" "username c = username t" using us(5) [OF t(1,2)] by auto
  have notin: "c \<notin> set ?us"
    using t(3) c(2) unfolding eq by (auto simp: fst_key image_iff)
  have "?n < length us" using notin c(1) by (metis linorder_not_less take_all)
  moreover have "rank env t \<le> rank env u" if u: "u \<in> set (transfers m)" "tkey u \<in> started_uploads jobs" for u
  proof -
    obtain v where v: "v \<in> set ?us" "tkey v = tkey u" using u(2) unfolding eq by auto
    then have "rank env c \<le> rank env v" using take_outranks(2) [OF us(4) c(1) notin] by blast
    moreover have "rank env v = rank env u" using v(2) fst_key rank_username by metis
    ultimately show ?thesis using rank_username [OF c(2), of env] by simp
  qed
  ultimately show ?thesis using card by simp
  qed
  show ?thesis using bound sound inj full by blast
qed


lemma upload_scheduling_witness:
  "\<exists>env m jobs m'. upload_slots env = 1 \<and> manage_transfers env m = (jobs, m')
     \<and> length (transfers m) = 1 \<and> card (started_uploads jobs) \<le> 1"
proof -
  let ?t = "(new_transfer [1] [2] UPLOAD)\<lparr>state := QUEUED\<rparr>"
  let ?m = "snd (add_transfer ?t empty_manager)"
  let ?env = "witness_env"
  have r: "reachable_manager ?m"
    by (rule Step [OF Start Add]) (simp add: reasons_ok_def new_transfer_def)
  have ts: "transfers ?m = [?t]" by (simp add: add_transfer_def empty_manager_def)
  obtain jobs m' where j: "manage_transfers ?env ?m = (jobs, m')" by (cases "manage_transfers ?env ?m")
  have s: "upload_slots ?env = 1" by (simp add: witness_env_def)
  then have "get_free_upload_slots ?env ?m \<le> 1" by (simp add: get_free_upload_slots_def)
  then have "card (started_uploads jobs) \<le> 1" using upload_scheduling [OF r j] by simp
  moreover have "length (transfers ?m) = 1" unfolding ts by simp
  ultimately show ?thesis using j s by blast
qed

text \<open>The queue of the uploads, position by position.\<close>

lemma index_of_nth:
  assumes "distinct (map tkey us)" "i < length us"
  shows "index_of (\<lambda>u. transfer_eq u (us ! i)) us = Some i"
  using assms
proof (induction us arbitrary: i)
  case (Cons u us)
  then show ?case
  proof (cases i)
    case (Suc j)
    then have "tkey u \<noteq> tkey (us ! j)" using Cons.prems by (metis Suc_less_eq distinct.simps(2) image_eqI length_Cons list.simps(9) list.set_map nth_mem)
    then show ?thesis using Suc Cons by (simp add: transfer_eq_tkey)
  qed (simp add: transfer_eq_tkey)
qed simp

lemma queue_keys_distinct: "get_queued_transfers env m = (ds, us) \<Longrightarrow> distinct (map tkey us)"
proof -
  assume "get_queued_transfers env m = (ds, us)"
  then have "distinct (map username us)" by (rule get_queued_uploads)
  then have "distinct (map fst (map tkey us))" by (simp add: tkey_def comp_def)
  then show ?thesis by (metis distinct_map)
qed

text \<open>A peer that asks for the place of its upload is told the number of uploads that go
  before it. So the one that is next in the queue, of which \<open>get_place_in_queue\<close> says 0, gets no
  reply, although 0 is documented as "not in the queue" and places as starting from 1.\<close>

theorem place_in_queue_counts_from_zero:
  assumes "get_queued_transfers env m = (ds, us)" "i < length us"
    and "find_transfer user path UPLOAD m = Some (us ! i)" "user \<noteq> []"
  shows "get_place_in_queue env (us ! i) m = i
    \<and> on_peer_place_in_queue_request env (Some user) path m = (if i = 0 then [] else [Place_Reply path i])"
proof -
  have "get_place_in_queue env (us ! i) m = i"
    using index_of_nth [OF queue_keys_distinct [OF assms(1)] assms(2)] assms(1)
    by (simp add: get_place_in_queue_def)
  then show ?thesis
    using assms(3,4) by (simp add: on_peer_place_in_queue_request_def username_of_def Let_def)
qed

definition witness_upload :: transfer where
  "witness_upload = (new_transfer [1] [2] UPLOAD)\<lparr>state := QUEUED\<rparr>"

lemma witness_upload_fields [simp]:
  "state witness_upload = QUEUED" "direction witness_upload = UPLOAD" "username witness_upload = [1]"
  "tkey witness_upload = ([1], [2], UPLOAD)" "is_processing witness_upload = False"
  by (simp_all add: witness_upload_def new_transfer_def tkey_def is_processing_def)

lemma witness_queue:
  "get_queued_transfers witness_env (empty_manager\<lparr>transfers := [witness_upload]\<rparr>) = ([], [witness_upload])"
proof -
  have none: "{t. t = witness_upload \<and> is_upload t \<and> is_processing t} = {}" by auto
  show ?thesis by (simp add: none get_queued_transfers_def witness_env_def prioritize_uploads_def Let_def)
qed

lemma place_in_queue_counts_from_zero_witness:
  "on_peer_place_in_queue_request witness_env (Some [1]) [2] (empty_manager\<lparr>transfers := [witness_upload]\<rparr>) = []"
  using place_in_queue_counts_from_zero [OF witness_queue, of 0 "[1]" "[2]"]
  by (simp add: find_transfer_eq)

subsection \<open>Refinement: the reaction to changed shares\<close>

text \<open>Specification: an upload is allowed, or there is a reason why it is not.\<close>

definition refusal :: "environment \<Rightarrow> transfer \<Rightarrow> pystr option" where
  "refusal env t =
     (if abort_reason t = Some ABORT_REQUESTED then Some ABORT_REQUESTED
      else if uploads_blocked env (username t) then Some ABORT_BLOCKED
      else if \<not> indexed env (remote_path t) (username t) then Some ABORT_FILE_NOT_SHARED
      else None)"

definition shares_spec :: "environment \<Rightarrow> transfer \<Rightarrow> transfer_state \<times> pystr option" where
  "shares_spec env t =
     (if is_download t \<or> state t \<in> {UNSET, VIRGIN, COMPLETE, FAILED} then (state t, abort_reason t)
      else case refusal env t of
        Some reason \<Rightarrow> (ABORTED, Some reason)
      | None \<Rightarrow> (if state t = ABORTED then QUEUED else state t, None))"

lemma share_change_spec:
  assumes "reasons_ok t"
  shows "(state (share_change env now t), abort_reason (share_change env now t)) = shares_spec env t"
proof -
  have e: "evaluate_aborted_state env t = ((state t = ABORTED) \<noteq> (refusal env t \<noteq> None), refusal env t)"
    by (simp add: evaluate_aborted_state_def refusal_def Let_def)
  have r: "state t \<noteq> ABORTED \<Longrightarrow> abort_reason t = None" using assms(1) by (auto simp: reasons_ok_def)
  obtain t1 es1 ok1 where c1: "call (Queue False) now t = (t1, es1, ok1)" by (cases "call (Queue False) now t")
  obtain t2 es2 ok2 where c2: "call (Abort (refusal env t)) now t = (t2, es2, ok2)" by (cases "call (Abort (refusal env t)) now t")
  note d1 = call_state_diagram [OF c1 [unfolded call_def]] call_abort_reason [OF c1 [unfolded call_def]]
  note d2 = call_state_diagram [OF c2 [unfolded call_def]] call_abort_reason [OF c2 [unfolded call_def]]
  show ?thesis
  proof (cases "is_upload t \<and> state t \<notin> {COMPLETE, FAILED}")
    case False
    then show ?thesis by (auto simp: share_change_def shares_spec_def is_upload_def is_download_def)
  next
    case True
    then have up: "\<not> is_download t" by (simp add: is_upload_def is_download_def)
    show ?thesis
      using True up e c1 c2 d1 d2 r
      by (cases "state t"; cases "refusal env t")
        (auto simp: share_change_def share_step_def shares_spec_def split: if_splits)
  qed
qed


lemma shares_changed_spec:
  assumes "reachable_manager m"
  shows "map (\<lambda>t. (tkey t, state t, abort_reason t)) (transfers (manage_shares_changed env now m))
       = map (\<lambda>t. (tkey t, shares_spec env t)) (transfers m)"
proof -
  have ok: "manager_ok m" by (rule manager_ok_reachable [OF assms])
  have "(tkey (share_change env now t), state (share_change env now t), abort_reason (share_change env now t))
      = (tkey t, shares_spec env t)" if "t \<in> set (transfers m)" for t
  proof -
    have "tkey (share_change env now t) = tkey t" by (simp add: share_change_def)
    moreover have "reasons_ok t" using ok that by (simp add: manager_ok_def)
    ultimately show ?thesis using share_change_spec [of t env now] by simp
  qed
  then show ?thesis by (simp add: manage_shares_changed_map [OF ok])
qed

text \<open>C5: The loop over the uploads that runs when the shares, the friends or the block list have
  changed does to every transfer what its specification says, whatever the other transfers
  are: an upload whose abort was requested stays ABORTED with that reason, one that is blocked
  or no longer shared becomes ABORTED with the reason, one that is allowed again is put back
  in the queue when it was ABORTED and is left alone otherwise. Downloads and finished uploads
  keep their state.\<close>

theorem shares_changed_refines_specification:
  assumes "reachable_manager m"
  shows "map (\<lambda>t. (tkey t, state t, abort_reason t)) (transfers (manage_shares_changed env now m))
       = map (\<lambda>t. (tkey t, shares_spec env t)) (transfers m)"
  by (rule shares_changed_spec [OF assms])

lemma shares_changed_refines_specification_witness:
  "\<exists>m. map (\<lambda>t. (tkey t, state t, abort_reason t)) (transfers (manage_shares_changed witness_env 0 m))
     = [(([1], [2], UPLOAD), ABORTED, Some ABORT_FILE_NOT_SHARED)]"
proof -
  let ?m = "snd (add_transfer witness_upload empty_manager)"
  have r: "reachable_manager ?m"
    by (rule Step [OF Start Add]) (simp add: witness_upload_def reasons_ok_def new_transfer_def)
  have "shares_spec witness_env witness_upload = (ABORTED, Some ABORT_FILE_NOT_SHARED)"
    by (simp add: shares_spec_def refusal_def witness_upload_def witness_env_def new_transfer_def is_download_def)
  moreover have "tkey witness_upload = ([1], [2], UPLOAD)" by (simp add: tkey_def witness_upload_def new_transfer_def)
  moreover have "transfers ?m = [witness_upload]" by (simp add: add_transfer_def empty_manager_def)
  ultimately show ?thesis using shares_changed_refines_specification [OF r, of witness_env 0] by (intro exI [of _ ?m]) simp
qed

text \<open>\<open>get_queue_size\<close> is 0 whatever is queued: it compares the state object of a transfer
  with a value of the enumeration.\<close>

theorem queue_size_is_zero: "get_queue_size m = 0"
  by (simp add: get_queue_size_def python_eq_def)

subsection \<open>Tasks of successive cycles\<close>

definition without_tasks :: "transfer \<Rightarrow> transfer" where
  "without_tasks t = t\<lparr>remotely_queue_task := None, transfer_task := None\<rparr>"

lemma without_tasks_fields [simp]:
  "tkey (without_tasks t) = tkey t"
  "eligible_download env (without_tasks t) = eligible_download env t"
  "without_tasks (t\<lparr>remotely_queue_task := x\<rparr>) = without_tasks t"
  "without_tasks (t\<lparr>transfer_task := x\<rparr>) = without_tasks t"
  by (simp_all add: without_tasks_def tkey_def eligible_download_def is_download_def)

lemma start_queue_transfers:
  "map without_tasks (transfers (snd (start_queue_tasks ds m))) = map without_tasks (transfers m)"
proof (induction ds arbitrary: m)
  case (Cons d ds)
  show ?case by (simp add: Let_def split_def Cons.IH) (simp add: update_transfer_def)
qed simp

lemma start_upload_transfers:
  "map without_tasks (transfers (snd (start_upload_tasks us m))) = map without_tasks (transfers m)"
proof (induction us arbitrary: m)
  case (Cons u us)
  show ?case by (simp add: Let_def split_def Cons.IH) (simp add: update_transfer_def)
qed simp

lemma start_upload_keeps_queue_task:
  "t \<in> set (transfers (snd (start_upload_tasks us m))) \<Longrightarrow>
     \<exists>t0 \<in> set (transfers m). tkey t0 = tkey t \<and> remotely_queue_task t0 = remotely_queue_task t"
proof (induction us arbitrary: m)
  case (Cons u us)
  let ?m = "(update_transfer (tkey u) (\<lambda>t. t\<lparr>transfer_task := Some (next_task m)\<rparr>) m)\<lparr>next_task := next_task m + 1\<rparr>"
  have "t \<in> set (transfers (snd (start_upload_tasks us ?m)))" using Cons.prems by (simp add: Let_def split_def)
  from Cons.IH [OF this] show ?case by (auto simp: update_transfer_def split: if_splits)
qed auto

lemma start_queue_other:
  "t \<in> set (transfers (snd (start_queue_tasks ds m))) \<Longrightarrow> tkey t \<notin> tkey ` set ds \<Longrightarrow> t \<in> set (transfers m)"
proof (induction ds arbitrary: m)
  case (Cons d ds)
  let ?m = "(update_transfer (tkey d) (\<lambda>t. t\<lparr>remotely_queue_task := Some (next_task m)\<rparr>) m)\<lparr>next_task := next_task m + 1\<rparr>"
  have "t \<in> set (transfers (snd (start_queue_tasks ds ?m)))" using Cons.prems(1) by (simp add: Let_def split_def)
  moreover have "tkey t \<notin> tkey ` set ds" using Cons.prems(2) by simp
  ultimately have "t \<in> set (transfers ?m)" by (rule Cons.IH)
  then show ?case using Cons.prems(2) by (auto simp: update_transfer_def split: if_splits)
qed simp

lemma start_queue_assigns:
  "t \<in> set (transfers (snd (start_queue_tasks ds m))) \<Longrightarrow> tkey t \<in> tkey ` set ds \<Longrightarrow>
     \<exists>n. remotely_queue_task t = Some n \<and> (n, Queue_Remotely (tkey t)) \<in> set (fst (start_queue_tasks ds m))"
proof (induction ds arbitrary: m)
  case (Cons d ds)
  let ?m = "(update_transfer (tkey d) (\<lambda>t. t\<lparr>remotely_queue_task := Some (next_task m)\<rparr>) m)\<lparr>next_task := next_task m + 1\<rparr>"
  have t: "t \<in> set (transfers (snd (start_queue_tasks ds ?m)))" using Cons.prems(1) by (simp add: Let_def split_def)
  have jobs: "fst (start_queue_tasks (d # ds) m) = (next_task m, Queue_Remotely (tkey d)) # fst (start_queue_tasks ds ?m)"
    by (simp add: Let_def split_def)
  show ?case
  proof (cases "tkey t \<in> tkey ` set ds")
    case True
    then show ?thesis using Cons.IH [OF t] jobs by auto
  next
    case False
    then have "t \<in> set (transfers ?m)" "tkey t = tkey d" using start_queue_other [OF t] Cons.prems(2) by auto
    then have "remotely_queue_task t = Some (next_task m)" by (auto simp: update_transfer_def split: if_splits)
    then show ?thesis using jobs \<open>tkey t = tkey d\<close> by simp
  qed
qed simp

lemma start_next_task:
  "next_task (snd (start_queue_tasks ds m)) = next_task m + length ds"
  "next_task (snd (start_upload_tasks us m)) = next_task m + length us"
proof -
  show "next_task (snd (start_queue_tasks ds m)) = next_task m + length ds"
    by (induction ds arbitrary: m) (simp_all add: Let_def split_def)
  show "next_task (snd (start_upload_tasks us m)) = next_task m + length us"
    by (induction us arbitrary: m) (simp_all add: Let_def split_def)
qed

lemma start_numbers:
  "(n, j) \<in> set (fst (start_queue_tasks ds m)) \<Longrightarrow> next_task m \<le> n \<and> n < next_task m + length ds"
  "(n, j) \<in> set (fst (start_upload_tasks us m)) \<Longrightarrow> next_task m \<le> n \<and> n < next_task m + length us"
proof -
  have q: "map fst (fst (start_queue_tasks ds m)) = [next_task m ..< next_task m + length ds]"
    by (induction ds arbitrary: m) (simp_all add: Let_def split_def upt_conv_Cons del: upt_Suc)
  have u: "map fst (fst (start_upload_tasks us m)) = [next_task m ..< next_task m + length us]"
    by (induction us arbitrary: m) (simp_all add: Let_def split_def upt_conv_Cons del: upt_Suc)
  have "n \<in> set (map fst js)" if "(n, j) \<in> set js" for js :: "(nat \<times> job) list" using that by force
  with q u show "(n, j) \<in> set (fst (start_queue_tasks ds m)) \<Longrightarrow> next_task m \<le> n \<and> n < next_task m + length ds"
    "(n, j) \<in> set (fst (start_upload_tasks us m)) \<Longrightarrow> next_task m \<le> n \<and> n < next_task m + length us"
    by fastforce+
qed

lemma manage_transfers_tasks:
  assumes "manage_transfers env m = (jobs, m')"
  shows "map without_tasks (transfers m') = map without_tasks (transfers m)"
    and "t \<in> set (transfers m') \<Longrightarrow> eligible_download env t \<Longrightarrow>
      \<exists>n. remotely_queue_task t = Some n \<and> (n, Queue_Remotely (tkey t)) \<in> set jobs"
    and "(n, j) \<in> set jobs \<Longrightarrow> next_task m \<le> n \<and> n < next_task m'"
proof -
  let ?ds = "filter (eligible_download env) (transfers m)"
  let ?us = "take (get_free_upload_slots env m) (snd (get_queued_transfers env m))"
  let ?q = "start_queue_tasks ?ds m"
  let ?u = "start_upload_tasks ?us (snd ?q)"
  have jobs: "jobs = fst ?q @ fst ?u" and m': "m' = snd ?u"
    using assms by (simp_all add: manage_transfers_def get_queued_transfers_eq Let_def split_def)
  show same: "map without_tasks (transfers m') = map without_tasks (transfers m)"
    by (simp add: m' start_upload_transfers start_queue_transfers)
  show "\<exists>n. remotely_queue_task t = Some n \<and> (n, Queue_Remotely (tkey t)) \<in> set jobs"
    if t: "t \<in> set (transfers m')" "eligible_download env t"
  proof -
    obtain t0 where t0: "t0 \<in> set (transfers (snd ?q))" "tkey t0 = tkey t" "remotely_queue_task t0 = remotely_queue_task t"
      using start_upload_keeps_queue_task t(1) m' by blast
    have "without_tasks t \<in> set (map without_tasks (transfers m))" using t(1) same by (metis imageI list.set_map)
    then obtain x where "x \<in> set (transfers m)" "without_tasks x = without_tasks t" by auto
    then have "x \<in> set ?ds" "tkey x = tkey t" using t(2) without_tasks_fields(1,2) by (metis mem_Collect_eq set_filter)+
    then have "tkey t0 \<in> tkey ` set ?ds" using t0(2) by (metis image_eqI)
    then obtain n where "remotely_queue_task t0 = Some n" "(n, Queue_Remotely (tkey t0)) \<in> set (fst ?q)"
      using start_queue_assigns [OF t0(1)] by blast
    then show ?thesis using t0(2,3) jobs by auto
  qed
  show "(n, j) \<in> set jobs \<Longrightarrow> next_task m \<le> n \<and> n < next_task m'"
    using start_numbers(1) [of n j ?ds m] start_numbers(2) [of n j ?us "snd ?q"]
    unfolding jobs m' by (auto simp: start_next_task)
qed


text \<open>As long as the message that queues a download with the peer has not been sent, every
  further management cycle starts another task that sends it. The transfer then knows only the
  task of the last cycle: stopping the transfer does not cancel the earlier ones.\<close>

theorem cycles_duplicate_queue_tasks:
  assumes "t \<in> set (transfers m)" "eligible_download env t"
    and "manage_transfers env m = (jobs1, m1)" "manage_transfers env m1 = (jobs2, m2)"
  shows "\<exists>n1 n2 t2. (n1, Queue_Remotely (tkey t)) \<in> set jobs1 \<and> (n2, Queue_Remotely (tkey t)) \<in> set jobs2
     \<and> n1 \<noteq> n2 \<and> t2 \<in> set (transfers m2) \<and> tkey t2 = tkey t \<and> remotely_queue_task t2 = Some n2"
proof -
  have next_t: "\<exists>t' \<in> set (transfers m'). without_tasks t' = without_tasks u"
    if u: "u \<in> set (transfers m0)" and m: "manage_transfers env m0 = (jobs, m')" for u m0 jobs m'
  proof -
    have "without_tasks u \<in> set (map without_tasks (transfers m'))"
      unfolding manage_transfers_tasks(1) [OF m] using u by simp
    then show ?thesis by auto
  qed
  obtain t1 where t1: "t1 \<in> set (transfers m1)" "without_tasks t1 = without_tasks t"
    using next_t [OF assms(1,3)] by blast
  obtain t2 where t2: "t2 \<in> set (transfers m2)" "without_tasks t2 = without_tasks t1"
    using next_t [OF t1(1) assms(4)] by blast
  have key: "tkey t1 = tkey t" "tkey t2 = tkey t" "eligible_download env t1" "eligible_download env t2"
    using t1(2) t2(2) assms(2) without_tasks_fields(1,2) by metis+
  obtain n1 where n1: "(n1, Queue_Remotely (tkey t)) \<in> set jobs1"
    using manage_transfers_tasks(2) [OF assms(3) t1(1) key(3)] key by auto
  obtain n2 where n2: "remotely_queue_task t2 = Some n2" "(n2, Queue_Remotely (tkey t)) \<in> set jobs2"
    using manage_transfers_tasks(2) [OF assms(4) t2(1) key(4)] key by auto
  have "n1 \<noteq> n2"
    using manage_transfers_tasks(3) [OF assms(3) n1] manage_transfers_tasks(3) [OF assms(4) n2(2)] by simp
  then show ?thesis using n1 n2 t2(1) key(2) by blast
qed

lemma cycles_duplicate_queue_tasks_witness:
  "\<exists>m jobs1 m1 jobs2 m2 n1 n2. manage_transfers witness_env m = (jobs1, m1)
     \<and> manage_transfers witness_env m1 = (jobs2, m2) \<and> n1 \<noteq> n2
     \<and> (n1, Queue_Remotely ([1], [2], DOWNLOAD)) \<in> set jobs1 \<and> (n2, Queue_Remotely ([1], [2], DOWNLOAD)) \<in> set jobs2"
proof -
  let ?t = "(new_transfer [1] [2] DOWNLOAD)\<lparr>state := QUEUED\<rparr>"
  let ?m = "empty_manager\<lparr>transfers := [?t]\<rparr>"
  have t: "?t \<in> set (transfers ?m)" "eligible_download witness_env ?t" "tkey ?t = ([1], [2], DOWNLOAD)"
    by (simp_all add: eligible_download_def witness_env_def is_download_def new_transfer_def tkey_def)
  obtain jobs1 m1 where 1: "manage_transfers witness_env ?m = (jobs1, m1)" by (cases "manage_transfers witness_env ?m")
  obtain jobs2 m2 where 2: "manage_transfers witness_env m1 = (jobs2, m2)" by (cases "manage_transfers witness_env m1")
  show ?thesis using cycles_duplicate_queue_tasks [OF t(1,2) 1 2] 1 2 unfolding t(3) by blast
qed

subsection \<open>Restored transfers and messages of peers\<close>

lemma restore_state:
  "state (restore t) =
     (if state t = INITIALIZING then QUEUED
      else if is_transferring t then (if is_transfered t then COMPLETE else INCOMPLETE) else state t)"
proof (cases "state t = INITIALIZING")
  case True
  let ?t = "t\<lparr>remotely_queued := False\<rparr>"
  obtain t' es ok where c: "call (Queue False) 0 ?t = (t', es, ok)" by (cases "call (Queue False) 0 ?t")
  have "state t' = QUEUED" using call_state_diagram [OF c [unfolded call_def]] True by simp
  then show ?thesis using True c by (simp add: restore_def)
next
  case False
  then show ?thesis
    by (simp add: restore_def Let_def is_transferring_def is_transfered_def reset_time_vars_def)
qed

lemma restore_not_processing: "\<not> is_processing (restore t)"
  by (cases "state t") (simp_all add: is_processing_def restore_state is_transferring_def)

text \<open>An upload that was interrupted in the state UPLOADING is INCOMPLETE after reading the
  cache. When its user asks for the file again nothing happens: the upload is not queued and
  the user gets no reply, and no management cycle starts it.\<close>

theorem interrupted_upload_is_stuck:
  assumes "state t = UPLOADING" "\<not> is_transfered t" "tkey t = (user, path, UPLOAD)"
    and "find_transfer user path UPLOAD m = Some (restore t)"
    and "user \<noteq> []" "\<not> uploads_blocked env user" "shared_item env path user \<noteq> None"
  shows "on_peer_transfer_queue env now (Some user) path m = ([], m)"
    and "\<not> eligible_upload env busy (restore t)"
proof -
  have st: "state (restore t) = INCOMPLETE" using assms(1,2) by (simp add: restore_state is_transferring_def)
  then show "\<not> eligible_upload env busy (restore t)" by (simp add: eligible_upload_def)
  show "on_peer_transfer_queue env now (Some user) path m = ([], m)"
    using assms st by (simp add: on_peer_transfer_queue_def username_of_def)
qed

lemma interrupted_upload_is_stuck_witness:
  "\<exists>t m. state t = UPLOADING \<and> transfers m = transfers (read_cache [t] empty_manager)
     \<and> on_peer_transfer_queue (witness_env\<lparr>shared_item := (\<lambda>_ _. Some ([3], 9))\<rparr>) 0 (Some [1]) [2] m = ([], m)"
proof -
  let ?t = "(new_transfer [1] [2] UPLOAD)\<lparr>state := UPLOADING\<rparr>"
  let ?m = "read_cache [?t] empty_manager"
  let ?env = "witness_env\<lparr>shared_item := (\<lambda>_ _. Some ([3], 9))\<rparr>"
  have ts: "transfers ?m = [restore ?t]" by (simp add: read_cache_def add_transfer_def empty_manager_def)
  have r: "restore ?t = ?t\<lparr>state := INCOMPLETE\<rparr>"
    by (simp add: restore_def Let_def is_transferring_def is_transfered_def reset_time_vars_def new_transfer_def)
  have "find_transfer [1] [2] UPLOAD ?m = Some (restore ?t)"
    unfolding find_transfer_eq ts unfolding r by (simp add: tkey_def new_transfer_def)
  then have "on_peer_transfer_queue ?env 0 (Some [1]) [2] ?m = ([], ?m)"
    by (intro interrupted_upload_is_stuck(1) [of ?t])
      (simp_all add: is_transfered_def tkey_def new_transfer_def witness_env_def)
  moreover have "state ?t = UPLOADING" by simp
  ultimately show ?thesis by blast
qed

end
