(* ===== verification/Transfer_Cache.thy ===== *)
theory Transfer_Cache
  imports Transfer_Manager_Properties "HOL-Library.AList"
begin

text \<open>
\<open>src/aioslsk/transfer/cache.py\<close> and how \<open>src/aioslsk/transfer/manager.py\<close> loads it: the database of
  stored transfers and what is left of the list of transfers after the client was stopped and
  started again.
\<close>

subsection \<open>The database\<close>

text \<open>A database maps keys to pickled transfers; its order is that of the file. The digest is an
  argument (\<open>hashlib.sha256\<close>).\<close>

type_synonym 'k database = "('k \<times> pickled) list"

fun direction_value :: "direction \<Rightarrow> pystr" where
  \<comment> \<open>\<open>str(direction.value)\<close>\<close>
  "direction_value UPLOAD = [48]"
| "direction_value DOWNLOAD = [49]"

definition cache_text :: "transfer \<Rightarrow> pystr" where
  "cache_text t = username t @ remote_path t @ direction_value (direction t)"

definition cache_key :: "(pystr \<Rightarrow> 'k) \<Rightarrow> transfer \<Rightarrow> 'k" where
  "cache_key digest t = digest (cache_text t)"

definition write_database :: "(pystr \<Rightarrow> 'k) \<Rightarrow> transfer list \<Rightarrow> 'k database \<Rightarrow> 'k database" where
  "write_database digest ts db =
     filter (\<lambda>(k, p). list_ex (\<lambda>t. transfer_eq t (stored p)) ts)
       (fold (\<lambda>t d. dict_set (cache_key digest t) (getstate t) d) ts db)"

definition read_database :: "rat \<Rightarrow> rat \<Rightarrow> 'k database \<Rightarrow> transfer list option" where
  \<comment> \<open>\<open>None\<close>: a stored state has no class\<close>
  "read_database wall monot db = those (map (\<lambda>(k, p). setstate wall monot p) db)"

definition load_transfers :: "rat \<Rightarrow> rat \<Rightarrow> 'k database \<Rightarrow> manager \<Rightarrow> manager option" where
  \<comment> \<open>\<open>TransferManager.read_cache\<close>\<close>
  "load_transfers wall monot db m = map_option (\<lambda>ts. read_cache ts m) (read_database wall monot db)"

subsection \<open>Writing\<close>

definition database_ok :: "(pystr \<Rightarrow> 'k) \<Rightarrow> 'k database \<Rightarrow> bool" where
  \<comment> \<open>every transfer is stored once, under its key\<close>
  "database_ok digest db \<longleftrightarrow> distinct (map fst db) \<and> (\<forall>(k, p) \<in> set db. k = cache_key digest (stored p))"

lemma cache_key_getstate [simp]: "cache_key digest (stored (getstate t)) = cache_key digest t"
  by (simp add: cache_key_def cache_text_def getstate_def)

lemma transfer_eq_key: "transfer_eq t u \<Longrightarrow> cache_key digest t = cache_key digest u"
  by (simp add: transfer_eq_def cache_key_def cache_text_def)

lemma stored_keys:
  assumes "database_ok digest db"
  shows "database_ok digest (fold (\<lambda>t d. dict_set (cache_key digest t) (getstate t) d) ts db)"
  using assms
proof (induction ts arbitrary: db)
  case (Cons t ts)
  have "set (dict_set k v db) \<subseteq> insert (k, v) (set db)" for k v
    by (induction db) auto
  then have "database_ok digest (dict_set (cache_key digest t) (getstate t) db)"
    using Cons.prems by (fastforce simp: database_ok_def distinct_update)
  with Cons.IH show ?case by simp
qed simp

lemma stored_lookup:
  assumes "distinct (map (cache_key digest) ts)"
  shows "map_of (fold (\<lambda>t d. dict_set (cache_key digest t) (getstate t) d) ts db) k
    = (case find (\<lambda>t. cache_key digest t = k) ts of Some t \<Rightarrow> Some (getstate t) | None \<Rightarrow> map_of db k)"
  using assms
proof (induction ts arbitrary: db)
  case (Cons t ts)
  have "find (\<lambda>u. cache_key digest u = cache_key digest t) ts = None"
    using Cons.prems by (simp add: find_None_iff) (metis image_eqI)
  with Cons show ?case by (auto simp: update_conv' split: option.splits)
qed simp

lemma written_database:
  assumes "database_ok digest db" "distinct (map (cache_key digest) ts)"
  shows "mset (write_database digest ts db) = mset (map (\<lambda>t. (cache_key digest t, getstate t)) ts)"
proof -
  let ?db = "fold (\<lambda>t d. dict_set (cache_key digest t) (getstate t) d) ts db"
  note ok = stored_keys [OF assms(1), of ts]
  have d: "distinct (map fst ?db)" using ok by (simp add: database_ok_def)
  have look: "(k, p) \<in> set ?db \<longleftrightarrow> map_of ?db k = Some p" for k p using d by simp
  have find: "find (\<lambda>u. cache_key digest u = cache_key digest t) ts = Some t" if "t \<in> set ts" for t
  proof (cases "find (\<lambda>u. cache_key digest u = cache_key digest t) ts")
    case None
    then show ?thesis using that by (auto simp: find_None_iff)
  next
    case (Some u)
    then have "u \<in> set ts" "cache_key digest u = cache_key digest t" by (auto simp: find_Some_iff)
    then show ?thesis using Some assms(2) that by (auto simp: distinct_map dest: inj_onD)
  qed
  have "set (write_database digest ts db) = (\<lambda>t. (cache_key digest t, getstate t)) ` set ts"
  proof (intro equalityI subsetI)
    fix x assume x: "x \<in> set (write_database digest ts db)"
    obtain k p where kp: "x = (k, p)" by (cases x)
    obtain t where t: "t \<in> set ts" "transfer_eq t (stored p)" "(k, p) \<in> set ?db"
      using x kp by (auto simp: write_database_def list_ex_iff)
    have "k = cache_key digest t" using bspec [OF conjunct2 [OF ok [unfolded database_ok_def]] t(3)] transfer_eq_key [OF t(2), of digest] by simp
    then show "x \<in> (\<lambda>t. (cache_key digest t, getstate t)) ` set ts"
      using t(1,3) find [OF t(1)] stored_lookup [OF assms(2), of db k] look kp by auto
  next
    fix x assume "x \<in> (\<lambda>t. (cache_key digest t, getstate t)) ` set ts"
    then obtain t where t: "t \<in> set ts" "x = (cache_key digest t, getstate t)" by auto
    have "transfer_eq t (stored (getstate t))" by (simp add: transfer_eq_def getstate_def)
    then show "x \<in> set (write_database digest ts db)"
      using t find [OF t(1)] stored_lookup [OF assms(2), of db "cache_key digest t"] look
      by (auto simp: write_database_def list_ex_iff)
  qed
  moreover have "distinct (write_database digest ts db)"
    unfolding write_database_def using d by (intro distinct_filter) (simp add: distinct_map)
  moreover have "distinct (map (\<lambda>t. (cache_key digest t, getstate t)) ts)"
    using assms(2) by (auto simp: distinct_map inj_on_def)
  ultimately show ?thesis by (metis set_eq_iff_mset_eq_distinct set_map)
qed

subsection \<open>Reading\<close>

lemma tkey_restore [simp]: "tkey (restore t) = tkey t"
proof -
  have "tkey (t\<lparr>remotely_queued := False\<rparr>) = tkey t" "tkey (reset_time_vars (u\<lparr>state := s\<rparr>)) = tkey u" for u s
    by (simp_all add: tkey_def reset_time_vars_def)
  then show ?thesis by (simp add: restore_def Let_def)
qed

lemma read_cache_all:
  assumes "distinct (map tkey (transfers m @ ts))"
  shows "transfers (read_cache ts m) = transfers m @ map restore ts"
  using assms
proof (induction ts arbitrary: m)
  case (Cons t ts)
  have "find (\<lambda>q. transfer_eq q (restore t)) (transfers m) = None"
    using Cons.prems by (simp add: find_None_iff transfer_eq_tkey) (metis image_eqI)
  then have "transfers (snd (add_transfer (restore t) m)) = transfers m @ [restore t]"
    by (simp add: add_transfer_def)
  then show ?case using Cons.IH [of "snd (add_transfer (restore t) m)"] Cons.prems
    by (simp add: read_cache_def)
qed (simp add: read_cache_def)

definition after_restart :: "rat \<Rightarrow> rat \<Rightarrow> transfer \<Rightarrow> transfer" where
  \<comment> \<open>a transfer that was stored and loaded again\<close>
  "after_restart wall monot t = restore (the (setstate wall monot (getstate t)))"

lemma those_map: "(\<And>x. x \<in> set xs \<Longrightarrow> f x = Some (g x)) \<Longrightarrow> those (map f xs) = Some (map g xs)"
  by (induction xs) auto

lemma mset_map_split: "mset xs = image_mset f M \<Longrightarrow> \<exists>zs. mset zs = M \<and> xs = map f zs"
proof (induction xs arbitrary: M)
  case (Cons x xs)
  then have "x \<in># image_mset f M" by (metis list.set_intros(1) set_mset_mset)
  then obtain y where y: "y \<in># M" "x = f y" by auto
  then obtain M' where M': "M = add_mset y M'" by (metis insert_DiffM)
  then have "mset xs = image_mset f M'" using Cons.prems y(2) by simp
  from Cons.IH [OF this] obtain zs where "mset zs = M'" "xs = map f zs" by blast
  then show ?case using M' y(2) by (intro exI [of _ "y # zs"]) simp
qed simp

lemma loaded:
  assumes "database_ok digest db" "inj_on digest (cache_text ` set (transfers m))" "distinct (map cache_text (transfers m))"
    and "\<forall>t \<in> set (transfers m). state t \<noteq> UNSET"
    and "mset db' = mset (write_database digest (transfers m) db)"
  shows "\<exists>m'. load_transfers wall monot db' empty_manager = Some m'
    \<and> mset (transfers m') = mset (map (after_restart wall monot) (transfers m))"
proof -
  have keys: "distinct (map (cache_key digest) (transfers m))"
    using assms(2,3) by (auto simp: distinct_map cache_key_def inj_on_def)
  let ?entry = "\<lambda>t. (cache_key digest t, getstate t)"
  have "mset db' = mset (map ?entry (transfers m))"
    using written_database [OF assms(1) keys] assms(5) by simp
  then obtain ts where ts: "mset ts = mset (transfers m)" "db' = map ?entry ts"
    using mset_map_split [of db' ?entry "mset (transfers m)"] by auto
  let ?loaded = "map (\<lambda>t. the (setstate wall monot (getstate t))) ts"
  have get: "setstate wall monot (getstate t) = Some (the (setstate wall monot (getstate t)))"
    "tkey (the (setstate wall monot (getstate t))) = tkey t" if "t \<in> set ts" for t
    using setstate_getstate [of t wall monot] assms(4) that mset_eq_setD [OF ts(1)]
    by (simp_all add: tkey_def take_progress_snapshot_def)
  have read: "read_database wall monot db' = Some ?loaded"
    unfolding read_database_def ts(2) map_map comp_def prod.case by (rule those_map [OF get(1)])
  have "distinct (map tkey (transfers m))"
    using assms(3) by (auto simp: distinct_map inj_on_def tkey_def cache_text_def)
  then have "distinct (map tkey ts)" by (metis ts(1) mset_map mset_eq_imp_distinct_iff)
  moreover have "map tkey ?loaded = map tkey ts" using get(2) by simp
  ultimately have distinct: "distinct (map tkey ?loaded)" by (rule back_subst [of distinct, OF _ sym])
  have "transfers empty_manager = []" by (simp add: empty_manager_def)
  with distinct have "transfers (read_cache ?loaded empty_manager) = map restore ?loaded"
    using read_cache_all [of empty_manager ?loaded] by (simp only: append_Nil)
  moreover have "map restore ?loaded = map (after_restart wall monot) ts" by (simp add: after_restart_def)
  moreover have same: "mset (map (after_restart wall monot) ts) = mset (map (after_restart wall monot) (transfers m))"
    unfolding mset_map ts(1) by (rule refl)
  ultimately have "mset (transfers (read_cache ?loaded empty_manager)) = mset (map (after_restart wall monot) (transfers m))"
    by argo
  moreover have "load_transfers wall monot db' empty_manager = Some (read_cache ?loaded empty_manager)"
    using read by (simp add: load_transfers_def)
  ultimately show ?thesis by blast
qed


lemma state_after_restart:
  assumes "state t \<noteq> UNSET"
  shows "state (after_restart wall monot t) =
     (if state t = INITIALIZING then QUEUED
      else if is_transferring t then (if is_transfered t then COMPLETE else INCOMPLETE) else state t)"
    and "tkey (after_restart wall monot t) = tkey t"
proof -
  obtain u where u: "setstate wall monot (getstate t) = Some u" "state u = state t" "tkey u = tkey t"
      "is_transferring u = is_transferring t" "is_transfered u = is_transfered t"
    using setstate_getstate [OF assms, of wall monot]
    by (simp add: tkey_def take_progress_snapshot_def is_transferring_def is_transfered_def)
  then show "tkey (after_restart wall monot t) = tkey t" by (simp add: after_restart_def)
  show "state (after_restart wall monot t) =
     (if state t = INITIALIZING then QUEUED
      else if is_transferring t then (if is_transfered t then COMPLETE else INCOMPLETE) else state t)"
    using u by (simp add: after_restart_def restore_state)
qed

text \<open>The text has no separators: two transfers of different users share one key, and one of them is lost.\<close>

lemma colliding_transfers_are_lost:
  assumes "username t = u @ v" "remote_path t = p" "username t' = u" "remote_path t' = v @ p" "direction t = direction t'"
  shows "length (write_database digest [t, t'] []) = 1"
proof -
  have "cache_key digest t = cache_key digest t'"
    using assms by (simp add: cache_key_def cache_text_def)
  then show ?thesis by (simp add: write_database_def transfer_eq_def getstate_def)
qed

definition restart_manager :: manager where
  "restart_manager = empty_manager\<lparr>transfers := [(new_transfer [97] [98] UPLOAD)\<lparr>state := UPLOADING\<rparr>,
     (new_transfer [97] [98] DOWNLOAD)\<lparr>state := PAUSED\<rparr>]\<rparr>"


end
