(* ===== verification/Transfer_Flows.thy ===== *)
theory Transfer_Flows
  imports Transfer_Manager_Properties
begin

text \<open>
The tasks of \<open>src/aioslsk/transfer/manager.py\<close>: queueing a download with the peer, uploading
  and downloading. What a task meets on the network and on the disk - which message is
  delivered, which answer arrives before its timeout, which chunks are transferred - is its run,
  a record that the task reads; the task itself decides what becomes of the transfer. The
  cancellation of a task is part of the state methods that cancel it (\<open>Transfer_Model\<close>).
\<close>

subsection \<open>What a task meets\<close>

datatype sending = Sent | Write_Failed | Connect_Failed
  \<comment> \<open>\<open>send_peer_messages\<close>: done, \<open>ConnectionWriteError\<close>, \<open>PeerConnectionError\<close>\<close>

datatype file_end =
    File_Done           \<comment> \<open>\<open>send_file\<close> or \<open>receive_file\<close> returned\<close>
  | File_Error          \<comment> \<open>\<open>OSError\<close>: opening, reading or writing the local file\<close>
  | Network_Error       \<comment> \<open>\<open>ConnectionWriteError\<close> of an upload, \<open>ConnectionReadError\<close> of a download\<close>

type_synonym chunks = "(rat \<times> nat) list" \<comment> \<open>calls of the progress callback: time, length\<close>

datatype flow_event =
    Sent_Request nat "nat option"    \<comment> \<open>\<open>PeerTransferRequest\<close>: ticket, file size\<close>
  | Sent_Allowed nat                 \<comment> \<open>\<open>PeerTransferReply(ticket, allowed=True)\<close>\<close>
  | Sent_Ticket nat
  | Sent_Offset nat
  | Sent_Queue
  | Sent_Upload_Failed
  | Queued_Upload_Speed rat
  | Disconnected

datatype flow_error = Write_Error | Connection_Error | Slsk_Error | Place_Failed
  \<comment> \<open>exceptions that leave the task; \<open>Slsk_Error\<close> is a plain \<open>AioSlskException\<close>\<close>

type_synonym flow = "transfer \<times> flow_event list \<times> flow_error option"

record upload_run =
  request_send :: sending
  reply_message :: "(bool \<times> pystr option) option" \<comment> \<open>\<open>allowed\<close> and \<open>reason\<close>; \<open>None\<close> is a timeout\<close>
  connect_ok :: bool
  ticket_send :: bool
  offset_received :: "nat option"
  up_started :: rat
  up_chunks :: chunks
  up_end :: file_end
  up_ended :: rat
  failed_send :: sending
  speed_times :: "rat \<times> rat"

record download_run =
  reply_send :: bool
  connection_arrives :: bool
  local_size :: "nat option"     \<comment> \<open>\<open>getsize\<close> of the local path; \<open>None\<close> is an \<open>OSError\<close>\<close>
  offset_send :: bool
  new_path :: pystr              \<comment> \<open>the path \<open>calculate_download_path\<close> gives\<close>
  directory_ok :: bool           \<comment> \<open>\<open>create_directory\<close> raised no \<open>OSError\<close>\<close>
  down_started :: rat
  down_chunks :: chunks
  down_end :: file_end
  down_ended :: rat

definition act :: "operation \<Rightarrow> rat \<Rightarrow> transfer \<Rightarrow> transfer" where
  \<comment> \<open>the result of a state method is ignored by the tasks\<close>
  "act op now t = fst (call op now t)"

definition progress :: "chunks \<Rightarrow> transfer \<Rightarrow> transfer" where
  "progress cs t = fold (\<lambda>(now, n). transfer_progress_callback now n) cs t"

subsection \<open>Queueing a download with the peer\<close>

definition queue_remotely :: "sending \<Rightarrow> rat \<Rightarrow> transfer \<Rightarrow> flow \<times> bool" where
  \<comment> \<open>the last component: whether a management cycle is requested explicitly\<close>
  "queue_remotely outcome now t =
     (if outcome \<noteq> Sent then ((act (Queue False) now (increase_queue_attempts now t), [], None), False)
      else ((reset_queue_attempts (t\<lparr>remotely_queued := True\<rparr>), [Sent_Queue], None), True))"

definition request_place_in_queue :: "sending \<Rightarrow> nat option \<Rightarrow> transfer \<Rightarrow> transfer \<times> (flow_error + nat)" where
  \<comment> \<open>a \<open>PeerConnectionError\<close> is not caught\<close>
  "request_place_in_queue outcome answer t =
     (case outcome of
        Write_Failed \<Rightarrow> (t, Inl Place_Failed)
      | Connect_Failed \<Rightarrow> (t, Inl Connection_Error)
      | Sent \<Rightarrow> (case answer of
            None \<Rightarrow> (t, Inl Place_Failed)
          | Some place \<Rightarrow> (t\<lparr>place_in_queue := Some place\<rparr>, Inr place)))"

subsection \<open>Uploading\<close>

definition send_upload_failed :: "sending \<Rightarrow> flow_event list \<times> flow_error option" where
  \<comment> \<open>only \<open>PeerConnectionError\<close> is caught\<close>
  "send_upload_failed outcome =
     (case outcome of Sent \<Rightarrow> ([Sent_Upload_Failed], None)
      | Connect_Failed \<Rightarrow> ([], None) | Write_Failed \<Rightarrow> ([], Some Write_Error))"

definition upload_file :: "upload_run \<Rightarrow> transfer \<Rightarrow> flow" where
  "upload_file r t0 =
     (let t = act Start_Transferring (up_started r) t0;
          failed = send_upload_failed (failed_send r) in
      if local_path t = None \<or> local_path t = Some [] then
        (act (Fail (Some FAIL_FILE_NOT_SHARED)) (up_ended r) t, Disconnected # fst failed, snd failed)
      else
        let t1 = progress (up_chunks r) t in
        case up_end r of
          File_Error \<Rightarrow> (act (Fail (Some FAIL_FILE_READ_ERROR)) (up_ended r) t1, [Disconnected], None)
        | Network_Error \<Rightarrow> (act (Fail None) (up_ended r) t1, fst failed, snd failed)
        | File_Done \<Rightarrow>
            (if is_transfered t1 then act Complete (up_ended r) t1 else act (Fail None) (up_ended r) t1, [], None))"

definition initialize_upload :: "nat \<Rightarrow> upload_run \<Rightarrow> transfer \<Rightarrow> flow" where
  "initialize_upload ticket r t0 =
     (let t = act Initialize (up_started r) t0;
          requeue = (\<lambda>es. (act (Queue False) (up_started r) t, es, None));
          es1 = [Sent_Request ticket (filesize t)] in
      if request_send r \<noteq> Sent then requeue []
      else case reply_message r of
        None \<Rightarrow> requeue es1
      | Some (allowed, reason) \<Rightarrow>
          if \<not> allowed then (act (Fail reason) (up_started r) t, es1, None)
          else if \<not> connect_ok r then requeue es1
          else if \<not> ticket_send r then requeue es1
          else case offset_received r of
            None \<Rightarrow> requeue (es1 @ [Sent_Ticket ticket])
          | Some offset \<Rightarrow>
              (case upload_file r (t\<lparr>bytes_transfered := offset\<rparr>) of
                 (t1, es, Some err) \<Rightarrow> (t1, es1 @ [Sent_Ticket ticket] @ es, Some err)
               | (t1, es, None) \<Rightarrow>
                   (t1, es1 @ [Sent_Ticket ticket] @ es
                      @ (if state t1 = COMPLETE
                         then [Queued_Upload_Speed (get_speed (fst (speed_times r)) (snd (speed_times r)) t1)]
                         else []), None)))"

subsection \<open>Downloading\<close>

definition prepare_download_path :: "download_run \<Rightarrow> transfer \<Rightarrow> transfer" where
  "prepare_download_path r t = (if local_path t = None then t\<lparr>local_path := Some (new_path r)\<rparr> else t)"

definition calculate_offset :: "download_run \<Rightarrow> transfer \<Rightarrow> nat" where
  "calculate_offset r t =
     (if local_path t = None \<or> local_path t = Some [] then 0
      else case local_size r of None \<Rightarrow> 0 | Some n \<Rightarrow> n)"

definition download_file :: "download_run \<Rightarrow> transfer \<Rightarrow> flow" where
  "download_file r t0 =
     (let t = prepare_download_path r t0 in
      if \<not> directory_ok r then
        (act (Fail (Some FAIL_FILE_READ_ERROR)) (down_started r) t, [Disconnected], None)
      else
        let t1 = act Start_Transferring (down_started r) t in
        if local_path t1 = None then (t1, [], Some Slsk_Error)
        else if filesize t1 = None then (t1, [], Some Slsk_Error)
        else
          let t2 = progress (down_chunks r) t1 in
          case down_end r of
            File_Error \<Rightarrow> (act (Fail (Some FAIL_FILE_READ_ERROR)) (down_ended r) t2, [Disconnected], None)
          | Network_Error \<Rightarrow> (act Incomplete (down_ended r) t2, [], None)
          | File_Done \<Rightarrow>
              (if is_transfered t2 then act Complete (down_ended r) t2
               else act (Fail (Some FAIL_CANCELLED)) (down_ended r) t2, [Disconnected], None))"

definition initialize_download :: "nat \<Rightarrow> nat option \<Rightarrow> upload_run \<Rightarrow> download_run \<Rightarrow> transfer \<Rightarrow> flow" where
  \<comment> \<open>a download comes here, so \<open>_upload_file\<close> with its run \<open>u\<close> is never called\<close>
  "initialize_download ticket fsize u r t0 =
     (let t = (act Initialize (down_started r) t0)\<lparr>filesize := fsize\<rparr> in
      if \<not> reply_send r then (act (Queue False) (down_started r) t, [], None)
      else if \<not> connection_arrives r then (act (Queue False) (down_started r) t, [Sent_Allowed ticket], None)
      else
        let offset = calculate_offset r t;
            t1 = t\<lparr>bytes_transfered := offset\<rparr> in
        if \<not> offset_send r then
          (if is_upload t1 then act (Fail None) (down_started r) t1 else act Incomplete (down_started r) t1,
           [Sent_Allowed ticket], None)
        else case (if direction t1 = DOWNLOAD then download_file r t1
                   else upload_file u t1) of
          (t2, es, err) \<Rightarrow> (t2, [Sent_Allowed ticket, Sent_Offset offset] @ es, err))"

subsection \<open>File connections of peers\<close>

datatype file_future = Waiting | Fulfilled | Timed_Out

type_synonym file_futures = "nat \<rightharpoonup> file_future" \<comment> \<open>\<open>_file_connection_futures\<close>\<close>

datatype file_connection = Ignored | No_Ticket | Handed_Over | Refused

definition wait_for_file_connection :: "nat \<Rightarrow> file_futures \<Rightarrow> file_futures" where
  \<comment> \<open>\<open>_initialize_download\<close> registers a new future for its ticket\<close>
  "wait_for_file_connection ticket fs = fs(ticket \<mapsto> Waiting)"

definition file_connection_timeout :: "nat \<Rightarrow> file_futures \<Rightarrow> file_futures" where
  \<comment> \<open>the timeout cancels the future, the entry stays\<close>
  "file_connection_timeout ticket fs = (if fs ticket = Some Waiting then fs(ticket \<mapsto> Timed_Out) else fs)"

definition on_peer_initialized :: "bool \<Rightarrow> bool \<Rightarrow> nat option \<Rightarrow> file_futures \<Rightarrow> file_connection \<times> file_futures" where
  \<comment> \<open>the kind of the connection, whether it was requested, and the ticket that arrives in time\<close>
  "on_peer_initialized is_file requested ticket fs =
     (if \<not> is_file then (Ignored, fs)
      else if requested then (Ignored, fs)
      else case ticket of
        None \<Rightarrow> (No_Ticket, fs)
      | Some n \<Rightarrow>
          (case fs n of
             None \<Rightarrow> (Refused, fs)
           | Some Waiting \<Rightarrow> (Handed_Over, fs(n \<mapsto> Fulfilled))
           | Some _ \<Rightarrow> (Refused, fs)))"


subsection \<open>Lemmas\<close>

lemma act_simps [simp]:
  "state t = QUEUED \<Longrightarrow> act Initialize now t = t\<lparr>state := INITIALIZING\<rparr>"
  "state t = INCOMPLETE \<Longrightarrow> act Initialize now t = (reset_time_vars t)\<lparr>state := INITIALIZING\<rparr>"
  "state t = INITIALIZING \<Longrightarrow> act (Queue remotely) now t = t\<lparr>remotely_queued := remotely, state := QUEUED\<rparr>"
  "state t = INITIALIZING \<Longrightarrow> act (Fail reason) now t = t\<lparr>fail_reason := reason, state := FAILED\<rparr>"
  "state t = INITIALIZING \<Longrightarrow> act Incomplete now t = t"
  "state t = INITIALIZING \<Longrightarrow> act Start_Transferring now t =
     (reset_queue_vars (set_start_time now t))\<lparr>state := (if is_upload t then UPLOADING else DOWNLOADING)\<rparr>"
  "state t \<in> {UPLOADING, DOWNLOADING} \<Longrightarrow> act (Fail reason) now t =
     (set_complete_time now (t\<lparr>fail_reason := reason\<rparr>))\<lparr>state := FAILED\<rparr>"
  "state t \<in> {UPLOADING, DOWNLOADING} \<Longrightarrow> act Complete now t = (set_complete_time now t)\<lparr>state := COMPLETE\<rparr>"
  "state t = DOWNLOADING \<Longrightarrow> act Incomplete now t = (set_complete_time now t)\<lparr>state := INCOMPLETE\<rparr>"
  by (auto simp: act_def call_def step_eqs Let_def is_upload_def set_start_time_def variable_defs)

lemma callback_fields [simp]:
  "bytes_transfered (transfer_progress_callback now n t) = bytes_transfered t + n"
  "state (transfer_progress_callback now n t) = state t"
  "direction (transfer_progress_callback now n t) = direction t"
  "filesize (transfer_progress_callback now n t) = filesize t"
  "local_path (transfer_progress_callback now n t) = local_path t"
  "start_time (transfer_progress_callback now n t) = start_time t"
  "complete_time (transfer_progress_callback now n t) = complete_time t"
  "fail_reason (transfer_progress_callback now n t) = fail_reason t"
  "abort_reason (transfer_progress_callback now n t) = abort_reason t"
  by (simp_all add: transfer_progress_callback_def add_speed_log_entry_def Let_def)

lemma progress_keeps:
  "(\<And>now n t. f (transfer_progress_callback now n t) = f t) \<Longrightarrow> f (progress cs t) = f t"
  unfolding progress_def by (induction cs arbitrary: t) auto

lemma progress_fields [simp]:
  "state (progress cs t) = state t" "direction (progress cs t) = direction t"
  "filesize (progress cs t) = filesize t" "local_path (progress cs t) = local_path t"
  "start_time (progress cs t) = start_time t" "complete_time (progress cs t) = complete_time t"
  "fail_reason (progress cs t) = fail_reason t" "abort_reason (progress cs t) = abort_reason t"
  by (rule progress_keeps, simp)+

lemma progress_bytes [simp]: "bytes_transfered (progress cs t) = bytes_transfered t + sum_list (map snd cs)"
  unfolding progress_def by (induction cs arbitrary: t) auto

lemma time_vars_fields [simp]:
  "state (set_complete_time now t) = state t" "fail_reason (set_complete_time now t) = fail_reason t"
  "bytes_transfered (set_complete_time now t) = bytes_transfered t" "filesize (set_complete_time now t) = filesize t"
  "filesize (reset_queue_vars t) = filesize t" "local_path (reset_queue_vars t) = local_path t"
  "bytes_transfered (reset_queue_vars t) = bytes_transfered t" "direction (reset_queue_vars t) = direction t"
  "filesize (set_start_time now t) = filesize t" "local_path (set_start_time now t) = local_path t"
  "bytes_transfered (set_start_time now t) = bytes_transfered t" "direction (set_start_time now t) = direction t"
  by (simp_all add: variable_defs)

lemma set_complete_time_none: "start_time t = None \<Longrightarrow> set_complete_time now t = t"
  by (simp add: set_complete_time_def)

definition has_local_path :: "transfer \<Rightarrow> bool" where
  "has_local_path t \<longleftrightarrow> local_path t \<noteq> None \<and> local_path t \<noteq> Some []"

lemma upload_file_result:
  assumes "state t = INITIALIZING" "direction t = UPLOAD" "upload_file r t = (t', es, err)"
  shows "state t' \<in> {FAILED, COMPLETE}"
    and "state t' = COMPLETE \<longleftrightarrow> has_local_path t \<and> up_end r = File_Done
           \<and> filesize t = Some (bytes_transfered t + sum_list (map snd (up_chunks r)))"
    and "state t' = COMPLETE \<Longrightarrow> err = None \<and> es = []"
    and "err \<noteq> None \<Longrightarrow> err = Some Write_Error"
    and "Queued_Upload_Speed v \<notin> set es"
proof -
  have up: "is_upload t" using assms(2) by (simp add: is_upload_def)
  let ?c = "filesize t = Some (bytes_transfered t + sum_list (map snd (up_chunks r)))"
  have "state t' \<in> {FAILED, COMPLETE} \<and> (state t' = COMPLETE \<longleftrightarrow> has_local_path t \<and> up_end r = File_Done \<and> ?c)
     \<and> (state t' = COMPLETE \<longrightarrow> err = None \<and> es = []) \<and> (err \<noteq> None \<longrightarrow> err = Some Write_Error)
     \<and> Queued_Upload_Speed v \<notin> set es"
    using assms up
    by (cases "up_end r"; cases "failed_send r")
      (auto simp: upload_file_def Let_def has_local_path_def send_upload_failed_def is_transfered_def split: if_splits)
  then show "state t' \<in> {FAILED, COMPLETE}"
    "state t' = COMPLETE \<longleftrightarrow> has_local_path t \<and> up_end r = File_Done \<and> ?c"
    "state t' = COMPLETE \<Longrightarrow> err = None \<and> es = []" "err \<noteq> None \<Longrightarrow> err = Some Write_Error"
    "Queued_Upload_Speed v \<notin> set es" by auto
qed


definition upload_succeeds :: "upload_run \<Rightarrow> transfer \<Rightarrow> bool" where
  "upload_succeeds r t \<longleftrightarrow> request_send r = Sent \<and> map_option fst (reply_message r) = Some True
     \<and> connect_ok r \<and> ticket_send r \<and> has_local_path t \<and> up_end r = File_Done
     \<and> offset_received r \<noteq> None
     \<and> filesize t = Some (the (offset_received r) + sum_list (map snd (up_chunks r)))"

definition download_succeeds :: "nat option \<Rightarrow> download_run \<Rightarrow> transfer \<Rightarrow> bool" where
  "download_succeeds fsize r t \<longleftrightarrow> reply_send r \<and> connection_arrives r \<and> offset_send r \<and> directory_ok r
     \<and> down_end r = File_Done \<and> fsize = Some (calculate_offset r t + sum_list (map snd (down_chunks r)))"

lemma upload_file_cases:
  assumes "state t = INITIALIZING" "direction t = UPLOAD"
  obtains t' es where "upload_file r t = (t', es, None)" "state t' \<in> {FAILED, COMPLETE}"
      "state t' = COMPLETE \<longleftrightarrow> has_local_path t \<and> up_end r = File_Done
           \<and> filesize t = Some (bytes_transfered t + sum_list (map snd (up_chunks r)))"
      "\<forall>v. Queued_Upload_Speed v \<notin> set es"
  | t' es where "upload_file r t = (t', es, Some Write_Error)" "state t' = FAILED"
      "\<not> (has_local_path t \<and> up_end r = File_Done
           \<and> filesize t = Some (bytes_transfered t + sum_list (map snd (up_chunks r))))"
      "\<forall>v. Queued_Upload_Speed v \<notin> set es"
proof -
  obtain t' es err where u: "upload_file r t = (t', es, err)" by (cases "upload_file r t")
  note f = upload_file_result [OF assms u]
  show thesis
  proof (cases err)
    case None
    then show thesis using that(1) u f by blast
  next
    case (Some e)
    then have "state t' = FAILED" using f(1,3) by auto
    then show thesis using that(2) [of t' es] u f Some by auto
  qed
qed

text \<open>When the task of an upload ends by itself the upload holds no slot any more: it is back
  in the queue, FAILED or COMPLETE. It is COMPLETE exactly when the peer was reached, allowed
  the transfer and sent an offset, and the file was sent without an error from that offset to
  its full size; only then the upload speed is reported to the server. The only exception that
  leaves the task is a write error while telling the peer that the upload failed.\<close>

theorem upload_task_releases_its_slot:
  assumes "state t = QUEUED" "direction t = UPLOAD" "initialize_upload ticket r t = (t', es, err)"
  shows "state t' \<in> {QUEUED, FAILED, COMPLETE} \<and> (state t' = COMPLETE \<longleftrightarrow> upload_succeeds r t)
     \<and> ((\<exists>v. Queued_Upload_Speed v \<in> set es) \<longleftrightarrow> state t' = COMPLETE)
     \<and> (err \<noteq> None \<longrightarrow> err = Some Write_Error \<and> state t' = FAILED)"
proof -
  let ?t = "t\<lparr>state := INITIALIZING\<rparr>"
  show ?thesis
  proof (cases "request_send r = Sent \<and> map_option fst (reply_message r) = Some True
      \<and> connect_ok r \<and> ticket_send r \<and> offset_received r \<noteq> None")
    case False
    then show ?thesis using assms
      by (cases "reply_message r"; cases "offset_received r")
        (auto simp: initialize_upload_def upload_succeeds_def Let_def split: if_splits)
  next
    case True
    then obtain offset reason where o1: "offset_received r = Some offset" "reply_message r = Some (True, reason)" by auto
    let ?u = "?t\<lparr>bytes_transfered := offset\<rparr>"
    have u: "state ?u = INITIALIZING" "direction ?u = UPLOAD" using assms(2) by simp_all
    have ok: "upload_succeeds r t \<longleftrightarrow> has_local_path ?u \<and> up_end r = File_Done
        \<and> filesize ?u = Some (bytes_transfered ?u + sum_list (map snd (up_chunks r)))"
      using True o1 by (auto simp: upload_succeeds_def has_local_path_def)
    show ?thesis
      by (rule upload_file_cases [OF u, of r])
        (use True o1 assms ok in \<open>auto simp: initialize_upload_def Let_def\<close>)
  qed
qed

definition witness_upload_run :: upload_run where
  "witness_upload_run = \<lparr>request_send = Sent, reply_message = Some (True, None), connect_ok = True,
     ticket_send = True, offset_received = Some 2, up_started = 1, up_chunks = [(2, 3), (3, 4)],
     up_end = File_Done, up_ended = 4, failed_send = Sent, speed_times = (5, 6)\<rparr>"

lemma upload_task_releases_its_slot_witness:
  "state (fst (initialize_upload 7 witness_upload_run
     (witness_upload\<lparr>local_path := Some [1], filesize := Some 9\<rparr>))) = COMPLETE"
proof -
  let ?t = "witness_upload\<lparr>local_path := Some [1], filesize := Some 9\<rparr>"
  obtain t' es err where i: "initialize_upload 7 witness_upload_run ?t = (t', es, err)"
    by (cases "initialize_upload 7 witness_upload_run ?t")
  have "upload_succeeds witness_upload_run ?t"
    by (simp add: upload_succeeds_def witness_upload_run_def has_local_path_def)
  then show ?thesis using upload_task_releases_its_slot [OF _ _ i] i by simp
qed

lemma calculate_offset_state [simp]:
  "calculate_offset r (t\<lparr>state := x\<rparr>) = calculate_offset r t"
  "calculate_offset r (t\<lparr>filesize := y\<rparr>) = calculate_offset r t"
  "calculate_offset r (reset_time_vars t) = calculate_offset r t"
  by (simp_all add: calculate_offset_def reset_time_vars_def)

lemma prepare_fields [simp]:
  "local_path (prepare_download_path r t) \<noteq> None" "state (prepare_download_path r t) = state t"
  "direction (prepare_download_path r t) = direction t" "filesize (prepare_download_path r t) = filesize t"
  "bytes_transfered (prepare_download_path r t) = bytes_transfered t"
  by (simp_all add: prepare_download_path_def)

lemma download_file_result:
  assumes "state t = INITIALIZING" "direction t = DOWNLOAD" "download_file r t = (t', es, err)"
  shows "filesize t \<noteq> None \<Longrightarrow> state t' \<in> {FAILED, INCOMPLETE, COMPLETE} \<and> err = None"
    and "state t' = COMPLETE \<longleftrightarrow> directory_ok r \<and> down_end r = File_Done
           \<and> filesize t = Some (bytes_transfered t + sum_list (map snd (down_chunks r)))"
    and "filesize t = None \<Longrightarrow> directory_ok r \<Longrightarrow> state t' = DOWNLOADING \<and> err = Some Slsk_Error"
proof -
  have d: "\<not> is_upload (prepare_download_path r t)" using assms(2) by (simp add: is_upload_def)
  have "local_path (prepare_download_path r t) = None \<longleftrightarrow> False" by simp
  with assms d show "filesize t \<noteq> None \<Longrightarrow> state t' \<in> {FAILED, INCOMPLETE, COMPLETE} \<and> err = None"
    "state t' = COMPLETE \<longleftrightarrow> directory_ok r \<and> down_end r = File_Done
       \<and> filesize t = Some (bytes_transfered t + sum_list (map snd (down_chunks r)))"
    "filesize t = None \<Longrightarrow> directory_ok r \<Longrightarrow> state t' = DOWNLOADING \<and> err = Some Slsk_Error"
    by (cases "down_end r"; force simp: download_file_def Let_def is_transfered_def split: if_splits)+
qed


lemma download_run_result:
  assumes "state t \<in> {QUEUED, INCOMPLETE}" "direction t = DOWNLOAD"
    and "initialize_download ticket fsize u r t = (t', es, err)"
  shows "\<not> reply_send r \<or> \<not> connection_arrives r \<Longrightarrow> state t' = QUEUED \<and> err = None"
    and "reply_send r \<Longrightarrow> connection_arrives r \<Longrightarrow> \<not> offset_send r \<Longrightarrow> state t' = INITIALIZING \<and> err = None"
    and "reply_send r \<Longrightarrow> connection_arrives r \<Longrightarrow> offset_send r \<Longrightarrow>
      \<exists>t1 es'. state t1 = INITIALIZING \<and> direction t1 = DOWNLOAD \<and> filesize t1 = fsize
        \<and> bytes_transfered t1 = calculate_offset r t \<and> download_file r t1 = (t', es', err)"
proof -
  define t0 where "t0 = (act Initialize (down_started r) t)\<lparr>filesize := fsize\<rparr>"
  define t1 where "t1 = t0\<lparr>bytes_transfered := calculate_offset r t0\<rparr>"
  have t0: "state t0 = INITIALIZING" "direction t0 = DOWNLOAD" "filesize t0 = fsize"
      "calculate_offset r t0 = calculate_offset r t"
    using assms(1,2) by (auto simp: t0_def reset_time_vars_def calculate_offset_def)
  have t1: "state t1 = INITIALIZING" "direction t1 = DOWNLOAD" "filesize t1 = fsize" "\<not> is_upload t1"
      "bytes_transfered t1 = calculate_offset r t"
    using t0 by (simp_all add: t1_def is_upload_def)
  note eq = assms(3) [unfolded initialize_download_def Let_def, folded t0_def, folded t1_def]
  show "\<not> reply_send r \<or> \<not> connection_arrives r \<Longrightarrow> state t' = QUEUED \<and> err = None"
    using eq t0(1) by (auto split: if_splits)
  show "reply_send r \<Longrightarrow> connection_arrives r \<Longrightarrow> \<not> offset_send r \<Longrightarrow> state t' = INITIALIZING \<and> err = None"
    using eq t1 by (auto split: if_splits)
  assume "reply_send r" "connection_arrives r" "offset_send r"
  then have "\<exists>es'. download_file r t1 = (t', es', err)" using eq t1 by (cases "download_file r t1") auto
  then show "\<exists>t1 es'. state t1 = INITIALIZING \<and> direction t1 = DOWNLOAD \<and> filesize t1 = fsize
        \<and> bytes_transfered t1 = calculate_offset r t \<and> download_file r t1 = (t', es', err)" using t1 by blast
qed


definition witness_download_run :: download_run where
  "witness_download_run = \<lparr>reply_send = True, connection_arrives = True, local_size = Some 2,
     offset_send = True, new_path = [3], directory_ok = True, down_started = 1,
     down_chunks = [(2, 3), (3, 4)], down_end = File_Done, down_ended = 4\<rparr>"

definition witness_download :: transfer where
  "witness_download = (new_transfer [1] [2] DOWNLOAD)\<lparr>state := QUEUED, local_path := Some [3]\<rparr>"

lemma witness_download_fields [simp]:
  "state witness_download = QUEUED" "direction witness_download = DOWNLOAD" "local_path witness_download = Some [3]"
  by (simp_all add: witness_download_def new_transfer_def)




lemma file_connection_handed_over_once:
  assumes "on_peer_initialized True False (Some n) fs = (Handed_Over, fs')"
  shows "on_peer_initialized True False (Some n) fs' = (Refused, fs')"
  using assms by (auto simp: on_peer_initialized_def split: option.splits file_future.splits)

lemma late_file_connection_refused:
  "on_peer_initialized True False (Some n) (file_connection_timeout n (wait_for_file_connection n fs))
     = (Refused, file_connection_timeout n (wait_for_file_connection n fs))"
  by (simp add: on_peer_initialized_def file_connection_timeout_def wait_for_file_connection_def)

end
