(* ===== verification/File_Connection.thy ===== *)
theory File_Connection
  imports Connection Transfer_Flows
begin

text \<open>
A file over a file connection: the reads of the ticket, of the offset and of the connection's
  end (\<open>network/connection.py\<close>, \<open>PeerConnection\<close> and \<open>DataConnection\<close>), and how the bytes the
  uploading task sends (theory Connection, \<open>send_file\<close>) and those the downloading task writes
  (\<open>receive_file\<close>) decide how the two tasks of theory Transfer_Flows end.
\<close>

subsection \<open>Ticket and offset\<close>

definition receive_transfer_ticket :: "bytes \<Rightarrow> connection \<Rightarrow> (connection_error + int) \<times> connection \<times> bytes" where
  \<comment> \<open>from a stream that holds these bytes and then ends; there is no timeout here\<close>
  "receive_transfer_ticket stream c =
     (if \<not> has_streams c then (Inl ConnectionReadError, c, stream)
      else (case readexactly 4 stream of (r, rest) \<Rightarrow>
        (case read_data r c of
           (Inl e, c') \<Rightarrow> (Inl e, c', rest)
         | (Inr None, c') \<Rightarrow> (Inl ConnectionReadError, c', rest)
         | (Inr (Some data), c') \<Rightarrow>
             (case uint32_deserialize 0 data of
                Inl e \<Rightarrow> (Inl (Uncaught e), c', rest)
              | Inr (_, ticket) \<Rightarrow> (Inr ticket, c', rest)))))"

definition receive_transfer_offset :: "bytes \<Rightarrow> connection \<Rightarrow> (connection_error + int) \<times> connection \<times> bytes" where
  "receive_transfer_offset stream c =
     (if \<not> has_streams c then (Inl ConnectionReadError, c, stream)
      else (case readexactly 8 stream of (r, rest) \<Rightarrow>
        (case read_data r c of
           (Inl e, c') \<Rightarrow> (Inl e, c', rest)
         | (Inr None, c') \<Rightarrow> (Inl ConnectionReadError, c', rest)
         | (Inr (Some data), c') \<Rightarrow>
             (case uint64_deserialize 0 data of
                Inl e \<Rightarrow> (Inl (Uncaught e), c', rest)
              | Inr (_, offset) \<Rightarrow> (Inr offset, c', rest)))))"

definition receive_until_eof :: "bool \<Rightarrow> read_outcome \<Rightarrow> connection \<Rightarrow> (connection_error + bytes option) \<times> connection" where
  \<comment> \<open>\<open>read(-1)\<close> returns what comes until the other side closes\<close>
  "receive_until_eof raise_exception r c =
     (if \<not> has_streams c then (Inl ConnectionReadError, c)
      else (case read_data r c of
          (Inl e, c') \<Rightarrow> if raise_exception then (Inl e, c') else (Inr (Some []), c')
        | ok \<Rightarrow> ok))"

lemma packed:
  assumes "struct_pack k v = Inr bs"
  shows "fits k v" "length bs = k"
  using assms by (auto simp: struct_pack_def fits_def split: if_splits)

lemma ticket_round_trip:
  assumes "uint32_serialize t = Inr bs" "has_streams c"
  shows "receive_transfer_ticket (bs @ rest) c = (Inr t, c, rest)"
proof -
  have t: "fits 4 t" "length bs = 4" using packed assms(1) by (auto simp: uint32_serialize_def)
  from uint32.deserialize_serialize [OF t(1) assms(1), of "[]" "[]"] show ?thesis
    using t(2) assms(2) by (auto simp: receive_transfer_ticket_def readexactly_def read_data_def)
qed

lemma offset_round_trip:
  assumes "uint64_serialize t = Inr bs" "has_streams c"
  shows "receive_transfer_offset (bs @ rest) c = (Inr t, c, rest)"
proof -
  have t: "fits 8 t" "length bs = 8" using packed assms(1) by (auto simp: uint64_serialize_def)
  from uint64.deserialize_serialize [OF t(1) assms(1), of "[]" "[]"] show ?thesis
    using t(2) assms(2) by (auto simp: receive_transfer_offset_def readexactly_def read_data_def)
qed

subsection \<open>A file over a connection\<close>

lemma receive_file_all:
  assumes "has_streams c" "[] \<notin> set ds" "ds \<noteq> []" "received + length (concat ds) = expected"
  shows "receive_file received expected (map Data ds @ reads) c = (Some (Inr ()), ds, c)"
  using assms
proof (induction ds arbitrary: received)
  case (Cons d ds)
  have d: "receive_data (Data d) c = (Inr (Some d), c)" using Cons.prems by (auto simp: receive_data_def read_data_def)
  show ?case
  proof (cases "ds = []")
    case True
    then show ?thesis using Cons.prems d by simp
  next
    case False
    have "\<not> expected \<le> received + length d"
      using Cons.prems(2,4) False by (cases ds) (auto simp flip: length_greater_0_conv)
    then show ?thesis using Cons.IH [of "received + length d"] Cons.prems False d by simp
  qed
qed simp

lemma receive_file_waits:
  "has_streams c \<Longrightarrow> receive_file received expected (ReadTimeout # reads) c = (Some (Inl ConnectionReadError), [], disconnect TIMEOUT c)"
  by (simp add: receive_data_def read_data_def)

text \<open>How a transfer over a connection ends, as the tasks see it.\<close>

definition upload_end :: "(connection_error + unit) option \<Rightarrow> file_end" where
  "upload_end res = (case res of Some (Inr _) \<Rightarrow> File_Done | _ \<Rightarrow> Network_Error)"

definition lengths :: "bytes list \<Rightarrow> (rat \<times> nat) list \<Rightarrow> bool" where
  \<comment> \<open>the progress callback is called for these chunks\<close>
  "lengths chunks calls \<longleftrightarrow> map snd calls = map length chunks"

lemma lengths_sum: "lengths cs calls \<Longrightarrow> sum_list (map snd calls) = length (concat cs)"
  by (simp add: lengths_def length_concat)

text \<open>C2: A file, or the rest of a file of which the downloading side has a first part already, arrives
  whole. The downloading side sends the size of its part as the offset and the uploading side reads
  that number; when the upload of what lies behind it returns without error, then however the
  network cuts the bytes into pieces the download returns with exactly these bytes written behind
  the first part, both transfers count the size of the file and both tasks end COMPLETE.\<close>

theorem file_arrives:
  assumes "limiter_inv l" "part = take (length part) F" "length part < length F"
    and "uint64_serialize (int (length part)) = Inr sent_offset" "has_streams c0"
    and "receive_transfer_offset (sent_offset @ rest) c0 = (Inr offset, cu, rest')"
    and "send_file take_tokens l clock (drop (nat offset) F) writes cu = (Some (Inr ()), sent, cu')"
    and "concat pieces = concat sent" "[] \<notin> set pieces" "has_streams cd"
    and "receive_file 0 (length F - length part) (map Data pieces @ reads) cd = (res, written, cd')"
    and "lengths sent (up_chunks u)" "up_end u = upload_end (Some (Inr ()))"
    and "lengths written (down_chunks d)" "down_end d = upload_end res" "directory_ok d"
    and "state tu = INITIALIZING" "direction tu = UPLOAD" "filesize tu = Some (length F)" "bytes_transfered tu = nat offset" "has_local_path tu"
    and "state td = INITIALIZING" "direction td = DOWNLOAD" "filesize td = Some (length F)" "bytes_transfered td = length part"
  shows "part @ concat written = F \<and> state (fst (upload_file u tu)) = COMPLETE \<and> state (fst (download_file d td)) = COMPLETE"
proof -
  have o: "offset = int (length part)" using offset_round_trip [OF assms(4,5), of rest] assms(6) by simp
  have sent: "concat sent = drop (length part) F" using limiter.send_file_content [OF assms(1,7)] o by auto
  have "pieces \<noteq> []" "length (concat pieces) = length F - length part" using assms(3,8) sent by auto
  then have r: "res = Some (Inr ())" "written = pieces"
    using receive_file_all [OF assms(10,9), of 0 "length F - length part" reads] assms(11) by simp_all
  have whole: "part @ concat written = F" using assms(2,8) sent r(2) by (metis append_take_drop_id)
  have n: "sum_list (map snd (up_chunks u)) = length F - length part" "sum_list (map snd (down_chunks d)) = length F - length part"
    using lengths_sum assms(8,12,14) sent r(2) by auto
  obtain t1 es1 err1 where up: "upload_file u tu = (t1, es1, err1)" by (cases "upload_file u tu")
  from upload_file_result(2) [OF assms(17,18) up] have "state t1 = COMPLETE"
    using assms(3,13,19,20,21) n(1) o by (simp add: upload_end_def)
  moreover have "state (fst (download_file d td)) = COMPLETE"
    using assms(3,15,16,22,23,24,25) n(2) r(1)
    by (auto simp: download_file_def upload_end_def Let_def prepare_download_path_def is_transfered_def is_upload_def)
  ultimately show ?thesis using whole up by simp
qed

text \<open>C36: When the downloading side already has the whole file - an empty file, or a file whose last
  bytes were written before the task was cancelled - there is nothing to send: the uploading side
  waits for the other to close the connection and the downloading side waits for data until its
  read times out. The upload then ends COMPLETE and the download INCOMPLETE, to be tried again.\<close>

theorem whole_file_is_not_recognized:
  assumes "limiter_inv l" "k = length F"
    and "send_file take_tokens l clock (drop k F) writes cu = (Some ended, sent, cu')"
    and "has_streams cd" "receive_file 0 (length F - k) (ReadTimeout # reads) cd = (res, written, cd')"
    and "lengths sent (up_chunks u)" "up_end u = upload_end (Some ended)"
    and "lengths written (down_chunks d)" "down_end d = upload_end res" "directory_ok d"
    and "state tu = INITIALIZING" "direction tu = UPLOAD" "filesize tu = Some (length F)" "bytes_transfered tu = k" "has_local_path tu"
    and "state td = INITIALIZING" "direction td = DOWNLOAD" "filesize td = Some (length F)" "bytes_transfered td = k"
  shows "sent = [] \<and> written = [] \<and> state (fst (upload_file u tu)) = COMPLETE \<and> state (fst (download_file d td)) = INCOMPLETE"
proof -
  have s: "ended = Inr ()" "sent = []"
    using assms(2,3) by (auto simp: send_file.simps [of _ l] split: option.splits)
  have r: "res = Some (Inl ConnectionReadError)" "written = []"
    using receive_file_waits [OF assms(4)] assms(5) by auto
  have n: "sum_list (map snd (up_chunks u)) = 0" using lengths_sum [OF assms(6)] s(2) by simp
  obtain t1 es1 err1 where up: "upload_file u tu = (t1, es1, err1)" by (cases "upload_file u tu")
  from upload_file_result(2) [OF assms(11,12) up] have "state t1 = COMPLETE"
    using assms(2,7,13,14,15) n s(1) by (simp add: upload_end_def)
  moreover have "state (fst (download_file d td)) = INCOMPLETE"
    using assms(9,10,16,17,18) r(1)
    by (auto simp: download_file_def upload_end_def Let_def prepare_download_path_def is_upload_def)
  ultimately show ?thesis using s(2) r(2) up by simp
qed

definition stored_file :: bytes where
  "stored_file = [1, 2, 3]"

definition uploaded :: "nat \<Rightarrow> transfer" where
  "uploaded offset = (new_transfer [117] [102] UPLOAD)\<lparr>state := INITIALIZING, local_path := Some [102],
     filesize := Some 3, bytes_transfered := offset\<rparr>"

definition downloaded :: "nat \<Rightarrow> transfer" where
  "downloaded offset = (new_transfer [117] [102] DOWNLOAD)\<lparr>state := INITIALIZING, local_path := Some [103],
     filesize := Some 3, bytes_transfered := offset\<rparr>"

definition open_file_connection :: connection where
  "open_file_connection = snd (connect True (new_connection PeerConnection False FILE False))"

lemma streams_of_file_connection: "has_streams open_file_connection"
  by (simp add: open_file_connection_def connect_def new_connection_def set_state_def)

lemma sends_rest:
  "send_file take_tokens (create_limiter 0) [] (drop 1 stored_file) [] open_file_connection
   = (Some (Inr ()), [[2, 3]], open_file_connection)"
  by (simp add: stored_file_def open_file_connection_def send_file.simps create_limiter_def CHUNK_SIZE_def
      send_data_def send_bytes_def connect_def new_connection_def set_state_def Let_def)

lemma sends_nothing:
  "send_file take_tokens (create_limiter 0) [] (drop 3 stored_file) [] open_file_connection
   = (Some (Inr ()), [], open_file_connection)"
  by (simp add: stored_file_def send_file.simps create_limiter_def)

lemma file_arrives_witness:
  "[1] @ concat [[2], [3]] = stored_file
   \<and> state (fst (upload_file (witness_upload_run\<lparr>up_chunks := [(2, 2)], up_end := File_Done\<rparr>) (uploaded 1))) = COMPLETE
   \<and> state (fst (download_file (witness_download_run\<lparr>down_chunks := [(2, 1), (3, 1)], down_end := File_Done\<rparr>) (downloaded 1))) = COMPLETE"
proof (rule file_arrives [where l = "create_limiter 0" and clock = "[]" and writes = "[]" and sent = "[[2, 3]]"
      and cu = open_file_connection and cu' = open_file_connection and offset = 1 and rest = "[]" and rest' = "[]"
      and sent_offset = "[1, 0, 0, 0, 0, 0, 0, 0]" and ?c0.0 = open_file_connection
      and pieces = "[[2], [3]]" and reads = "[]" and res = "Some (Inr ())"])
  show offset: "uint64_serialize (int (length [1 :: byte])) = Inr [1, 0, 0, 0, 0, 0, 0, 0]"
    by code_simp
  show "receive_transfer_offset ([1, 0, 0, 0, 0, 0, 0, 0] @ []) open_file_connection = (Inr 1, open_file_connection, [])"
    using offset_round_trip [OF offset streams_of_file_connection, of "[]"] by simp
  show "send_file take_tokens (create_limiter 0) [] (drop (nat 1) stored_file) [] open_file_connection
      = (Some (Inr ()), [[2, 3]], open_file_connection)"
    using sends_rest by simp
  show "receive_file 0 (length stored_file - length [1 :: byte]) (map Data [[2], [3]] @ []) open_file_connection
      = (Some (Inr ()), [[2], [3]], open_file_connection)"
    using receive_file_all [OF streams_of_file_connection, of "[[2], [3]]" 0 "length stored_file - 1" "[]"]
    by (simp add: stored_file_def del: receive_file.simps)
qed (simp_all add: limiter_inv_create stored_file_def streams_of_file_connection lengths_def upload_end_def witness_upload_run_def
    witness_download_run_def uploaded_def downloaded_def has_local_path_def new_transfer_def)

lemma whole_file_is_not_recognized_witness:
  "([] :: bytes list) = [] \<and> ([] :: bytes list) = []
   \<and> state (fst (upload_file (witness_upload_run\<lparr>up_chunks := [], up_end := File_Done\<rparr>) (uploaded 3))) = COMPLETE
   \<and> state (fst (download_file (witness_download_run\<lparr>down_chunks := [], down_end := Network_Error\<rparr>) (downloaded 3))) = INCOMPLETE"
proof (rule whole_file_is_not_recognized [OF limiter_inv_create _ sends_nothing, where reads = "[]"
      and res = "Some (Inl ConnectionReadError)"])
  show "receive_file 0 (length stored_file - 3) (ReadTimeout # []) open_file_connection
      = (Some (Inl ConnectionReadError), [], disconnect TIMEOUT open_file_connection)"
    using receive_file_waits [OF streams_of_file_connection] by (simp add: stored_file_def)
qed (simp_all add: stored_file_def streams_of_file_connection lengths_def upload_end_def witness_upload_run_def
    witness_download_run_def uploaded_def downloaded_def has_local_path_def new_transfer_def)

end
