(* ===== verification/Search_Query.thy ===== *)
theory Search_Query
  imports Prelude
begin

text \<open>
\<open>src/aioslsk/search/model.py\<close> and \<open>src/aioslsk/shares/utils.py\<close>: parsing a search query, the
  matchers of its terms, and remote paths. Regular expressions are written out as what they
  match.
\<close>

subsection \<open>Characters and paths\<close>

text \<open>Python's tables of characters: \<open>alnum c\<close> is \<open>[^\W_]\<close>, \<open>lower1\<close> lowers one character and
  is what \<open>re.IGNORECASE\<close> compares by. Both are arguments; \<open>ascii_alnum\<close> and \<open>ascii_lower\<close>
  are their restriction to ASCII.\<close>

definition ascii_alnum :: "nat \<Rightarrow> bool" where
  "ascii_alnum c \<longleftrightarrow> 48 \<le> c \<and> c \<le> 57 \<or> 65 \<le> c \<and> c \<le> 90 \<or> 97 \<le> c \<and> c \<le> 122"

definition ascii_lower :: "nat \<Rightarrow> nat" where
  "ascii_lower c = (if 65 \<le> c \<and> c \<le> 90 then c + 32 else c)"

definition is_sep :: "nat \<Rightarrow> bool" where
  \<comment> \<open>\<open>PATH_SEPERATOR_PATTERN\<close>: slash or backslash\<close>
  "is_sep c \<longleftrightarrow> c = 47 \<or> c = 92"

fun squeeze_seps :: "pystr \<Rightarrow> pystr" where
  \<comment> \<open>\<open>re.sub\<close>: every run of separators becomes one backslash\<close>
  "squeeze_seps [] = []"
| "squeeze_seps (c # cs) =
     (if is_sep c then (case squeeze_seps cs of [] \<Rightarrow> [92] | d # ds \<Rightarrow> if d = 92 then d # ds else 92 # d # ds)
      else c # squeeze_seps cs)"

definition rstrip_seps :: "pystr \<Rightarrow> pystr" where
  "rstrip_seps s = rev (dropWhile is_sep (rev s))"

definition normalize_remote_path :: "pystr \<Rightarrow> pystr" where
  "normalize_remote_path p = rstrip_seps (squeeze_seps p)"

definition split_remote_path :: "pystr \<Rightarrow> pystr list" where
  \<comment> \<open>\<open>re.split\<close> on runs of separators without the empty parts\<close>
  "split_remote_path p = filter (\<lambda>part. part \<noteq> [])
     (foldr (\<lambda>c parts. if is_sep c then [] # parts else (case parts of [] \<Rightarrow> [[c]] | q # qs \<Rightarrow> (c # q) # qs)) p [[]])"

definition path_join :: "pystr \<Rightarrow> pystr \<Rightarrow> pystr" where
  \<comment> \<open>\<open>os.path.join\<close> of POSIX\<close>
  "path_join a b = (if b \<noteq> [] \<and> hd b = 47 then b else if a = [] \<or> last a = 47 then a @ b else a @ [47] @ b)"

subsection \<open>Words\<close>

fun split_words :: "(nat \<Rightarrow> bool) \<Rightarrow> pystr \<Rightarrow> pystr list" where
  \<comment> \<open>\<open>re.split(r"[\W_]", s)\<close>: one cut at every character that is no word character\<close>
  "split_words alnum [] = [[]]"
| "split_words alnum (c # cs) =
     (if alnum c then (case split_words alnum cs of [] \<Rightarrow> [[c]] | w # ws \<Rightarrow> (c # w) # ws)
      else [] # split_words alnum cs)"

definition words :: "(nat \<Rightarrow> bool) \<Rightarrow> pystr \<Rightarrow> pystr list" where
  \<comment> \<open>the non-empty parts\<close>
  "words alnum s = filter (\<lambda>w. w \<noteq> []) (split_words alnum s)"

subsection \<open>Queries\<close>

record search_query =
  query_text :: pystr
  include_terms :: "pystr list"   \<comment> \<open>sets in the code\<close>
  exclude_terms :: "pystr list"
  wildcard_terms :: "pystr list"

fun split_space :: "(nat \<Rightarrow> bool) \<Rightarrow> pystr \<Rightarrow> pystr list" where
  \<comment> \<open>\<open>str.split()\<close>: the runs of characters that are no white space\<close>
  "split_space space [] = []"
| "split_space space (c # cs) =
     (if space c then split_space space cs
      else case cs of
          [] \<Rightarrow> [[c]]
        | d # ds \<Rightarrow> if space d then [c] # split_space space cs
            else (case split_space space cs of [] \<Rightarrow> [[c]] | w # ws \<Rightarrow> (c # w) # ws))"

definition add_term :: "pystr \<Rightarrow> pystr list \<Rightarrow> pystr list" where
  "add_term t ts = (if t \<in> set ts then ts else ts @ [t])"

definition parse_term :: "(nat \<Rightarrow> bool) \<Rightarrow> (nat \<Rightarrow> nat) \<Rightarrow> pystr \<Rightarrow> search_query \<Rightarrow> search_query" where
  "parse_term alnum lower1 t q =
     (let l = map lower1 t in
      if \<not> list_ex alnum l then q
      else if hd t = 42 then q\<lparr>wildcard_terms := add_term (tl l) (wildcard_terms q)\<rparr>
      else if hd t = 45 then q\<lparr>exclude_terms := add_term (tl l) (exclude_terms q)\<rparr>
      else q\<lparr>include_terms := add_term l (include_terms q)\<rparr>)"

definition parse_query :: "(nat \<Rightarrow> bool) \<Rightarrow> (nat \<Rightarrow> nat) \<Rightarrow> (nat \<Rightarrow> bool) \<Rightarrow> pystr \<Rightarrow> search_query" where
  "parse_query alnum lower1 space text =
     fold (parse_term alnum lower1) (split_space space text)
       \<lparr>query_text = text, include_terms = [], exclude_terms = [], wildcard_terms = []\<rparr>"

definition has_inclusion_terms :: "search_query \<Rightarrow> bool" where
  "has_inclusion_terms q \<longleftrightarrow> include_terms q \<noteq> [] \<or> wildcard_terms q \<noteq> []"

text \<open>The regular expressions of \<open>create_term_pattern\<close>: the term, or a word that ends in the term,
  between two places that are no word characters.\<close>

definition starts_word :: "(nat \<Rightarrow> bool) \<Rightarrow> pystr \<Rightarrow> bool" where
  \<comment> \<open>\<open>(?<=\W|_)|^\<close>, given the text before the position\<close>
  "starts_word alnum before \<longleftrightarrow> before = [] \<or> \<not> alnum (last before)"

definition ends_word :: "(nat \<Rightarrow> bool) \<Rightarrow> pystr \<Rightarrow> bool" where
  \<comment> \<open>\<open>(?=[\W_]|$)\<close>, given the text after the position\<close>
  "ends_word alnum rest \<longleftrightarrow> rest = [] \<or> \<not> alnum (hd rest)"

definition term_at :: "(nat \<Rightarrow> bool) \<Rightarrow> (nat \<Rightarrow> nat) \<Rightarrow> pystr \<Rightarrow> pystr \<Rightarrow> bool" where
  \<comment> \<open>the escaped term matches at the front of \<open>s\<close> and a word ends there\<close>
  "term_at alnum lower1 t s \<longleftrightarrow> length t \<le> length s \<and> map lower1 (take (length t) s) = map lower1 t
     \<and> ends_word alnum (drop (length t) s)"

definition search_term :: "(nat \<Rightarrow> bool) \<Rightarrow> (nat \<Rightarrow> nat) \<Rightarrow> pystr \<Rightarrow> pystr \<Rightarrow> bool" where
  \<comment> \<open>\<open>pattern.search(path)\<close> for a plain term\<close>
  "search_term alnum lower1 t path \<longleftrightarrow>
     list_ex (\<lambda>i. starts_word alnum (take i path) \<and> term_at alnum lower1 t (drop i path)) [0..<Suc (length path)]"

fun word_then :: "(nat \<Rightarrow> bool) \<Rightarrow> (pystr \<Rightarrow> bool) \<Rightarrow> pystr \<Rightarrow> bool" where
  \<comment> \<open>\<open>[^\W_]*\<close> followed by \<open>P\<close>\<close>
  "word_then alnum P [] = P []"
| "word_then alnum P (c # cs) = (P (c # cs) \<or> alnum c \<and> word_then alnum P cs)"

definition search_wildcard :: "(nat \<Rightarrow> bool) \<Rightarrow> (nat \<Rightarrow> nat) \<Rightarrow> pystr \<Rightarrow> pystr \<Rightarrow> bool" where
  "search_wildcard alnum lower1 t path \<longleftrightarrow>
     list_ex (\<lambda>i. starts_word alnum (take i path) \<and> word_then alnum (term_at alnum lower1 t) (drop i path))
       [0..<Suc (length path)]"

definition matches :: "(nat \<Rightarrow> bool) \<Rightarrow> (nat \<Rightarrow> nat) \<Rightarrow> search_query \<Rightarrow> pystr \<Rightarrow> bool" where
  \<comment> \<open>all the matchers of \<open>matchers_iter\<close>\<close>
  "matches alnum lower1 q path \<longleftrightarrow>
     list_all (\<lambda>t. search_term alnum lower1 t path) (include_terms q)
     \<and> list_all (\<lambda>t. search_wildcard alnum lower1 t path) (wildcard_terms q)
     \<and> list_all (\<lambda>t. \<not> search_term alnum lower1 t path) (exclude_terms q)"

end
