(* ===== verification/Naming.thy ===== *)
theory Naming
  imports Search_Query
begin

text \<open>
\<open>src/aioslsk/naming.py\<close>: strategies for the name of a downloaded file, their chain, and
  \<open>SharesManager.calculate_download_path\<close>. The file system is an argument; regular expressions
  are written out as what they match, with ASCII digits.
\<close>

subsection \<open>File names\<close>

definition splitext :: "pystr \<Rightarrow> pystr \<times> pystr" where
  \<comment> \<open>\<open>os.path.splitext\<close>: cut before the last dot of the last component, when something other than
     a dot stands before it\<close>
  "splitext p =
     (let ext = takeWhile (\<lambda>c. c \<noteq> 46 \<and> c \<noteq> 47) (rev p); n = length p - length ext in
      if 0 < n \<and> p ! (n - 1) = 46 \<and> list_ex (\<lambda>c. c \<noteq> 46) (takeWhile (\<lambda>c. c \<noteq> 47) (rev (take (n - 1) p)))
      then (take (n - 1) p, drop (n - 1) p) else (p, []))"

fun decimal :: "nat \<Rightarrow> pystr" where
  \<comment> \<open>the decimal digits of a number\<close>
  "decimal n = (if n < 10 then [48 + n] else decimal (n div 10) @ [48 + n mod 10])"

definition is_digit :: "nat \<Rightarrow> bool" where
  "is_digit c \<longleftrightarrow> 48 \<le> c \<and> c \<le> 57"

definition of_decimal :: "pystr \<Rightarrow> nat" where
  \<comment> \<open>\<open>int\<close> of a string of ASCII digits\<close>
  "of_decimal s = foldl (\<lambda>n c. 10 * n + (c - 48)) 0 s"

subsection \<open>Strategies\<close>

text \<open>The file system as far as the strategies ask it: which paths exist and what a directory
  holds.\<close>

record file_system =
  path_exists :: "pystr \<Rightarrow> bool"
  listdir :: "pystr \<Rightarrow> pystr list"

datatype naming_strategy = Default_Naming | Keep_Directory | Number_Duplicate

definition should_be_applied :: "file_system \<Rightarrow> naming_strategy \<Rightarrow> pystr \<Rightarrow> pystr \<Rightarrow> bool" where
  "should_be_applied fs s local_dir local_filename =
     (case s of Number_Duplicate \<Rightarrow> path_exists fs (path_join local_dir local_filename) | _ \<Rightarrow> True)"

definition default_naming :: "pystr \<Rightarrow> pystr \<Rightarrow> pystr \<Rightarrow> (pystr \<times> pystr) result" where
  "default_naming remote_path local_dir local_filename =
     (if split_remote_path remote_path = [] then Inl IndexError
      else Inr (local_dir, last (split_remote_path remote_path)))"

definition is_drive :: "pystr \<Rightarrow> bool" where
  \<comment> \<open>a match of \<open>[a-zA-Z]{1}:\<close> at the front\<close>
  "is_drive d \<longleftrightarrow> 2 \<le> length d \<and> (65 \<le> d ! 0 \<and> d ! 0 \<le> 90 \<or> 97 \<le> d ! 0 \<and> d ! 0 \<le> 122) \<and> d ! 1 = 58"

definition keep_directory :: "pystr \<Rightarrow> pystr \<Rightarrow> pystr \<Rightarrow> (pystr \<times> pystr) result" where
  "keep_directory remote_path local_dir local_filename =
     (let parts = split_remote_path remote_path in
      if length parts = 1 then Inr (local_dir, local_filename)
      else if length parts < 2 then Inl IndexError
      else let contained_dir = parts ! (length parts - 2) in
        if take 2 contained_dir = [64, 64] then Inr (local_dir, local_filename)
        else if is_drive contained_dir then Inr (local_dir, local_filename)
        else Inr (path_join local_dir contained_dir, local_filename))"

definition numbered :: "pystr \<Rightarrow> pystr \<Rightarrow> pystr \<Rightarrow> pystr" where
  \<comment> \<open>the name with digits between brackets before the extension\<close>
  "numbered filename digits extension = filename @ [32, 40] @ digits @ [41] @ extension"

definition number_of :: "pystr \<Rightarrow> pystr \<Rightarrow> pystr \<Rightarrow> nat option" where
  \<comment> \<open>the index of a numbered file: \<open>re.match\<close> of the pattern, which is not anchored at the end\<close>
  "number_of filename extension path_file =
     (let start = filename @ [32, 40]; rest = drop (length start) path_file;
          digits = takeWhile is_digit rest; after = drop (length digits) rest in
      if take (length start) path_file = start \<and> digits \<noteq> []
         \<and> take (Suc (length extension)) after = [41] @ extension
      then Some (of_decimal digits) else None)"

definition next_index :: "nat list \<Rightarrow> nat" where
  \<comment> \<open>the least index from the least to one past the greatest that is not taken\<close>
  "next_index indices =
     (if indices = [] then 1
      else hd (filter (\<lambda>i. i \<notin> set indices) [Min (set indices)..<Max (set indices) + 2]))"

definition number_duplicate :: "file_system \<Rightarrow> pystr \<Rightarrow> pystr \<Rightarrow> pystr \<times> pystr" where
  "number_duplicate fs local_dir local_filename =
     (case splitext local_filename of (filename, extension) \<Rightarrow>
        let indices = List.map_filter (number_of filename extension) (listdir fs local_dir)
        in (local_dir, numbered filename (decimal (next_index indices)) extension))"

definition apply_strategy :: "file_system \<Rightarrow> naming_strategy \<Rightarrow> pystr \<Rightarrow> pystr \<Rightarrow> pystr \<Rightarrow> (pystr \<times> pystr) result" where
  "apply_strategy fs s remote_path local_dir local_filename =
     (case s of
        Default_Naming \<Rightarrow> default_naming remote_path local_dir local_filename
      | Keep_Directory \<Rightarrow> keep_directory remote_path local_dir local_filename
      | Number_Duplicate \<Rightarrow> Inr (number_duplicate fs local_dir local_filename))"

fun chain_from :: "file_system \<Rightarrow> naming_strategy list \<Rightarrow> pystr \<Rightarrow> pystr \<Rightarrow> pystr \<Rightarrow> (pystr \<times> pystr) result" where
  "chain_from fs [] remote_path path filename = Inr (path, filename)"
| "chain_from fs (s # ss) remote_path path filename =
     (if should_be_applied fs s path filename
      then bindE (apply_strategy fs s remote_path path filename) (\<lambda>(path, filename). chain_from fs ss remote_path path filename)
      else chain_from fs ss remote_path path filename)"

definition chain_strategies :: "file_system \<Rightarrow> naming_strategy list \<Rightarrow> pystr \<Rightarrow> pystr \<Rightarrow> (pystr \<times> pystr) result" where
  "chain_strategies fs ss remote_path local_dir = chain_from fs ss remote_path local_dir []"

subsection \<open>The chosen name is free\<close>

declare decimal.simps [simp del]

lemma decimal_digits: "c \<in> set (decimal n) \<Longrightarrow> is_digit c"
proof (induction n rule: decimal.induct)
  case (1 n)
  show ?case
  proof (cases "n < 10")
    case True
    then show ?thesis using "1.prems" by (simp add: decimal.simps [of n] is_digit_def)
  next
    case False
    have "n mod 10 < 10" by simp
    then show ?thesis using 1 False by (auto simp: decimal.simps [of n] is_digit_def)
  qed
qed

lemma decimal_not_Nil [simp]: "decimal n \<noteq> []"
  by (simp add: decimal.simps [of n])

lemma of_decimal_snoc: "of_decimal (s @ [c]) = 10 * of_decimal s + (c - 48)"
  by (simp add: of_decimal_def)

lemma of_decimal_decimal [simp]: "of_decimal (decimal n) = n"
proof (induction n rule: decimal.induct)
  case (1 n)
  show ?case
  proof (cases "n < 10")
    case True
    then show ?thesis by (simp add: decimal.simps [of n] of_decimal_def)
  next
    case False
    then have "of_decimal (decimal n) = 10 * of_decimal (decimal (n div 10)) + n mod 10"
      by (simp add: decimal.simps [of n] of_decimal_snoc)
    then show ?thesis using 1 False by simp
  qed
qed

lemma takeWhile_digits: "takeWhile is_digit (decimal n @ 41 # rest) = decimal n"
proof -
  have "takeWhile is_digit (decimal n @ 41 # rest) = decimal n @ takeWhile is_digit (41 # rest)"
    by (rule takeWhile_append2) (rule decimal_digits)
  then show ?thesis by (simp add: is_digit_def)
qed

lemma number_of_numbered: "number_of filename extension (numbered filename (decimal n) extension) = Some n"
proof -
  have "drop (length (filename @ [32, 40])) (numbered filename (decimal n) extension) = decimal n @ 41 # extension"
    by (simp add: numbered_def)
  then show ?thesis by (simp add: number_of_def takeWhile_digits Let_def) (simp add: numbered_def)
qed

lemma next_index_free: "next_index indices \<notin> set indices"
proof (cases "indices = []")
  case False
  let ?m = "Max (set indices)"
  have "Suc ?m \<notin> set indices" using Max_ge [of "set indices" "Suc ?m"] by (metis List.finite_set Suc_n_not_le_n)
  moreover have "Min (set indices) \<le> ?m" using False by simp
  ultimately have "Suc ?m \<in> set (filter (\<lambda>i. i \<notin> set indices) [Min (set indices)..<?m + 2])" by simp
  then have "filter (\<lambda>i. i \<notin> set indices) [Min (set indices)..<?m + 2] \<noteq> []"
    by (metis list.set(1) empty_iff)
  from list.set_sel(1) [OF this] show ?thesis using False by (auto simp: next_index_def)
qed (simp add: next_index_def)

lemma number_duplicate_free: "snd (number_duplicate fs local_dir local_filename) \<notin> set (listdir fs local_dir)"
proof
  obtain filename extension where s: "splitext local_filename = (filename, extension)" by fastforce
  let ?indices = "List.map_filter (number_of filename extension) (listdir fs local_dir)"
  have eq: "snd (number_duplicate fs local_dir local_filename) = numbered filename (decimal (next_index ?indices)) extension"
    by (simp add: number_duplicate_def s Let_def)
  assume "snd (number_duplicate fs local_dir local_filename) \<in> set (listdir fs local_dir)"
  then have "next_index ?indices \<in> set ?indices"
    using number_of_numbered [of filename extension "next_index ?indices"]
    by (auto simp: eq map_filter_def image_iff intro!: bexI)
  then show False using next_index_free by blast
qed

definition calculate_download_path :: "file_system \<Rightarrow> pystr \<Rightarrow> pystr \<Rightarrow> (pystr \<times> pystr) result" where
  "calculate_download_path fs download_dir remote_path =
     chain_strategies fs [Default_Naming, Number_Duplicate] remote_path download_dir"

lemma splitext_append: "fst (splitext p) @ snd (splitext p) = p"
  by (simp add: splitext_def Let_def)

definition no_separators :: "pystr \<Rightarrow> bool" where
  "no_separators p \<longleftrightarrow> (\<forall>c \<in> set p. \<not> is_sep c)"

lemma no_separators_append [simp]: "no_separators (p @ q) \<longleftrightarrow> no_separators p \<and> no_separators q"
  by (auto simp: no_separators_def)

lemma no_separators_simps [simp]: "no_separators []" "no_separators (c # p) \<longleftrightarrow> \<not> is_sep c \<and> no_separators p"
  by (auto simp: no_separators_def)

lemma split_parts: "part \<in> set (split_remote_path p) \<Longrightarrow> part \<noteq> [] \<and> no_separators part"
proof -
  let ?split = "\<lambda>p. foldr (\<lambda>c parts. if is_sep c then [] # parts
       else (case parts of [] \<Rightarrow> [[c]] | q # qs \<Rightarrow> (c # q) # qs)) p [[]]"
  have "\<forall>q \<in> set (?split p). no_separators q" by (induction p) (auto split: list.splits)
  then show "part \<in> set (split_remote_path p) \<Longrightarrow> ?thesis" by (auto simp: split_remote_path_def)
qed

lemma numbered_no_separators:
  assumes "no_separators name" "splitext name = (filename, extension)"
  shows "no_separators (numbered filename (decimal n) extension)"
proof -
  have "no_separators (filename @ extension)" using splitext_append [of name] assms by simp
  moreover have "no_separators (decimal n)"
    using decimal_digits by (fastforce simp: no_separators_def is_digit_def is_sep_def)
  ultimately show ?thesis by (simp add: numbered_def is_sep_def)
qed

definition proper_name :: "pystr \<Rightarrow> bool" where
  \<comment> \<open>a name that a directory can list\<close>
  "proper_name name \<longleftrightarrow> name \<noteq> [] \<and> no_separators name \<and> name \<noteq> [46] \<and> name \<noteq> [46, 46]"

lemma number_duplicate_proper:
  assumes "no_separators name" "number_duplicate fs dir name = (dir', name')"
  shows "dir' = dir" "proper_name name'"
proof -
  obtain filename extension where s: "splitext name = (filename, extension)" by fastforce
  obtain n where n: "dir' = dir" "name' = numbered filename (decimal n) extension"
    using assms(2) by (auto simp: number_duplicate_def s Let_def)
  then show "dir' = dir" by simp
  have "32 \<in> set name'" by (simp add: n(2) numbered_def)
  moreover have "no_separators name'" unfolding n(2) by (rule numbered_no_separators [OF assms(1) s])
  ultimately show "proper_name name'" by (auto simp: proper_name_def)
qed



end
