(* ===== verification/Shares.thy ===== *)
theory Shares
  imports Complex_Main Naming
begin

text \<open>
\<open>src/aioslsk/shares/\<close>: shared directories and their items, aliases and remote paths, the term map,
  scanning, locks, queries, replies to peers and the cache. Directory objects are references into a
  store, because items and callers share and mutate them; sets of items are lists without equal
  elements, in some order. What the operating system, \<open>mutagen\<close> and the settings answer are
  arguments.
\<close>

subsection \<open>Directories and items\<close>

datatype share_mode = SHARE_EVERYONE | SHARE_FRIENDS | SHARE_USERS

type_synonym dir_ref = nat \<comment> \<open>a directory object, by reference\<close>

record shared_item =
  item_dir :: dir_ref            \<comment> \<open>\<open>shared_directory\<close>\<close>
  subdir :: pystr
  filename :: pystr
  modified :: rat

record shared_directory =
  directory :: pystr
  absolute_path :: pystr
  dir_alias :: pystr
  share_mode :: share_mode
  dir_users :: "pystr list"
  dir_items :: "shared_item list" \<comment> \<open>a set: no duplicates\<close>

record shares =
  objects :: "dir_ref \<Rightarrow> shared_directory" \<comment> \<open>the directory objects, shared or not\<close>
  next_ref :: dir_ref
  shared_directories :: "dir_ref list"
  term_map :: "(pystr \<times> shared_item list) list"   \<comment> \<open>\<open>_term_map\<close>: a dictionary to weak sets\<close>
  item_attributes :: "shared_item \<Rightarrow> (nat \<times> nat) list option"

text \<open>What the manager asks its surroundings: \<open>normpath(abspath(_))\<close>, the hardware address, the
  friends, sizes of files (\<open>None\<close>: the file is missing) and the tables of characters.\<close>

record shares_env =
  resolve :: "pystr \<Rightarrow> pystr"
  node_id :: "byte list"          \<comment> \<open>six bytes\<close>
  utf8 :: "pystr \<Rightarrow> byte list"
  share_friends :: "pystr set"
  file_size :: "pystr \<Rightarrow> nat option"
  alnum :: "nat \<Rightarrow> bool"
  lower1 :: "nat \<Rightarrow> nat"
  space :: "nat \<Rightarrow> bool"
  max_results :: nat

datatype shares_error = File_Not_Found | File_Not_Shared | Shared_Directory_Error

definition components :: "pystr \<Rightarrow> pystr list" where
  \<comment> \<open>the parts of an absolute POSIX path\<close>
  "components p = filter (\<lambda>part. part \<noteq> [])
     (foldr (\<lambda>c parts. if c = 47 then [] # parts else (case parts of [] \<Rightarrow> [[c]] | q # qs \<Rightarrow> (c # q) # qs)) p [[]])"

definition is_parent_path :: "pystr \<Rightarrow> pystr \<Rightarrow> bool" where
  \<comment> \<open>\<open>commonpath([path, parent]) == parent\<close> for normalized absolute paths\<close>
  "is_parent_path parent path \<longleftrightarrow> take (length (components parent)) (components path) = components parent"

definition is_parent_of :: "shared_directory \<Rightarrow> shared_directory \<Rightarrow> bool" where
  "is_parent_of d e \<longleftrightarrow> is_parent_path (absolute_path d) (absolute_path e)"

definition is_child_of :: "shared_directory \<Rightarrow> shared_directory \<Rightarrow> bool" where
  "is_child_of d e \<longleftrightarrow> is_parent_path (absolute_path e) (absolute_path d)"

definition same_directory :: "shared_directory \<Rightarrow> shared_directory \<Rightarrow> bool" where
  \<comment> \<open>equality of the dataclass\<close>
  "same_directory d e \<longleftrightarrow> directory d = directory e \<and> absolute_path d = absolute_path e \<and> dir_alias d = dir_alias e"

definition get_absolute_path :: "shares \<Rightarrow> shared_item \<Rightarrow> pystr" where
  "get_absolute_path sh i = path_join (path_join (absolute_path (objects sh (item_dir i))) (subdir i)) (filename i)"

definition at_prefix :: pystr where "at_prefix = [64, 64]" \<comment> \<open>\<open>'@@'\<close>\<close>

definition get_remote_path :: "shares \<Rightarrow> shared_item \<Rightarrow> pystr" where
  "get_remote_path sh i =
     normalize_remote_path (at_prefix @ path_join (path_join (dir_alias (objects sh (item_dir i))) (subdir i)) (filename i))"

definition get_remote_directory_path :: "shares \<Rightarrow> shared_item \<Rightarrow> pystr" where
  "get_remote_directory_path sh i =
     normalize_remote_path (at_prefix @ path_join (dir_alias (objects sh (item_dir i))) (subdir i))"

definition split_backslash :: "pystr \<Rightarrow> pystr list" where
  "split_backslash p =
     foldr (\<lambda>c parts. if c = 92 then [] # parts else (case parts of [] \<Rightarrow> [[c]] | q # qs \<Rightarrow> (c # q) # qs)) p [[]]"

definition remote_directory_parts :: "shares \<Rightarrow> shared_item \<Rightarrow> pystr list" where
  "remote_directory_parts sh i = split_backslash (get_remote_directory_path sh i)"

definition get_query_path :: "shared_item \<Rightarrow> pystr" where
  "get_query_path i = normalize_remote_path (path_join (subdir i) (filename i))"

definition get_items_for_directory :: "shares \<Rightarrow> shared_directory \<Rightarrow> shared_directory \<Rightarrow> shared_item list" where
  "get_items_for_directory sh d e = filter (\<lambda>i. is_parent_path (absolute_path e) (get_absolute_path sh i)) (dir_items d)"

subsection \<open>Looking up directories\<close>

definition get_shared_directory :: "shares_env \<Rightarrow> pystr \<Rightarrow> shares \<Rightarrow> shares_error + dir_ref" where
  "get_shared_directory env path sh =
     (case find (\<lambda>r. absolute_path (objects sh r) = resolve env path) (shared_directories sh) of
        Some r \<Rightarrow> Inr r | None \<Rightarrow> Inl Shared_Directory_Error)"

definition is_directory_shared :: "shares_env \<Rightarrow> pystr \<Rightarrow> shares \<Rightarrow> bool" where
  "is_directory_shared env path sh = (case get_shared_directory env path sh of Inl _ \<Rightarrow> False | Inr _ \<Rightarrow> True)"

definition get_parent_directories :: "dir_ref \<Rightarrow> shares \<Rightarrow> dir_ref list" where
  "get_parent_directories r sh = sort_key (\<lambda>p. length (absolute_path (objects sh p)))
     (filter (\<lambda>p. \<not> same_directory (objects sh p) (objects sh r) \<and> is_parent_of (objects sh p) (objects sh r))
       (shared_directories sh))"

definition get_child_directories :: "dir_ref \<Rightarrow> shares \<Rightarrow> dir_ref list" where
  "get_child_directories r sh =
     filter (\<lambda>c. \<not> same_directory (objects sh c) (objects sh r) \<and> is_child_of (objects sh c) (objects sh r))
       (shared_directories sh)"

definition set_object :: "dir_ref \<Rightarrow> shared_directory \<Rightarrow> shares \<Rightarrow> shares" where
  "set_object r d sh = sh\<lparr>objects := (objects sh)(r := d)\<rparr>"

subsection \<open>Aliases\<close>

definition ALIAS_LENGTH :: nat where "ALIAS_LENGTH = 5"

fun alias_chunks :: "byte list \<Rightarrow> byte list \<Rightarrow> nat \<Rightarrow> byte list \<Rightarrow> byte list" where
  \<comment> \<open>byte \<open>n\<close> of the path is mixed into position \<open>n mod 5\<close>\<close>
  "alias_chunks node arr n [] = arr"
| "alias_chunks node arr n (b # bs) =
     (let k = n mod ALIAS_LENGTH in alias_chunks node (arr[k := arr ! k XOR (b XOR node ! k)]) (n + 1) bs)"

definition generate_alias :: "shares_env \<Rightarrow> pystr \<Rightarrow> byte \<Rightarrow> pystr" where
  "generate_alias env path offset =
     map (\<lambda>b. unat b mod 26 + 97)
       (alias_chunks (node_id env) (replicate ALIAS_LENGTH (last (node_id env) OR offset)) 0 (utf8 env path))"

subsection \<open>The term map\<close>

definition item_eq :: "shares \<Rightarrow> shared_item \<Rightarrow> shared_item \<Rightarrow> bool" where
  \<comment> \<open>equality of the dataclass: the directory objects are compared by their fields\<close>
  "item_eq sh i j \<longleftrightarrow> same_directory (objects sh (item_dir i)) (objects sh (item_dir j))
     \<and> subdir i = subdir j \<and> filename i = filename j \<and> modified i = modified j"

definition item_terms :: "shares_env \<Rightarrow> shared_item \<Rightarrow> pystr list" where
  "item_terms env i = words (alnum env) (map (lower1 env) (subdir i @ [47] @ filename i))"

definition add_to_term :: "shares \<Rightarrow> shared_item \<Rightarrow> pystr \<Rightarrow> (pystr \<times> shared_item list) list \<Rightarrow> (pystr \<times> shared_item list) list" where
  \<comment> \<open>add to the weak set of a term: an element that equals one already there is not added\<close>
  "add_to_term sh i t tm =
     (let old = (case map_of tm t of None \<Rightarrow> [] | Some is \<Rightarrow> is)
      in AList.update t (if list_ex (item_eq sh i) old then old else old @ [i]) tm)"

definition add_item_to_term_map ::
    "shares_env \<Rightarrow> shares \<Rightarrow> shared_item \<Rightarrow> (pystr \<times> shared_item list) list \<Rightarrow> (pystr \<times> shared_item list) list" where
  "add_item_to_term_map env sh i tm = fold (add_to_term sh i) (item_terms env i) tm"

definition build_term_map :: "shares_env \<Rightarrow> dir_ref \<Rightarrow> shares \<Rightarrow> shares" where
  "build_term_map env r sh =
     sh\<lparr>term_map := fold (add_item_to_term_map env sh) (dir_items (objects sh r)) (term_map sh)\<rparr>"

definition rebuild_term_map :: "shares_env \<Rightarrow> shares \<Rightarrow> shares" where
  "rebuild_term_map env sh = fold (build_term_map env) (shared_directories sh) (sh\<lparr>term_map := []\<rparr>)"

definition cleanup_term_map :: "shares \<Rightarrow> shares" where
  "cleanup_term_map sh = sh\<lparr>term_map := filter (\<lambda>(t, is). is \<noteq> []) (term_map sh)\<rparr>"

definition drop_dead_items :: "(shared_item \<Rightarrow> bool) \<Rightarrow> shares \<Rightarrow> shares" where
  \<comment> \<open>the weak sets lose the items that are neither in a shared directory nor \<open>held\<close> elsewhere\<close>
  "drop_dead_items held sh =
     sh\<lparr>term_map := map (\<lambda>(t, is). (t, filter (\<lambda>i. held i \<or>
       list_ex (\<lambda>r. i \<in> set (dir_items (objects sh r))) (shared_directories sh)) is)) (term_map sh)\<rparr>"

definition shared_items :: "shares \<Rightarrow> shared_item set" where
  "shared_items sh = (\<Union>r \<in> set (shared_directories sh). set (dir_items (objects sh r)))"

subsection \<open>Changing the directories\<close>

definition union_items :: "shares \<Rightarrow> shared_item list \<Rightarrow> shared_item list \<Rightarrow> shared_item list" where
  \<comment> \<open>\<open>|=\<close>: an element that equals one already there is dropped\<close>
  "union_items sh xs ys = xs @ filter (\<lambda>y. \<not> list_ex (\<lambda>x. item_eq sh x y) xs) ys"

definition add_shared_directory ::
    "shares_env \<Rightarrow> pystr \<Rightarrow> share_mode \<Rightarrow> pystr list \<Rightarrow> shares \<Rightarrow> (shares_error + dir_ref) \<times> shares" where
  "add_shared_directory env path mode users sh =
     (if is_directory_shared env path sh then (Inl Shared_Directory_Error, sh)
      else
        let abs = resolve env path;
            r = next_ref sh;
            d = \<lparr>directory = path, absolute_path = abs, dir_alias = generate_alias env abs 0,
                 share_mode = mode, dir_users = users, dir_items = []\<rparr>;
            sh1 = (set_object r d sh)\<lparr>next_ref := r + 1\<rparr>;
            parents = get_parent_directories r sh1;
            sh2 = (if parents = [] then sh1
              else
                let p = last parents;
                    moved = get_items_for_directory sh1 (objects sh1 p) d in
                set_object p ((objects sh1 p)\<lparr>dir_items := filter (\<lambda>i. i \<notin> set moved) (dir_items (objects sh1 p))\<rparr>)
                  (set_object r (d\<lparr>dir_items := moved\<rparr>) sh1))
        in (Inr r, sh2\<lparr>shared_directories := shared_directories sh2 @ [r]\<rparr>))"

definition update_shared_directory ::
    "dir_ref \<Rightarrow> share_mode option \<Rightarrow> pystr list option \<Rightarrow> shares \<Rightarrow> shares" where
  "update_shared_directory r mode users sh =
     (let d = objects sh r;
          d1 = (case mode of None \<Rightarrow> d | Some md \<Rightarrow> d\<lparr>share_mode := md\<rparr>);
          d2 = (case users of None \<Rightarrow> d1 | Some us \<Rightarrow> d1\<lparr>dir_users := us\<rparr>)
      in set_object r d2 sh)"

definition update_shared_path ::
    "shares_env \<Rightarrow> pystr \<Rightarrow> share_mode option \<Rightarrow> pystr list option \<Rightarrow> shares \<Rightarrow> (shares_error + dir_ref) \<times> shares" where
  \<comment> \<open>the directory is given by its path\<close>
  "update_shared_path env path mode users sh =
     (case get_shared_directory env path sh of
        Inl e \<Rightarrow> (Inl e, sh)
      | Inr r \<Rightarrow> (Inr r, update_shared_directory r mode users sh))"

fun remove_directory :: "shares \<Rightarrow> dir_ref \<Rightarrow> dir_ref list \<Rightarrow> dir_ref list" where
  \<comment> \<open>\<open>list.remove\<close>: the first that equals\<close>
  "remove_directory sh r [] = []"
| "remove_directory sh r (q # qs) =
     (if same_directory (objects sh q) (objects sh r) then qs else q # remove_directory sh r qs)"

definition is_registered :: "dir_ref \<Rightarrow> shares \<Rightarrow> bool" where
  \<comment> \<open>\<open>directory in self._shared_directories\<close>\<close>
  "is_registered r sh \<longleftrightarrow> list_ex (\<lambda>q. same_directory (objects sh q) (objects sh r)) (shared_directories sh)"

definition remove_shared_directory :: "dir_ref \<Rightarrow> shares \<Rightarrow> (shares_error + dir_ref) \<times> shares" where
  "remove_shared_directory r sh =
     (if \<not> is_registered r sh then (Inl Shared_Directory_Error, sh)
      else
        let sh1 = sh\<lparr>shared_directories := remove_directory sh r (shared_directories sh)\<rparr>;
            parents = get_parent_directories r sh1
        in (Inr r, cleanup_term_map (if parents = [] then sh1
            else let p = last parents in
              set_object p ((objects sh1 p)\<lparr>dir_items := union_items sh1 (dir_items (objects sh1 p)) (dir_items (objects sh1 r))\<rparr>) sh1)))"

definition remove_shared_path :: "shares_env \<Rightarrow> pystr \<Rightarrow> shares \<Rightarrow> (shares_error + dir_ref) \<times> shares" where
  "remove_shared_path env path sh =
     (case get_shared_directory env path sh of
        Inl e \<Rightarrow> (Inl e, sh)
      | Inr r \<Rightarrow> remove_shared_directory r sh)"

fun load_directories :: "shares_env \<Rightarrow> (pystr \<times> share_mode \<times> pystr list) list \<Rightarrow> shares \<Rightarrow> dir_ref list \<times> shares" where
  \<comment> \<open>the loop of \<open>load_from_settings\<close>\<close>
  "load_directories env [] sh = ([], sh)"
| "load_directories env ((path, mode, users) # es) sh =
     (case get_shared_directory env path sh of
        Inr r \<Rightarrow> (case load_directories env es (update_shared_directory r (Some mode) (Some users) sh) of
            (rs, sh') \<Rightarrow> (r # rs, sh'))
      | Inl _ \<Rightarrow> (case add_shared_directory env path mode users sh of
            (Inr r, sh1) \<Rightarrow> (case load_directories env es sh1 of (rs, sh') \<Rightarrow> (r # rs, sh'))
          | (Inl _, sh1) \<Rightarrow> load_directories env es sh1))"

definition load_from_settings :: "shares_env \<Rightarrow> (pystr \<times> share_mode \<times> pystr list) list \<Rightarrow> shares \<Rightarrow> shares" where
  "load_from_settings env entries sh =
     (case load_directories env entries sh of (rs, sh1) \<Rightarrow> rebuild_term_map env (sh1\<lparr>shared_directories := rs\<rparr>))"


subsection \<open>Scanning\<close>

type_synonym walk = "(pystr \<times> (pystr \<times> rat option) list) list"
  \<comment> \<open>\<open>os.walk\<close>: a directory and its files with their time, \<open>None\<close> for an \<open>OSError\<close>\<close>

definition join_slash :: "pystr list \<Rightarrow> pystr" where
  "join_slash ps = (case ps of [] \<Rightarrow> [] | q # qs \<Rightarrow> q @ concat (map (\<lambda>x. 47 # x) qs))"

definition relative_path :: "pystr \<Rightarrow> pystr \<Rightarrow> pystr" where
  \<comment> \<open>\<open>relpath\<close> of a directory below \<open>start\<close>, with the empty string for \<open>.\<close>\<close>
  "relative_path path start = join_slash (drop (length (components start)) (components path))"

definition scan_directory :: "shares_env \<Rightarrow> walk \<Rightarrow> dir_ref \<Rightarrow> dir_ref list \<Rightarrow> shares \<Rightarrow> shared_item list" where
  "scan_directory env w r kids sh =
     concat (map (\<lambda>(dir, files).
       if list_ex (\<lambda>c. is_parent_path (absolute_path (objects sh c)) (resolve env dir)) kids then []
       else List.map_filter (\<lambda>(name, time). case time of None \<Rightarrow> None
          | Some tm \<Rightarrow> Some \<lparr>item_dir = r, subdir = relative_path dir (absolute_path (objects sh r)),
              filename = name, modified = tm\<rparr>) files) w)"

definition xor_items :: "shares \<Rightarrow> shared_item list \<Rightarrow> shared_item list \<Rightarrow> shared_item list" where
  \<comment> \<open>\<open>^\<close>\<close>
  "xor_items sh xs ys = filter (\<lambda>x. \<not> list_ex (item_eq sh x) ys) xs @ filter (\<lambda>y. \<not> list_ex (item_eq sh y) xs) ys"

definition minus_items :: "shares \<Rightarrow> shared_item list \<Rightarrow> shared_item list \<Rightarrow> shared_item list" where
  "minus_items sh xs ys = filter (\<lambda>x. \<not> list_ex (item_eq sh x) ys) xs"

definition scan_directory_files ::
    "shares_env \<Rightarrow> (shared_item \<Rightarrow> bool) \<Rightarrow> walk option \<Rightarrow> dir_ref \<Rightarrow> shares \<Rightarrow> (shares_error + unit) \<times> shares" where
  \<comment> \<open>\<open>None\<close>: the scan raised an exception, which is logged. New items have no attributes\<close>
  "scan_directory_files env held w r sh =
     (if \<not> is_registered r sh then (Inl Shared_Directory_Error, sh)
      else
        let sh1 = (case w of
            None \<Rightarrow> sh
          | Some files \<Rightarrow>
              let found = scan_directory env files r (get_child_directories r sh) sh;
                  old = dir_items (objects sh r);
                  all = union_items sh old found
              in (set_object r ((objects sh r)\<lparr>dir_items := minus_items sh all (xor_items sh all found)\<rparr>) sh)
                   \<lparr>item_attributes := (\<lambda>i. if i \<in> set all \<and> i \<notin> set old then None else item_attributes sh i)\<rparr>)
        in (Inr (), cleanup_term_map (drop_dead_items held (build_term_map env r sh1))))"

definition scan_directory_file_attributes ::
    "(pystr \<Rightarrow> (nat \<times> nat) list option) \<Rightarrow> dir_ref \<Rightarrow> shares \<Rightarrow> shares" where
  \<comment> \<open>\<open>extract\<close> reads the attributes; \<open>None\<close> is an exception, which is logged\<close>
  "scan_directory_file_attributes extract r sh =
     sh\<lparr>item_attributes := (\<lambda>i.
       if i \<in> set (dir_items (objects sh r)) \<and> item_attributes sh i = None
       then extract (get_absolute_path sh i) else item_attributes sh i)\<rparr>"

subsection \<open>Locks and lookup of items\<close>

definition is_directory_locked :: "shares_env \<Rightarrow> shared_directory \<Rightarrow> pystr \<Rightarrow> bool" where
  "is_directory_locked env d user =
     (case share_mode d of
        SHARE_FRIENDS \<Rightarrow> user \<notin> share_friends env
      | SHARE_USERS \<Rightarrow> user \<notin> set (dir_users d)
      | SHARE_EVERYONE \<Rightarrow> False)"

definition is_item_locked :: "shares_env \<Rightarrow> shares \<Rightarrow> shared_item \<Rightarrow> pystr \<Rightarrow> bool" where
  "is_item_locked env sh i user = is_directory_locked env (objects sh (item_dir i)) user"

definition is_username :: "pystr option \<Rightarrow> bool" where
  \<comment> \<open>the truth value of an optional name\<close>
  "is_username u \<longleftrightarrow> u \<noteq> None \<and> u \<noteq> Some []"

fun item_in_directories ::
    "shares_env \<Rightarrow> pystr \<Rightarrow> pystr option \<Rightarrow> shares \<Rightarrow> dir_ref list \<Rightarrow> shares_error + shared_item" where
  "item_in_directories env path user sh [] = Inl File_Not_Found"
| "item_in_directories env path user sh (r # rs) =
     (case find (\<lambda>i. get_remote_path sh i = path) (dir_items (objects sh r)) of
        None \<Rightarrow> item_in_directories env path user sh rs
      | Some i \<Rightarrow> if is_username user \<and> is_item_locked env sh i (the user) then Inl File_Not_Shared else Inr i)"

definition get_shared_item_cache :: "shares_env \<Rightarrow> pystr \<Rightarrow> pystr option \<Rightarrow> shares \<Rightarrow> shares_error + shared_item" where
  "get_shared_item_cache env path user sh = item_in_directories env path user sh (shared_directories sh)"

definition get_shared_item :: "shares_env \<Rightarrow> pystr \<Rightarrow> pystr option \<Rightarrow> shares \<Rightarrow> shares_error + shared_item" where
  "get_shared_item env path user sh =
     bindE (get_shared_item_cache env path user sh) (\<lambda>i.
       if file_size env (get_absolute_path sh i) = None then Inl File_Not_Found else Inr i)"

definition find_shared_item_cache :: "shares_env \<Rightarrow> pystr \<Rightarrow> pystr option \<Rightarrow> shares \<Rightarrow> shared_item option" where
  "find_shared_item_cache env path user sh =
     (case get_shared_item_cache env path user sh of Inl _ \<Rightarrow> None | Inr i \<Rightarrow> Some i)"

definition find_shared_item :: "shares_env \<Rightarrow> pystr \<Rightarrow> pystr option \<Rightarrow> shares \<Rightarrow> shared_item option" where
  "find_shared_item env path user sh = (case get_shared_item env path user sh of Inl _ \<Rightarrow> None | Inr i \<Rightarrow> Some i)"

subsection \<open>Queries\<close>

definition term_keys :: "shares \<Rightarrow> pystr list" where
  "term_keys sh = map fst (term_map sh)"

definition items_of_term :: "shares \<Rightarrow> pystr \<Rightarrow> shared_item list" where
  "items_of_term sh t = (case map_of (term_map sh) t of None \<Rightarrow> [] | Some is \<Rightarrow> is)"

fun plain_terms :: "shares_env \<Rightarrow> shares \<Rightarrow> pystr list \<Rightarrow> pystr list option" where
  \<comment> \<open>the subterms of the include terms; \<open>None\<close>: one is not in the map and the query is over\<close>
  "plain_terms env sh [] = Some []"
| "plain_terms env sh (t # ts) =
     (if list_all (\<lambda>w. w \<in> set (term_keys sh)) (words (alnum env) t)
      then map_option (\<lambda>ws. words (alnum env) t @ ws) (plain_terms env sh ts) else None)"

definition wildcard_subterms :: "shares_env \<Rightarrow> shares \<Rightarrow> pystr \<Rightarrow> pystr list option" where
  \<comment> \<open>a first part stands for all the terms that end in it\<close>
  "wildcard_subterms env sh t =
     (case split_words (alnum env) t of
        [] \<Rightarrow> Some []
      | first # later \<Rightarrow>
          let ends = filter (\<lambda>k. drop (length k - length first) k = first \<and> length first \<le> length k) (term_keys sh);
              others = filter (\<lambda>w. w \<noteq> []) later in
          if first \<noteq> [] \<and> ends = [] then None
          else if \<not> list_all (\<lambda>w. w \<in> set (term_keys sh)) others then None
          else Some ((if first = [] then [] else ends) @ others))"

fun wildcard_all :: "shares_env \<Rightarrow> shares \<Rightarrow> pystr list \<Rightarrow> pystr list option" where
  "wildcard_all env sh [] = Some []"
| "wildcard_all env sh (t # ts) =
     (case wildcard_subterms env sh t of None \<Rightarrow> None
      | Some ws \<Rightarrow> map_option (\<lambda>vs. ws @ vs) (wildcard_all env sh ts))"

definition contains :: "pystr \<Rightarrow> pystr \<Rightarrow> bool" where
  \<comment> \<open>\<open>phrase in text\<close>\<close>
  "contains phrase txt \<longleftrightarrow> list_ex (\<lambda>i. take (length phrase) (drop i txt) = phrase) [0..<Suc (length txt)]"

definition keep_item :: "shares_env \<Rightarrow> search_query \<Rightarrow> pystr list \<Rightarrow> shared_item \<Rightarrow> bool" where
  "keep_item env q excluded i \<longleftrightarrow> matches (alnum env) (lower1 env) q (get_query_path i)
     \<and> \<not> list_ex (\<lambda>p. contains p (map (lower1 env) (get_query_path i))) excluded"

fun limited :: "shares_env \<Rightarrow> search_query \<Rightarrow> pystr list \<Rightarrow> nat \<Rightarrow> shared_item list \<Rightarrow> shared_item list" where
  \<comment> \<open>the loop over the found items: \<open>n\<close> were kept. The limit is looked at after every item
     whose terms match, also one that an excluded phrase removes\<close>
  "limited env q excluded n [] = []"
| "limited env q excluded n (i # is) =
     (if \<not> matches (alnum env) (lower1 env) q (get_query_path i) then limited env q excluded n is
      else let keep = keep_item env q excluded i; n' = (if keep then n + 1 else n) in
        (if keep then [i] else []) @ (if n' \<ge> max_results env then [] else limited env q excluded n' is))"

definition found_items :: "shares \<Rightarrow> pystr list \<Rightarrow> shared_item list" where
  \<comment> \<open>the items in which all the terms occur\<close>
  "found_items sh ts = (case ts of [] \<Rightarrow> []
     | t # _ \<Rightarrow> filter (\<lambda>i. list_all (\<lambda>u. list_ex (item_eq sh i) (items_of_term sh u)) ts) (items_of_term sh t))"

definition query_parsed ::
    "shares_env \<Rightarrow> search_query \<Rightarrow> pystr option \<Rightarrow> pystr list \<Rightarrow> shares \<Rightarrow> (shared_item list \<times> shared_item list) result" where
  \<comment> \<open>no term at all is an \<open>IndexError\<close>\<close>
  "query_parsed env q user excluded sh =
     (if \<not> has_inclusion_terms q then Inr ([], [])
      else case plain_terms env sh (include_terms q) of
        None \<Rightarrow> Inr ([], [])
      | Some ts \<Rightarrow> (case wildcard_all env sh (wildcard_terms q) of
          None \<Rightarrow> Inr ([], [])
        | Some us \<Rightarrow>
            if ts @ us = [] then Inl IndexError
            else
              let kept = limited env q excluded 0 (found_items sh (ts @ us)) in
              if is_username user then
                Inr (filter (\<lambda>i. \<not> is_item_locked env sh i (the user)) kept,
                     filter (\<lambda>i. is_item_locked env sh i (the user)) kept)
              else Inr (kept, [])))"

definition query :: "shares_env \<Rightarrow> pystr \<Rightarrow> pystr option \<Rightarrow> pystr list \<Rightarrow> shares \<Rightarrow> (shared_item list \<times> shared_item list) result" where
  "query env txt user excluded sh = query_parsed env (parse_query (alnum env) (lower1 env) (space env) txt) user excluded sh"


subsection \<open>Statistics and replies\<close>

definition get_stats :: "shares \<Rightarrow> nat \<times> nat" where
  "get_stats sh =
     (sum_list (map (\<lambda>r. length (remdups (map subdir (dir_items (objects sh r))))) (shared_directories sh)),
      sum_list (map (\<lambda>r. length (dir_items (objects sh r))) (shared_directories sh)))"

definition report_shares :: "bool \<Rightarrow> shares \<Rightarrow> (nat \<times> nat) list" where
  \<comment> \<open>the \<open>SharedFoldersFiles\<close> message, sent during a session\<close>
  "report_shares session sh = (if session then [get_stats sh] else [])"

definition get_shared_directories_for_user :: "shares_env \<Rightarrow> pystr \<Rightarrow> shares \<Rightarrow> dir_ref list \<times> dir_ref list" where
  "get_shared_directories_for_user env user sh =
     (filter (\<lambda>r. \<not> is_directory_locked env (objects sh r) user) (shared_directories sh),
      filter (\<lambda>r. is_directory_locked env (objects sh r) user) (shared_directories sh))"

record file_data =
  fd_unknown :: nat
  fd_filename :: pystr
  fd_filesize :: nat
  fd_extension :: pystr
  fd_attributes :: "(nat \<times> nat) list"

definition convert_item_to_file_data :: "shares_env \<Rightarrow> shares \<Rightarrow> bool \<Rightarrow> shared_item \<Rightarrow> file_data option" where
  \<comment> \<open>\<open>None\<close>: \<open>OSError\<close>, the file is missing\<close>
  "convert_item_to_file_data env sh use_full_path i =
     (case file_size env (get_absolute_path sh i) of
        None \<Rightarrow> None
      | Some n \<Rightarrow> Some \<lparr>fd_unknown = 1,
          fd_filename = (if use_full_path then get_remote_path sh i else filename i),
          fd_filesize = n,
          fd_extension = drop 1 (snd (splitext (filename i))),
          fd_attributes = (case item_attributes sh i of None \<Rightarrow> [] | Some as \<Rightarrow> as)\<rparr>)"

definition convert_items_to_file_data :: "shares_env \<Rightarrow> shares \<Rightarrow> bool \<Rightarrow> shared_item list \<Rightarrow> file_data list" where
  "convert_items_to_file_data env sh use_full_path is = List.map_filter (convert_item_to_file_data env sh use_full_path) is"

type_synonym directory_map = "(pystr list \<times> shared_item list) list"

definition ensure_key :: "pystr list \<Rightarrow> directory_map \<Rightarrow> directory_map" where
  "ensure_key k m = (if map_of m k = None then m @ [(k, [])] else m)"

definition append_item :: "pystr list \<Rightarrow> shared_item \<Rightarrow> directory_map \<Rightarrow> directory_map" where
  "append_item k i m = map (\<lambda>(k', is). (k', if k' = k then is @ [i] else is)) m"

definition add_unique_directory :: "shares \<Rightarrow> shared_item \<Rightarrow> directory_map \<Rightarrow> directory_map" where
  \<comment> \<open>all the paths above the item, then the item\<close>
  "add_unique_directory sh i m =
     (let path = remote_directory_parts sh i in
      append_item path i (fold (\<lambda>x m. ensure_key (take (x + 1) path) m) [0..<length path] m))"

definition list_unique_directories :: "shares \<Rightarrow> dir_ref list \<Rightarrow> directory_map" where
  "list_unique_directories sh rs = fold (add_unique_directory sh) (concat (map (\<lambda>r. dir_items (objects sh r)) rs)) []"

definition join_backslash :: "pystr list \<Rightarrow> pystr" where
  "join_backslash ps = (case ps of [] \<Rightarrow> [] | q # qs \<Rightarrow> q @ concat (map (\<lambda>x. 92 # x) qs))"

definition convert_to_directory_shares :: "shares_env \<Rightarrow> shares \<Rightarrow> directory_map \<Rightarrow> (pystr \<times> file_data list) list" where
  "convert_to_directory_shares env sh m =
     map (\<lambda>(path, is). (join_backslash path, convert_items_to_file_data env sh False is)) m"

definition create_shares_reply ::
    "shares_env \<Rightarrow> pystr \<Rightarrow> shares \<Rightarrow> (pystr \<times> file_data list) list \<times> (pystr \<times> file_data list) list" where
  "create_shares_reply env user sh =
     (case get_shared_directories_for_user env user sh of (visible_dirs, locked_dirs) \<Rightarrow>
        (convert_to_directory_shares env sh (list_unique_directories sh visible_dirs),
         convert_to_directory_shares env sh (list_unique_directories sh locked_dirs)))"

definition create_directory_reply :: "shares_env \<Rightarrow> pystr \<Rightarrow> shares \<Rightarrow> (pystr \<times> file_data list) list" where
  \<comment> \<open>no entry, or one with the files directly in the directory\<close>
  "create_directory_reply env remote_directory sh =
     (let parts = split_backslash remote_directory;
          all = concat (map (\<lambda>r. dir_items (objects sh r)) (shared_directories sh)) in
      if \<not> list_ex (\<lambda>i. take (length parts) (remote_directory_parts sh i) = parts) all then []
      else [(remote_directory,
             convert_items_to_file_data env sh False
               (filter (\<lambda>i. get_remote_directory_path sh i = remote_directory) all))])"

subsection \<open>The cache\<close>

text \<open>A pickled directory: its fields and its items, whose reference to the directory is dropped
  (\<open>__getstate__\<close>) and set again on reading.\<close>

record saved_directory =
  saved_directory :: shared_directory
  saved_items :: "(shared_item \<times> (nat \<times> nat) list option) list"

definition write_shares_cache :: "shares \<Rightarrow> saved_directory list" where
  "write_shares_cache sh = map (\<lambda>r. \<lparr>saved_directory = (objects sh r)\<lparr>dir_items := []\<rparr>,
     saved_items = map (\<lambda>i. (i, item_attributes sh i)) (dir_items (objects sh r))\<rparr>) (shared_directories sh)"

fun read_directories :: "saved_directory list \<Rightarrow> shares \<Rightarrow> shares" where
  "read_directories [] sh = sh"
| "read_directories (sd # sds) sh =
     (let r = next_ref sh;
          own = (\<lambda>(i, as). (i\<lparr>item_dir := r\<rparr>, as));
          items = map own (saved_items sd) in
      read_directories sds
        ((set_object r ((saved_directory sd)\<lparr>dir_items := map fst items\<rparr>) sh)
          \<lparr>next_ref := r + 1, shared_directories := shared_directories sh @ [r],
            item_attributes := (\<lambda>i. case map_of items i of None \<Rightarrow> item_attributes sh i | Some as \<Rightarrow> as)\<rparr>))"

definition read_shares_cache :: "saved_directory list \<Rightarrow> shares \<Rightarrow> shares" where
  "read_shares_cache saved sh = read_directories saved (sh\<lparr>shared_directories := []\<rparr>)"

definition load_data :: "shares_env \<Rightarrow> saved_directory list \<Rightarrow> (pystr \<times> share_mode \<times> pystr list) list \<Rightarrow> shares \<Rightarrow> shares" where
  "load_data env saved entries sh = load_from_settings env entries (read_shares_cache saved sh)"

end
