(* ===== verification/Query_Words.thy ===== *)
theory Query_Words
  imports Search_Query
begin

text \<open>
The words of a path and of a query term: where a term occurs in a path, its words are words of the
  path, whatever the normalization of separators. The laws of the character tables are a locale;
  parsed queries hold lowered terms with at least one word character.
\<close>

subsection \<open>Words\<close>

text \<open>What the queries rely on in Python's tables of characters: lowering a character keeps it a
  word character or none and is idempotent, and separators are no word characters.\<close>

locale text_tables =
  fixes alnum :: "nat \<Rightarrow> bool" and lower1 :: "nat \<Rightarrow> nat"
  assumes alnum_lower: "alnum (lower1 c) = alnum c"
    and lower_lower: "lower1 (lower1 c) = lower1 c"
    and slash: "\<not> alnum 47" and backslash: "\<not> alnum 92" and star: "\<not> alnum 42" and minus: "\<not> alnum 45"

interpretation ascii: text_tables ascii_alnum ascii_lower
  by unfold_locales (auto simp: ascii_alnum_def ascii_lower_def)

lemma split_words_not_Nil [simp]: "split_words alnum s \<noteq> []"
  by (induction s) (auto split: list.split)

lemma split_words_cut:
  "\<not> alnum c \<Longrightarrow> split_words alnum (a @ c # b) = split_words alnum a @ split_words alnum b"
  by (induction a) (auto split: list.split)

lemma words_cut: "\<not> alnum c \<Longrightarrow> words alnum (a @ c # b) = words alnum a @ words alnum b"
  by (simp add: words_def split_words_cut)

lemma words_Nil [simp]: "words alnum [] = []"
  by (simp add: words_def)

lemma words_skip [simp]: "\<not> alnum c \<Longrightarrow> words alnum (c # b) = words alnum b"
  using words_cut [of alnum c "[]" b] by simp

lemma words_snoc [simp]: "\<not> alnum c \<Longrightarrow> words alnum (a @ [c]) = words alnum a"
  using words_cut [of alnum c a "[]"] by simp

lemma words_before:
  assumes "starts_word alnum a"
  shows "words alnum (a @ b) = words alnum a @ words alnum b"
proof (cases a rule: rev_cases)
  case (snoc as c)
  then have c: "\<not> alnum c" using assms by (simp add: starts_word_def)
  show ?thesis using words_cut [where alnum = alnum and c = c and a = as and b = b] c by (simp add: snoc)
qed simp

lemma words_after:
  assumes "ends_word alnum b"
  shows "words alnum (a @ b) = words alnum a @ words alnum b"
proof (cases b)
  case (Cons c bs)
  then have c: "\<not> alnum c" using assms by (simp add: ends_word_def)
  show ?thesis using words_cut [where alnum = alnum and c = c and a = a and b = bs] c by (simp add: Cons)
qed simp

lemma words_letter:
  "alnum c \<Longrightarrow> words alnum (c # s) = (case split_words alnum s of w # ws \<Rightarrow> (c # w) # filter (\<lambda>w. w \<noteq> []) ws)"
  by (auto simp: words_def split: list.split)

lemma word_chars: "\<forall>w \<in> set (split_words alnum s). \<forall>c \<in> set w. alnum c"
  by (induction s) (auto split: list.splits if_splits)

lemma words_nonempty: "list_ex alnum s \<Longrightarrow> words alnum s \<noteq> []"
proof (induction s)
  case (Cons c s)
  then show ?case
    by (cases "alnum c") (auto simp: words_letter split: list.split)
qed simp

lemma words_word: "w \<in> set (words alnum s) \<Longrightarrow> words alnum w = [w]"
proof -
  assume w: "w \<in> set (words alnum s)"
  have one: "split_words alnum v = [v]" if "\<forall>c \<in> set v. alnum c" for v
    using that by (induction v) auto
  have "\<forall>c \<in> set w. alnum c" using w word_chars [of alnum s] by (auto simp: words_def)
  then show ?thesis using one w by (auto simp: words_def)
qed

context text_tables
begin

lemma split_words_lower: "split_words alnum (map lower1 s) = map (map lower1) (split_words alnum s)"
  by (induction s) (auto simp: alnum_lower split: list.splits)

lemma words_lower: "words alnum (map lower1 s) = map (map lower1) (words alnum s)"
  by (simp add: words_def split_words_lower filter_map comp_def)

lemma lower_idem [simp]: "map lower1 (map lower1 s) = map lower1 s"
  by (simp add: lower_lower)

lemma sep_no_word: "is_sep c \<Longrightarrow> \<not> alnum c"
  using slash backslash by (auto simp: is_sep_def)

lemma split_squeeze:
  "hd (split_words alnum (squeeze_seps s)) = hd (split_words alnum s)
    \<and> filter (\<lambda>w. w \<noteq> []) (tl (split_words alnum (squeeze_seps s))) = filter (\<lambda>w. w \<noteq> []) (tl (split_words alnum s))"
proof (induction s)
  case (Cons c s)
  have words_hd: "words alnum v = (if hd (split_words alnum v) = [] then [] else [hd (split_words alnum v)])
      @ filter (\<lambda>w. w \<noteq> []) (tl (split_words alnum v))" for v
    by (cases "split_words alnum v") (auto simp: words_def)
  have IH: "words alnum (squeeze_seps s) = words alnum s" using Cons.IH by (simp add: words_hd)
  show ?case
  proof (cases "is_sep c")
    case True
    then have c: "\<not> alnum c" by (rule sep_no_word)
    have tail: "filter (\<lambda>w. w \<noteq> []) (split_words alnum v) = words alnum v" for v by (simp add: words_def)
    obtain v where v: "squeeze_seps (c # s) = 92 # v" "words alnum v = words alnum s"
    proof (cases "\<exists>v. squeeze_seps s = 92 # v")
      case True
      then show ?thesis using that IH \<open>is_sep c\<close> backslash by auto
    next
      case False
      then have "squeeze_seps (c # s) = 92 # squeeze_seps s"
        using \<open>is_sep c\<close> by (cases "squeeze_seps s") auto
      then show ?thesis using that IH by blast
    qed
    show ?thesis using c backslash v(2) by (simp add: v(1) tail del: squeeze_seps.simps)
  next
    case False
    then show ?thesis using Cons.IH
      by (cases "split_words alnum (squeeze_seps s)"; cases "split_words alnum s") (auto simp: words_def split: list.splits)
  qed
qed simp

lemma words_squeeze: "words alnum (squeeze_seps s) = words alnum s"
  using split_squeeze [of s]
  by (cases "split_words alnum (squeeze_seps s)"; cases "split_words alnum s") (auto simp: words_def)

lemma words_rstrip: "words alnum (rstrip_seps s) = words alnum s"
proof (induction s rule: rev_induct)
  case (snoc c s)
  then show ?case by (auto simp: rstrip_seps_def sep_no_word)
qed (simp add: rstrip_seps_def)

lemma words_normalize: "words alnum (normalize_remote_path s) = words alnum s"
  by (simp add: normalize_remote_path_def words_rstrip words_squeeze)

lemma term_words:
  assumes "search_term alnum lower1 t path" "map lower1 t = t"
  shows "set (words alnum t) \<subseteq> set (words alnum (map lower1 path))"
proof -
  obtain i where i: "starts_word alnum (take i path)" "term_at alnum lower1 t (drop i path)"
    using assms(1) unfolding search_term_def list_ex_iff by blast
  let ?a = "take i path" and ?b = "take (length t) (drop i path)" and ?c = "drop (length t) (drop i path)"
  have path: "path = ?a @ ?b @ ?c" by (simp only: append_take_drop_id)
  have "ends_word alnum ?c" "map lower1 ?b = t" using i(2) assms(2) by (auto simp: term_at_def)
  then have "words alnum path = words alnum ?a @ words alnum ?b @ words alnum ?c"
    using i(1) by (subst path) (simp only: words_before words_after)
  then have "words alnum (map lower1 path)
      = map (map lower1) (words alnum ?a) @ map (map lower1) (words alnum ?b) @ map (map lower1) (words alnum ?c)"
    by (simp only: words_lower map_append)
  moreover have "map (map lower1) (words alnum ?b) = words alnum t"
    using \<open>map lower1 ?b = t\<close> words_lower [of ?b] by simp
  ultimately show ?thesis by auto
qed

end

subsection \<open>Parsed queries\<close>

definition query_terms_ok :: "(nat \<Rightarrow> bool) \<Rightarrow> (nat \<Rightarrow> nat) \<Rightarrow> search_query \<Rightarrow> bool" where
  "query_terms_ok alnum lower1 q \<longleftrightarrow>
     (\<forall>t \<in> set (include_terms q). map lower1 t = t \<and> words alnum t \<noteq> [])
     \<and> (\<forall>t \<in> set (wildcard_terms q). words alnum t \<noteq> [])"

lemma set_add_term [simp]: "set (add_term t ts) = insert t (set ts)"
  by (auto simp: add_term_def)

lemma split_space_nonempty: "[] \<notin> set (split_space space s)"
proof (induction s)
  case (Cons c s)
  have *: "[] \<notin> set (case ws of [] \<Rightarrow> [[c]] | w # ws' \<Rightarrow> (c # w) # ws')" if "[] \<notin> set ws" for ws :: "pystr list"
    using that by (cases ws) auto
  show ?case using Cons.IH * [OF Cons.IH] by (cases s) (simp_all add: split_space.simps(2) [of space c] del: split_space.simps(2))
qed simp

context text_tables
begin

lemma parse_term_ok:
  assumes "query_terms_ok alnum lower1 q" "t \<noteq> []"
  shows "query_terms_ok alnum lower1 (parse_term alnum lower1 t q)"
proof (cases "list_ex alnum (map lower1 t)")
  case True
  then have ws: "words alnum (map lower1 t) \<noteq> []" by (rule words_nonempty)
  have tl: "words alnum (tl (map lower1 t)) \<noteq> []" if h: "hd t = 42"
  proof -
    obtain ts where t: "t = 42 # ts" using assms(2) h by (cases t) auto
    then have "\<not> alnum (lower1 42)" using alnum_lower star by simp
    then show ?thesis using ws by (simp add: t)
  qed
  show ?thesis using assms(1) ws tl True
    by (simp add: query_terms_ok_def parse_term_def Let_def lower_lower)
qed (simp add: assms parse_term_def Let_def)

lemma fold_parse_ok:
  "[] \<notin> set ws \<Longrightarrow> query_terms_ok alnum lower1 q \<Longrightarrow> query_terms_ok alnum lower1 (fold (parse_term alnum lower1) ws q)"
proof (induction ws arbitrary: q)
  case (Cons w ws)
  have "query_terms_ok alnum lower1 (parse_term alnum lower1 w q)"
    by (rule parse_term_ok) (use Cons.prems in auto)
  then show ?case using Cons by simp
qed simp

lemma parse_query_ok: "query_terms_ok alnum lower1 (parse_query alnum lower1 space txt)"
  unfolding parse_query_def by (rule fold_parse_ok) (simp_all add: split_space_nonempty query_terms_ok_def)

lemma matching_words:
  assumes "query_terms_ok alnum lower1 q" "matches alnum lower1 q path" "t \<in> set (include_terms q)"
  shows "set (words alnum t) \<subseteq> set (words alnum (map lower1 path))"
  using assms term_words by (simp add: query_terms_ok_def matches_def list_all_iff)

end

end
