(* ===== verification/Shares_Properties.thy ===== *)
theory Shares_Properties
  imports Shares Query_Words
begin

text \<open>
Properties of the shares: the term map holds exactly the words of the shared items, queries find
  the matching items, replies list what is shared, scans and the cache keep the items.
\<close>

subsection \<open>The term map\<close>

definition values_distinct :: "shares \<Rightarrow> bool" where
  \<comment> \<open>no two shared items are equal as values\<close>
  "values_distinct sh \<longleftrightarrow> (\<forall>i \<in> shared_items sh. \<forall>j \<in> shared_items sh. item_eq sh i j \<longrightarrow> i = j)"

lemma item_eq_refl [simp]: "item_eq sh i i"
  by (simp add: item_eq_def same_directory_def)

lemma item_eq_mem:
  assumes "values_distinct sh" "i \<in> shared_items sh" "set xs \<subseteq> shared_items sh"
  shows "list_ex (item_eq sh i) xs \<longleftrightarrow> i \<in> set xs"
proof
  assume "list_ex (item_eq sh i) xs"
  then obtain j where "j \<in> set xs" "item_eq sh i j" by (auto simp: list_ex_iff)
  then show "i \<in> set xs" using assms unfolding values_distinct_def by blast
next
  assume "i \<in> set xs"
  then show "list_ex (item_eq sh i) xs" unfolding list_ex_iff by (intro bexI [where x = i] item_eq_refl)
qed

definition occurrences :: "(pystr \<times> shared_item list) list \<Rightarrow> pystr \<Rightarrow> shared_item list" where
  "occurrences tm t = (case map_of tm t of None \<Rightarrow> [] | Some is \<Rightarrow> is)"

lemma items_of_term_eq: "items_of_term sh = occurrences (term_map sh)"
  by (auto simp: items_of_term_def occurrences_def)

definition map_ok :: "shares \<Rightarrow> (pystr \<times> shared_item list) list \<Rightarrow> bool" where
  \<comment> \<open>the weak sets hold shared items, each once\<close>
  "map_ok sh tm \<longleftrightarrow> (\<forall>t. distinct (occurrences tm t) \<and> set (occurrences tm t) \<subseteq> shared_items sh)"

lemma occurrences_add:
  assumes "values_distinct sh" "map_ok sh tm" "i \<in> shared_items sh"
  shows "map_ok sh (add_to_term sh i t tm)"
    and "set (occurrences (add_to_term sh i t tm) u) = set (occurrences tm u) \<union> (if u = t then {i} else {})"
proof -
  have old: "list_ex (item_eq sh i) (occurrences tm t) \<longleftrightarrow> i \<in> set (occurrences tm t)"
    using item_eq_mem assms unfolding map_ok_def by blast
  have eq: "occurrences (add_to_term sh i t tm) u = (if u = t then (if i \<in> set (occurrences tm t)
      then occurrences tm t else occurrences tm t @ [i]) else occurrences tm u)" for u
    unfolding add_to_term_def Let_def
    by (cases "map_of tm t") (use old in \<open>simp_all add: occurrences_def update_conv'\<close>)
  show "set (occurrences (add_to_term sh i t tm) u) = set (occurrences tm u) \<union> (if u = t then {i} else {})"
    by (auto simp: eq)
  show "map_ok sh (add_to_term sh i t tm)"
    using assms(2,3) unfolding map_ok_def by (simp add: eq)
qed

lemma occurrences_add_terms:
  assumes "values_distinct sh" "i \<in> shared_items sh" "map_ok sh tm"
  shows "map_ok sh (fold (add_to_term sh i) ts tm)
    \<and> (\<forall>u. set (occurrences (fold (add_to_term sh i) ts tm) u) = set (occurrences tm u) \<union> (if u \<in> set ts then {i} else {}))"
  using assms(3)
proof (induction ts arbitrary: tm)
  case (Cons t ts)
  note add = occurrences_add [OF assms(1) Cons.prems assms(2), of t]
  show ?case using Cons.IH [OF add(1)] by (auto simp: add(2))
qed simp

lemma occurrences_add_items:
  assumes "values_distinct sh" "set is \<subseteq> shared_items sh" "map_ok sh tm"
  shows "map_ok sh (fold (add_item_to_term_map env sh) is tm)
    \<and> (\<forall>u. set (occurrences (fold (add_item_to_term_map env sh) is tm) u)
        = set (occurrences tm u) \<union> {i \<in> set is. u \<in> set (item_terms env i)})"
  using assms(2,3)
proof (induction "is" arbitrary: tm)
  case (Cons i "is")
  have add: "map_ok sh (add_item_to_term_map env sh i tm)
    \<and> (\<forall>u. set (occurrences (add_item_to_term_map env sh i tm) u)
        = set (occurrences tm u) \<union> (if u \<in> set (item_terms env i) then {i} else {}))"
    unfolding add_item_to_term_map_def by (rule occurrences_add_terms [OF assms(1)]) (use Cons.prems in auto)
  then have "map_ok sh (fold (add_item_to_term_map env sh) is (add_item_to_term_map env sh i tm))
    \<and> (\<forall>u. set (occurrences (fold (add_item_to_term_map env sh) is (add_item_to_term_map env sh i tm)) u)
        = set (occurrences (add_item_to_term_map env sh i tm) u) \<union> {i \<in> set is. u \<in> set (item_terms env i)})"
    using Cons by simp
  with add show ?case by auto
qed simp

lemma same_objects:
  assumes "objects sh' = objects sh"
  shows "item_eq sh' = item_eq sh"
  by (rule ext)+ (simp add: item_eq_def assms)

lemma add_item_same_objects:
  assumes "objects sh' = objects sh"
  shows "add_item_to_term_map env sh' = add_item_to_term_map env sh"
  by (rule ext)+ (simp add: add_item_to_term_map_def add_to_term_def [abs_def] same_objects [OF assms])

lemma rebuild_term_map_eq:
  "term_map (rebuild_term_map env sh) =
     fold (add_item_to_term_map env sh) (concat (map (\<lambda>r. dir_items (objects sh r)) (shared_directories sh))) []"
proof -
  have "term_map (fold (build_term_map env) rs sh') =
      fold (add_item_to_term_map env sh) (concat (map (\<lambda>r. dir_items (objects sh r)) rs)) (term_map sh')"
    if "objects sh' = objects sh" for rs sh'
    using that
  proof (induction rs arbitrary: sh')
    case (Cons r rs)
    have "objects (build_term_map env r sh') = objects sh" using Cons.prems by (simp add: build_term_map_def)
    from Cons.IH [OF this] show ?case using Cons.prems
      by (simp add: build_term_map_def add_item_same_objects [OF Cons.prems])
  qed simp
  then show ?thesis by (simp add: rebuild_term_map_def)
qed

lemma rebuild_occurrences:
  assumes "values_distinct sh"
  shows "map_ok sh (term_map (rebuild_term_map env sh))"
    and "set (occurrences (term_map (rebuild_term_map env sh)) u) = {i \<in> shared_items sh. u \<in> set (item_terms env i)}"
proof -
  have "map_ok sh []" by (simp add: map_ok_def occurrences_def)
  note all = occurrences_add_items [OF assms _ this, of "concat (map (\<lambda>r. dir_items (objects sh r)) (shared_directories sh))" env]
  have eq: "set (concat (map (\<lambda>r. dir_items (objects sh r)) (shared_directories sh))) = shared_items sh"
    by (auto simp: shared_items_def)
  show "map_ok sh (term_map (rebuild_term_map env sh))"
    using all unfolding rebuild_term_map_eq eq by simp
  show "set (occurrences (term_map (rebuild_term_map env sh)) u) = {i \<in> shared_items sh. u \<in> set (item_terms env i)}"
    using all unfolding rebuild_term_map_eq eq by (simp add: occurrences_def)
qed

subsection \<open>Queries\<close>

definition shares_ok :: "shares_env \<Rightarrow> shares \<Rightarrow> bool" where
  \<comment> \<open>the term map holds the shared items, each under its terms, and file names are names\<close>
  "shares_ok env sh \<longleftrightarrow> values_distinct sh \<and> map_ok sh (term_map sh)
     \<and> (\<forall>u. set (occurrences (term_map sh) u) = {i \<in> shared_items sh. u \<in> set (item_terms env i)})
     \<and> (\<forall>i \<in> shared_items sh. filename i \<noteq> [] \<and> hd (filename i) \<noteq> 47)"

lemma query_path_words:
  assumes "text_tables al lo" "filename i \<noteq> []" "hd (filename i) \<noteq> 47"
  shows "words al (get_query_path i) = words al (subdir i @ [47] @ filename i)"
proof -
  have slash: "\<not> al 47" by (rule text_tables.slash [OF assms(1)])
  have "words al (path_join (subdir i) (filename i)) = words al (subdir i @ [47] @ filename i)"
  proof (cases "subdir i" rule: rev_cases)
    case Nil
    then show ?thesis using assms(3) slash by (simp add: path_join_def)
  next
    case (snoc s c)
    have "words al ((s @ [47]) @ 47 # filename i) = words al ((s @ [47]) @ filename i)"
      using slash by (simp add: words_cut)
    then show ?thesis using assms(3) snoc by (simp add: path_join_def)
  qed
  then show ?thesis unfolding get_query_path_def by (simp add: text_tables.words_normalize [OF assms(1)])
qed

lemma item_terms_query_path:
  assumes "text_tables (alnum env) (lower1 env)" "filename i \<noteq> []" "hd (filename i) \<noteq> 47"
  shows "item_terms env i = words (alnum env) (map (lower1 env) (get_query_path i))"
  using query_path_words [OF assms]
  by (simp only: item_terms_def text_tables.words_lower [OF assms(1)])

lemma limited_Cons:
  "limited env q excluded n (i # is) =
     (if keep_item env q excluded i
      then i # (if max_results env \<le> n + 1 then [] else limited env q excluded (n + 1) is)
      else if matches (alnum env) (lower1 env) q (get_query_path i) \<and> max_results env \<le> n then []
      else limited env q excluded n is)"
  by (simp add: keep_item_def)

declare limited.simps(2) [simp del]

lemma limited_subset: "set (limited env q excluded n is) \<subseteq> {i \<in> set is. keep_item env q excluded i}"
  by (induction "is" arbitrary: n) (auto simp: limited_Cons)

lemma limited_distinct: "distinct is \<Longrightarrow> distinct (limited env q excluded n is)"
proof (induction "is" arbitrary: n)
  case (Cons i "is")
  then have "i \<notin> set (limited env q excluded m is)" for m using limited_subset by fastforce
  then show ?case using Cons by (simp add: limited_Cons)
qed simp

lemma limited_length: "length (limited env q excluded n is) \<le> max 1 (max_results env - n)"
proof (induction "is" arbitrary: n)
  case (Cons i "is")
  show ?case using Cons.IH [of n] Cons.IH [of "Suc n"] by (auto simp: limited_Cons max_def split: if_splits)
qed simp

lemma limited_complete:
  "n + length (limited env q excluded n is) < max_results env \<Longrightarrow>
     set (limited env q excluded n is) = {i \<in> set is. keep_item env q excluded i}"
proof (induction "is" arbitrary: n)
  case (Cons i "is")
  show ?case
  proof (cases "keep_item env q excluded i")
    case True
    then show ?thesis using Cons.prems Cons.IH [of "Suc n"] by (auto simp: limited_Cons split: if_splits)
  next
    case False
    then have "limited env q excluded n (i # is) = limited env q excluded n is"
      using Cons.prems by (simp add: limited_Cons split: if_splits)
    then show ?thesis using Cons.prems Cons.IH [of n] False by auto
  qed
qed simp

lemma plain_terms_all:
  "plain_terms env sh ts = (if \<forall>t \<in> set ts. \<forall>w \<in> set (words (alnum env) t). w \<in> set (term_keys sh)
     then Some (concat (map (words (alnum env)) ts)) else None)"
  by (induction ts) (auto simp: list_all_iff)

lemma wildcard_subterms_nonempty:
  "wildcard_subterms env sh t = Some us \<Longrightarrow> words (alnum env) t \<noteq> [] \<Longrightarrow> us \<noteq> []"
  by (auto simp: wildcard_subterms_def words_def Let_def split: list.splits if_splits)

lemma wildcard_all_nonempty:
  "wildcard_all env sh ts = Some us \<Longrightarrow> \<forall>t \<in> set ts. words (alnum env) t \<noteq> [] \<Longrightarrow> ts \<noteq> [] \<Longrightarrow> us \<noteq> []"
  by (cases ts) (auto split: option.splits dest: wildcard_subterms_nonempty)

lemma found_items_mem:
  assumes "values_distinct sh" "map_ok sh (term_map sh)" "ts \<noteq> []"
  shows "set (found_items sh ts) = {i. \<forall>t \<in> set ts. i \<in> set (items_of_term sh t)}"
    and "distinct (found_items sh ts)"
proof -
  obtain t us where ts: "ts = t # us" using assms(3) by (cases ts) auto
  have sub: "set (items_of_term sh u) \<subseteq> shared_items sh" for u
    using assms(2) by (simp add: map_ok_def items_of_term_eq)
  have mem: "list_ex (item_eq sh i) (items_of_term sh u) \<longleftrightarrow> i \<in> set (items_of_term sh u)"
    if i: "i \<in> set (items_of_term sh t)" for i u
    using item_eq_mem [OF assms(1) _ sub] sub [of t] i by blast
  show "set (found_items sh ts) = {i. \<forall>t \<in> set ts. i \<in> set (items_of_term sh t)}"
    using mem by (auto simp: found_items_def ts list_all_iff)
  show "distinct (found_items sh ts)"
    using assms(2) by (simp add: found_items_def ts map_ok_def items_of_term_eq)
qed

text \<open>All the items of a query as one list, and what the query returns.\<close>

definition query_terms :: "shares_env \<Rightarrow> shares \<Rightarrow> search_query \<Rightarrow> pystr list option" where
  "query_terms env sh q = (case plain_terms env sh (include_terms q) of None \<Rightarrow> None
     | Some ts \<Rightarrow> map_option (\<lambda>us. ts @ us) (wildcard_all env sh (wildcard_terms q)))"

definition answers :: "shares_env \<Rightarrow> shares \<Rightarrow> pystr option \<Rightarrow> shared_item list \<Rightarrow> shared_item list \<times> shared_item list" where
  "answers env sh user kept = (if is_username user
     then (filter (\<lambda>i. \<not> is_item_locked env sh i (the user)) kept, filter (\<lambda>i. is_item_locked env sh i (the user)) kept)
     else (kept, []))"

definition kept_items :: "shares_env \<Rightarrow> shares \<Rightarrow> search_query \<Rightarrow> pystr list \<Rightarrow> shared_item list" where
  "kept_items env sh q excluded = (case query_terms env sh q of None \<Rightarrow> []
     | Some ts \<Rightarrow> limited env q excluded 0 (found_items sh ts))"

lemma query_parsed_eq:
  assumes "query_terms_ok (alnum env) lo q" "has_inclusion_terms q"
  shows "query_parsed env q user excluded sh = Inr (answers env sh user (kept_items env sh q excluded))"
proof -
  have ne: "ts @ us \<noteq> []" if "plain_terms env sh (include_terms q) = Some ts" "wildcard_all env sh (wildcard_terms q) = Some us" for ts us
  proof (cases "include_terms q = []")
    case True
    then have "wildcard_terms q \<noteq> []" using assms(2) by (simp add: has_inclusion_terms_def)
    then show ?thesis using wildcard_all_nonempty [OF that(2)] assms(1) by (simp add: query_terms_ok_def)
  next
    case False
    then obtain t where "t \<in> set (include_terms q)" by (cases "include_terms q") auto
    then have "words (alnum env) t \<noteq> []" "t \<in> set (include_terms q)" using assms(1) by (auto simp: query_terms_ok_def)
    then show ?thesis using that(1) by (auto simp: plain_terms_all split: if_splits)
  qed
  show ?thesis
    using assms(2) ne by (auto simp: query_parsed_def query_terms_def answers_def kept_items_def Let_def split: option.splits)
qed

lemma query_eq:
  assumes "text_tables (alnum env) (lower1 env)" "q = parse_query (alnum env) (lower1 env) (space env) txt"
    and "has_inclusion_terms q"
  shows "query env txt user excluded sh = Inr (answers env sh user (kept_items env sh q excluded))"
  using query_parsed_eq [OF text_tables.parse_query_ok [OF assms(1)]] assms(2,3) by (simp add: query_def)

lemma answers_items: "answers env sh user kept = (v, l) \<Longrightarrow> set (v @ l) = set kept"
  by (auto simp: answers_def split: if_splits)

lemma shares_ok_occurrences:
  assumes "shares_ok env sh"
  shows "map_ok sh (term_map sh)"
    and "set (items_of_term sh u) = {i \<in> shared_items sh. u \<in> set (item_terms env i)}"
  using assms by (simp_all add: shares_ok_def items_of_term_eq)

lemma term_keys_mem: "i \<in> set (items_of_term sh u) \<Longrightarrow> u \<in> set (term_keys sh)"
  using domI [of "map_of (term_map sh)" u]
  by (cases "map_of (term_map sh) u") (simp_all add: items_of_term_def term_keys_def dom_map_of_conv_image_fst)

lemma matching_items_found:
  assumes "text_tables (alnum env) (lower1 env)" "shares_ok env sh"
    and "query_terms_ok (alnum env) (lower1 env) q" "wildcard_terms q = []" "include_terms q \<noteq> []"
    and "i \<in> shared_items sh" "matches (alnum env) (lower1 env) q (get_query_path i)"
  shows "\<exists>ts. query_terms env sh q = Some ts \<and> i \<in> set (found_items sh ts)"
proof -
  let ?ts = "concat (map (words (alnum env)) (include_terms q))"
  have "item_terms env i = words (alnum env) (map (lower1 env) (get_query_path i))"
    by (rule item_terms_query_path [OF assms(1)]) (use assms(2,6) in \<open>auto simp: shares_ok_def\<close>)
  then have terms: "u \<in> set (item_terms env i)" if "u \<in> set ?ts" for u
    using text_tables.matching_words [OF assms(1,3,7)] that by auto
  then have occ: "i \<in> set (items_of_term sh u)" if "u \<in> set ?ts" for u
    using shares_ok_occurrences(2) [OF assms(2)] assms(6) that by blast
  then have "query_terms env sh q = Some ?ts"
    using term_keys_mem assms(4) by (fastforce simp: query_terms_def plain_terms_all)
  moreover have "?ts \<noteq> []"
    using assms(3,5) by (cases "include_terms q") (auto simp: query_terms_ok_def)
  then have "i \<in> set (found_items sh ?ts)"
    using found_items_mem(1) [OF _ shares_ok_occurrences(1) [OF assms(2)]] occ assms(2) by (auto simp: shares_ok_def)
  ultimately show ?thesis by blast
qed

lemma found_items_shared:
  assumes "shares_ok env sh"
  shows "set (found_items sh ts) \<subseteq> shared_items sh" "distinct (found_items sh ts)"
proof -
  have "set (items_of_term sh u) \<subseteq> shared_items sh" "distinct (items_of_term sh u)" for u
    using shares_ok_occurrences(1) [OF assms] by (simp_all add: map_ok_def items_of_term_eq)
  then show "set (found_items sh ts) \<subseteq> shared_items sh" "distinct (found_items sh ts)"
    by (auto simp: found_items_def split: list.split)
qed

lemma kept_items_shared:
  assumes "shares_ok env sh"
  shows "set (kept_items env sh q excluded) \<subseteq> {i \<in> shared_items sh. keep_item env q excluded i}"
  using limited_subset found_items_shared(1) [OF assms] by (fastforce simp: kept_items_def split: option.splits)

lemma query_answers:
  assumes "text_tables (alnum env) (lower1 env)" "shares_ok env sh"
    and "q = parse_query (alnum env) (lower1 env) (space env) txt" "has_inclusion_terms q"
  shows "\<exists>visible locked. query env txt user excluded sh = Inr (visible, locked)
    \<and> distinct (visible @ locked)
    \<and> set (visible @ locked) \<subseteq> {i \<in> shared_items sh. keep_item env q excluded i}
    \<and> length (visible @ locked) \<le> max 1 (max_results env)
    \<and> (wildcard_terms q = [] \<and> length (visible @ locked) < max_results env
        \<longrightarrow> set (visible @ locked) = {i \<in> shared_items sh. keep_item env q excluded i})
    \<and> (\<forall>i \<in> set locked. is_username user \<and> is_item_locked env sh i (the user))
    \<and> (\<forall>i \<in> set visible. is_username user \<longrightarrow> \<not> is_item_locked env sh i (the user))"
proof -
  let ?kept = "kept_items env sh q excluded"
  let ?all = "{i \<in> shared_items sh. keep_item env q excluded i}"
  obtain v l where a: "answers env sh user ?kept = (v, l)" by fastforce
  have ok: "query_terms_ok (alnum env) (lower1 env) q"
    unfolding assms(3) by (rule text_tables.parse_query_ok [OF assms(1)])
  have q: "query env txt user excluded sh = Inr (v, l)"
    using query_eq [OF assms(1,3,4)] a by simp
  have sub: "set ?kept \<subseteq> ?all" by (rule kept_items_shared [OF assms(2)])
  have d: "distinct ?kept"
    using limited_distinct found_items_shared(2) [OF assms(2)] by (simp add: kept_items_def split: option.split)
  have len: "length ?kept \<le> max 1 (max_results env)"
    using limited_length [of env q excluded 0] by (simp add: kept_items_def split: option.split)
  have full: "set ?kept = ?all" if w: "wildcard_terms q = []" "length ?kept < max_results env"
  proof -
    have "i \<in> set ?kept" if i: "i \<in> ?all" for i
    proof -
      have "include_terms q \<noteq> []" using assms(4) w(1) by (simp add: has_inclusion_terms_def)
      then obtain ts where ts: "query_terms env sh q = Some ts" "i \<in> set (found_items sh ts)"
        using matching_items_found [OF assms(1,2) ok w(1)] i by (auto simp: keep_item_def)
      then have "set (limited env q excluded 0 (found_items sh ts)) = {i \<in> set (found_items sh ts). keep_item env q excluded i}"
        using limited_complete [of 0] w(2) by (simp add: kept_items_def)
      then show ?thesis using ts i by (simp add: kept_items_def)
    qed
    then show ?thesis using sub by blast
  qed
  have parts: "length (filter (\<lambda>i. \<not> P i) xs) + length (filter P xs) = length xs" for P and xs :: "shared_item list"
    using sum_length_filter_compl [of P xs] by simp
  have split: "set (v @ l) = set ?kept" "length (v @ l) = length ?kept" "distinct (v @ l)"
    using answers_items [OF a] a d by (auto simp: answers_def parts split: if_splits)
  have locks: "(\<forall>i \<in> set l. is_username user \<and> is_item_locked env sh i (the user))
    \<and> (\<forall>i \<in> set v. is_username user \<longrightarrow> \<not> is_item_locked env sh i (the user))"
    using a by (auto simp: answers_def split: if_splits)
  show ?thesis
    by (intro exI [of _ v] exI [of _ l] conjI) (use q split sub len full locks in simp_all)
qed


lemma build_fields [simp]:
  "objects (build_term_map env r sh) = objects sh"
  "shared_directories (build_term_map env r sh) = shared_directories sh"
  by (simp_all add: build_term_map_def)

lemma fold_build_fields [simp]:
  "objects (fold (build_term_map env) rs sh) = objects sh"
  "shared_directories (fold (build_term_map env) rs sh) = shared_directories sh"
  by (induction rs arbitrary: sh) simp_all

lemma rebuild_fields [simp]:
  "objects (rebuild_term_map env sh) = objects sh"
  "shared_directories (rebuild_term_map env sh) = shared_directories sh"
  by (simp_all add: rebuild_term_map_def)

lemma rebuild_again: "term_map (rebuild_term_map env (rebuild_term_map env sh)) = term_map (rebuild_term_map env sh)"
  unfolding rebuild_term_map_eq by (simp add: add_item_same_objects [of "rebuild_term_map env sh" sh])

definition ello :: pystr where "ello = [101, 108, 108, 111]"

definition witness_item :: "nat \<Rightarrow> shared_item" where
  \<comment> \<open>\<open>hello.mp3\<close> or \<open>cello.mp3\<close>, by its first letter\<close>
  "witness_item c = \<lparr>item_dir = 0, subdir = [], filename = c # ello @ [46, 109, 112, 51], modified = 0\<rparr>"

definition ascii_env :: shares_env where
  "ascii_env = \<lparr>resolve = id, node_id = replicate 6 0, utf8 = (\<lambda>_. []), share_friends = {}, file_size = (\<lambda>_. Some 1),
     alnum = ascii_alnum, lower1 = ascii_lower, space = (\<lambda>c. c = 32), max_results = 10\<rparr>"

definition witness_shares :: shares where
  "witness_shares = rebuild_term_map ascii_env
     \<lparr>objects = (\<lambda>_. \<lparr>directory = [47], absolute_path = [47], dir_alias = [97], share_mode = SHARE_EVERYONE,
        dir_users = [], dir_items = [witness_item 104, witness_item 99]\<rparr>),
      next_ref = 1, shared_directories = [0], term_map = [], item_attributes = (\<lambda>_. None)\<rparr>"

lemma ascii_env_tables: "text_tables (alnum ascii_env) (lower1 ascii_env)"
  using ascii.text_tables_axioms by (simp add: ascii_env_def)

lemma witness_shares_items: "shared_items witness_shares = {witness_item 104, witness_item 99}"
  by (simp add: shared_items_def witness_shares_def)

lemma witness_shares_ok: "shares_ok ascii_env witness_shares"
proof -
  have "values_distinct witness_shares"
    unfolding values_distinct_def witness_shares_items by (simp add: item_eq_def witness_item_def)
  moreover have eq: "term_map (rebuild_term_map ascii_env witness_shares) = term_map witness_shares"
    by (simp add: witness_shares_def rebuild_again)
  moreover have "\<forall>i \<in> shared_items witness_shares. filename i \<noteq> [] \<and> hd (filename i) \<noteq> 47"
    unfolding witness_shares_items by (simp add: witness_item_def)
  ultimately show ?thesis
    using rebuild_occurrences [of witness_shares ascii_env] by (simp add: shares_ok_def)
qed

lemma witness_terms:
  "item_terms ascii_env (witness_item c) = words ascii_alnum (ascii_lower c # ello @ [46, 109, 112, 51])"
  by (simp add: item_terms_def ascii_env_def witness_item_def ello_def ascii_alnum_def ascii_lower_def)


text \<open>An item is found for a wildcard term only if every term of the term map with that ending
  occurs in its path: the terms a wildcard stands for are intersected although one of them would do,
  so two files that both match a wildcard by different words hide each other.\<close>

theorem wildcard_matches_are_intersected:
  assumes "text_tables (alnum env) (lower1 env)" "shares_ok env sh"
    and "query env txt user excluded sh = Inr (visible, locked)" "i \<in> set (visible @ locked)"
    and "w \<in> set (wildcard_terms (parse_query (alnum env) (lower1 env) (space env) txt))"
    and "split_words (alnum env) w = [w]" "p @ w \<in> set (term_keys sh)"
  shows "p @ w \<in> set (item_terms env i)"
proof -
  let ?q = "parse_query (alnum env) (lower1 env) (space env) txt"
  have ok: "query_terms_ok (alnum env) (lower1 env) ?q" by (rule text_tables.parse_query_ok [OF assms(1)])
  then have "w \<noteq> []" using assms(5) by (auto simp: query_terms_ok_def)
  have "has_inclusion_terms ?q" using assms(5) by (auto simp: has_inclusion_terms_def)
  then have "answers env sh user (kept_items env sh ?q excluded) = (visible, locked)"
    using query_eq [OF assms(1) refl] assms(3) by simp
  then have "i \<in> set (kept_items env sh ?q excluded)" using answers_items assms(4) by blast
  then obtain ts where ts: "query_terms env sh ?q = Some ts" "i \<in> set (limited env ?q excluded 0 (found_items sh ts))"
    by (cases "query_terms env sh ?q") (auto simp: kept_items_def)
  have found: "i \<in> set (found_items sh ts)" using ts(2) limited_subset by fastforce
  have "p @ w \<in> set us" if "wildcard_all env sh ws = Some us" "w \<in> set ws" for ws us
    using that
  proof (induction ws arbitrary: us)
    case (Cons x ws)
    have "p @ w \<in> set vs" if "wildcard_subterms env sh w = Some vs" for vs
      using that assms(6,7) \<open>w \<noteq> []\<close> by (auto simp: wildcard_subterms_def Let_def split: if_splits)
    then show ?case using Cons by (auto split: option.splits)
  qed simp
  then have "p @ w \<in> set ts"
    using ts(1) assms(5) by (auto simp: query_terms_def split: option.splits)
  moreover have "ts \<noteq> []" using found by (auto simp: found_items_def)
  ultimately have "i \<in> set (items_of_term sh (p @ w))"
    using found_items_mem(1) [OF _ shares_ok_occurrences(1) [OF assms(2)], of ts] found assms(2)
    by (auto simp: shares_ok_def)
  then show ?thesis using shares_ok_occurrences(2) [OF assms(2)] by blast
qed

lemma wildcard_matches_are_intersected_witness:
  "\<exists>q. q = parse_query ascii_alnum ascii_lower (\<lambda>c. c = 32) (42 # ello)
     \<and> keep_item ascii_env q [] (witness_item 104) \<and> keep_item ascii_env q [] (witness_item 99)
     \<and> query ascii_env (42 # ello) None [] witness_shares = Inr ([], [])"
proof -
  let ?q = "parse_query (alnum ascii_env) (lower1 ascii_env) (space ascii_env) (42 # ello)"
  have q: "?q = \<lparr>query_text = 42 # ello, include_terms = [], exclude_terms = [], wildcard_terms = [ello]\<rparr>"
    by (simp add: parse_query_def ascii_env_def ello_def parse_term_def ascii_alnum_def ascii_lower_def add_term_def Let_def)
  have keys: "c # ello \<in> set (term_keys witness_shares)" if c: "c \<in> {104, 99}" for c
  proof -
    have "c # ello \<in> set (item_terms ascii_env (witness_item c))"
      using c by (auto simp: witness_terms words_def ello_def ascii_alnum_def ascii_lower_def)
    then have "witness_item c \<in> set (items_of_term witness_shares (c # ello))"
      using shares_ok_occurrences(2) [OF witness_shares_ok] c witness_shares_items by auto
    then show ?thesis by (rule term_keys_mem)
  qed
  obtain v l where r: "query ascii_env (42 # ello) None [] witness_shares = Inr (v, l)"
    "set (v @ l) \<subseteq> shared_items witness_shares"
  proof -
    let ?kept = "kept_items ascii_env witness_shares ?q []"
    have "has_inclusion_terms ?q" using q by (simp add: has_inclusion_terms_def)
    then have "query ascii_env (42 # ello) None [] witness_shares = Inr (?kept, [])"
      using query_eq [OF ascii_env_tables refl] by (simp add: answers_def is_username_def)
    then show ?thesis using that kept_items_shared [OF witness_shares_ok] by fastforce
  qed
  have "i \<notin> set (v @ l)" for i
  proof
    assume i: "i \<in> set (v @ l)"
    have "[c] @ ello \<in> set (item_terms ascii_env i)" if c: "c \<in> {104, 99}" for c
      by (rule wildcard_matches_are_intersected [OF ascii_env_tables witness_shares_ok r(1) i])
        (use keys [OF c] q in \<open>auto simp: ascii_env_def ello_def ascii_alnum_def\<close>)
    then have "104 # ello \<in> set (item_terms ascii_env i)" "99 # ello \<in> set (item_terms ascii_env i)" by auto
    then show False using i r(2) unfolding witness_shares_items
      by (auto simp: witness_terms words_def ello_def ascii_alnum_def ascii_lower_def)
  qed
  then have "set (v @ l) = {}" unfolding all_not_in_conv [symmetric] by (rule allI)
  then have "v = []" "l = []" by simp_all
  moreover have "keep_item ascii_env ?q [] (witness_item c)" if "c \<in> {104, 99}" for c
    using that unfolding q
    by (auto simp: keep_item_def matches_def search_wildcard_def ascii_env_def witness_item_def get_query_path_def
        normalize_remote_path_def rstrip_seps_def path_join_def is_sep_def ello_def starts_word_def term_at_def
        ends_word_def ascii_alnum_def ascii_lower_def upt_rec)
  ultimately show ?thesis using r(1) by (auto simp: ascii_env_def)
qed

subsection \<open>Lists of directories\<close>

lemma split_backslash_Cons:
  "split_backslash (c # p) = (if c = 92 then [] # split_backslash p
     else (c # hd (split_backslash p)) # tl (split_backslash p))"
  "split_backslash p \<noteq> []"
proof -
  show ne: "split_backslash p \<noteq> []" for p
    by (induction p) (simp_all add: split_backslash_def split: list.split)
  show "split_backslash (c # p) = (if c = 92 then [] # split_backslash p
     else (c # hd (split_backslash p)) # tl (split_backslash p))"
    using ne [of p] by (cases "split_backslash p") (simp_all add: split_backslash_def)
qed

lemma split_backslash_Nil [simp]: "split_backslash [] = [[]]"
  by (simp add: split_backslash_def)

lemma join_Cons: "join_backslash (q # qs) = q @ concat (map (\<lambda>x. 92 # x) qs)"
  by (simp add: join_backslash_def)

lemma join_split [simp]: "join_backslash (split_backslash p) = p"
proof (induction p)
  case (Cons c p)
  obtain q qs where "split_backslash p = q # qs" using split_backslash_Cons(2) [of p] by (cases "split_backslash p") auto
  then show ?case using Cons by (simp add: split_backslash_Cons(1) join_Cons)
qed (simp add: join_backslash_def)

lemma split_plain: "92 \<notin> set q \<Longrightarrow> split_backslash q = [q]"
  by (induction q) (simp_all add: split_backslash_Cons(1))

lemma split_append: "92 \<notin> set q \<Longrightarrow> split_backslash (q @ 92 # p) = q # split_backslash p"
  by (induction q) (simp_all add: split_backslash_Cons(1))

lemma split_join: "qs \<noteq> [] \<Longrightarrow> \<forall>q \<in> set qs. 92 \<notin> set q \<Longrightarrow> split_backslash (join_backslash qs) = qs"
proof (induction qs)
  case (Cons q qs)
  show ?case
  proof (cases qs)
    case Nil
    then show ?thesis using Cons.prems by (simp add: join_Cons split_plain)
  next
    case (Cons r rs)
    then have "join_backslash (q # qs) = q @ 92 # join_backslash qs" by (simp add: join_Cons)
    then show ?thesis using Cons.IH Cons Cons.prems by (simp add: split_append)
  qed
qed simp

lemma split_no_backslash: "q \<in> set (split_backslash p) \<Longrightarrow> 92 \<notin> set q"
proof (induction p arbitrary: q)
  case (Cons c p)
  obtain r rs where "split_backslash p = r # rs" using split_backslash_Cons(2) [of p] by (cases "split_backslash p") auto
  then show ?case using Cons by (auto simp: split_backslash_Cons(1) split: if_splits)
qed simp

definition directory_keys :: "shares \<Rightarrow> shared_item \<Rightarrow> pystr list set" where
  "directory_keys sh i = {take (Suc x) (remote_directory_parts sh i) | x. x < length (remote_directory_parts sh i)}"

lemma parts_key: "remote_directory_parts sh i \<in> directory_keys sh i"
proof -
  have "remote_directory_parts sh i \<noteq> []" by (simp add: remote_directory_parts_def split_backslash_Cons(2))
  then have "remote_directory_parts sh i = take (Suc (length (remote_directory_parts sh i) - 1)) (remote_directory_parts sh i)"
    "length (remote_directory_parts sh i) - 1 < length (remote_directory_parts sh i)" by simp_all
  then show ?thesis unfolding directory_keys_def by blast
qed

lemma ensure_keys:
  "fold (\<lambda>x m. ensure_key (f x) m) xs m = m @ map (\<lambda>k. (k, [])) (fold (\<lambda>x new. if f x \<in> fst ` set m \<union> set new then new else new @ [f x]) xs [])"
  (is "_ = m @ map _ (?new xs)")
  by (induction xs rule: rev_induct) (auto simp: ensure_key_def map_of_eq_None_iff image_Un image_image)

lemma new_keys:
  fixes m :: "('a \<times> 'b) list"
  defines "new \<equiv> \<lambda>f xs. fold (\<lambda>x new. if f x \<in> fst ` set m \<union> set new then new else new @ [f x]) xs []"
  shows "distinct (new f xs)" "set (new f xs) = f ` set xs - fst ` set m"
  unfolding new_def by (induction xs rule: rev_induct) auto

lemma add_unique:
  "add_unique_directory sh i m = append_item (remote_directory_parts sh i) i (m @ map (\<lambda>k. (k, []))
     (fold (\<lambda>x new. if (\<lambda>x. take (x + 1) (remote_directory_parts sh i)) x \<in> fst ` set m \<union> set new then new
        else new @ [(\<lambda>x. take (x + 1) (remote_directory_parts sh i)) x]) [0..<length (remote_directory_parts sh i)] []))"
  unfolding add_unique_directory_def Let_def ensure_keys by (rule refl)

lemma unique_directories:
  "let m = fold (add_unique_directory sh) is [] in distinct (map fst m)
     \<and> fst ` set m = (\<Union>i \<in> set is. directory_keys sh i)
     \<and> (\<forall>(k, js) \<in> set m. js = filter (\<lambda>i. remote_directory_parts sh i = k) is)"
proof (induction "is" rule: rev_induct)
  case (snoc i "is")
  let ?m = "fold (add_unique_directory sh) is []"
  let ?path = "remote_directory_parts sh i"
  define new where "new = fold (\<lambda>x new. if take (x + 1) ?path \<in> fst ` set ?m \<union> set new then new else new @ [take (x + 1) ?path]) [0..<length ?path] []"
  have keys: "(\<lambda>x. take (x + 1) ?path) ` set [0..<length ?path] = directory_keys sh i"
    by (auto simp: directory_keys_def)
  have new: "distinct new" "set new = directory_keys sh i - fst ` set ?m"
    unfolding new_def
    using new_keys [where m = ?m and f = "\<lambda>x. take (x + 1) ?path" and xs = "[0..<length ?path]"] keys by simp_all
  have m: "fold (add_unique_directory sh) (is @ [i]) [] = append_item ?path i (?m @ map (\<lambda>k. (k, [])) new)"
    unfolding new_def fold_append comp_apply fold_simps add_unique by (rule refl)
  have fresh: "filter (\<lambda>j. remote_directory_parts sh j = k) is = []" if "k \<in> set new" for k
    using that new(2) snoc parts_key by (auto simp: filter_empty_conv Let_def)
  have fsts: "map fst (append_item k i m) = map fst m" for k and m :: directory_map
    by (simp add: append_item_def comp_def split_def)
  have "distinct (map fst (?m @ map (\<lambda>k. (k, [])) new))"
    using snoc new by (auto simp: Let_def comp_def)
  moreover have "fst ` set (append_item ?path i (?m @ map (\<lambda>k. (k, [])) new)) = (\<Union>i \<in> set (is @ [i]). directory_keys sh i)"
    using snoc new(2) fsts [of ?path] unfolding set_map [symmetric] by (simp add: Let_def comp_def image_Un) blast
  moreover have "js = filter (\<lambda>j. remote_directory_parts sh j = k) (is @ [i])"
    if "(k, js) \<in> set (append_item ?path i (?m @ map (\<lambda>k. (k, [])) new))" for k js
    using that snoc fresh by (auto simp: append_item_def Let_def split: if_splits)
  ultimately show ?case unfolding m Let_def fsts by blast
qed simp

lemma key_split: "k \<in> directory_keys sh i \<Longrightarrow> split_backslash (join_backslash k) = k"
  unfolding directory_keys_def
  by (rule split_join) (auto simp: remote_directory_parts_def split_backslash_Cons(2) dest!: in_set_takeD split_no_backslash)

lemma key_is_path:
  "k \<in> directory_keys sh j \<Longrightarrow> remote_directory_parts sh i = k \<longleftrightarrow> get_remote_directory_path sh i = join_backslash k"
  using key_split [of k sh j] join_split [of "get_remote_directory_path sh i"]
  unfolding remote_directory_parts_def by metis

lemma directory_shares:
  assumes "items = concat (map (\<lambda>r. dir_items (objects sh r)) rs)"
    and "reply = convert_to_directory_shares env sh (list_unique_directories sh rs)"
  shows "distinct (map fst reply)
    \<and> (\<forall>(name, files) \<in> set reply. files = convert_items_to_file_data env sh False
          (filter (\<lambda>i. get_remote_directory_path sh i = name) items))
    \<and> (\<forall>i \<in> set items. get_remote_directory_path sh i \<in> fst ` set reply)"
proof (intro conjI ballI)
  let ?m = "list_unique_directories sh rs"
  have m: "distinct (map fst ?m)" "fst ` set ?m = (\<Union>i \<in> set items. directory_keys sh i)"
    "\<And>k js. (k, js) \<in> set ?m \<Longrightarrow> js = filter (\<lambda>i. remote_directory_parts sh i = k) items"
    using unique_directories [of sh items] unfolding list_unique_directories_def assms(1) Let_def by blast+
  have fsts: "map fst reply = map join_backslash (map fst ?m)"
    by (simp add: assms(2) convert_to_directory_shares_def split_def)
  have "inj_on join_backslash (fst ` set ?m)"
    unfolding m(2) by (rule inj_on_inverseI [of _ split_backslash]) (auto dest: key_split)
  then show "distinct (map fst reply)" unfolding fsts using m(1) by (subst distinct_map) simp
  show "get_remote_directory_path sh i \<in> fst ` set reply" if i: "i \<in> set items" for i
  proof -
    have "remote_directory_parts sh i \<in> fst ` set ?m" using i parts_key m(2) by blast
    then have "join_backslash (remote_directory_parts sh i) \<in> set (map fst reply)" unfolding fsts set_map by (rule imageI)
    then show ?thesis by (simp add: remote_directory_parts_def)
  qed
  fix e assume "e \<in> set reply"
  then obtain k js where k: "(k, js) \<in> set ?m" and e: "e = (join_backslash k, convert_items_to_file_data env sh False js)"
    by (auto simp: assms(2) convert_to_directory_shares_def)
  have "k \<in> fst ` set ?m" using imageI [OF k, of fst] by simp
  then obtain j where "k \<in> directory_keys sh j" unfolding m(2) by blast
  then show "case e of (name, files) \<Rightarrow> files = convert_items_to_file_data env sh False
          (filter (\<lambda>i. get_remote_directory_path sh i = name) items)"
    using m(3) [OF k] by (simp add: e key_is_path)
qed

text \<open>C27: A shares reply names every directory once, and under the name of a directory it gives the
  files of exactly the items whose remote directory it is, in order: the unlocked part of the reply
  the items of the directories the user may see, the locked part those of the directories it may not.
  No item of a shared directory is left out: its remote directory is named. (The directories above
  are named too, with no files.)\<close>

theorem shares_reply_lists_every_file:
  assumes "create_shares_reply env user sh = (visible, locked)"
  shows "\<forall>(is_locked, reply) \<in> {(False, visible), (True, locked)}.
    let items = concat (map (\<lambda>r. dir_items (objects sh r))
          (filter (\<lambda>r. is_directory_locked env (objects sh r) user = is_locked) (shared_directories sh)))
    in distinct (map fst reply)
      \<and> (\<forall>(name, files) \<in> set reply. files = convert_items_to_file_data env sh False
            (filter (\<lambda>i. get_remote_directory_path sh i = name) items))
      \<and> (\<forall>i \<in> set items. get_remote_directory_path sh i \<in> fst ` set reply)"
  using directory_shares [OF refl, of visible env sh "filter (\<lambda>r. \<not> is_directory_locked env (objects sh r) user) (shared_directories sh)"]
    directory_shares [OF refl, of locked env sh "filter (\<lambda>r. is_directory_locked env (objects sh r) user) (shared_directories sh)"]
    assms
  by (simp add: create_shares_reply_def get_shared_directories_for_user_def Let_def)

definition witness_locked :: shares where
  \<comment> \<open>one directory for everyone, one for friends\<close>
  "witness_locked = \<lparr>objects = (\<lambda>r. \<lparr>directory = [47], absolute_path = [47], dir_alias = [97 + r],
        share_mode = (if r = 0 then SHARE_EVERYONE else SHARE_FRIENDS),
        dir_users = [], dir_items = [\<lparr>item_dir = r, subdir = [], filename = ello, modified = 0\<rparr>]\<rparr>),
      next_ref = 2, shared_directories = [0, 1], term_map = [], item_attributes = (\<lambda>_. None)\<rparr>"

lemma shares_reply_lists_every_file_witness:
  "\<exists>visible locked. create_shares_reply ascii_env [98] witness_locked = (visible, locked)
     \<and> distinct (map fst visible) \<and> [64, 64, 97] \<in> fst ` set visible \<and> [64, 64, 98] \<in> fst ` set locked"
proof -
  obtain visible locked where r: "create_shares_reply ascii_env [98] witness_locked = (visible, locked)"
    by (rule prod.exhaust)
  have path: "get_remote_directory_path witness_locked \<lparr>item_dir = r, subdir = [], filename = ello, modified = 0\<rparr> = [64, 64, 97 + r]"
    if "r = 0 \<or> r = 1" for r
    using that by (auto simp: witness_locked_def get_remote_directory_path_def normalize_remote_path_def
        rstrip_seps_def path_join_def is_sep_def at_prefix_def)
  have "dir_items (objects witness_locked r) = [\<lparr>item_dir = r, subdir = [], filename = ello, modified = 0\<rparr>]"
    "is_directory_locked ascii_env (objects witness_locked r) [98] \<longleftrightarrow> r \<noteq> 0" "shared_directories witness_locked = [0, 1]" for r
    by (simp_all add: witness_locked_def is_directory_locked_def ascii_env_def)
  then have "distinct (map fst visible) \<and> [64, 64, 97] \<in> fst ` set visible \<and> [64, 64, 98] \<in> fst ` set locked"
    using shares_reply_lists_every_file [OF r] path by (simp add: Let_def)
  then show ?thesis using r by blast
qed

end
