(* ===== verification/Events.thy ===== *)
theory Events
  imports Complex_Main "HOL-Library.Multiset" Prelude
begin

text \<open>
\<open>src/aioslsk/events.py\<close> (the event bus), \<open>src/aioslsk/tasks.py\<close> and the ticket generator of
  \<open>src/aioslsk/utils.py\<close>. Listeners are weakly referenced: their death is an operation. Time is
  rational; a task is what its owner sees of it.
\<close>

subsection \<open>The event bus\<close>

type_synonym ('e, 'l) event_bus = "'e \<Rightarrow> (int \<times> 'l) list"
  \<comment> \<open>\<open>_events\<close>: the entries of each event class; a missing key is the empty list\<close>

definition new_bus :: "('e, 'l) event_bus" where
  "new_bus = (\<lambda>_. [])"

definition register :: "'e \<Rightarrow> 'l \<Rightarrow> int \<Rightarrow> ('e, 'l) event_bus \<Rightarrow> ('e, 'l) event_bus" where
  "register ev l priority bus = bus(ev := sort_key fst (bus ev @ [(priority, l)]))"

definition unregister :: "'e \<Rightarrow> 'l \<Rightarrow> ('e, 'l) event_bus \<Rightarrow> ('e, 'l) event_bus" where
  "unregister ev l bus = bus(ev := filter (\<lambda>entry. l \<noteq> snd entry) (bus ev))"

definition remove_callback :: "'e \<Rightarrow> 'l \<Rightarrow> ('e, 'l) event_bus \<Rightarrow> ('e, 'l) event_bus" where
  \<comment> \<open>called when the weakly referenced listener dies\<close>
  "remove_callback ev l bus = bus(ev := filter (\<lambda>entry. l \<noteq> snd entry) (bus ev))"

definition listeners_for :: "'e \<Rightarrow> ('e, 'l) event_bus \<Rightarrow> 'l list" where
  "listeners_for ev bus = map snd (bus ev)"

datatype outcome =
    Done
  | Raised      \<comment> \<open>an \<open>Exception\<close>, which is logged\<close>
  | Cancelled   \<comment> \<open>a \<open>CancelledError\<close>, which no handler of the bus catches\<close>

fun notify :: "('l \<Rightarrow> 's \<Rightarrow> outcome \<times> 's) \<Rightarrow> 'l list \<Rightarrow> 's \<Rightarrow> outcome \<times> 's" where
  \<comment> \<open>the loop of \<open>emit\<close> over the listeners taken before the first is called\<close>
  "notify act [] s = (Done, s)"
| "notify act (l # ls) s =
     (case act l s of
        (Cancelled, s') \<Rightarrow> (Cancelled, s')
      | (_, s') \<Rightarrow> notify act ls s')"

definition emit_event :: "('l \<Rightarrow> 's \<Rightarrow> outcome \<times> 's) \<Rightarrow> 'e \<Rightarrow> ('e, 'l) event_bus \<Rightarrow> 's \<Rightarrow> outcome \<times> 's" where
  "emit_event act ev bus s = notify act (listeners_for ev bus) s"

definition emit_sync :: "('l \<Rightarrow> bool) \<Rightarrow> ('l \<Rightarrow> 's \<Rightarrow> outcome \<times> 's) \<Rightarrow> 'e \<Rightarrow> ('e, 'l) event_bus \<Rightarrow> 's \<Rightarrow> outcome \<times> 's" where
  \<comment> \<open>coroutine functions are left out with a warning\<close>
  "emit_sync is_coroutine act ev bus s = notify act (filter (\<lambda>l. \<not> is_coroutine l) (listeners_for ev bus)) s"

subsection \<open>Tickets\<close>

definition MAX_TICKET :: nat where "MAX_TICKET = 0xFFFFFFFF"

definition next_ticket :: "nat \<Rightarrow> nat \<Rightarrow> nat" where
  \<comment> \<open>one turn of \<open>ticket_generator\<close>: the ticket after \<open>idx\<close>\<close>
  "next_ticket initial idx = (if idx + 1 > MAX_TICKET then initial else idx + 1)"

fun ticket_run :: "nat \<Rightarrow> nat \<Rightarrow> nat \<Rightarrow> nat list" where
  \<comment> \<open>the next \<open>n\<close> tickets\<close>
  "ticket_run initial idx 0 = []"
| "ticket_run initial idx (Suc n) = next_ticket initial idx # ticket_run initial (next_ticket initial idx) n"

definition tickets :: "nat \<Rightarrow> nat \<Rightarrow> nat list" where
  "tickets initial n = ticket_run initial initial n"

subsection \<open>Background tasks and timers\<close>

datatype task_state = No_Task | Task_Running | Task_Finished \<comment> \<open>\<open>_task\<close> is a task that has ended\<close>

definition background_start :: "task_state \<Rightarrow> task_state" where
  "background_start t = (if t = No_Task then Task_Running else t)"

definition background_cancel :: "task_state \<Rightarrow> task_state option \<times> task_state" where
  \<comment> \<open>the task that was cancelled\<close>
  "background_cancel t = (if t = No_Task then (None, No_Task) else (Some t, No_Task))"

definition background_is_running :: "task_state \<Rightarrow> bool" where
  "background_is_running t \<longleftrightarrow> t \<noteq> No_Task"

definition background_job_raises :: "task_state \<Rightarrow> task_state" where
  \<comment> \<open>nothing in \<open>runner\<close> catches the exception of a job\<close>
  "background_job_raises t = (if t = Task_Running then Task_Finished else t)"

fun job_starts :: "rat \<Rightarrow> rat \<Rightarrow> (rat \<times> rat option) list \<Rightarrow> rat list" where
  \<comment> \<open>when the jobs of \<open>runner\<close> start, given how long each runs and the interval it returns\<close>
  "job_starts interval now [] = []"
| "job_starts interval now ((duration, ival) # jobs) =
     now # job_starts interval (now + duration + (case ival of None \<Rightarrow> interval | Some i \<Rightarrow> i)) jobs"

definition runner :: "bool \<Rightarrow> rat \<Rightarrow> rat \<Rightarrow> (rat \<times> rat option) list \<Rightarrow> rat list" where
  "runner preempt_wait interval now jobs = job_starts interval (if preempt_wait then now + interval else now) jobs"

record timer =
  timer_task :: "nat option"      \<comment> \<open>\<open>_task\<close>\<close>
  sleeping :: "nat list"          \<comment> \<open>tasks that will run the callback\<close>
  ended :: "nat list"             \<comment> \<open>tasks whose done callback is still to run\<close>
  next_task :: nat
  fired :: nat                    \<comment> \<open>calls of the callback\<close>

definition new_timer :: timer where
  "new_timer = \<lparr>timer_task = None, sleeping = [], ended = [], next_task = 0, fired = 0\<rparr>"

definition timer_start :: "timer \<Rightarrow> timer" where
  "timer_start t = t\<lparr>timer_task := Some (next_task t), sleeping := sleeping t @ [next_task t], next_task := next_task t + 1\<rparr>"

definition timer_cancel :: "timer \<Rightarrow> bool \<times> timer" where
  \<comment> \<open>whether there was a task to cancel\<close>
  "timer_cancel t = (case timer_task t of
      None \<Rightarrow> (False, t)
    | Some n \<Rightarrow> (True, if n \<in> set (sleeping t)
        then t\<lparr>timer_task := None, sleeping := remove1 n (sleeping t), ended := ended t @ [n]\<rparr>
        else t\<lparr>timer_task := None\<rparr>))"

definition timer_elapse :: "nat \<Rightarrow> timer \<Rightarrow> timer" where
  \<comment> \<open>the task \<open>n\<close> wakes up, runs the callback and ends\<close>
  "timer_elapse n t = (if n \<in> set (sleeping t)
     then t\<lparr>sleeping := remove1 n (sleeping t), ended := ended t @ [n], fired := fired t + 1\<rparr> else t)"

definition unset_task :: "nat \<Rightarrow> timer \<Rightarrow> timer" where
  \<comment> \<open>the done callback of task \<open>n\<close>, which does not look at the task\<close>
  "unset_task n t = (if n \<in> set (ended t) then t\<lparr>timer_task := None, ended := remove1 n (ended t)\<rparr> else t)"

definition timer_reschedule :: "timer \<Rightarrow> timer" where
  "timer_reschedule t = timer_start (snd (timer_cancel t))"

subsection \<open>The order of listeners\<close>

text \<open>Specification: a bus that keeps the entries of each class in the order of registration and
  sorts them by priority only when they are asked for.\<close>

datatype ('e, 'l) bus_operation = Register 'e 'l int | Unregister 'e 'l | Died 'e 'l

fun bus_step :: "('e, 'l) bus_operation \<Rightarrow> ('e, 'l) event_bus \<Rightarrow> ('e, 'l) event_bus" where
  "bus_step (Register ev l p) bus = register ev l p bus"
| "bus_step (Unregister ev l) bus = unregister ev l bus"
| "bus_step (Died ev l) bus = remove_callback ev l bus"

fun history_step :: "'e \<Rightarrow> ('e, 'l) bus_operation \<Rightarrow> (int \<times> 'l) list \<Rightarrow> (int \<times> 'l) list" where
  "history_step ev (Register e l p) h = (if e = ev then h @ [(p, l)] else h)"
| "history_step ev (Unregister e l) h = (if e = ev then filter (\<lambda>entry. snd entry \<noteq> l) h else h)"
| "history_step ev (Died e l) h = (if e = ev then filter (\<lambda>entry. snd entry \<noteq> l) h else h)"

lemma sort_key_snoc: "sort_key f (sort_key f xs @ [x]) = sort_key f (xs @ [x])"
proof (rule properties_for_sort_key [of _ _ f])
  fix k
  have "filter (\<lambda>y. f y = f k) (sort_key f (xs @ [x])) = filter (\<lambda>y. f y = f k) (sort_key f xs @ [x])"
    by (simp only: sort_key_stable filter_append)
  then show "filter (\<lambda>y. f k = f y) (sort_key f (xs @ [x])) = filter (\<lambda>y. f k = f y) (sort_key f xs @ [x])"
    by (simp only: eq_commute [of "f k"])
qed simp_all

lemma bus_step_sorted:
  assumes "bus ev = sort_key fst h"
  shows "bus_step op bus ev = sort_key fst (history_step ev op h)"
proof (cases op)
  case (Register e l p)
  then show ?thesis using assms by (cases "e = ev") (simp_all add: register_def sort_key_snoc)
next
  case (Unregister e l)
  then show ?thesis using assms by (cases "e = ev") (simp_all add: unregister_def filter_sort eq_commute [of l])
next
  case (Died e l)
  then show ?thesis using assms by (cases "e = ev") (simp_all add: remove_callback_def filter_sort eq_commute [of l])
qed

lemma bus_run_sorted:
  "bus ev = sort_key fst h \<Longrightarrow> fold bus_step ops bus ev = sort_key fst (fold (history_step ev) ops h)"
  by (induction ops arbitrary: bus h) (simp_all add: bus_step_sorted)

lemma notify_append:
  "notify act (xs @ ys) s = (case notify act xs s of (Cancelled, s') \<Rightarrow> (Cancelled, s') | (_, s') \<Rightarrow> notify act ys s')"
  by (induction xs arbitrary: s) (auto split: prod.split outcome.split)

lemma notify_all:
  assumes "\<And>l s. fst (act l s) \<noteq> Cancelled"
  shows "notify act ls s = (Done, fold (\<lambda>l s. snd (act l s)) ls s)"
proof (induction ls arbitrary: s)
  case (Cons l ls)
  show ?case using assms [of l s] Cons.IH by (cases "act l s"; cases "fst (act l s)") auto
qed simp

text \<open>Whatever is registered, unregistered or dies in whatever order, the listeners of an event
  are called in ascending priority, those of equal priority in the order of their registration, and
  a listener that raises keeps no other from being called.\<close>

theorem events_reach_listeners_in_order:
  assumes "bus = fold bus_step ops new_bus" "\<And>l s. fst (act l s) \<noteq> Cancelled"
  shows "emit_event act ev bus s =
    (Done, fold (\<lambda>(p, l) s. snd (act l s)) (sort_key fst (fold (history_step ev) ops [])) s)"
proof -
  have "bus ev = sort_key fst (fold (history_step ev) ops [])"
    unfolding assms(1) by (rule bus_run_sorted) (simp add: new_bus_def)
  then show ?thesis
    by (simp add: emit_event_def listeners_for_def notify_all [OF assms(2)] fold_map comp_def split_def)
qed

definition witness_act :: "nat \<Rightarrow> nat list \<Rightarrow> outcome \<times> nat list" where
  "witness_act l s = (if l = 1 then Raised else Done, s @ [l])"

lemma events_reach_listeners_in_order_witness:
  "emit_event witness_act 0 (fold bus_step [Register (0 :: nat) 3 100, Register 0 1 50, Register 0 2 100, Register 1 9 1] new_bus) []
     = (Done, [1, 3, 2])"
proof -
  let ?ops = "[Register (0 :: nat) 3 100, Register 0 1 50, Register 0 2 100, Register 1 9 1]"
  have "emit_event witness_act 0 (fold bus_step ?ops new_bus) [] =
      (Done, fold (\<lambda>(p, l) s. snd (witness_act l s)) (sort_key fst (fold (history_step 0) ?ops [])) [])"
    by (rule events_reach_listeners_in_order [OF refl]) (simp add: witness_act_def)
  then show ?thesis by (simp add: witness_act_def)
qed

lemma cancelled_listener_stops_the_rest:
  "fst (act l s) = Cancelled \<Longrightarrow> notify act (l # ls) s = (Cancelled, snd (act l s))"
  by (cases "act l s") simp

subsection \<open>Tickets are fresh\<close>

lemma next_ticket_mod:
  assumes "initial \<le> MAX_TICKET"
  shows "next_ticket initial (initial + k mod (Suc MAX_TICKET - initial)) = initial + Suc k mod (Suc MAX_TICKET - initial)"
proof -
  let ?m = "Suc MAX_TICKET - initial"
  have m: "0 < ?m" using assms by simp
  have k: "k mod ?m < ?m" using m by simp
  show ?thesis
  proof (cases "Suc (k mod ?m) = ?m")
    case True
    then have "Suc k mod ?m = 0" by (simp add: mod_Suc)
    then show ?thesis using True assms by (simp add: next_ticket_def)
  next
    case False
    then have "Suc k mod ?m = Suc (k mod ?m)" by (simp add: mod_Suc)
    moreover have "\<not> initial + k mod ?m + 1 > MAX_TICKET" using False k assms by linarith
    ultimately show ?thesis by (simp add: next_ticket_def)
  qed
qed

lemma ticket_run_mod:
  assumes "initial \<le> MAX_TICKET"
  shows "ticket_run initial (initial + k mod (Suc MAX_TICKET - initial)) n
    = map (\<lambda>j. initial + (Suc k + j) mod (Suc MAX_TICKET - initial)) [0..<n]"
proof (induction n arbitrary: k)
  case (Suc n)
  have "map (\<lambda>j. initial + (Suc k + j) mod (Suc MAX_TICKET - initial)) [0..<Suc n]
      = (initial + Suc k mod (Suc MAX_TICKET - initial)) # map (\<lambda>j. initial + (Suc (Suc k) + j) mod (Suc MAX_TICKET - initial)) [0..<n]"
    by (simp add: upt_conv_Cons map_Suc_upt [symmetric] comp_def del: upt_Suc)
  then show ?case using Suc.IH [of "Suc k"] by (simp add: next_ticket_mod [OF assms] del: upt_Suc)
qed simp

text \<open>Every ticket of a generator is a 32-bit number not below the initial value, and no ticket is
  drawn twice before all of them were drawn. The first ticket is the one after the initial value.\<close>

theorem tickets_are_fresh:
  assumes "initial < MAX_TICKET"
  shows "set (tickets initial n) \<subseteq> {initial..MAX_TICKET}
    \<and> (n \<le> Suc MAX_TICKET - initial \<longrightarrow> distinct (tickets initial n))
    \<and> (0 < n \<longrightarrow> hd (tickets initial n) = initial + 1)"
proof -
  let ?m = "Suc MAX_TICKET - initial"
  have le: "initial \<le> MAX_TICKET" using assms by simp
  have eq: "tickets initial n = map (\<lambda>j. initial + Suc j mod ?m) [0..<n]"
    using ticket_run_mod [OF le, of 0 n] by (simp add: tickets_def)
  have "initial + j mod ?m \<le> MAX_TICKET" for j using mod_less_divisor [of ?m j] le by linarith
  then have "set (tickets initial n) \<subseteq> {initial..MAX_TICKET}" by (auto simp: eq)
  moreover have "distinct (tickets initial n)" if n: "n \<le> ?m"
  proof -
    have "inj_on (\<lambda>j. initial + Suc j mod ?m) {0..<n}"
    proof (rule inj_onI)
      fix i j assume i: "i \<in> {0..<n}" and j: "j \<in> {0..<n}" and e: "initial + Suc i mod ?m = initial + Suc j mod ?m"
      have "Suc x mod ?m = (if Suc x = ?m then 0 else Suc x)" if "x < n" for x
        using that n by (cases "Suc x = ?m") simp_all
      then show "i = j" using i j e by (auto split: if_splits)
    qed
    then show ?thesis by (simp add: eq distinct_map)
  qed
  moreover have "hd (tickets initial n) = initial + 1" if "0 < n"
  proof -
    obtain k where "n = Suc k" using \<open>0 < n\<close> by (cases n) auto
    then show ?thesis using assms by (simp add: tickets_def next_ticket_def)
  qed
  ultimately show ?thesis by blast
qed

lemma tickets_are_fresh_witness:
  "distinct (tickets 4294967293 3) \<and> set (tickets 4294967293 3) \<subseteq> {4294967293..4294967295}"
  using tickets_are_fresh [of 4294967293 3] by (simp add: MAX_TICKET_def)

subsection \<open>A rescheduled timer\<close>

text \<open>After a reschedule the done callback of the cancelled task forgets the new one: the timer cannot
  be cancelled any more and runs its callback all the same.\<close>

lemma rescheduled_timer_cannot_be_cancelled:
  "let t = unset_task 0 (timer_reschedule (timer_start new_timer)) in
     timer_cancel t = (False, t) \<and> fired (timer_elapse 1 t) = 1"
  by (simp add: timer_reschedule_def timer_cancel_def timer_start_def unset_task_def new_timer_def timer_elapse_def)

lemma finished_task_counts_as_running:
  "let t = background_job_raises (background_start No_Task) in background_is_running t \<and> background_start t = t \<and> t = Task_Finished"
  by (simp add: background_job_raises_def background_start_def background_is_running_def)

end
