(* ===== verification/Searches.thy ===== *)
theory Searches
  imports Shares_Properties Users Events Messages Connection
begin

text \<open>
\<open>src/aioslsk/search/manager.py\<close> and the records of \<open>search/model.py\<close>: the searches of the client,
  their timers and results, the wishlist, and the searches of others with their replies. Request
  objects are held by value in the dictionary; a running timer is named by the ticket its callback
  removes. The shares, what they answer and what can be sent are arguments.
\<close>

subsection \<open>Requests and settings\<close>

datatype search_type = SEARCH_NETWORK | SEARCH_USER | SEARCH_ROOM | SEARCH_WISHLIST

record received_search =
  received_username :: pystr
  received_query :: pystr
  result_count :: nat

record search_result =
  result_ticket :: nat
  result_username :: pystr
  result_slots_free :: bool
  result_avg_speed :: nat
  result_queue_size :: nat
  result_items :: "pval list"
  result_locked :: "pval list"

record search_request =
  search_ticket :: nat
  search_text :: pystr
  search_kind :: search_type
  search_room :: "pystr option"
  search_username :: "pystr option"
  search_results :: "search_result list"
  search_timer :: "int option"      \<comment> \<open>the timeout of its timer\<close>

definition new_request :: "nat \<Rightarrow> pystr \<Rightarrow> search_type \<Rightarrow> pystr option \<Rightarrow> pystr option \<Rightarrow> search_request" where
  "new_request t txt kind rm username = \<lparr>search_ticket = t, search_text = txt, search_kind = kind,
     search_room = rm, search_username = username, search_results = [], search_timer = None\<rparr>"

record search_settings =
  store_results :: bool
  request_timeout :: int
  wishlist_request_timeout :: int
  wishlist :: "(pystr \<times> bool) list"  \<comment> \<open>query and whether it is enabled\<close>
  store_amount :: nat
  search_blocked :: block_list

definition DEFAULT_WISHLIST_INTERVAL :: nat where "DEFAULT_WISHLIST_INTERVAL = 600"

record upload_info = \<comment> \<open>\<open>UploadInfoProvider\<close>\<close>
  info_slots_free :: bool
  info_average_speed :: nat
  info_queue_size :: nat

subsection \<open>The search manager\<close>

record searches =
  searches_session :: "pystr option"           \<comment> \<open>the name of the user of the session\<close>
  searches_last_ticket :: nat
  received_searches :: "received_search list"  \<comment> \<open>a \<open>deque\<close> with \<open>maxlen\<close>\<close>
  requests :: "(nat \<times> search_request) list"    \<comment> \<open>a dictionary\<close>
  search_inactivity_timeout :: "nat option"
  wishlist_interval :: "nat option"
  excluded_search_phrases :: "pystr list"
  search_reply_tasks :: "nat list"
  wishlist_task :: task_state
  wishlist_task_interval :: nat
  running_timers :: "nat list"                 \<comment> \<open>the tickets of the requests whose timers run\<close>

definition new_searches :: searches where
  "new_searches = \<lparr>searches_session = None, searches_last_ticket = 1, received_searches = [], requests = [],
     search_inactivity_timeout = None, wishlist_interval = None, excluded_search_phrases = [],
     search_reply_tasks = [], wishlist_task = No_Task, wishlist_task_interval = DEFAULT_WISHLIST_INTERVAL,
     running_timers = []\<rparr>"

datatype search_output =
    Server_Message message_object
  | Reply_To pystr message_object              \<comment> \<open>a task that sends the message to a peer\<close>
  | Search_Request_Sent nat
  | Search_Request_Removed nat
  | Search_Result nat search_result
  | Search_Request_Received pystr pystr nat
  | Disconnect_Peer close_reason

definition draw_search_ticket :: "searches \<Rightarrow> nat \<times> searches" where
  "draw_search_ticket m = (let t = next_ticket 1 (searches_last_ticket m) in (t, m\<lparr>searches_last_ticket := t\<rparr>))"

definition remove_request :: "nat \<Rightarrow> searches \<Rightarrow> unit result \<times> searches" where
  "remove_request t m =
     (if map_of (requests m) t = None then (Inl KeyError, m)
      else (Inr (), m\<lparr>requests := AList.delete t (requests m)\<rparr>))"

definition start_timer :: "int option \<Rightarrow> search_request \<Rightarrow> searches \<Rightarrow> searches" where
  "start_timer timeout r m = m\<lparr>requests := AList.update (search_ticket r) (r\<lparr>search_timer := timeout\<rparr>) (requests m),
     running_timers := running_timers m @ (if timeout = None then [] else [search_ticket r])\<rparr>"

definition attach_request_timer_and_emit ::
    "search_settings \<Rightarrow> search_request \<Rightarrow> searches \<Rightarrow> search_output list \<times> searches" where
  "attach_request_timer_and_emit settings r m =
     ([Search_Request_Sent (search_ticket r)],
      start_timer (if request_timeout settings > 0 then Some (request_timeout settings) else None) r m)"

definition send_search ::
    "search_settings \<Rightarrow> bool \<Rightarrow> (nat \<Rightarrow> message_object) \<Rightarrow> (nat \<Rightarrow> search_request) \<Rightarrow> searches
     \<Rightarrow> search_request option \<times> search_output list \<times> searches" where
  \<comment> \<open>the shape of the three searches; \<open>None\<close>: sending raised\<close>
  "send_search settings sent message request m =
     (case draw_search_ticket m of (t, m1) \<Rightarrow>
        if \<not> sent then (None, [], m1)
        else (case attach_request_timer_and_emit settings (request t) m1 of
          (out, m2) \<Rightarrow> (Some (request t), Server_Message (message t) # out, m2)))"

definition search :: "search_settings \<Rightarrow> bool \<Rightarrow> pystr \<Rightarrow> searches \<Rightarrow> search_request option \<times> search_output list \<times> searches" where
  "search settings sent txt =
     send_search settings sent (\<lambda>t. (FileSearch_Request, [(''ticket'', PInt (int t)), (''query'', PStr txt)]))
       (\<lambda>t. new_request t txt SEARCH_NETWORK None None)"

definition search_in_room ::
    "search_settings \<Rightarrow> bool \<Rightarrow> pystr \<Rightarrow> pystr \<Rightarrow> searches \<Rightarrow> search_request option \<times> search_output list \<times> searches" where
  "search_in_room settings sent room_name txt =
     send_search settings sent (\<lambda>t. (RoomSearch_Request, [(''room'', PStr room_name), (''ticket'', PInt (int t)), (''query'', PStr txt)]))
       (\<lambda>t. new_request t txt SEARCH_ROOM (Some room_name) None)"

definition search_user ::
    "search_settings \<Rightarrow> bool \<Rightarrow> pystr \<Rightarrow> pystr \<Rightarrow> searches \<Rightarrow> search_request option \<times> search_output list \<times> searches" where
  "search_user settings sent username txt =
     send_search settings sent (\<lambda>t. (UserSearch_Request, [(''username'', PStr username), (''ticket'', PInt (int t)), (''query'', PStr txt)]))
       (\<lambda>t. new_request t txt SEARCH_USER None (Some username))"

definition timeout_search_request :: "nat \<Rightarrow> searches \<Rightarrow> unit result \<times> search_output list \<times> searches" where
  \<comment> \<open>the callback of a timer that has run; the task ends with it\<close>
  "timeout_search_request t m =
     (let m1 = m\<lparr>running_timers := remove1 t (running_timers m)\<rparr> in
      if map_of (requests m) t = None then (Inl KeyError, [], m1)
      else (Inr (), [Search_Request_Removed t], m1\<lparr>requests := AList.delete t (requests m)\<rparr>))"

subsection \<open>Searches of others\<close>

definition file_data_value :: "file_data \<Rightarrow> pval" where
  "file_data_value fd = PObj ''FileData'' [(''unknown'', PInt (int (fd_unknown fd))), (''filename'', PStr (fd_filename fd)),
     (''filesize'', PInt (int (fd_filesize fd))), (''extension'', PStr (fd_extension fd)),
     (''attributes'', PList (map (\<lambda>(k, v). PObj ''Attribute'' [(''key'', PInt (int k)), (''value'', PInt (int v))]) (fd_attributes fd)))]"

definition push_bounded :: "nat \<Rightarrow> 'a \<Rightarrow> 'a list \<Rightarrow> 'a list" where
  \<comment> \<open>\<open>append\<close> of a \<open>deque\<close> with \<open>maxlen\<close>\<close>
  "push_bounded maxlen x xs = (let ys = xs @ [x] in drop (length ys - maxlen) ys)"

definition query_shares_and_reply ::
    "search_settings \<Rightarrow> shares_env \<Rightarrow> upload_info \<Rightarrow> shares \<Rightarrow> nat \<Rightarrow> nat \<Rightarrow> pystr \<Rightarrow> pystr \<Rightarrow> searches
     \<Rightarrow> unit result \<times> search_output list \<times> searches" where
  \<comment> \<open>\<open>task\<close>: the task that delivers the reply\<close>
  "query_shares_and_reply settings env info sh task t username txt m =
     (case searches_session m of
        None \<Rightarrow> (Inr (), [], m)
      | Some me \<Rightarrow>
          if is_blocked (search_blocked settings) username SEARCHES then (Inr (), [], m)
          else (case query env txt (Some username) (excluded_search_phrases m) sh of
              Inl e \<Rightarrow> (Inl e, [], m)
            | Inr (visible, locked) \<Rightarrow>
                let n = length visible + length locked;
                    m1 = m\<lparr>received_searches := push_bounded (store_amount settings)
                      \<lparr>received_username = username, received_query = txt, result_count = n\<rparr> (received_searches m)\<rparr>;
                    out = [Search_Request_Received username txt n]
                in if n = 0 then (Inr (), out, m1)
                   else (Inr (), out @ [Reply_To username (PeerSearchReply_Request,
                       [(''username'', PStr me), (''ticket'', PInt (int t)),
                        (''results'', PList (map file_data_value (convert_items_to_file_data env sh True visible))),
                        (''has_slots_free'', PBool (info_slots_free info)),
                        (''avg_speed'', PInt (int (info_average_speed info))),
                        (''queue_size'', PInt (int (info_queue_size info))), (''unknown'', PInt 0),
                        (''locked_results'', PList (map file_data_value (convert_items_to_file_data env sh True locked)))])],
                     m1\<lparr>search_reply_tasks := search_reply_tasks m @ [task]\<rparr>)))"

definition search_reply_task_callback :: "nat \<Rightarrow> searches \<Rightarrow> searches" where
  "search_reply_task_callback task m = m\<lparr>search_reply_tasks := remove1 task (search_reply_tasks m)\<rparr>"

definition on_distributed_query ::
    "search_settings \<Rightarrow> shares_env \<Rightarrow> upload_info \<Rightarrow> shares \<Rightarrow> nat \<Rightarrow> nat \<Rightarrow> pystr \<Rightarrow> pystr \<Rightarrow> searches
     \<Rightarrow> unit result \<times> search_output list \<times> searches" where
  \<comment> \<open>unlike the two handlers below it does not leave out the own searches\<close>
  "on_distributed_query settings env info sh task t username txt m =
     query_shares_and_reply settings env info sh task t username txt m"

definition DISTRIBUTED_SEARCH_ID :: int where "DISTRIBUTED_SEARCH_ID = int (MESSAGE_ID DistributedSearchRequest_Request)"

definition on_distributed_server_query ::
    "search_settings \<Rightarrow> shares_env \<Rightarrow> upload_info \<Rightarrow> shares \<Rightarrow> nat \<Rightarrow> int \<Rightarrow> nat \<Rightarrow> pystr \<Rightarrow> pystr \<Rightarrow> searches
     \<Rightarrow> unit result \<times> search_output list \<times> searches" where
  "on_distributed_server_query settings env info sh task code t username txt m =
     (if code \<noteq> DISTRIBUTED_SEARCH_ID then (Inr (), [], m)
      else query_shares_and_reply settings env info sh task t username txt m)"

definition on_server_query ::
    "search_settings \<Rightarrow> shares_env \<Rightarrow> upload_info \<Rightarrow> shares \<Rightarrow> nat \<Rightarrow> nat \<Rightarrow> pystr \<Rightarrow> pystr \<Rightarrow> searches
     \<Rightarrow> unit result \<times> search_output list \<times> searches" where
  "on_server_query settings env info sh task t username txt m =
     (case searches_session m of
        None \<Rightarrow> (Inr (), [], m)
      | Some me \<Rightarrow> if username = me then (Inr (), [], m)
          else query_shares_and_reply settings env info sh task t username txt m)"

definition on_file_search ::
    "search_settings \<Rightarrow> shares_env \<Rightarrow> upload_info \<Rightarrow> shares \<Rightarrow> nat \<Rightarrow> nat \<Rightarrow> pystr \<Rightarrow> pystr \<Rightarrow> searches
     \<Rightarrow> unit result \<times> search_output list \<times> searches" where
  "on_file_search settings env info sh task t username txt m =
     (case searches_session m of
        None \<Rightarrow> (Inr (), [], m)
      | Some me \<Rightarrow> if username = me then (Inr (), [], m)
          else query_shares_and_reply settings env info sh task t username txt m)"

subsection \<open>Results and the server\<close>

definition on_search_reply :: "search_settings \<Rightarrow> search_result \<Rightarrow> searches \<Rightarrow> search_output list \<times> searches" where
  \<comment> \<open>\<open>_on_peer_search_reply\<close>: the connection is closed in any case\<close>
  "on_search_reply settings res m =
     (case map_of (requests m) (result_ticket res) of
        None \<Rightarrow> ([Disconnect_Peer REQUESTED], m)
      | Some r \<Rightarrow>
          ([Search_Result (result_ticket res) res, Disconnect_Peer REQUESTED],
           if store_results settings then
             m\<lparr>requests := AList.update (result_ticket res) (r\<lparr>search_results := search_results r @ [res]\<rparr>) (requests m)\<rparr>
           else m))"

definition on_search_inactivity_timeout :: "nat \<Rightarrow> searches \<Rightarrow> searches" where
  "on_search_inactivity_timeout timeout m = m\<lparr>search_inactivity_timeout := Some timeout\<rparr>"

definition on_wish_list_interval :: "nat \<Rightarrow> searches \<Rightarrow> outcome \<times> searches" where
  \<comment> \<open>awaiting the cancelled task raises its \<open>CancelledError\<close>; a task that had ended with an
     exception raises that one\<close>
  "on_wish_list_interval interval m =
     (let m1 = m\<lparr>wishlist_interval := Some interval\<rparr> in
      case background_cancel (wishlist_task m1) of
        (None, st) \<Rightarrow> (Done, m1\<lparr>wishlist_task := background_start st, wishlist_task_interval := interval\<rparr>)
      | (Some Task_Running, st) \<Rightarrow> (Cancelled, m1\<lparr>wishlist_task := st\<rparr>)
      | (Some _, st) \<Rightarrow> (Raised, m1\<lparr>wishlist_task := st\<rparr>))"

definition on_excluded_search_phrases :: "pystr list \<Rightarrow> searches \<Rightarrow> searches" where
  "on_excluded_search_phrases phrases m = m\<lparr>excluded_search_phrases := phrases\<rparr>"

subsection \<open>The wishlist\<close>

definition get_wishlist_request_timeout :: "search_settings \<Rightarrow> searches \<Rightarrow> int" where
  "get_wishlist_request_timeout settings m =
     (if wishlist_request_timeout settings < 0 then
        (case wishlist_interval m of None \<Rightarrow> int DEFAULT_WISHLIST_INTERVAL | Some i \<Rightarrow> int i)
      else wishlist_request_timeout settings)"

fun wishlist_searches :: "int \<Rightarrow> (pystr \<times> bool) list \<Rightarrow> searches \<Rightarrow> bool \<times> search_output list \<times> searches" where
  \<comment> \<open>the loop; for each item whether its message could be sent\<close>
  "wishlist_searches timeout [] m = (True, [], m)"
| "wishlist_searches timeout ((txt, sent) # rest) m =
     (case draw_search_ticket m of (t, m1) \<Rightarrow>
        if \<not> sent then (False, [], m1)
        else (let m2 = start_timer (if timeout \<noteq> 0 then Some timeout else None) (new_request t txt SEARCH_WISHLIST None None) m1 in
          case wishlist_searches timeout rest m2 of (ok, out, m3) \<Rightarrow>
            (ok, [Server_Message (WishlistSearch_Request, [(''ticket'', PInt (int t)), (''query'', PStr txt)]),
                  Search_Request_Sent t] @ out, m3)))"

definition wishlist_job :: "search_settings \<Rightarrow> (pystr \<Rightarrow> bool) \<Rightarrow> searches \<Rightarrow> bool \<times> search_output list \<times> searches" where
  \<comment> \<open>a message that cannot be sent ends the task\<close>
  "wishlist_job settings sent m =
     (case wishlist_searches (get_wishlist_request_timeout settings m)
         (map (\<lambda>(txt, en). (txt, sent txt)) (filter snd (wishlist settings))) m of
        (ok, out, m1) \<Rightarrow> (ok, out, if ok then m1 else m1\<lparr>wishlist_task := background_job_raises (wishlist_task m1)\<rparr>))"

subsection \<open>Session and shutdown\<close>

definition on_searches_state_changed :: "connection_class \<Rightarrow> connection_status \<Rightarrow> searches \<Rightarrow> searches" where
  "on_searches_state_changed cls st m =
     (if cls \<noteq> ServerConnection then m
      else if st = CLOSING then m\<lparr>wishlist_task := snd (background_cancel (wishlist_task m))\<rparr> else m)"

definition on_searches_session_initialized :: "pystr \<Rightarrow> searches \<Rightarrow> searches" where
  "on_searches_session_initialized me m = m\<lparr>searches_session := Some me\<rparr>"

definition on_searches_session_destroyed :: "searches \<Rightarrow> searches" where
  "on_searches_session_destroyed m = m\<lparr>searches_session := None\<rparr>"

definition stop_searches :: "searches \<Rightarrow> nat list \<times> bool \<times> searches" where
  \<comment> \<open>the cancelled reply tasks, and whether a wishlist task was cancelled\<close>
  "stop_searches m = (case background_cancel (wishlist_task m) of
     (cancelled, st) \<Rightarrow> (search_reply_tasks m, cancelled \<noteq> None, m\<lparr>wishlist_task := st\<rparr>))"

end
