(* ===== verification/Rooms.thy ===== *)
theory Rooms
  imports Users
begin

text \<open>
\<open>src/aioslsk/room/model.py\<close> and \<open>src/aioslsk/room/manager.py\<close>: the chat rooms. Rooms hold user
  objects; they are named by their user here, since the dictionary of the user manager has one
  object for a name as long as a room refers to it. A handler returns the exception that leaves
  it, the events it emits and the new state.
\<close>

subsection \<open>Rooms\<close>

record room =
  is_private :: bool
  room_users :: "pystr list"            \<comment> \<open>user objects, by name\<close>
  joined :: bool
  user_count :: nat
  tickers :: "(pystr \<times> pystr) list"     \<comment> \<open>a dictionary\<close>
  members :: "pystr set"
  owner :: "pystr option"
  operators :: "pystr set"

type_synonym rooms = "(pystr \<times> room) list" \<comment> \<open>the dictionary \<open>_rooms\<close>, in the order of insertion\<close>

record chat =
  rooms_of :: rooms
  users_of :: user_manager

datatype room_event =
    Room_Message pystr pystr pystr             \<comment> \<open>room, user, text\<close>
  | Public_Message pystr pystr pystr
  | Room_Joined pystr "pystr option"           \<comment> \<open>no user: the client itself\<close>
  | Room_Left pystr "pystr option"
  | Tickers_Set pystr "(pystr \<times> pystr) list"
  | Ticker_Added pystr pystr pystr
  | Ticker_Removed pystr pystr
  | Membership_Granted pystr "pystr option"
  | Membership_Revoked pystr "pystr option"
  | Members_Set pystr "pystr list"
  | Operators_Set pystr "pystr set"
  | Operator_Granted pystr "pystr option"
  | Operator_Revoked pystr "pystr option"
  | Rooms_Listed "pystr list"

type_synonym handled = "py_error option \<times> room_event list \<times> chat"
  \<comment> \<open>the exception that leaves the handler, if any; what it wrote before stays\<close>

definition new_room :: "bool \<Rightarrow> room" where
  "new_room priv = \<lparr>is_private = priv, room_users = [], joined = False, user_count = 0, tickers = [],
     members = {}, owner = None, operators = {}\<rparr>"

definition add_user :: "pystr \<Rightarrow> room \<Rightarrow> room" where
  "add_user u r = (if u \<in> set (room_users r) then r else r\<lparr>room_users := room_users r @ [u]\<rparr>)"

definition remove_user :: "pystr \<Rightarrow> room \<Rightarrow> room" where
  "remove_user u r = r\<lparr>room_users := remove1 u (room_users r)\<rparr>"

definition get_or_create_room :: "pystr \<Rightarrow> bool \<Rightarrow> rooms \<Rightarrow> room \<times> rooms" where
  "get_or_create_room name priv rs =
     (case map_of rs name of Some r \<Rightarrow> (r, rs) | None \<Rightarrow> (new_room priv, rs @ [(name, new_room priv)]))"

definition modify_room :: "pystr \<Rightarrow> bool \<Rightarrow> (room \<Rightarrow> room) \<Rightarrow> rooms \<Rightarrow> rooms" where
  \<comment> \<open>get or create the room and write to its attributes\<close>
  "modify_room name priv f rs =
     (case get_or_create_room name priv rs of (r, rs1) \<Rightarrow> AList.update name (f r) rs1)"

definition on_room :: "pystr \<Rightarrow> bool \<Rightarrow> (room \<Rightarrow> room) \<Rightarrow> chat \<Rightarrow> chat" where
  "on_room name priv f c = c\<lparr>rooms_of := modify_room name priv f (rooms_of c)\<rparr>"

definition on_users :: "(user_manager \<Rightarrow> user_manager) \<Rightarrow> chat \<Rightarrow> chat" where
  "on_users f c = c\<lparr>users_of := f (users_of c)\<rparr>"

definition touch_user :: "pystr \<Rightarrow> user_manager \<Rightarrow> user_manager" where
  "touch_user name um = snd (get_user_object name um)"

subsection \<open>Queries\<close>

definition get_joined_rooms :: "rooms \<Rightarrow> room list" where
  "get_joined_rooms rs = filter joined (map snd rs)"

definition get_private_rooms :: "rooms \<Rightarrow> room list" where
  "get_private_rooms rs = filter is_private (map snd rs)"

definition get_public_rooms :: "rooms \<Rightarrow> room list" where
  "get_public_rooms rs = filter (\<lambda>r. \<not> is_private r) (map snd rs)"

definition get_owned_rooms :: "pystr \<Rightarrow> rooms \<Rightarrow> room list" where
  "get_owned_rooms me rs = filter (\<lambda>r. owner r = Some me) (map snd rs)"

definition get_operated_rooms :: "pystr \<Rightarrow> rooms \<Rightarrow> room list" where
  "get_operated_rooms me rs = filter (\<lambda>r. me \<in> operators r) (map snd rs)"

subsection \<open>Messages in rooms\<close>

definition on_chat_room_message :: "block_list \<Rightarrow> pystr \<Rightarrow> pystr \<Rightarrow> pystr \<Rightarrow> chat \<Rightarrow> handled" where
  "on_chat_room_message blocked name username message c =
     (if is_blocked blocked username ROOM_MESSAGES then (None, [], c)
      else (None, [Room_Message name username message],
            on_room name False id (on_users (touch_user username) c)))"

definition on_public_chat_message :: "block_list \<Rightarrow> pystr \<Rightarrow> pystr \<Rightarrow> pystr \<Rightarrow> chat \<Rightarrow> handled" where
  "on_public_chat_message blocked name username message c =
     (if is_blocked blocked username ROOM_MESSAGES then (None, [], c)
      else (None, [Public_Message name username message],
            on_users (touch_user username) (on_room name False id c)))"

definition joined_user :: "user_status \<Rightarrow> user_stats \<Rightarrow> nat \<Rightarrow> pystr \<Rightarrow> user \<Rightarrow> user" where
  "joined_user st stats free cc u =
     (update_from_user_stats stats (u\<lparr>status := st\<rparr>))\<lparr>slots_free := Some free, country := Some cc\<rparr>"

definition on_user_joined_room ::
    "pystr \<Rightarrow> pystr \<Rightarrow> int \<Rightarrow> user_stats \<Rightarrow> nat \<Rightarrow> pystr \<Rightarrow> chat \<Rightarrow> handled" where
  "on_user_joined_room name username stat stats free cc c0 =
     (let c = on_users (touch_user username) c0 in
      case UserStatus stat of
        Inl e \<Rightarrow> (Some e, [], c)
      | Inr st \<Rightarrow>
          (None, [Room_Joined name (Some username)],
           on_room name False (add_user username) (on_users (modify_user username (joined_user st stats free cc)) c)))"

definition on_user_left_room :: "pystr \<Rightarrow> pystr \<Rightarrow> chat \<Rightarrow> handled" where
  "on_user_left_room name username c =
     (None, [Room_Left name (Some username)],
      on_room name False (remove_user username) (on_users (touch_user username) c))"

record join_room =
  join_users :: "pystr list"
  join_status :: "int list"
  join_stats :: "user_stats list"
  join_slots_free :: "nat list"
  join_countries :: "pystr list"
  join_owner :: "pystr option"
  join_operators :: "pystr list option"

fun join_loop :: "pystr \<Rightarrow> nat \<Rightarrow> pystr list \<Rightarrow> join_room \<Rightarrow> chat \<Rightarrow> py_error option \<times> chat" where
  \<comment> \<open>the attributes are written one after the other until an index or a status is wrong\<close>
  "join_loop name idx [] msg c = (None, c)"
| "join_loop name idx (username # us) msg c0 =
     (let c = on_users (touch_user username) c0;
          write = (\<lambda>f c. on_users (modify_user username f) c) in
      case bindE (nth_or IndexError (join_status msg) idx) UserStatus of
        Inl e \<Rightarrow> (Some e, c)
      | Inr st \<Rightarrow> (case nth_or IndexError (join_stats msg) idx of
          Inl e \<Rightarrow> (Some e, write (\<lambda>u. u\<lparr>status := st\<rparr>) c)
        | Inr stats \<Rightarrow> (case nth_or IndexError (join_countries msg) idx of
            Inl e \<Rightarrow> (Some e, write (\<lambda>u. update_from_user_stats stats (u\<lparr>status := st\<rparr>)) c)
          | Inr cc \<Rightarrow> (case nth_or IndexError (join_slots_free msg) idx of
              Inl e \<Rightarrow> (Some e, write (\<lambda>u. (update_from_user_stats stats (u\<lparr>status := st\<rparr>))\<lparr>country := Some cc\<rparr>) c)
            | Inr free \<Rightarrow>
                join_loop name (idx + 1) us msg
                  (on_room name False (add_user username) (write (joined_user st stats free cc) c))))))"

definition on_join_room :: "pystr \<Rightarrow> join_room \<Rightarrow> chat \<Rightarrow> handled" where
  "on_join_room name msg c0 =
     (let c = on_room name False (\<lambda>r. r\<lparr>joined := True, is_private := (join_owner msg \<noteq> None \<and> join_owner msg \<noteq> Some [])\<rparr>) c0 in
      case join_loop name 0 (join_users msg) msg c of
        (Some e, c1) \<Rightarrow> (Some e, [], c1)
      | (None, c1) \<Rightarrow>
          (None, [Room_Joined name None],
           on_room name False (\<lambda>r. r\<lparr>owner := join_owner msg,
             operators := (case join_operators msg of None \<Rightarrow> {} | Some os \<Rightarrow> set os)\<rparr>) c1))"

definition on_leave_room :: "pystr \<Rightarrow> chat \<Rightarrow> handled" where
  "on_leave_room name c =
     (None, [Room_Left name None], on_room name False (\<lambda>r. r\<lparr>joined := False, room_users := []\<rparr>) c)"

subsection \<open>Tickers\<close>

definition on_chat_room_tickers :: "pystr \<Rightarrow> (pystr \<times> pystr) list \<Rightarrow> chat \<Rightarrow> handled" where
  "on_chat_room_tickers name ts c =
     (let d = fold (\<lambda>(u, t) d. AList.update u t d) ts [] in
      (None, [Tickers_Set name d],
       on_users (fold touch_user (map fst ts)) (on_room name False (\<lambda>r. r\<lparr>tickers := d\<rparr>) c)))"

definition on_chat_room_ticker_added :: "pystr \<Rightarrow> pystr \<Rightarrow> pystr \<Rightarrow> chat \<Rightarrow> handled" where
  "on_chat_room_ticker_added name username ticker c =
     (None, [Ticker_Added name username ticker],
      on_users (touch_user username)
        (on_room name False (\<lambda>r. r\<lparr>tickers := AList.update username ticker (tickers r)\<rparr>) c))"

definition on_chat_room_ticker_removed :: "pystr \<Rightarrow> pystr \<Rightarrow> chat \<Rightarrow> handled" where
  \<comment> \<open>a missing ticker is only logged\<close>
  "on_chat_room_ticker_removed name username c =
     (None, [Ticker_Removed name username],
      on_users (touch_user username)
        (on_room name False (\<lambda>r. r\<lparr>tickers := AList.delete username (tickers r)\<rparr>) c))"

subsection \<open>Private rooms\<close>

definition on_private_room_add_user :: "pystr \<Rightarrow> pystr \<Rightarrow> chat \<Rightarrow> handled" where
  "on_private_room_add_user name username c =
     (None, [Membership_Granted name (Some username)],
      on_users (touch_user username) (on_room name True (\<lambda>r. r\<lparr>members := insert username (members r)\<rparr>) c))"

definition on_private_room_added :: "pystr \<Rightarrow> pystr \<Rightarrow> chat \<Rightarrow> handled" where
  \<comment> \<open>\<open>me\<close> is the name of the own user in this and the following handlers\<close>
  "on_private_room_added me name c =
     (None, [Membership_Granted name None],
      on_users (touch_user me) (on_room name True (\<lambda>r. r\<lparr>members := insert me (members r)\<rparr>) c))"

definition on_private_room_remove_user :: "pystr \<Rightarrow> pystr \<Rightarrow> chat \<Rightarrow> handled" where
  "on_private_room_remove_user name username c =
     (None, [Membership_Revoked name (Some username)],
      on_users (touch_user username)
        (on_room name True (\<lambda>r. r\<lparr>members := members r - {username}, operators := operators r - {username}\<rparr>) c))"

definition on_private_room_removed :: "pystr \<Rightarrow> pystr \<Rightarrow> chat \<Rightarrow> handled" where
  "on_private_room_removed me name c =
     (None, [Membership_Revoked name None],
      on_users (touch_user me)
        (on_room name True (\<lambda>r. r\<lparr>members := members r - {me}, operators := operators r - {me}\<rparr>) c))"

definition on_private_room_users :: "pystr \<Rightarrow> pystr list \<Rightarrow> chat \<Rightarrow> handled" where
  "on_private_room_users name us c =
     (None, [Members_Set name us],
      on_users (fold touch_user us) (on_room name True (\<lambda>r. r\<lparr>members := set us\<rparr>) c))"

definition on_private_room_operators :: "pystr \<Rightarrow> pystr list \<Rightarrow> chat \<Rightarrow> handled" where
  "on_private_room_operators name us c =
     (None, [Operators_Set name (set us)],
      on_users (fold touch_user us) (on_room name True (\<lambda>r. r\<lparr>operators := set us\<rparr>) c))"

definition on_operator_granted :: "pystr \<Rightarrow> pystr \<Rightarrow> chat \<Rightarrow> handled" where
  \<comment> \<open>the code discards the name here, too\<close>
  "on_operator_granted me name c =
     (None, [Operator_Granted name None],
      on_users (touch_user me) (on_room name True (\<lambda>r. r\<lparr>operators := operators r - {me}\<rparr>) c))"

definition on_operator_revoked :: "pystr \<Rightarrow> pystr \<Rightarrow> chat \<Rightarrow> handled" where
  "on_operator_revoked me name c =
     (None, [Operator_Revoked name None],
      on_users (touch_user me) (on_room name True (\<lambda>r. r\<lparr>operators := operators r - {me}\<rparr>) c))"

definition on_user_operator_granted :: "pystr \<Rightarrow> pystr \<Rightarrow> chat \<Rightarrow> handled" where
  "on_user_operator_granted name username c =
     (None, [Operator_Granted name (Some username)],
      on_room name True (\<lambda>r. r\<lparr>operators := insert username (operators r)\<rparr>) (on_users (touch_user username) c))"

definition on_user_operator_revoked :: "pystr \<Rightarrow> pystr \<Rightarrow> chat \<Rightarrow> handled" where
  "on_user_operator_revoked name username c =
     (None, [Operator_Revoked name (Some username)],
      on_room name True (\<lambda>r. r\<lparr>operators := operators r - {username}\<rparr>) (on_users (touch_user username) c))"

subsection \<open>The list of rooms\<close>

record room_list =
  list_rooms :: "pystr list"
  list_counts :: "nat list"
  list_owned :: "pystr list"
  list_owned_counts :: "nat list"
  list_private :: "pystr list"
  list_private_counts :: "nat list"
  list_operated :: "pystr list"

fun list_loop :: "bool \<Rightarrow> (room \<Rightarrow> room) \<Rightarrow> pystr list \<Rightarrow> nat list \<Rightarrow> rooms \<Rightarrow> py_error option \<times> rooms" where
  \<comment> \<open>one of the first three loops: \<open>f\<close> is written before the count is read\<close>
  "list_loop priv f [] counts rs = (None, rs)"
| "list_loop priv f (name # ns) [] rs = (Some IndexError, modify_room name priv f rs)"
| "list_loop priv f (name # ns) (n # counts) rs =
     list_loop priv f ns counts (modify_room name priv (\<lambda>r. (f r)\<lparr>user_count := n\<rparr>) rs)"

definition refresh_room :: "pystr \<Rightarrow> room_list \<Rightarrow> pystr \<Rightarrow> room \<Rightarrow> room" where
  \<comment> \<open>the body of the last loop\<close>
  "refresh_room me msg name r =
     (let r1 = (if name \<notin> set (list_owned msg) \<and> owner r = Some me then r\<lparr>owner := None\<rparr> else r);
          r2 = (if name \<notin> set (list_operated msg) then r1\<lparr>operators := operators r1 - {me}\<rparr> else r1);
          r3 = (if name \<notin> set (list_private msg) then r2\<lparr>members := members r2 - {me}\<rparr> else r2)
      in r3\<lparr>is_private := name \<notin> set (list_rooms msg)\<rparr>)"

definition update_rooms :: "pystr \<Rightarrow> room_list \<Rightarrow> rooms \<Rightarrow> py_error option \<times> rooms" where
  "update_rooms me msg rs0 =
     (case list_loop False id (list_rooms msg) (list_counts msg) rs0 of
        (Some e, rs1) \<Rightarrow> (Some e, rs1)
      | (None, rs1) \<Rightarrow> (case list_loop True (\<lambda>r. r\<lparr>owner := Some me\<rparr>) (list_owned msg) (list_owned_counts msg) rs1 of
          (Some e, rs2) \<Rightarrow> (Some e, rs2)
        | (None, rs2) \<Rightarrow> (case list_loop True (\<lambda>r. r\<lparr>members := insert me (members r)\<rparr>) (list_private msg) (list_private_counts msg) rs2 of
            (Some e, rs3) \<Rightarrow> (Some e, rs3)
          | (None, rs3) \<Rightarrow>
              let rs4 = fold (\<lambda>name. modify_room name True (\<lambda>r. r\<lparr>operators := insert me (operators r)\<rparr>)) (list_operated msg) rs3;
                  known = set (list_rooms msg) \<union> set (list_private msg) \<union> set (list_owned msg);
                  rs5 = filter (\<lambda>(name, r). name \<in> known) rs4
              in (None, map (\<lambda>(name, r). (name, refresh_room me msg name r)) rs5))))"

definition on_room_list :: "pystr \<Rightarrow> room_list \<Rightarrow> chat \<Rightarrow> handled" where
  "on_room_list me msg c0 =
     (let c = on_users (touch_user me) c0 in
      case update_rooms me msg (rooms_of c) of
        (Some e, rs) \<Rightarrow> (Some e, [], c\<lparr>rooms_of := rs\<rparr>)
      | (None, rs) \<Rightarrow> (None, [Rooms_Listed (map fst rs)], c\<lparr>rooms_of := rs\<rparr>))"

subsection \<open>Connection and session\<close>

definition reset_rooms :: "chat \<Rightarrow> chat" where
  \<comment> \<open>the server connection is closed\<close>
  "reset_rooms c = c\<lparr>rooms_of := []\<rparr>"

datatype room_request = Toggle_Invites bool | Join_Room pystr

definition auto_join_rooms :: "pystr list \<Rightarrow> room_request list" where
  "auto_join_rooms favorites = map Join_Room favorites"

definition on_rooms_session_initialized :: "bool \<Rightarrow> bool \<Rightarrow> pystr list \<Rightarrow> room_request list" where
  \<comment> \<open>the settings \<open>private_room_invites\<close>, \<open>auto_join\<close> and \<open>favorites\<close>\<close>
  "on_rooms_session_initialized invites auto_join favorites =
     Toggle_Invites invites # (if \<not> auto_join then auto_join_rooms favorites else [])"

end
