(* ===== verification/Network.thy ===== *)
theory Network
  imports Connection Events
begin

text \<open>
\<open>src/aioslsk/network/network.py\<close>: expected responses, the list of peer connections, listening
  ports, speed limits, connecting to peers directly and indirectly, accepted connections, the
  dispatch of messages and the jobs of the network. Connection objects, shared with their owners,
  live in a store. What the peer, the server and the operating system do is an argument of each
  operation; what else happens while one waits is a function on the state.
\<close>

subsection \<open>Settings and surroundings\<close>

datatype error_mode = Mode_All | Mode_Any | Mode_Clear  \<comment> \<open>\<open>ListeningConnectionErrorMode\<close>\<close>
datatype connect_mode = Mode_Fallback | Mode_Race       \<comment> \<open>\<open>PeerConnectMode\<close>\<close>

record net_env =
  own_username :: pystr
  prefer_obfuscated :: bool
  connect_mode :: connect_mode
  error_mode :: error_mode
  ip_overrides :: "(pystr \<times> pystr) list"
  upnp_enabled :: bool
  reconnect_auto :: bool
  credentials_configured :: bool
  upnp_check_interval :: rat
  compress :: "bytes \<Rightarrow> bytes"  \<comment> \<open>\<open>zlib\<close>\<close>
  key_token :: bytes               \<comment> \<open>the random key of an obfuscated message\<close>

datatype net_error = Peer_Connection_Error | Listening_Connection_Failed | Connection_Error connection_error

subsection \<open>Expected responses\<close>

datatype field_check = Equals pval | Satisfies "pval \<Rightarrow> bool" \<comment> \<open>a callable\<close>

record expected_response =
  er_class :: connection_class
  er_message :: msg_class
  er_peer :: "pystr option"
  er_fields :: "(string \<times> field_check) list"
  er_done :: bool                          \<comment> \<open>completed or cancelled\<close>
  er_result :: "message_object option"

fun fields_match :: "(string \<times> field_check) list \<Rightarrow> (string \<times> pval) list \<Rightarrow> bool" where
  "fields_match [] attrs = True"
| "fields_match ((name, Satisfies p) # rest) attrs =
     (case map_of attrs name of None \<Rightarrow> False | Some v \<Rightarrow> p v)"
| "fields_match ((name, Equals v) # rest) attrs =
     (if (case map_of attrs name of None \<Rightarrow> PNone | Some w \<Rightarrow> w) \<noteq> v then False
      else fields_match rest attrs)"

definition response_matches :: "expected_response \<Rightarrow> connection_class \<Rightarrow> pystr option \<Rightarrow> message_object \<Rightarrow> bool" where
  "response_matches er cls username message =
     (if cls \<noteq> er_class er then False
      else if fst message \<noteq> er_message er then False
      else if er_peer er \<noteq> None \<and> cls = PeerConnection \<and> username \<noteq> er_peer er then False
      else fields_match (er_fields er) (snd message))"

definition new_expected :: "connection_class \<Rightarrow> msg_class \<Rightarrow> pystr option \<Rightarrow> (string \<times> field_check) list \<Rightarrow> expected_response" where
  "new_expected cls message peer checks =
     \<lparr>er_class = cls, er_message = message, er_peer = peer, er_fields = checks, er_done = False, er_result = None\<rparr>"

fun complete_responses ::
    "connection_class \<Rightarrow> pystr option \<Rightarrow> message_object \<Rightarrow> expected_response list \<Rightarrow> bool \<times> expected_response list" where
  \<comment> \<open>the loop at the end of \<open>on_message_received\<close>; \<open>set_result\<close> of a future that is done is an
     \<open>InvalidStateError\<close>, which ends the loop\<close>
  "complete_responses cls username message [] = (True, [])"
| "complete_responses cls username message (er # ers) =
     (if response_matches er cls username message then
        if er_done er then (False, er # ers)
        else (case complete_responses cls username message ers of
            (ok, ers') \<Rightarrow> (ok, er\<lparr>er_done := True, er_result := Some message\<rparr> # ers'))
      else (case complete_responses cls username message ers of (ok, ers') \<Rightarrow> (ok, er # ers')))"

definition run_response_callbacks :: "expected_response list \<Rightarrow> expected_response list" where
  \<comment> \<open>\<open>_remove_response_future\<close> of every future that is done\<close>
  "run_response_callbacks ers = filter (\<lambda>er. \<not> er_done er) ers"

definition cancel_response :: "nat \<Rightarrow> expected_response list \<Rightarrow> expected_response list" where
  \<comment> \<open>cancelled by a timeout or by its owner; the callback runs later\<close>
  "cancel_response k ers = (if k < length ers \<and> \<not> er_done (ers ! k) then ers[k := (ers ! k)\<lparr>er_done := True\<rparr>] else ers)"

subsection \<open>State\<close>

record peer_connection =
  conn :: connection
  peer_username :: "pystr option"
  peer_host :: pystr
  peer_port :: nat
  up_limiter :: "nat option"     \<comment> \<open>\<open>None\<close>: its own unlimited one\<close>
  down_limiter :: "nat option"

record peer_future =
  pf_username :: pystr
  pf_typ :: pystr
  pf_done :: bool
  pf_result :: "nat option"

record net =
  peer_objects :: "nat \<Rightarrow> peer_connection"   \<comment> \<open>connection objects, by reference\<close>
  next_peer :: nat
  peer_connections :: "nat list"
  response_futures :: "expected_response list"
  connection_futures :: "(nat \<times> peer_future) list"
  last_ticket :: nat
  limiter_store :: "nat \<Rightarrow> limiter"
  next_limiter :: nat
  upload_rate_limiter :: nat
  download_rate_limiter :: nat
  clear_listening :: "(nat \<times> connection_status) option"
  obfuscated_listening :: "(nat \<times> connection_status) option"
  upnp_task :: task_state
  watchdog_task :: task_state
  connect_tasks :: "nat list"

datatype net_output =
    To_Server message_object
  | Peer_Initialized nat bool             \<comment> \<open>\<open>PeerInitializedEvent\<close>: the connection, whether we requested it\<close>
  | Server_Reconnected

definition draw_ticket :: "net \<Rightarrow> nat \<times> net" where
  "draw_ticket n = (let t = next_ticket 1 (last_ticket n) in (t, n\<lparr>last_ticket := t\<rparr>))"

definition new_peer ::
    "pystr \<Rightarrow> nat \<Rightarrow> bool \<Rightarrow> pystr \<Rightarrow> pystr option \<Rightarrow> bool \<Rightarrow> peer_connection" where
  "new_peer host port obf typ username inc =
     \<lparr>conn = new_connection PeerConnection obf typ inc, peer_username = username, peer_host = host,
      peer_port = port, up_limiter = None, down_limiter = None\<rparr>"

definition append_peer :: "peer_connection \<Rightarrow> net \<Rightarrow> nat \<times> net" where
  "append_peer p n = (next_peer n, n\<lparr>peer_objects := (peer_objects n)(next_peer n := p),
     next_peer := next_peer n + 1, peer_connections := peer_connections n @ [next_peer n]\<rparr>)"

definition remove_peer_connection :: "nat \<Rightarrow> net \<Rightarrow> net" where
  "remove_peer_connection ref n =
     (if ref \<in> set (peer_connections n) then n\<lparr>peer_connections := remove1 ref (peer_connections n)\<rparr> else n)"

definition on_peer_connection_state_changed :: "connection_status \<Rightarrow> nat \<Rightarrow> net \<Rightarrow> net" where
  "on_peer_connection_state_changed st ref n = (if st = CLOSED then remove_peer_connection ref n else n)"

definition update_object :: "nat \<Rightarrow> (peer_connection \<Rightarrow> peer_connection) \<Rightarrow> net \<Rightarrow> net" where
  "update_object ref f n = n\<lparr>peer_objects := (peer_objects n)(ref := f (peer_objects n ref))\<rparr>"

definition on_connection :: "nat \<Rightarrow> (connection \<Rightarrow> connection) \<Rightarrow> net \<Rightarrow> net" where
  \<comment> \<open>an operation of a connection together with what \<open>on_state_changed\<close> does for its last state\<close>
  "on_connection ref f n =
     (let c = f (conn (peer_objects n ref)) in
      on_peer_connection_state_changed (state c) ref (update_object ref (\<lambda>p. p\<lparr>conn := c\<rparr>) n))"

definition is_active :: "pystr \<Rightarrow> pystr \<Rightarrow> peer_connection \<Rightarrow> bool" where
  "is_active username typ p \<longleftrightarrow> peer_username p = Some username \<and> connection_type (conn p) = typ
     \<and> state (conn p) = CONNECTED \<and> connection_state (conn p) = ESTABLISHED"

definition get_peer_connections :: "pystr \<Rightarrow> pystr \<Rightarrow> net \<Rightarrow> nat list" where
  "get_peer_connections username typ n = filter (\<lambda>r. peer_username (peer_objects n r) = Some username
     \<and> connection_type (conn (peer_objects n r)) = typ) (peer_connections n)"

definition get_active_peer_connections :: "pystr \<Rightarrow> pystr \<Rightarrow> net \<Rightarrow> nat list" where
  "get_active_peer_connections username typ n = filter (\<lambda>r. state (conn (peer_objects n r)) = CONNECTED
     \<and> connection_state (conn (peer_objects n r)) = ESTABLISHED) (get_peer_connections username typ n)"

subsection \<open>Listening ports\<close>

definition get_port :: "(nat \<times> connection_status) option \<Rightarrow> nat" where
  "get_port l = (case l of None \<Rightarrow> 0 | Some (port, st) \<Rightarrow> if st = CONNECTED then port else 0)"

definition get_listening_ports :: "net \<Rightarrow> nat \<times> nat" where
  "get_listening_ports n = (get_port (clear_listening n), get_port (obfuscated_listening n))"

definition create_listening_connection :: "nat \<Rightarrow> (nat \<times> connection_status) option" where
  \<comment> \<open>port 0: not configured\<close>
  "create_listening_connection port = (if port = 0 then None else Some (port, UNINITIALIZED))"

definition connect_listening :: "bool \<Rightarrow> (nat \<times> connection_status) option \<Rightarrow> (nat \<times> connection_status) option" where
  \<comment> \<open>\<open>ListeningConnection.connect\<close>: whether the port could be bound\<close>
  "connect_listening bound l = map_option (\<lambda>(port, st). (port, if bound then CONNECTED else CLOSED)) l"

definition disconnect_listening_ports :: "net \<Rightarrow> net" where
  "disconnect_listening_ports n =
     n\<lparr>clear_listening := map_option (\<lambda>(port, st). (port, CLOSED)) (clear_listening n),
       obfuscated_listening := map_option (\<lambda>(port, st). (port, CLOSED)) (obfuscated_listening n)\<rparr>"

definition connect_listening_ports :: "net_env \<Rightarrow> bool \<Rightarrow> bool \<Rightarrow> net \<Rightarrow> (net_error + unit) \<times> net" where
  "connect_listening_ports env clear_bound obf_bound n =
     (let results = (if clear_listening n = None then [] else [clear_bound])
            @ (if obfuscated_listening n = None then [] else [obf_bound]);
          n1 = n\<lparr>clear_listening := connect_listening clear_bound (clear_listening n),
                 obfuscated_listening := connect_listening obf_bound (obfuscated_listening n)\<rparr>;
          failed = (case error_mode env of
              Mode_All \<Rightarrow> list_all (\<lambda>bound. \<not> bound) results
            | Mode_Any \<Rightarrow> list_ex (\<lambda>bound. \<not> bound) results
            | Mode_Clear \<Rightarrow> (case clear_listening n1 of None \<Rightarrow> True | Some (port, st) \<Rightarrow> st \<noteq> CONNECTED))
      in if failed then (Inl Listening_Connection_Failed, disconnect_listening_ports n1) else (Inr (), n1))"

definition advertise_listening_ports :: "net \<Rightarrow> net_output list" where
  "advertise_listening_ports n = (case get_listening_ports n of (port, obfuscated_port) \<Rightarrow>
     [To_Server (SetListenPort_Request, [(''port'', PInt (int port)),
        (''obfuscated_port_amount'', PInt (if obfuscated_port \<noteq> 0 then 1 else 0)),
        (''obfuscated_port'', PInt (int obfuscated_port))])])"

definition select_port :: "net_env \<Rightarrow> nat \<Rightarrow> nat \<Rightarrow> nat \<times> bool" where
  "select_port env port obfuscated_port =
     (if port \<noteq> 0 \<and> obfuscated_port \<noteq> 0 then
        (if prefer_obfuscated env then (obfuscated_port, True) else (port, False))
      else if port \<noteq> 0 then (port, False)
      else (obfuscated_port, True))"

subsection \<open>Speed limits\<close>

definition set_upload_speed_limit :: "nat \<Rightarrow> net \<Rightarrow> net" where
  "set_upload_speed_limit limit_kbps n =
     (let l = next_limiter n in
      n\<lparr>limiter_store := (limiter_store n)(l := copy_tokens (create_limiter limit_kbps) (limiter_store n (upload_rate_limiter n))),
        next_limiter := l + 1, upload_rate_limiter := l,
        peer_objects := (\<lambda>r. if r \<in> set (peer_connections n) then (peer_objects n r)\<lparr>up_limiter := Some l\<rparr> else peer_objects n r)\<rparr>)"

definition set_download_speed_limit :: "nat \<Rightarrow> net \<Rightarrow> net" where
  "set_download_speed_limit limit_kbps n =
     (let l = next_limiter n in
      n\<lparr>limiter_store := (limiter_store n)(l := copy_tokens (create_limiter limit_kbps) (limiter_store n (download_rate_limiter n))),
        next_limiter := l + 1, download_rate_limiter := l,
        peer_objects := (\<lambda>r. if r \<in> set (peer_connections n) then (peer_objects n r)\<lparr>down_limiter := Some l\<rparr> else peer_objects n r)\<rparr>)"

definition load_speed_limits :: "nat \<Rightarrow> nat \<Rightarrow> net \<Rightarrow> net" where
  "load_speed_limits up down n = set_upload_speed_limit up (set_download_speed_limit down n)"

subsection \<open>Connecting to peers\<close>

definition get_peer_address :: "pystr \<times> nat \<times> nat \<Rightarrow> net_error + pystr \<times> nat \<times> nat" where
  \<comment> \<open>what is made of the answer of the server\<close>
  "get_peer_address response = (case response of (ip, port, obfuscated_port) \<Rightarrow>
     if ip = [48, 46, 48, 46, 48, 46, 48] then Inl Peer_Connection_Error
     else if port = 0 \<and> obfuscated_port = 0 then Inl Peer_Connection_Error
     else Inr (ip, port, obfuscated_port))"

definition finalize_peer_connection :: "nat \<Rightarrow> net \<Rightarrow> net" where
  "finalize_peer_connection ref n =
     (if connection_type (conn (peer_objects n ref)) = FILE then
        update_object ref (\<lambda>p. p\<lparr>conn := set_connection_state NEGOTIATING_TRANSFER (conn p),
          down_limiter := Some (download_rate_limiter n), up_limiter := Some (upload_rate_limiter n)\<rparr>) n
      else update_object ref (\<lambda>p. p\<lparr>conn := set_connection_state ESTABLISHED (conn p)\<rparr>) n)"

definition peer_connect :: "bool \<Rightarrow> nat \<Rightarrow> net \<Rightarrow> (net_error + unit) \<times> net" where
  "peer_connect opened ref n =
     ((case fst (connect opened (conn (peer_objects n ref))) of Inl e \<Rightarrow> Inl (Connection_Error e) | Inr u \<Rightarrow> Inr u),
      on_connection ref (\<lambda>c. snd (connect opened c)) n)"

definition peer_send :: "net_env \<Rightarrow> write_outcome \<Rightarrow> message_object \<Rightarrow> nat \<Rightarrow> net \<Rightarrow> (net_error + unit) \<times> net" where
  "peer_send env w message ref n =
     (let send = send_message (compress env) (key_token env) w (Obj message) in
      ((case fst (send (conn (peer_objects n ref))) of Inl e \<Rightarrow> Inl (Connection_Error e) | Inr _ \<Rightarrow> Inr ()),
       on_connection ref (\<lambda>c. snd (send c)) n))"

definition peer_disconnect :: "close_reason \<Rightarrow> nat \<Rightarrow> net \<Rightarrow> net" where
  "peer_disconnect reason ref n = on_connection ref (disconnect reason) n"

datatype address =
    Known pystr nat bool                  \<comment> \<open>address, port and whether it is obfuscated were given\<close>
  | Asked "net_error + pystr \<times> nat \<times> nat" \<comment> \<open>the server was asked: a failure to send, or its answer\<close>

definition resolve_address :: "net_env \<Rightarrow> pystr \<Rightarrow> address \<Rightarrow> net_error + pystr \<times> nat \<times> bool" where
  "resolve_address env username a =
     bindE (case a of
         Known ip port obf \<Rightarrow> Inr (ip, port, obf)
       | Asked answer \<Rightarrow> bindE answer (\<lambda>response. bindE (get_peer_address response) (\<lambda>(ip, clear_port, obfuscated_port).
           case select_port env clear_port obfuscated_port of (port, obf) \<Rightarrow> Inr (ip, port, obf))))
       (\<lambda>(ip, port, obf). Inr (case map_of (ip_overrides env) username of None \<Rightarrow> ip | Some ip' \<Rightarrow> ip', port, obf))"

definition make_direct_connection ::
    "net_env \<Rightarrow> nat \<Rightarrow> pystr \<Rightarrow> pystr \<Rightarrow> address \<Rightarrow> bool \<Rightarrow> write_outcome \<Rightarrow> net
     \<Rightarrow> (net_error + nat) \<times> net \<times> net_output list" where
  "make_direct_connection env ticket username typ a opened w n =
     (case resolve_address env username a of
        Inl e \<Rightarrow> (Inl e, n, [])
      | Inr (ip, port, obf) \<Rightarrow>
          case append_peer (new_peer ip port obf typ (Some username) False) n of (ref, n1) \<Rightarrow>
          case peer_connect opened ref n1 of
            (Inl e, n2) \<Rightarrow> (Inl e, n2, [])
          | (Inr _, n2) \<Rightarrow>
              (case peer_send env w (PeerInit_Request, [(''username'', PStr (own_username env)), (''typ'', PStr typ),
                  (''ticket'', PInt (int ticket))]) ref n2 of
                (Inl e, n3) \<Rightarrow> (Inl e, n3, [])
              | (Inr _, n3) \<Rightarrow> (Inr ref, finalize_peer_connection ref n3, [Peer_Initialized ref True])))"

text \<open>The stages of a direct attempt at which it can be cancelled. Neither \<open>connect\<close> nor \<open>_send\<close>
  catches a cancellation.\<close>

datatype direct_stage = Resolving | Connecting | Sending

definition cancelled_direct_connection ::
    "net_env \<Rightarrow> pystr \<Rightarrow> pystr \<Rightarrow> address \<Rightarrow> direct_stage \<Rightarrow> net \<Rightarrow> net" where
  "cancelled_direct_connection env username typ a stage n =
     (case resolve_address env username a of
        Inl e \<Rightarrow> n
      | Inr (ip, port, obf) \<Rightarrow>
          if stage = Resolving then n
          else case append_peer (new_peer ip port obf typ (Some username) False) n of (ref, n1) \<Rightarrow>
            if stage = Connecting then on_connection ref (set_state CONNECTING UNKNOWN) n1
            else snd (peer_connect True ref n1))"

definition indirect_start :: "nat \<Rightarrow> pystr \<Rightarrow> pystr \<Rightarrow> net \<Rightarrow> net \<times> net_output list" where
  \<comment> \<open>the first half of \<open>_make_indirect_connection\<close>\<close>
  "indirect_start ticket username typ n =
     (n\<lparr>connection_futures := AList.update ticket
          \<lparr>pf_username = username, pf_typ = typ, pf_done = False, pf_result = None\<rparr> (connection_futures n),
        response_futures := response_futures n
          @ [new_expected ServerConnection CannotConnect_Response None [(''ticket'', Equals (PInt (int ticket)))]]\<rparr>,
      [To_Server (ConnectToPeer_Request, [(''ticket'', PInt (int ticket)), (''username'', PStr username), (''typ'', PStr typ)])])"

datatype indirect_end =
    Send_Failed net_error \<comment> \<open>the message to the server could not be sent\<close>
  | Timed_Out
  | Cannot_Connect        \<comment> \<open>the server sent \<open>CannotConnect\<close>\<close>
  | Pierced nat           \<comment> \<open>a connection pierced the firewall\<close>

definition drop_futures :: "nat \<Rightarrow> net \<Rightarrow> net" where
  \<comment> \<open>the \<open>finally\<close> block: pending futures are cancelled, the callbacks remove both\<close>
  "drop_futures ticket n =
     n\<lparr>connection_futures := AList.delete ticket (connection_futures n),
       response_futures := run_response_callbacks (filter (\<lambda>er. \<not> (er_message er = CannotConnect_Response
         \<and> er_fields er = [(''ticket'', Equals (PInt (int ticket)))])) (response_futures n))\<rparr>"

definition indirect_finish :: "nat \<Rightarrow> indirect_end \<Rightarrow> net \<Rightarrow> (net_error + nat) \<times> net" where
  "indirect_finish ticket e n =
     (case e of
        Send_Failed err \<Rightarrow> Inl err
      | Timed_Out \<Rightarrow> Inl Peer_Connection_Error
      | Cannot_Connect \<Rightarrow> Inl Peer_Connection_Error
      | Pierced ref \<Rightarrow> Inr ref, drop_futures ticket n)"

definition make_indirect_connection ::
    "nat \<Rightarrow> pystr \<Rightarrow> pystr \<Rightarrow> (net \<Rightarrow> net) \<Rightarrow> indirect_end \<Rightarrow> net \<Rightarrow> (net_error + nat) \<times> net \<times> net_output list" where
  \<comment> \<open>\<open>meanwhile\<close>: what happens between the two halves\<close>
  "make_indirect_connection ticket username typ meanwhile e n =
     (case indirect_start ticket username typ n of (n1, out) \<Rightarrow>
      case indirect_finish ticket e (meanwhile n1) of (r, n2) \<Rightarrow> (r, n2, out))"

definition is_network_error :: "net_error \<Rightarrow> bool" where
  \<comment> \<open>the subclasses of \<open>NetworkError\<close>\<close>
  "is_network_error e = (case e of
     Connection_Error ce \<Rightarrow> ce \<in> {ConnectionFailedError, ConnectionReadError, ConnectionWriteError}
   | _ \<Rightarrow> True)"

definition create_peer_connection_fallback ::
    "net_env \<Rightarrow> nat \<Rightarrow> pystr \<Rightarrow> pystr \<Rightarrow> address \<Rightarrow> bool \<Rightarrow> write_outcome \<Rightarrow> (net \<Rightarrow> net) \<Rightarrow> indirect_end \<Rightarrow> net
     \<Rightarrow> (net_error + nat) \<times> net \<times> net_output list" where
  "create_peer_connection_fallback env ticket username typ a opened w meanwhile e n =
     (case make_direct_connection env ticket username typ a opened w n of
        (Inr ref, n1, out) \<Rightarrow> (Inr ref, n1, out)
      | (Inl err, n1, out) \<Rightarrow>
          if \<not> is_network_error err then (Inl err, n1, out)
          else (case make_indirect_connection ticket username typ meanwhile e n1 of
              (Inr ref, n2, out') \<Rightarrow> (Inr ref, n2, out @ out')
            | (Inl err', n2, out') \<Rightarrow>
                (Inl (if is_network_error err' then Peer_Connection_Error else err'), n2, out @ out')))"

text \<open>The race: both attempts run as tasks; \<open>asyncio.wait\<close> returns when one of them, or both, are
  done.\<close>

datatype 'a race_order = Direct_First | Indirect_First | Both_Done bool
  \<comment> \<open>whether the direct attempt comes first in the set of done tasks\<close>

definition create_peer_connection_race ::
    "(net_error + nat) \<Rightarrow> (net_error + nat) \<Rightarrow> unit race_order \<Rightarrow> (net \<Rightarrow> net) \<Rightarrow> (net \<Rightarrow> net) \<Rightarrow> (net \<Rightarrow> net)
     \<Rightarrow> net \<Rightarrow> (net_error + nat) \<times> net" where
  \<comment> \<open>the results of the two attempts, what happens until the second is done, and what the
     cancellation of the direct or of the indirect attempt leaves\<close>
  "create_peer_connection_race direct indirect order wait_second cancel_direct cancel_indirect n =
     (case order of
        Direct_First \<Rightarrow> (case direct of
            Inr ref \<Rightarrow> (Inr ref, cancel_indirect n)
          | Inl _ \<Rightarrow> (case indirect of Inr ref \<Rightarrow> Inr ref | Inl _ \<Rightarrow> Inl Peer_Connection_Error, wait_second n))
      | Indirect_First \<Rightarrow> (case indirect of
            Inr ref \<Rightarrow> (Inr ref, cancel_direct n)
          | Inl _ \<Rightarrow> (case direct of Inr ref \<Rightarrow> Inr ref | Inl _ \<Rightarrow> Inl Peer_Connection_Error, wait_second n))
      | Both_Done direct_first \<Rightarrow> (case (direct, indirect) of
            (Inr d, Inr i) \<Rightarrow> if direct_first then (Inr d, peer_disconnect REQUESTED i n) else (Inr i, peer_disconnect REQUESTED d n)
          | (Inr d, Inl _) \<Rightarrow> (Inr d, n)
          | (Inl _, Inr i) \<Rightarrow> (Inr i, n)
          | (Inl _, Inl _) \<Rightarrow> (Inl Peer_Connection_Error, n)))"

definition get_peer_connection ::
    "pystr \<Rightarrow> pystr \<Rightarrow> (net \<Rightarrow> (net_error + nat) \<times> net) \<Rightarrow> net \<Rightarrow> (net_error + nat) \<times> net" where
  \<comment> \<open>an active connection, or a new one by \<open>create\<close>\<close>
  "get_peer_connection username typ create n =
     (case get_active_peer_connections username typ n of
        ref # _ \<Rightarrow> (Inr ref, n)
      | [] \<Rightarrow> create n)"

record connect_to_peer =
  ctp_username :: pystr
  ctp_typ :: pystr
  ctp_ip :: pystr
  ctp_port :: nat
  ctp_ticket :: nat
  ctp_obfuscated_port :: nat

definition handle_connect_to_peer ::
    "net_env \<Rightarrow> connect_to_peer \<Rightarrow> bool \<Rightarrow> write_outcome \<Rightarrow> (net_error + unit) \<Rightarrow> net
     \<Rightarrow> (net_error + nat) \<times> net \<times> net_output list" where
  \<comment> \<open>\<open>told\<close>: the result of sending \<open>CannotConnect\<close>\<close>
  "handle_connect_to_peer env m opened w told n =
     (let ip = (case map_of (ip_overrides env) (ctp_username m) of None \<Rightarrow> ctp_ip m | Some ip' \<Rightarrow> ip') in
      case select_port env (ctp_port m) (ctp_obfuscated_port m) of (port, obf) \<Rightarrow>
      case append_peer (new_peer ip port obf (ctp_typ m) (Some (ctp_username m)) False) n of (ref, n1) \<Rightarrow>
      case (case peer_connect opened ref n1 of
              (Inl e, n2) \<Rightarrow> (Inl e, n2)
            | (Inr _, n2) \<Rightarrow> peer_send env w (PeerPierceFirewall_Request, [(''ticket'', PInt (int (ctp_ticket m)))]) ref n2) of
        (Inl e, n3) \<Rightarrow>
          if is_network_error e then
            (Inl (case told of Inl e' \<Rightarrow> e' | Inr _ \<Rightarrow> Peer_Connection_Error), n3,
             (case told of Inl _ \<Rightarrow> [] | Inr _ \<Rightarrow> [To_Server (CannotConnect_Request,
                [(''ticket'', PInt (int (ctp_ticket m))), (''username'', PStr (ctp_username m))])]))
          else (Inl e, n3, [])
      | (Inr _, n3) \<Rightarrow> (Inr ref, finalize_peer_connection ref n3, [Peer_Initialized ref False]))"

subsection \<open>Accepted connections\<close>

datatype init_message =
    Init_EOF
  | Init_Read_Error close_reason
  | Init_Malformed
  | Init_Peer pystr pystr         \<comment> \<open>\<open>PeerInit\<close>: username and type\<close>
  | Init_Pierce nat               \<comment> \<open>\<open>PeerPierceFirewall\<close>: the ticket\<close>
  | Init_Other

definition set_identity :: "nat \<Rightarrow> pystr \<Rightarrow> pystr \<Rightarrow> net \<Rightarrow> net" where
  "set_identity ref username typ n =
     update_object ref (\<lambda>p. p\<lparr>peer_username := Some username, conn := (conn p)\<lparr>connection_type := typ\<rparr>\<rparr>) n"

definition set_connection_result :: "nat \<Rightarrow> nat \<Rightarrow> net \<Rightarrow> bool \<times> net" where
  \<comment> \<open>\<open>connection_future.set_result\<close>: an \<open>InvalidStateError\<close> when the future is done. The future is
     the one looked up before the event was emitted; when it is no longer in the dictionary it is
     done\<close>
  "set_connection_result ticket ref n =
     (case map_of (connection_futures n) ticket of
        None \<Rightarrow> (False, n)
      | Some f \<Rightarrow> if pf_done f then (False, n)
          else (True, n\<lparr>connection_futures := AList.update ticket (f\<lparr>pf_done := True, pf_result := Some ref\<rparr>) (connection_futures n)\<rparr>))"

definition on_peer_accepted :: "init_message \<Rightarrow> (net \<Rightarrow> net) \<Rightarrow> nat \<Rightarrow> net \<Rightarrow> bool \<times> net \<times> net_output list" where
  \<comment> \<open>after the connection was appended; \<open>listeners\<close>: what happens while the event is emitted. The
     flag: no exception was raised\<close>
  "on_peer_accepted init listeners ref n =
     (case init of
        Init_EOF \<Rightarrow> (True, peer_disconnect EOF ref n, [])
      | Init_Read_Error reason \<Rightarrow> (True, peer_disconnect reason ref n, [])
      | Init_Malformed \<Rightarrow> (True, peer_disconnect READ_ERROR ref n, [])
      | Init_Peer username typ \<Rightarrow>
          (True, listeners (finalize_peer_connection ref (set_identity ref username typ n)), [Peer_Initialized ref False])
      | Init_Pierce ticket \<Rightarrow>
          (case map_of (connection_futures n) ticket of
             None \<Rightarrow> (True, peer_disconnect REQUESTED ref n, [])
           | Some f \<Rightarrow>
               let n1 = listeners (finalize_peer_connection ref (set_identity ref (pf_username f) (pf_typ f) n)) in
               case set_connection_result ticket ref n1 of
                 (ok, n2) \<Rightarrow> (ok, n2, [Peer_Initialized ref True]))
      | Init_Other \<Rightarrow> (True, peer_disconnect REQUESTED ref n, []))"

definition accept_connection ::
    "pystr \<Rightarrow> nat \<Rightarrow> bool \<Rightarrow> init_message \<Rightarrow> (net \<Rightarrow> net) \<Rightarrow> net \<Rightarrow> nat \<times> net \<times> net_output list" where
  \<comment> \<open>\<open>ListeningConnection.accept\<close>: the state is set last, whatever became of the connection\<close>
  "accept_connection host port obf init listeners n =
     (let p = new_peer host port obf PEER None True in
      case append_peer (p\<lparr>conn := (conn p)\<lparr>has_streams := True\<rparr>\<rparr>) n of (ref, n1) \<Rightarrow>
      case on_peer_accepted init listeners ref n1 of
        (True, n2, out) \<Rightarrow> (ref, on_connection ref (set_state CONNECTED UNKNOWN) n2, out)
      | (False, n2, out) \<Rightarrow> (ref, n2, out))"

subsection \<open>Messages\<close>

definition on_connect_to_peer :: "nat \<Rightarrow> net \<Rightarrow> net" where
  \<comment> \<open>the handler only starts a task\<close>
  "on_connect_to_peer task n = n\<lparr>connect_tasks := connect_tasks n @ [task]\<rparr>"

definition handle_connect_to_peer_callback :: "nat \<Rightarrow> net \<Rightarrow> net" where
  "handle_connect_to_peer_callback task n = n\<lparr>connect_tasks := remove1 task (connect_tasks n)\<rparr>"

definition on_message_received ::
    "nat \<Rightarrow> (net \<Rightarrow> net) \<Rightarrow> connection_class \<Rightarrow> pystr option \<Rightarrow> message_object \<Rightarrow> net \<Rightarrow> bool \<times> net" where
  \<comment> \<open>the own handlers, then the listeners, then the expected responses\<close>
  "on_message_received task listeners cls username message n =
     (let n1 = (if fst message = ConnectToPeer_Response then on_connect_to_peer task n else n);
          n2 = listeners n1 in
      case complete_responses cls username message (response_futures n2) of
        (ok, ers) \<Rightarrow> (ok, n2\<lparr>response_futures := ers\<rparr>))"

definition register_response_future :: "expected_response \<Rightarrow> net \<Rightarrow> net" where
  "register_response_future er n = n\<lparr>response_futures := response_futures n @ [er]\<rparr>"

definition create_server_response_future :: "msg_class \<Rightarrow> (string \<times> field_check) list \<Rightarrow> net \<Rightarrow> net" where
  "create_server_response_future message checks n =
     register_response_future (new_expected ServerConnection message None checks) n"

definition create_peer_response_future :: "pystr \<Rightarrow> msg_class \<Rightarrow> (string \<times> field_check) list \<Rightarrow> net \<Rightarrow> net" where
  "create_peer_response_future peer message checks n =
     register_response_future (new_expected PeerConnection message (Some peer) checks) n"

subsection \<open>Waiting for a response\<close>

type_synonym incoming = "connection_class \<times> pystr option \<times> message_object"

fun await_future ::
    "nat \<Rightarrow> incoming list \<Rightarrow> expected_response list \<Rightarrow> message_object option \<times> expected_response list" where
  \<comment> \<open>the future at position \<open>k\<close>: the messages that arrive until the timeout, which cancels it\<close>
  "await_future k [] ers = (None, take k ers @ drop (Suc k) ers)"
| "await_future k ((cls, username, message) # rest) ers =
     (case complete_responses cls username message ers of (ok, ers1) \<Rightarrow>
        if er_done (ers1 ! k) then (er_result (ers1 ! k), run_response_callbacks ers1)
        else await_future (length (run_response_callbacks (take k ers1))) rest (run_response_callbacks ers1))"

end
