(* ===== verification/Network_Server.thy ===== *)
theory Network_Server
  imports Network
begin

text \<open>
The rest of \<open>src/aioslsk/network/network.py\<close>: the server connection with its watchdog, the job that
  keeps port mappings, connecting and disconnecting the whole network, sending and waiting. An
  operation of the server connection is followed by what the network does for each state it reports.
\<close>

subsection \<open>The server connection\<close>

definition start_server_connection_watchdog :: "net \<Rightarrow> net" where
  "start_server_connection_watchdog n = n\<lparr>watchdog_task := background_start (watchdog_task n)\<rparr>"

definition stop_server_connection_watchdog :: "net \<Rightarrow> net" where
  "stop_server_connection_watchdog n = n\<lparr>watchdog_task := snd (background_cancel (watchdog_task n))\<rparr>"

definition start_upnp_job :: "net \<Rightarrow> net" where
  "start_upnp_job n = n\<lparr>upnp_task := background_start (upnp_task n)\<rparr>"

definition stop_upnp_job :: "net \<Rightarrow> net" where
  "stop_upnp_job n = n\<lparr>upnp_task := snd (background_cancel (upnp_task n))\<rparr>"

definition on_server_connection_state_changed :: "net_env \<Rightarrow> connection_status \<Rightarrow> close_reason \<Rightarrow> net \<Rightarrow> net" where
  "on_server_connection_state_changed env st reason n =
     (if st = CONNECTED then
        (let n1 = (if upnp_enabled env then start_upnp_job n else n)
         in if reconnect_auto env then start_server_connection_watchdog n1 else n1)
      else if st = CLOSING then
        (let n1 = stop_upnp_job n
         in if reason = close_reason.REQUESTED then stop_server_connection_watchdog n1
            else if reason = EOF then stop_server_connection_watchdog n1
            else n1)
      else n)"

type_synonym server_net = "connection \<times> net" \<comment> \<open>\<open>server_connection\<close> and the rest of the network\<close>

definition on_server :: "net_env \<Rightarrow> (connection \<Rightarrow> connection) \<Rightarrow> server_net \<Rightarrow> server_net" where
  \<comment> \<open>an operation of the server connection and what \<open>on_state_changed\<close> does for each of its states\<close>
  "on_server env f s = (case s of (c, n) \<Rightarrow> let c' = f c in
     (c', fold (\<lambda>(st, reason). on_server_connection_state_changed env st reason) (drop (length (notified c)) (notified c')) n))"

definition connect_server :: "net_env \<Rightarrow> bool \<Rightarrow> server_net \<Rightarrow> (connection_error + unit) \<times> server_net" where
  "connect_server env opened s = (fst (connect opened (fst s)), on_server env (\<lambda>c. snd (connect opened c)) s)"

definition disconnect_server :: "net_env \<Rightarrow> server_net \<Rightarrow> server_net" where
  "disconnect_server env s = on_server env (disconnect close_reason.REQUESTED) s"

definition initialize_network :: "net_env \<Rightarrow> bool \<Rightarrow> bool \<Rightarrow> bool \<Rightarrow> server_net \<Rightarrow> (net_error + unit) \<times> server_net" where
  "initialize_network env clear_bound obf_bound opened s =
     (case connect_listening_ports env clear_bound obf_bound (snd s) of
        (Inl e, n1) \<Rightarrow> (Inl e, fst s, n1)
      | (Inr _, n1) \<Rightarrow>
          (case connect_server env opened (fst s, n1) of
            (Inl e, s2) \<Rightarrow> (Inl (Connection_Error e), s2)
          | (Inr _, s2) \<Rightarrow> (Inr (), s2)))"

definition cancel_all_tasks :: "net \<Rightarrow> net" where
  \<comment> \<open>the cancelled tasks remove themselves from the list\<close>
  "cancel_all_tasks n = stop_upnp_job (n\<lparr>connect_tasks := []\<rparr>)"

definition disconnect_network :: "net_env \<Rightarrow> server_net \<Rightarrow> server_net" where
  "disconnect_network env s =
     (case disconnect_server env (fst s, cancel_all_tasks (snd s)) of
        (c, n) \<Rightarrow> (c, disconnect_listening_ports (fold (peer_disconnect close_reason.REQUESTED) (peer_connections n) n)))"

datatype watchdog_action = Warned | Tried_To_Reconnect bool

definition server_connection_watchdog_job ::
    "net_env \<Rightarrow> (server_net \<Rightarrow> server_net) \<Rightarrow> bool \<Rightarrow> connection_status \<Rightarrow> server_net
     \<Rightarrow> watchdog_action list \<times> connection_status \<times> server_net" where
  \<comment> \<open>\<open>meanwhile\<close>: what happens in the reconnect timeout; \<open>opened\<close>: whether the connection can be
     opened then; \<open>last_state\<close> of the context is an argument and a result\<close>
  "server_connection_watchdog_job env meanwhile opened last_state s =
     (if state (fst s) = CLOSED then
        (if \<not> credentials_configured env then (if CLOSED \<noteq> last_state then [Warned] else [], last_state, s)
         else (case connect_server env opened (meanwhile s) of
             (Inl _, s1) \<Rightarrow> ([Tried_To_Reconnect False], state (fst s1), s1)
           | (Inr _, s1) \<Rightarrow> ([Tried_To_Reconnect True], state (fst s1), s1)))
      else ([], state (fst s), s))"

subsection \<open>Port mappings\<close>

record port_mapping =
  pm_enabled :: bool
  pm_protocol :: pystr
  pm_client :: pystr
  pm_port :: nat
  pm_lease :: "rat option"  \<comment> \<open>\<open>lease_duration\<close> in seconds\<close>

definition TCP :: pystr where "TCP = [84, 67, 80]"

definition filter_mapped_port :: "port_mapping list \<Rightarrow> pystr \<Rightarrow> nat \<Rightarrow> port_mapping option" where
  "filter_mapped_port mapped ip port =
     find (\<lambda>p. (pm_enabled p, pm_protocol p, pm_client p, pm_port p) = (True, TCP, ip, port)) mapped"

definition check_port :: "pystr \<Rightarrow> port_mapping list \<Rightarrow> nat \<Rightarrow> nat list \<times> rat list" where
  \<comment> \<open>the ports to map, and the lease of the mapping found. A request that fails is only logged\<close>
  "check_port ip mapped port =
     (case filter_mapped_port mapped ip port of
        None \<Rightarrow> ([port], [])
      | Some p \<Rightarrow> ([], case pm_lease p of None \<Rightarrow> [] | Some seconds \<Rightarrow> if seconds \<noteq> 0 then [seconds] else []))"

definition upnp_job :: "net_env \<Rightarrow> pystr \<Rightarrow> port_mapping list list \<Rightarrow> net \<Rightarrow> (nat \<times> nat) list \<times> rat" where
  \<comment> \<open>for the mappings of every device: which ports are mapped on which device, and the next check\<close>
  "upnp_job env ip devices n =
     (let ports = filter (\<lambda>p. p \<noteq> 0) [fst (get_listening_ports n), snd (get_listening_ports n)];
          checks = concat (map (\<lambda>(d, mapped). map (\<lambda>p. (d, check_port ip mapped p)) ports) (enumerate 0 devices))
      in (concat (map (\<lambda>(d, to_map, _). map (Pair d) to_map) checks),
          Min (set (concat (map (\<lambda>(_, _, leases). leases) checks) @ [upnp_check_interval env]))))"

subsection \<open>Sending\<close>

definition send_all :: "(message_object \<Rightarrow> 's \<Rightarrow> (net_error + unit) \<times> 's) \<Rightarrow> message_object list \<Rightarrow> 's
     \<Rightarrow> (message_object \<times> (net_error + unit)) list \<times> 's" where
  \<comment> \<open>\<open>asyncio.gather\<close> of the sends, which run in order; the results for each message\<close>
  "send_all send_one messages s =
     fold (\<lambda>m (rs, s). case send_one m s of (r, s') \<Rightarrow> (rs @ [(m, r)], s')) messages ([], s)"

definition gather_result :: "bool \<Rightarrow> (message_object \<times> (net_error + unit)) list \<Rightarrow> net_error + (message_object \<times> (net_error + unit)) list option" where
  \<comment> \<open>\<open>raise_on_error\<close>: the first error is raised, else nothing is returned\<close>
  "gather_result raise_on_error results =
     (if raise_on_error then (case find (\<lambda>r. isl (snd r)) results of None \<Rightarrow> Inr None | Some r \<Rightarrow> Inl (projl (snd r)))
      else Inr (Some results))"

definition send_server_messages ::
    "net_env \<Rightarrow> (message_object \<Rightarrow> write_outcome) \<Rightarrow> bool \<Rightarrow> message_object list \<Rightarrow> server_net
     \<Rightarrow> (net_error + (message_object \<times> (net_error + unit)) list option) \<times> server_net" where
  "send_server_messages env w raise_on_error messages s =
     (case send_all (\<lambda>m s. let send = send_message (compress env) (key_token env) (w m) (Obj m) in
          ((case fst (send (fst s)) of Inl e \<Rightarrow> Inl (Connection_Error e) | Inr _ \<Rightarrow> Inr ()), on_server env (\<lambda>c. snd (send c)) s)) messages s of
        (results, s1) \<Rightarrow> (gather_result raise_on_error results, s1))"

definition queue_server_messages :: "net_env \<Rightarrow> nat list \<Rightarrow> server_net \<Rightarrow> server_net" where
  \<comment> \<open>one task for each message\<close>
  "queue_server_messages env tasks s = on_server env (fold queue_message tasks) s"

definition send_peer_messages ::
    "net_env \<Rightarrow> pystr \<Rightarrow> (net \<Rightarrow> (net_error + nat) \<times> net) \<Rightarrow> (message_object \<Rightarrow> write_outcome) \<Rightarrow> bool \<Rightarrow> message_object list \<Rightarrow> net
     \<Rightarrow> (net_error + (message_object \<times> (net_error + unit)) list option) \<times> net" where
  "send_peer_messages env username create w raise_on_error messages n =
     (case get_peer_connection username PEER create n of
        (Inl e, n1) \<Rightarrow> (Inl e, n1)
      | (Inr ref, n1) \<Rightarrow>
          (case send_all (\<lambda>m. peer_send env (w m) m ref) messages n1 of
            (results, n2) \<Rightarrow> (gather_result raise_on_error results, n2)))"

definition create_peer_connection ::
    "net_env \<Rightarrow> (nat \<Rightarrow> net \<Rightarrow> (net_error + nat) \<times> net) \<Rightarrow> (nat \<Rightarrow> net \<Rightarrow> (net_error + nat) \<times> net) \<Rightarrow> net
     \<Rightarrow> (net_error + nat) \<times> net" where
  \<comment> \<open>the two ways of connecting, with the ticket that is drawn first\<close>
  "create_peer_connection env race fallback n =
     (case draw_ticket n of (t, n1) \<Rightarrow> if connect_mode env = Mode_Race then race t n1 else fallback t n1)"

subsection \<open>Waiting for messages\<close>

definition wait_for_server_message ::
    "msg_class \<Rightarrow> (string \<times> field_check) list \<Rightarrow> incoming list \<Rightarrow> net \<Rightarrow> message_object option \<times> net" where
  \<comment> \<open>\<open>received\<close>: the messages until the timeout; \<open>None\<close>: \<open>TimeoutError\<close>\<close>
  "wait_for_server_message message checks received n =
     (case await_future (length (response_futures n)) received (response_futures (create_server_response_future message checks n)) of
        (r, ers) \<Rightarrow> (r, n\<lparr>response_futures := ers\<rparr>))"

definition wait_for_peer_message ::
    "pystr \<Rightarrow> msg_class \<Rightarrow> (string \<times> field_check) list \<Rightarrow> incoming list \<Rightarrow> net \<Rightarrow> message_object option \<times> net" where
  "wait_for_peer_message peer message checks received n =
     (case await_future (length (response_futures n)) received (response_futures (create_peer_response_future peer message checks n)) of
        (r, ers) \<Rightarrow> (r, n\<lparr>response_futures := ers\<rparr>))"

end
