(* ===== verification/Small_Managers.thy ===== *)
theory Small_Managers
  imports Searches Rooms Network_Server
begin

text \<open>
\<open>src/aioslsk/peer.py\<close>, \<open>src/aioslsk/interest/manager.py\<close> and \<open>src/aioslsk/server.py\<close>: what is
  replied to a peer, what is done with its replies, interests and recommendations, pings. The events
  a handler emits and the messages it sends are its results.
\<close>

subsection \<open>Peer messages\<close>

record peer_settings =
  peer_blocked :: block_list
  own_description :: "pystr option"
  own_picture :: "bytes option"
  own_upload_slots :: nat

datatype peer_output =
    Send_Peer_Message message_object
  | User_Shares_Reply pystr "pval list" "pval list"
  | User_Directory pystr pystr "pval list"

definition directory_value :: "pystr \<times> file_data list \<Rightarrow> pval" where
  "directory_value d = PObj ''DirectoryData'' [(''name'', PStr (fst d)), (''files'', PList (map file_data_value (snd d)))]"

definition named :: "pystr option \<Rightarrow> bool" where
  \<comment> \<open>the connection was initialized: \<open>connection.username\<close> is a non-empty name\<close>
  "named username \<longleftrightarrow> username \<noteq> None \<and> username \<noteq> Some []"

definition on_peer_shares_request ::
    "peer_settings \<Rightarrow> shares_env \<Rightarrow> shares \<Rightarrow> pystr option \<Rightarrow> peer_output list" where
  "on_peer_shares_request s env sh username =
     (if \<not> named username then []
      else if is_blocked (peer_blocked s) (the username) SHARES then []
      else (case create_shares_reply env (the username) sh of (visible, locked) \<Rightarrow>
        [Send_Peer_Message (PeerSharesReply_Request, [(''directories'', PList (map directory_value visible)),
           (''unknown'', PInt 0), (''locked_directories'', PList (map directory_value locked))])]))"

definition on_peer_shares_reply :: "pystr option \<Rightarrow> pval list \<Rightarrow> pval list option \<Rightarrow> user_manager \<Rightarrow> peer_output list \<times> user_manager" where
  "on_peer_shares_reply username dirs locked um =
     (if \<not> named username then ([], um)
      else ([User_Shares_Reply (the username) dirs (case locked of None \<Rightarrow> [] | Some ds \<Rightarrow> ds)], touch_user (the username) um))"

definition on_peer_directory_contents_req ::
    "peer_settings \<Rightarrow> shares_env \<Rightarrow> shares \<Rightarrow> nat \<Rightarrow> pystr \<Rightarrow> pystr option \<Rightarrow> peer_output list" where
  "on_peer_directory_contents_req s env sh t dir username =
     (if \<not> named username then []
      else if is_blocked (peer_blocked s) (the username) SHARES then []
      else [Send_Peer_Message (PeerDirectoryContentsReply_Request, [(''ticket'', PInt (int t)), (''directory'', PStr dir),
         (''directories'', PList (map directory_value (create_directory_reply env dir sh)))])])"

definition on_peer_directory_contents_reply ::
    "pystr option \<Rightarrow> pystr \<Rightarrow> pval list \<Rightarrow> user_manager \<Rightarrow> peer_output list \<times> user_manager" where
  "on_peer_directory_contents_reply username dir dirs um =
     (if \<not> named username then ([], um)
      else ([User_Directory (the username) dir dirs], touch_user (the username) um))"

definition on_peer_user_info_request :: "peer_settings \<Rightarrow> upload_info \<Rightarrow> pystr option \<Rightarrow> peer_output list" where
  "on_peer_user_info_request s info username =
     (if \<not> named username then []
      else if is_blocked (peer_blocked s) (the username) INFO then []
      else [Send_Peer_Message (PeerUserInfoReply_Request,
         [(''description'', PStr (case own_description s of None \<Rightarrow> [] | Some d \<Rightarrow> d)),
          (''has_picture'', PBool (own_picture s \<noteq> None \<and> own_picture s \<noteq> Some [])),
          (''picture'', case own_picture s of None \<Rightarrow> PNone | Some b \<Rightarrow> PBytes b),
          (''upload_slots'', PInt (int (own_upload_slots s))), (''queue_size'', PInt (int (info_queue_size info))),
          (''has_slots_free'', PBool (info_slots_free info)), (''upload_permissions'', PNone)])])"

subsection \<open>Interests\<close>

datatype interest_event =
    Recommendations pval pval
  | Global_Recommendations pval pval
  | Item_Recommendations pval pval
  | User_Interests pystr pval pval
  | Similar_Users "(pystr \<times> int) list"
  | Item_Similar_Users pval "pystr list"

definition advertise_interests :: "pystr list \<Rightarrow> pystr list \<Rightarrow> message_object list" where
  \<comment> \<open>each is sent on its own: one that fails keeps no other from being sent\<close>
  "advertise_interests liked hated =
     map (\<lambda>i. (AddInterest_Request, [(''interest'', PStr i)])) liked
     @ map (\<lambda>i. (AddHatedInterest_Request, [(''hated_interest'', PStr i)])) hated"

definition on_get_recommendations :: "pval \<Rightarrow> pval \<Rightarrow> interest_event list" where
  "on_get_recommendations recs unrecs = [Recommendations recs unrecs]"

definition on_get_global_recommendations :: "pval \<Rightarrow> pval \<Rightarrow> interest_event list" where
  "on_get_global_recommendations recs unrecs = [Global_Recommendations recs unrecs]"

definition on_get_item_recommendations :: "pval \<Rightarrow> pval \<Rightarrow> interest_event list" where
  "on_get_item_recommendations item recs = [Item_Recommendations item recs]"

definition on_get_user_interests :: "pystr \<Rightarrow> pval \<Rightarrow> pval \<Rightarrow> user_manager \<Rightarrow> interest_event list \<times> user_manager" where
  "on_get_user_interests username liked hated um = ([User_Interests username liked hated], touch_user username um)"

definition on_get_similar_users :: "(pystr \<times> int) list \<Rightarrow> user_manager \<Rightarrow> interest_event list \<times> user_manager" where
  "on_get_similar_users us um = ([Similar_Users us], fold (\<lambda>u. touch_user (fst u)) us um)"

definition on_get_item_similar_users :: "pval \<Rightarrow> pystr list \<Rightarrow> user_manager \<Rightarrow> interest_event list \<times> user_manager" where
  "on_get_item_similar_users item names um = ([Item_Similar_Users item names], fold touch_user names um)"

definition on_interest_session_initialized :: "pystr list \<Rightarrow> pystr list \<Rightarrow> message_object list" where
  "on_interest_session_initialized liked hated = advertise_interests liked hated"

subsection \<open>Pings\<close>

definition SERVER_PING_INTERVAL :: rat where "SERVER_PING_INTERVAL = 300"

definition send_ping :: message_object where "send_ping = (Ping_Request, [])"

definition ping_job :: "bool \<Rightarrow> message_object list" where
  \<comment> \<open>a failure is logged; the job never raises\<close>
  "ping_job sent = (if sent then [send_ping] else [])"

definition on_ping_state_changed :: "connection_class \<Rightarrow> connection_status \<Rightarrow> task_state \<Rightarrow> task_state" where
  "on_ping_state_changed cls st t =
     (if cls \<noteq> ServerConnection then t
      else if st = CONNECTED then background_start t
      else if st = CLOSING then snd (background_cancel t)
      else t)"

end
