(* ===== verification/Read_Timeout.thy ===== *)
theory Read_Timeout
  imports Connection Small_Managers
begin

text \<open>
What a pending read sees of time (\<open>src/aioslsk/network/connection.py\<close>: \<open>_read\<close>,
  \<open>_increase_read_timeout\<close>), the pings of \<open>src/aioslsk/server.py\<close> that keep the server connection
  open, the tasks of a connection, and connecting and closing a listening connection.
\<close>

subsection \<open>Listening connections\<close>

definition listening_disconnect :: "close_reason \<Rightarrow> connection_status \<times> (connection_status \<times> close_reason) list" where
  \<comment> \<open>the state and the notifications; unlike a data connection it has no guard against a second call,
    and an exception of the server object is only logged\<close>
  "listening_disconnect reason = (CLOSED, [(CLOSING, reason), (CLOSED, reason)])"

definition listening_connect :: "bool \<Rightarrow> (connection_error + unit) \<times> connection_status \<times> (connection_status \<times> close_reason) list" where
  \<comment> \<open>the argument: whether the port could be bound\<close>
  "listening_connect bound =
     (if bound then (Inr (), CONNECTED, [(CONNECTING, UNKNOWN), (CONNECTED, UNKNOWN)])
      else (case listening_disconnect CONNECT_FAILED of
          (st, calls) \<Rightarrow> (Inl ConnectionFailedError, st, (CONNECTING, UNKNOWN) # calls)))"

lemma listening_connect_status:
  "connect_listening bound (Some (port, st)) = Some (port, fst (snd (listening_connect bound)))"
  "isl (fst (listening_connect bound)) \<longleftrightarrow> \<not> bound"
  by (simp_all add: connect_listening_def listening_connect_def listening_disconnect_def)

subsection \<open>The tasks of a connection\<close>

definition start_reader_task :: "connection \<Rightarrow> connection" where
  "start_reader_task c = c\<lparr>reader_task := True\<rparr>"

definition stop_reader_task :: "connection \<Rightarrow> connection" where
  "stop_reader_task c = c\<lparr>reader_task := False\<rparr>"

definition queue_messages :: "nat list \<Rightarrow> connection \<Rightarrow> nat list \<times> connection" where
  \<comment> \<open>a fresh number for the task of each message; they run and end in any order\<close>
  "queue_messages tasks c = (tasks, fold queue_message tasks c)"

lemma queue_messages_cancelled:
  "state c \<noteq> CLOSED \<Longrightarrow> state c \<noteq> CLOSING \<Longrightarrow> queued_messages (disconnect reason (snd (queue_messages tasks c))) = []"
proof -
  have "state (fold queue_message tasks c) = state c"
    by (induction tasks arbitrary: c) (simp_all add: queue_message_def)
  moreover assume "state c \<noteq> CLOSED" "state c \<noteq> CLOSING"
  ultimately show ?thesis by (simp add: queue_messages_def connection_defs)
qed

subsection \<open>The timeout of a read\<close>

text \<open>Time is rational. A pending read has a deadline, if its connection has a read timeout; every message
  that is sent while it is pending moves it.\<close>

definition start_timeout :: "rat \<Rightarrow> rat \<Rightarrow> rat option" where
  \<comment> \<open>\<open>asyncio.timeout\<close> of \<open>_read\<close>\<close>
  "start_timeout timeout now = (if timeout = 0 then None else Some (now + timeout))"

definition increase_read_timeout :: "rat \<Rightarrow> rat \<Rightarrow> rat option \<Rightarrow> rat option" where
  \<comment> \<open>an expired timeout cannot be rescheduled: the \<open>RuntimeError\<close> is ignored\<close>
  "increase_read_timeout timeout now deadline =
     (case deadline of
        None \<Rightarrow> None
      | Some t \<Rightarrow> if timeout = 0 \<or> t \<le> now then Some t else Some (t + timeout))"

datatype read_end = Arrives rat | Expires rat | Pends

definition read_end :: "rat option \<Rightarrow> rat option \<Rightarrow> read_end" where
  "read_end deadline arrival =
     (case (deadline, arrival) of
        (None, None) \<Rightarrow> Pends
      | (None, Some a) \<Rightarrow> Arrives a
      | (Some d, None) \<Rightarrow> Expires d
      | (Some d, Some a) \<Rightarrow> if a < d then Arrives a else Expires d)"

fun ends_before :: "read_end \<Rightarrow> rat \<Rightarrow> bool" where
  "ends_before (Arrives t) s = (t \<le> s)"
| "ends_before (Expires t) s = (t \<le> s)"
| "ends_before Pends s = False"

fun await_read :: "rat \<Rightarrow> rat option \<Rightarrow> rat list \<Rightarrow> rat option \<Rightarrow> read_end" where
  \<comment> \<open>the timeout of the connection, the deadline, the times at which messages are sent, the time at
    which data arrives\<close>
  "await_read timeout deadline [] arrival = read_end deadline arrival"
| "await_read timeout deadline (sent # later) arrival =
     (if ends_before (read_end deadline arrival) sent then read_end deadline arrival
      else await_read timeout (increase_read_timeout timeout sent deadline) later arrival)"

fun outcome_of :: "bytes \<Rightarrow> read_end \<Rightarrow> read_outcome option" where
  \<comment> \<open>what \<open>_read\<close> makes of it\<close>
  "outcome_of data (Arrives t) = Some (Data data)"
| "outcome_of data (Expires t) = Some ReadTimeout"
| "outcome_of data Pends = None"

definition SERVER_READ_TIMEOUT :: rat where
  "SERVER_READ_TIMEOUT = SERVER_PING_INTERVAL * 2"

lemma await_deadline:
  assumes "timeout > 0" "\<forall>k < length sends. sends ! k < d + timeout * of_nat k"
  shows "await_read timeout (Some d) sends None = Expires (d + timeout * of_nat (length sends))"
  using assms(2)
proof (induction sends arbitrary: d)
  case (Cons s sends)
  have s: "s < d" using Cons.prems by (force dest: spec [where x = 0])
  have "\<forall>k < length sends. sends ! k < (d + timeout) + timeout * of_nat k"
  proof (intro allI impI)
    fix k assume "k < length sends"
    then have "(s # sends) ! Suc k < d + timeout * of_nat (Suc k)" using Cons.prems by (metis Suc_less_eq length_Cons)
    then show "sends ! k < (d + timeout) + timeout * of_nat k" by (simp add: algebra_simps)
  qed
  from Cons.IH [OF this] s assms(1) show ?case
    by (simp add: read_end_def increase_read_timeout_def algebra_simps)
qed (simp add: read_end_def)

lemma no_timeout_waits: "await_read 0 None sends None = Pends"
  by (induction sends) (simp_all add: read_end_def increase_read_timeout_def)

text \<open>C40: As long as the client can send its pings an idle server connection is not closed by its read
  timeout, however long the server says nothing: after any number of pings the time at which the
  pending read would expire lies behind the time of the next ping, which moves it again.\<close>

theorem pings_keep_the_server_connection:
  assumes "0 \<le> first" "first \<le> SERVER_PING_INTERVAL"
    and "pings = map (\<lambda>k. start + first + of_nat k * SERVER_PING_INTERVAL) [0..<n]"
    and "await_read SERVER_READ_TIMEOUT (start_timeout SERVER_READ_TIMEOUT start) pings None = result"
  shows "\<exists>t. result = Expires t \<and> t > start + first + of_nat n * SERVER_PING_INTERVAL"
proof -
  have early: "\<forall>k < length pings. pings ! k < (start + SERVER_READ_TIMEOUT) + SERVER_READ_TIMEOUT * of_nat k"
    using assms(2,3) by (auto simp: SERVER_READ_TIMEOUT_def SERVER_PING_INTERVAL_def)
  have "start_timeout SERVER_READ_TIMEOUT start = Some (start + SERVER_READ_TIMEOUT)" "SERVER_READ_TIMEOUT > 0"
    by (simp_all add: start_timeout_def SERVER_READ_TIMEOUT_def SERVER_PING_INTERVAL_def)
  with await_deadline [OF _ early] assms(3,4)
  have "result = Expires ((start + SERVER_READ_TIMEOUT) + SERVER_READ_TIMEOUT * of_nat n)" by simp
  moreover have "start + first + of_nat n * SERVER_PING_INTERVAL < (start + SERVER_READ_TIMEOUT) + SERVER_READ_TIMEOUT * of_nat n"
    using assms(2) by (simp add: SERVER_READ_TIMEOUT_def SERVER_PING_INTERVAL_def)
  ultimately show ?thesis by blast
qed

lemma pings_keep_the_server_connection_witness:
  "\<exists>t. await_read SERVER_READ_TIMEOUT (start_timeout SERVER_READ_TIMEOUT 1000) [1100, 1400, 1700, 2000] None = Expires t \<and> t > 2300"
  using pings_keep_the_server_connection [of 100 "[1100, 1400, 1700, 2000]" 1000 4]
  by (simp add: SERVER_PING_INTERVAL_def upt_rec)

text \<open>Without anything to send the read ends in time, and the connection is closed with the reason \<open>TIMEOUT\<close>.\<close>

lemma silent_connection_times_out:
  assumes "timeout > 0"
  shows "await_read timeout (start_timeout timeout start) [] None = Expires (start + timeout)"
    and "snd (read_data ReadTimeout c) = disconnect TIMEOUT c"
  using assms by (simp_all add: start_timeout_def read_end_def read_data_def)

end
