(* ===== verification/Scanning.thy ===== *)
theory Scanning
  imports Shares_Properties
begin

text \<open>
Scanning the shares (\<open>src/aioslsk/shares/manager.py\<close>: \<open>extract_attributes\<close>, \<open>scan\<close>): the attributes
  of audio files, and that a scan makes the shares what is on the disk and keeps the invariant that
  queries rest on.
\<close>

subsection \<open>Attributes of audio files\<close>

text \<open>What mutagen makes of a file is an argument.\<close>

datatype bitrate_mode = MODE_UNKNOWN | MODE_CBR | MODE_VBR | MODE_ABR

record audio =
  audio_class :: string
  bitrate :: nat
  audio_length :: rat
  audio_mode :: bitrate_mode
  sample_rate :: nat
  bits_per_sample :: nat

datatype mutagen_file = Mutagen_Error | Other_Error | No_Audio | Audio audio

definition COMPRESSED_FORMATS :: "string list" where
  "COMPRESSED_FORMATS = [''MP3'', ''MP4'', ''ASF'', ''OggVorbis'']"

definition LOSSLESS_FORMATS :: "string list" where
  "LOSSLESS_FORMATS = [''FLAC'', ''WAVE'']"

definition audio_attributes :: "audio \<Rightarrow> (nat \<times> nat) list" where
  "audio_attributes a =
     (if audio_class a \<in> set COMPRESSED_FORMATS then
        [(0, bitrate a div 1000), (1, nat \<lfloor>audio_length a\<rfloor>)]
        @ (case audio_mode a of
             MODE_CBR \<Rightarrow> [(2, 0)]
           | MODE_VBR \<Rightarrow> [(2, 1)]
           | MODE_ABR \<Rightarrow> [(2, 1)]
           | MODE_UNKNOWN \<Rightarrow> [])
      else if audio_class a \<in> set LOSSLESS_FORMATS then
        [(1, nat \<lfloor>audio_length a\<rfloor>), (4, sample_rate a), (5, bits_per_sample a)]
      else [])"

fun extract_attributes :: "mutagen_file \<Rightarrow> (nat \<times> nat) list option" where
  \<comment> \<open>\<open>None\<close>: an exception that is not one of mutagen's leaves the function\<close>
  "extract_attributes Mutagen_Error = Some []"
| "extract_attributes Other_Error = None"
| "extract_attributes No_Audio = Some []"
| "extract_attributes (Audio a) = Some (audio_attributes a)"

lemma attribute_keys_distinct:
  "extract_attributes m = Some attrs \<Longrightarrow> distinct (map fst attrs)"
  by (cases m) (auto simp: audio_attributes_def split: bitrate_mode.splits)

subsection \<open>The whole scan\<close>

definition scan ::
    "shares_env \<Rightarrow> (shared_item \<Rightarrow> bool) \<Rightarrow> (dir_ref \<Rightarrow> walk option) \<Rightarrow> (pystr \<Rightarrow> mutagen_file) \<Rightarrow> bool \<Rightarrow> shares
     \<Rightarrow> (nat \<times> nat) \<times> (nat \<times> nat) list \<times> shares" where
  \<comment> \<open>the counts of \<open>ScanCompleteEvent\<close>, what is reported to the server, the new state; the results of the
    executor are taken in one directory at a time, here in the order of the list\<close>
  "scan env held walks mutagen session sh =
     (let sh1 = fold (\<lambda>r s. snd (scan_directory_files env held (walks r) r s)) (shared_directories sh) sh;
          sh2 = fold (scan_directory_file_attributes (\<lambda>path. extract_attributes (mutagen path))) (shared_directories sh1) sh1
      in (get_stats sh2, report_shares session sh2, sh2))"

subsection \<open>A scanned directory\<close>

definition refs_ok :: "shares \<Rightarrow> bool" where
  \<comment> \<open>no two shared directories are equal, and items belong to the directory they are listed in\<close>
  "refs_ok sh \<longleftrightarrow>
     (\<forall>r \<in> set (shared_directories sh). \<forall>s \<in> set (shared_directories sh).
        same_directory (objects sh r) (objects sh s) \<longrightarrow> r = s)
     \<and> (\<forall>r \<in> set (shared_directories sh). \<forall>i \<in> set (dir_items (objects sh r)). item_dir i = r)
     \<and> distinct (map fst (term_map sh))"

definition walk_ok :: "walk \<Rightarrow> bool" where
  \<comment> \<open>file names are names\<close>
  "walk_ok w \<longleftrightarrow> (\<forall>(dir, files) \<in> set w. \<forall>(name, time) \<in> set files. name \<noteq> [] \<and> hd name \<noteq> 47)"

lemma map_filter_mem: "x \<in> set (List.map_filter f xs) \<longleftrightarrow> (\<exists>y \<in> set xs. f y = Some x)"
  by (induction xs) (auto simp: map_filter_simps split: option.splits)

lemma found_items:
  assumes "i \<in> set (scan_directory env w r kids sh)"
  shows "item_dir i = r" "walk_ok w \<Longrightarrow> filename i \<noteq> [] \<and> hd (filename i) \<noteq> 47"
proof -
  obtain dir files where d: "(dir, files) \<in> set w"
    and "i \<in> set (List.map_filter (\<lambda>(name, time). case time of None \<Rightarrow> None
          | Some tm \<Rightarrow> Some \<lparr>item_dir = r, subdir = relative_path dir (absolute_path (objects sh r)),
              filename = name, modified = tm\<rparr>) files)"
    using assms unfolding scan_directory_def by (auto split: if_splits)
  then obtain name tm where f: "(name, Some tm) \<in> set files"
    and i: "i = \<lparr>item_dir = r, subdir = relative_path dir (absolute_path (objects sh r)), filename = name, modified = tm\<rparr>"
    by (auto simp: map_filter_mem split: option.splits)
  from i show "item_dir i = r" by simp
  show "filename i \<noteq> [] \<and> hd (filename i) \<noteq> 47" if "walk_ok w"
    using bspec [OF that [unfolded walk_ok_def] d] f i by force
qed

lemma item_eq_dir: "item_eq sh i j \<Longrightarrow> item_dir i = item_dir j \<Longrightarrow> i = j"
  by (simp add: item_eq_def)

lemma own_items_distinct:
  assumes "refs_ok sh"
  shows "values_distinct sh"
  unfolding values_distinct_def
proof (intro ballI impI)
  fix i j assume ij: "i \<in> shared_items sh" "j \<in> shared_items sh" "item_eq sh i j"
  have dirs: "item_dir k \<in> set (shared_directories sh)" if "k \<in> shared_items sh" for k
    using assms that by (auto simp: shared_items_def refs_ok_def)
  have "same_directory (objects sh (item_dir i)) (objects sh (item_dir j))" using ij(3) by (simp add: item_eq_def)
  then have "item_dir i = item_dir j" using assms dirs ij(1,2) unfolding refs_ok_def by blast
  with ij(3) show "i = j" by (rule item_eq_dir)
qed

lemma item_eq_items [simp]:
  "item_eq (set_object r ((objects sh r)\<lparr>dir_items := xs\<rparr>) sh) = item_eq sh"
  by (rule ext)+ (auto simp: item_eq_def same_directory_def set_object_def)

lemma item_eq_fields [simp]:
  "item_eq (sh\<lparr>item_attributes := a\<rparr>) = item_eq sh" "item_eq (sh\<lparr>term_map := tm\<rparr>) = item_eq sh"
  by (rule same_objects, simp)+

lemma add_item_cong:
  assumes "item_eq sh' = item_eq sh"
  shows "add_item_to_term_map env sh' = add_item_to_term_map env sh"
  by (rule ext)+ (simp add: add_item_to_term_map_def add_to_term_def [abs_def] assms)

text \<open>Where equal items are the same item, the operations on sets of items are those on sets.\<close>

definition separate :: "shares \<Rightarrow> shared_item set \<Rightarrow> bool" where
  "separate sh A \<longleftrightarrow> (\<forall>i \<in> A. \<forall>j \<in> A. item_eq sh i j \<longrightarrow> i = j)"

lemma separate_ex:
  assumes "separate sh A" "i \<in> A" "set xs \<subseteq> A"
  shows "list_ex (item_eq sh i) xs \<longleftrightarrow> i \<in> set xs" "list_ex (\<lambda>x. item_eq sh x i) xs \<longleftrightarrow> i \<in> set xs"
proof -
  have "item_eq sh i j \<longleftrightarrow> i = j" "item_eq sh j i \<longleftrightarrow> i = j" if "j \<in> set xs" for j
    using assms that unfolding separate_def by auto
  then show "list_ex (item_eq sh i) xs \<longleftrightarrow> i \<in> set xs" "list_ex (\<lambda>x. item_eq sh x i) xs \<longleftrightarrow> i \<in> set xs"
    by (auto simp: list_ex_iff)
qed

lemma set_union_items:
  assumes "separate sh A" "set xs \<subseteq> A" "set ys \<subseteq> A"
  shows "set (union_items sh xs ys) = set xs \<union> set ys"
proof -
  have "set (filter (\<lambda>y. \<not> list_ex (\<lambda>x. item_eq sh x y) xs) ys) = set ys - set xs"
    using separate_ex(2) [OF assms(1) _ assms(2)] assms(3) by auto
  then show ?thesis by (auto simp: union_items_def)
qed

lemma set_minus_items:
  assumes "separate sh A" "set xs \<subseteq> A" "set ys \<subseteq> A"
  shows "set (minus_items sh xs ys) = set xs - set ys"
  using separate_ex(1) [OF assms(1) _ assms(3)] assms(2) by (auto simp: minus_items_def)

lemma set_xor_items:
  assumes "separate sh A" "set xs \<subseteq> A" "set ys \<subseteq> A"
  shows "set (xor_items sh xs ys) = (set xs - set ys) \<union> (set ys - set xs)"
  using set_minus_items [OF assms] set_minus_items [OF assms(1,3,2)]
  by (simp add: xor_items_def minus_items_def)

lemma scanned_items:
  assumes "separate sh A" "set old \<subseteq> A" "set found \<subseteq> A" "all = union_items sh old found"
  shows "set (minus_items sh all (xor_items sh all found)) = set found"
proof -
  have all: "set all = set old \<union> set found" using set_union_items [OF assms(1-3)] assms(4) by simp
  then have "set all \<subseteq> A" using assms(2,3) by auto
  moreover from this have "set (xor_items sh all found) = set all - set found"
    using set_xor_items [OF assms(1) _ assms(3)] all by auto
  ultimately show ?thesis using set_minus_items [OF assms(1), of all "xor_items sh all found"] all by auto
qed

lemma separate_dir:
  assumes "\<forall>i \<in> A. item_dir i = r"
  shows "separate sh A"
  using assms item_eq_dir unfolding separate_def by metis

subsection \<open>The term map of a scanned directory\<close>

lemma occurrences_filter_items: "occurrences (map (\<lambda>(t, is). (t, filter P is)) tm) u = filter P (occurrences tm u)"
  by (induction tm) (auto simp: occurrences_def)

lemma occurrences_cleanup:
  assumes "distinct (map fst tm)"
  shows "occurrences (filter (\<lambda>(t, is). is \<noteq> []) tm) u = occurrences tm u"
proof (cases "map_of tm u")
  case None
  then have "map_of (filter (\<lambda>(t, is). is \<noteq> []) tm) u = None" by (auto simp: map_of_eq_None_iff)
  with None show ?thesis by (simp add: occurrences_def)
next
  case (Some "is")
  have d: "distinct (map fst (filter (\<lambda>(t, is). is \<noteq> []) tm))" using assms by (simp add: distinct_map_filter)
  have "map_of (filter (\<lambda>(t, is). is \<noteq> []) tm) u = (if is = [] then None else Some is)"
    using Some assms d by (auto simp: map_of_eq_None_iff map_of_eq_Some_iff dest: eq_key_imp_eq_value)
  with Some show ?thesis by (simp add: occurrences_def)
qed

lemma add_item_keys:
  assumes "distinct (map fst tm)"
  shows "distinct (map fst (fold (add_item_to_term_map env sh) is tm))"
proof -
  have step: "distinct (map fst (fold (add_to_term sh i) ts m))" if "distinct (map fst m)" for i ts m
    using that by (induction ts arbitrary: m) (simp_all add: add_to_term_def Let_def distinct_update)
  show ?thesis using assms
    by (induction "is" arbitrary: tm) (simp_all add: add_item_to_term_map_def step)
qed

lemma refs_ok_items:
  assumes "refs_ok sh" "\<forall>i \<in> set xs. item_dir i = r"
  shows "refs_ok (set_object r ((objects sh r)\<lparr>dir_items := xs\<rparr>) sh)"
proof -
  let ?sh = "set_object r ((objects sh r)\<lparr>dir_items := xs\<rparr>) sh"
  have same: "same_directory (objects ?sh p) (objects ?sh q) = same_directory (objects sh p) (objects sh q)" for p q
    by (simp add: set_object_def same_directory_def)
  have items: "dir_items (objects ?sh q) = (if q = r then xs else dir_items (objects sh q))" for q
    by (simp add: set_object_def)
  have rest: "shared_directories ?sh = shared_directories sh" "term_map ?sh = term_map sh"
    by (simp_all add: set_object_def)
  show ?thesis using assms unfolding refs_ok_def same items rest by simp
qed

lemma refs_ok_attributes [simp]: "refs_ok (sh\<lparr>item_attributes := a\<rparr>) = refs_ok sh"
  by (simp add: refs_ok_def)

lemma rebuilt_ok:
  assumes inv: "refs_ok sh" "shares_ok env sh" and r: "r \<in> set (shared_directories sh)"
    and sh1: "sh1 = (set_object r ((objects sh r)\<lparr>dir_items := new\<rparr>) sh)\<lparr>item_attributes := a\<rparr>"
    and new: "\<forall>i \<in> set new. item_dir i = r \<and> filename i \<noteq> [] \<and> hd (filename i) \<noteq> 47"
    and sh': "sh' = cleanup_term_map (drop_dead_items held (build_term_map env r sh1))"
    and held: "\<forall>i. held i \<longrightarrow> i \<in> shared_items sh1"
  shows "refs_ok sh'" "shares_ok env sh'" "objects sh' = objects sh1" "shared_directories sh' = shared_directories sh"
    "item_attributes sh' = a"
proof -
  let ?shU = "set_object r ((objects sh r)\<lparr>dir_items := dir_items (objects sh r) @ new\<rparr>) sh"
  have U: "shared_items ?shU = shared_items sh \<union> set new" using r by (auto simp: shared_items_def set_object_def split: if_splits)
  have sub: "shared_items sh1 \<subseteq> shared_items ?shU"
    unfolding U using r by (auto simp: shared_items_def set_object_def sh1 split: if_splits)
  have old: "\<forall>i \<in> set (dir_items (objects sh r)). item_dir i = r" using inv(1) r by (simp add: refs_ok_def)
  have "refs_ok ?shU" by (rule refs_ok_items [OF inv(1)]) (use old new in auto)
  then have dist: "values_distinct ?shU" by (rule own_items_distinct)
  have refs1: "refs_ok sh1" unfolding sh1 refs_ok_attributes by (rule refs_ok_items [OF inv(1)]) (use new in auto)
  have map: "map_ok ?shU (term_map sh)" using inv(2) U by (auto simp: shares_ok_def map_ok_def)
  have same: "add_item_to_term_map env sh1 = add_item_to_term_map env ?shU"
    by (rule add_item_cong) (simp add: sh1)
  let ?tm = "fold (add_item_to_term_map env ?shU) new (term_map sh)"
  have tm: "term_map (build_term_map env r sh1) = ?tm"
    by (simp add: build_term_map_def same) (simp add: sh1 set_object_def)
  have occ: "map_ok ?shU ?tm"
      "set (occurrences ?tm u) = {i \<in> shared_items sh. u \<in> set (item_terms env i)} \<union> {i \<in> set new. u \<in> set (item_terms env i)}" for u
    using occurrences_add_items [OF dist _ map, of new env] U inv(2) by (simp_all add: shares_ok_def)
  have keys: "distinct (map fst ?tm)" using add_item_keys inv(1) by (simp add: refs_ok_def)
  let ?P = "\<lambda>i. held i \<or> list_ex (\<lambda>r. i \<in> set (dir_items (objects sh1 r))) (shared_directories sh1)"
  have P: "?P i \<longleftrightarrow> i \<in> shared_items sh1" for i using held by (auto simp: shared_items_def list_ex_iff)
  have dropped: "term_map (drop_dead_items held (build_term_map env r sh1)) = map (\<lambda>(t, is). (t, filter ?P is)) ?tm"
    by (simp add: drop_dead_items_def tm)
  have keys': "distinct (map fst (map (\<lambda>(t, is). (t, filter ?P is)) ?tm))"
    using keys by (simp add: comp_def case_prod_beta)
  have final: "occurrences (term_map sh') u = filter ?P (occurrences ?tm u)" for u
    using occurrences_cleanup [OF keys'] by (simp add: sh' cleanup_term_map_def dropped occurrences_filter_items)
  show fields: "objects sh' = objects sh1" "shared_directories sh' = shared_directories sh" "item_attributes sh' = a"
    by (simp_all add: sh' cleanup_term_map_def drop_dead_items_def build_term_map_def) (simp_all add: sh1 set_object_def)
  then have items: "shared_items sh' = shared_items sh1" by (simp add: shared_items_def) (simp add: sh1 set_object_def)
  show "refs_ok sh'"
    using refs1 fields keys' by (simp add: refs_ok_def sh' cleanup_term_map_def dropped distinct_map_filter)
       (simp add: sh1 set_object_def)
  then have "values_distinct sh'" by (rule own_items_distinct)
  moreover have "map_ok sh' (term_map sh')"
    using occ(1) unfolding map_ok_def final items P by auto
  moreover have "set (occurrences (term_map sh') u) = {i \<in> shared_items sh'. u \<in> set (item_terms env i)}" for u
    unfolding final items set_filter P occ(2) using sub U by auto
  moreover have "\<forall>i \<in> shared_items sh'. filename i \<noteq> [] \<and> hd (filename i) \<noteq> 47"
    using inv(2) new sub U by (auto simp: items shares_ok_def)
  ultimately show "shares_ok env sh'" by (simp add: shares_ok_def)
qed

text \<open>Scanning the files of one directory.\<close>

lemma unchanged_object: "(set_object r ((objects sh r)\<lparr>dir_items := dir_items (objects sh r)\<rparr>) sh)\<lparr>item_attributes := item_attributes sh\<rparr> = sh"
  by (simp add: set_object_def)

lemma files_scanned:
  assumes inv: "refs_ok sh" "shares_ok env sh" and r: "r \<in> set (shared_directories sh)"
    and w: "case w of None \<Rightarrow> True | Some files \<Rightarrow> walk_ok files"
    and scan: "scan_directory_files env held w r sh = (res, sh')"
    and held: "\<forall>i. held i \<longrightarrow> i \<in> shared_items sh'"
  shows "res = Inr ()" "refs_ok sh'" "shares_ok env sh'" "shared_directories sh' = shared_directories sh"
    "\<exists>new. objects sh' = (objects sh)(r := (objects sh r)\<lparr>dir_items := new\<rparr>)
       \<and> set new = (case w of None \<Rightarrow> set (dir_items (objects sh r))
            | Some files \<Rightarrow> set (scan_directory env files r (get_child_directories r sh) sh))"
proof -
  let ?old = "dir_items (objects sh r)"
  let ?found = "scan_directory env (the w) r (get_child_directories r sh) sh"
  let ?all = "union_items sh ?old ?found"
  let ?new = "case w of None \<Rightarrow> ?old | Some files \<Rightarrow> minus_items sh ?all (xor_items sh ?all ?found)"
  let ?a = "case w of None \<Rightarrow> item_attributes sh
      | Some files \<Rightarrow> (\<lambda>i. if i \<in> set ?all \<and> i \<notin> set ?old then None else item_attributes sh i)"
  let ?sh1 = "(set_object r ((objects sh r)\<lparr>dir_items := ?new\<rparr>) sh)\<lparr>item_attributes := ?a\<rparr>"
  have reg: "is_registered r sh" using r by (auto simp: is_registered_def list_ex_iff same_directory_def)
  have sh1: "(case w of None \<Rightarrow> sh | Some files \<Rightarrow> ?sh1) = ?sh1"
    using unchanged_object by (cases w) simp_all
  have sh': "res = Inr ()" "sh' = cleanup_term_map (drop_dead_items held (build_term_map env r ?sh1))"
    using scan reg sh1 by (cases w; simp add: scan_directory_files_def Let_def)+
  have old: "\<forall>i \<in> set ?old. item_dir i = r \<and> filename i \<noteq> [] \<and> hd (filename i) \<noteq> 47"
    using inv r by (auto simp: refs_ok_def shares_ok_def shared_items_def)
  have found: "\<forall>i \<in> set ?found. item_dir i = r \<and> filename i \<noteq> [] \<and> hd (filename i) \<noteq> 47" if "w \<noteq> None"
    using found_items w that by (cases w) auto
  have "separate sh (set ?old \<union> set ?found)" if "w \<noteq> None"
    by (rule separate_dir [of _ r]) (use old found that in auto)
  from scanned_items [OF this, of ?old ?found ?all]
  have new: "set ?new = (case w of None \<Rightarrow> set ?old | Some files \<Rightarrow> set ?found)" by (cases w) auto
  then have names: "\<forall>i \<in> set ?new. item_dir i = r \<and> filename i \<noteq> [] \<and> hd (filename i) \<noteq> 47"
    using old found by (cases w) auto
  have fields: "objects sh' = objects ?sh1" "shared_directories sh' = shared_directories ?sh1"
    by (simp_all add: sh'(2) cleanup_term_map_def drop_dead_items_def)
  then have "shared_items sh' = shared_items ?sh1" by (simp add: shared_items_def)
  with held have "\<forall>i. held i \<longrightarrow> i \<in> shared_items ?sh1" by simp
  note rebuilt = rebuilt_ok [OF inv r refl names sh'(2) this]
  show "res = Inr ()" "refs_ok sh'" "shares_ok env sh'" "shared_directories sh' = shared_directories sh"
    using sh'(1) rebuilt by simp_all
  show "\<exists>new. objects sh' = (objects sh)(r := (objects sh r)\<lparr>dir_items := new\<rparr>)
       \<and> set new = (case w of None \<Rightarrow> set ?old
            | Some files \<Rightarrow> set (scan_directory env files r (get_child_directories r sh) sh))"
    using rebuilt(3) new by (intro exI [of _ ?new]) (simp add: set_object_def split: option.splits)
qed

subsection \<open>All directories\<close>

definition found_files :: "shares_env \<Rightarrow> shares \<Rightarrow> (dir_ref \<Rightarrow> walk option) \<Rightarrow> dir_ref \<Rightarrow> shared_item set" where
  \<comment> \<open>what is on the disk below a directory and not below one of its shared children\<close>
  "found_files env sh walks r = set (scan_directory env (the (walks r)) r (get_child_directories r sh) sh)"

definition same_paths :: "shares \<Rightarrow> shares \<Rightarrow> bool" where
  "same_paths sh s \<longleftrightarrow> shared_directories s = shared_directories sh
     \<and> (\<forall>q. \<exists>xs. objects s q = (objects sh q)\<lparr>dir_items := xs\<rparr>)"

lemma same_paths_found:
  assumes "same_paths sh s"
  shows "found_files env s walks r = found_files env sh walks r"
proof -
  have path: "absolute_path (objects s q) = absolute_path (objects sh q)
      \<and> directory (objects s q) = directory (objects sh q) \<and> dir_alias (objects s q) = dir_alias (objects sh q)" for q
  proof -
    obtain xs where "objects s q = (objects sh q)\<lparr>dir_items := xs\<rparr>" using assms unfolding same_paths_def by blast
    then show ?thesis by simp
  qed
  have kids: "get_child_directories r s = get_child_directories r sh"
    using assms by (simp add: get_child_directories_def same_directory_def is_child_of_def path same_paths_def)
  have abs: "absolute_path (objects s q) = absolute_path (objects sh q)" for q using path by simp
  show ?thesis unfolding found_files_def scan_directory_def kids abs by (rule refl)
qed

lemma same_paths_trans:
  assumes "same_paths sh s" "same_paths s t"
  shows "same_paths sh t"
proof -
  have "\<exists>xs. objects t q = (objects sh q)\<lparr>dir_items := xs\<rparr>" for q
  proof -
    obtain xs ys where "objects s q = (objects sh q)\<lparr>dir_items := xs\<rparr>" "objects t q = (objects s q)\<lparr>dir_items := ys\<rparr>"
      using assms unfolding same_paths_def by blast
    then show ?thesis by (intro exI [of _ ys]) simp
  qed
  then show ?thesis using assms by (simp add: same_paths_def)
qed

lemma directories_scanned:
  assumes "refs_ok s" "shares_ok env s" "set rs \<subseteq> set (shared_directories s)"
    and "\<forall>r \<in> set rs. \<exists>files. walks r = Some files \<and> walk_ok files"
    and "s' = fold (\<lambda>r s. snd (scan_directory_files env (\<lambda>_. False) (walks r) r s)) rs s"
  shows "refs_ok s' \<and> shares_ok env s' \<and> same_paths s s'
    \<and> (\<forall>q. set (dir_items (objects s' q)) = (if q \<in> set rs then found_files env s walks q else set (dir_items (objects s q))))"
  using assms
proof (induction rs arbitrary: s)
  case Nil
  have "\<exists>xs. objects s q = (objects s q)\<lparr>dir_items := xs\<rparr>" for q
    by (rule exI [of _ "dir_items (objects s q)"]) simp
  with Nil show ?case by (simp add: same_paths_def)
next
  case (Cons r rs)
  obtain res s1 where s1: "scan_directory_files env (\<lambda>_. False) (walks r) r s = (res, s1)" by fastforce
  obtain files where files: "walks r = Some files" "walk_ok files" using Cons.prems(4) by auto
  have "r \<in> set (shared_directories s)" using Cons.prems(3) by simp
  note one = files_scanned [OF Cons.prems(1,2) this _ s1]
  obtain new where new: "objects s1 = (objects s)(r := (objects s r)\<lparr>dir_items := new\<rparr>)" "set new = found_files env s walks r"
    using one(5) files by (auto simp: found_files_def)
  have "\<exists>xs. objects s1 q = (objects s q)\<lparr>dir_items := xs\<rparr>" for q
    by (cases "q = r") (auto simp: new(1) intro: exI [of _ new] exI [of _ "dir_items (objects s q)"])
  then have paths: "same_paths s s1" using one(4) files by (simp add: same_paths_def)
  have all: "refs_ok s' \<and> shares_ok env s' \<and> same_paths s1 s'
    \<and> (\<forall>q. set (dir_items (objects s' q)) = (if q \<in> set rs then found_files env s1 walks q else set (dir_items (objects s1 q))))"
    by (rule Cons.IH) (use Cons.prems one files s1 in auto)
  then show ?case
    using same_paths_trans [OF paths] same_paths_found [OF paths] new by auto
qed

lemma attributes_scanned:
  assumes "s' = fold (scan_directory_file_attributes extract) rs s"
  shows "objects s' = objects s \<and> shared_directories s' = shared_directories s \<and> term_map s' = term_map s
    \<and> (\<forall>i. item_attributes s i \<noteq> None \<longrightarrow> item_attributes s' i = item_attributes s i)
    \<and> (\<forall>r \<in> set rs. \<forall>i \<in> set (dir_items (objects s r)).
         extract (get_absolute_path s i) \<noteq> None \<longrightarrow> item_attributes s' i \<noteq> None)"
  using assms
proof (induction rs arbitrary: s)
  case (Cons r rs)
  let ?s1 = "scan_directory_file_attributes extract r s"
  have fields: "objects ?s1 = objects s" "shared_directories ?s1 = shared_directories s" "term_map ?s1 = term_map s"
    by (simp_all add: scan_directory_file_attributes_def)
  have path: "get_absolute_path ?s1 i = get_absolute_path s i" for i by (simp add: get_absolute_path_def fields)
  have attr: "item_attributes ?s1 i = (if i \<in> set (dir_items (objects s r)) \<and> item_attributes s i = None
      then extract (get_absolute_path s i) else item_attributes s i)" for i
    by (simp add: scan_directory_file_attributes_def)
  have "s' = fold (scan_directory_file_attributes extract) rs ?s1" using Cons.prems by simp
  note rest = Cons.IH [OF this, unfolded fields path]
  have kept: "item_attributes ?s1 i \<noteq> None \<Longrightarrow> item_attributes s' i \<noteq> None" for i using rest by metis
  have "item_attributes s' i = item_attributes s i" if "item_attributes s i \<noteq> None" for i
    using rest attr [of i] that by simp
  moreover have "item_attributes s' i \<noteq> None"
    if "q \<in> set (r # rs)" "i \<in> set (dir_items (objects s q))" "extract (get_absolute_path s i) \<noteq> None" for q i
  proof (cases "q \<in> set rs")
    case True
    then show ?thesis using rest that by blast
  next
    case False
    then have "item_attributes ?s1 i \<noteq> None" using that attr [of i] by simp
    then show ?thesis by (rule kept)
  qed
  ultimately show ?case using rest by blast
qed simp

lemma shares_same_attributes:
  assumes "objects s' = objects s" "shared_directories s' = shared_directories s" "term_map s' = term_map s"
  shows "refs_ok s' = refs_ok s" "shares_ok env s' = shares_ok env s" "shared_items s' = shared_items s"
proof -
  show items: "shared_items s' = shared_items s" by (simp add: shared_items_def assms)
  show "refs_ok s' = refs_ok s" by (simp add: refs_ok_def assms)
  show "shares_ok env s' = shares_ok env s"
    by (simp add: shares_ok_def values_distinct_def map_ok_def items assms same_objects [OF assms(1)])
qed

lemma scanned:
  assumes "refs_ok sh" "shares_ok env sh"
    and "\<forall>r \<in> set (shared_directories sh). \<exists>files. walks r = Some files \<and> walk_ok files"
    and "scan env (\<lambda>_. False) walks mutagen session sh = (counts, reports, sh')"
  shows "refs_ok sh' \<and> shares_ok env sh' \<and> shared_directories sh' = shared_directories sh
    \<and> (\<forall>r \<in> set (shared_directories sh). set (dir_items (objects sh' r)) = found_files env sh walks r)
    \<and> (\<forall>i \<in> shared_items sh'. mutagen (get_absolute_path sh' i) \<noteq> Other_Error \<longrightarrow> item_attributes sh' i \<noteq> None)
    \<and> counts = get_stats sh' \<and> reports = report_shares session sh'"
proof -
  let ?reader = "\<lambda>path. extract_attributes (mutagen path)"
  define s1 where "s1 = fold (\<lambda>r s. snd (scan_directory_files env (\<lambda>_. False) (walks r) r s)) (shared_directories sh) sh"
  define s2 where "s2 = fold (scan_directory_file_attributes ?reader) (shared_directories s1) s1"
  have r: "counts = get_stats sh'" "reports = report_shares session sh'" "sh' = s2"
    using assms(4) unfolding scan_def Let_def s1_def s2_def by auto
  note files = directories_scanned [OF assms(1,2) subset_refl assms(3) s1_def]
  note attrs = attributes_scanned [OF s2_def]
  then have same: "objects s2 = objects s1" "shared_directories s2 = shared_directories s1" "term_map s2 = term_map s1" by auto
  have dirs: "shared_directories s1 = shared_directories sh" using files by (simp add: same_paths_def)
  have ok: "refs_ok sh'" "shares_ok env sh'" "shared_directories sh' = shared_directories sh"
    using shares_same_attributes [OF same] files dirs r(3) same(2) by auto
  have disk: "\<forall>r \<in> set (shared_directories sh). set (dir_items (objects sh' r)) = found_files env sh walks r"
    using files r(3) same(1) by simp
  have "item_attributes sh' i \<noteq> None" if i: "i \<in> shared_items sh'" "mutagen (get_absolute_path sh' i) \<noteq> Other_Error" for i
  proof -
    obtain q where q: "q \<in> set (shared_directories s1)" "i \<in> set (dir_items (objects s1 q))"
      using i(1) same r(3) by (auto simp: shared_items_def)
    have "extract_attributes (mutagen (get_absolute_path s1 i)) \<noteq> None"
      using i(2) same(1) r(3) by (cases "mutagen (get_absolute_path s1 i)") (simp_all add: get_absolute_path_def)
    then show ?thesis using attrs q r(3) by blast
  qed
  then show ?thesis using ok disk r(1,2) by blast
qed


text \<open>Before anything is scanned the hypotheses hold.\<close>

lemma empty_shares_ok:
  assumes "\<forall>r \<in> set (shared_directories sh). dir_items (objects sh r) = []" "term_map sh = []"
    and "\<forall>r \<in> set (shared_directories sh). \<forall>s \<in> set (shared_directories sh).
        same_directory (objects sh r) (objects sh s) \<longrightarrow> r = s"
  shows "refs_ok sh" "shares_ok env sh"
proof -
  have "shared_items sh = {}" using assms(1) by (simp add: shared_items_def)
  then show "refs_ok sh" "shares_ok env sh"
    using assms by (simp_all add: refs_ok_def shares_ok_def values_distinct_def map_ok_def occurrences_def)
qed

text \<open>A query after a scan.\<close>

lemma scanned_files_are_found:
  assumes "text_tables (alnum env) (lower1 env)" "refs_ok sh" "shares_ok env sh"
    and "\<forall>r \<in> set (shared_directories sh). \<exists>files. walks r = Some files \<and> walk_ok files"
    and "scan env (\<lambda>_. False) walks mutagen session sh = (counts, reports, sh')"
    and "q = parse_query (alnum env) (lower1 env) (space env) txt" "has_inclusion_terms q" "wildcard_terms q = []"
    and "query env txt user excluded sh' = Inr (visible, locked)" "length (visible @ locked) < max_results env"
  shows "set (visible @ locked)
    = {i. (\<exists>r \<in> set (shared_directories sh). i \<in> found_files env sh walks r) \<and> keep_item env q excluded i}"
proof -
  have s: "shares_ok env sh'" "shared_items sh' = (\<Union>r \<in> set (shared_directories sh). found_files env sh walks r)"
    using scanned [OF assms(2-5)] by (auto simp: shared_items_def)
  from query_answers [OF assms(1) s(1) assms(6,7), of user excluded] assms(8-10) show ?thesis unfolding s(2) by auto
qed

definition scanned_directory :: shares where
  "scanned_directory =
     \<lparr>objects = (\<lambda>_. \<lparr>directory = [47, 109], absolute_path = [47, 109], dir_alias = [97], share_mode = SHARE_EVERYONE,
        dir_users = [], dir_items = []\<rparr>),
      next_ref = 1, shared_directories = [0], term_map = [], item_attributes = (\<lambda>_. None)\<rparr>"

definition scanned_walk :: "dir_ref \<Rightarrow> walk option" where
  \<comment> \<open>two files in the directory; the time of the second cannot be read\<close>
  "scanned_walk r = Some [([47, 109], [([104], Some 5), ([105], None)])]"


end
