(* ===== verification/Upload_Permissions.thy ===== *)
theory Upload_Permissions
  imports Scanning Transfer_Manager_Properties Users
begin

text \<open>
What the transfer manager (\<open>src/aioslsk/transfer/manager.py\<close>) asks of the shares, the users and the
  settings, answered by the models of these components: the interface \<open>shared_files\<close>, its interpretation
  on the model of the shares, and that uploads follow the shares.
\<close>

subsection \<open>What transfers ask of the shares\<close>

text \<open>The transfer manager looks a file up in the index alone when shares change, and in the index and on the
  disk when a peer asks for it.\<close>

locale shared_files =
  fixes in_index :: "pystr \<Rightarrow> pystr \<Rightarrow> bool"
    and on_disk :: "pystr \<Rightarrow> pystr \<Rightarrow> (pystr \<times> nat) option"
  assumes on_disk_indexed: "on_disk path user \<noteq> None \<Longrightarrow> in_index path user"
begin

lemma accepted_upload_is_allowed:
  assumes "indexed env = in_index" "shared_item env = on_disk" "\<not> uploads_blocked env user"
    and "add_upload env user path m = (Inr k, m')" "find_transfer user path UPLOAD m = None"
  shows "\<exists>t \<in> set (transfers m'). tkey t = (user, path, UPLOAD) \<and> refusal env t = None"
proof -
  obtain local_file n where f: "shared_item env path user = Some (local_file, n)"
    using assms(4) by (cases "shared_item env path user") (auto simp: add_upload_def)
  let ?t = "(new_transfer user path UPLOAD)\<lparr>local_path := Some local_file, filesize := Some n\<rparr>"
  have key: "tkey ?t = (user, path, UPLOAD)" by (simp add: tkey_def new_transfer_def)
  have "find (\<lambda>q. transfer_eq q ?t) (transfers m) = None"
    using assms(5) by (simp add: find_transfer_eq find_None_iff transfer_eq_tkey key)
  then have "?t \<in> set (transfers m')" using assms(4) f by (auto simp: add_upload_def add_transfer_def Let_def)
  moreover have "refusal env ?t = None"
    using assms(1-3) f on_disk_indexed [of path user] by (simp add: refusal_def new_transfer_def)
  ultimately show ?thesis using key by blast
qed

end

definition find_on_disk :: "shares_env \<Rightarrow> shares \<Rightarrow> pystr \<Rightarrow> pystr \<Rightarrow> (pystr \<times> nat) option" where
  \<comment> \<open>\<open>get_shared_item\<close>, then its absolute path and \<open>get_filesize\<close>\<close>
  "find_on_disk env sh path user =
     (case find_shared_item env path (Some user) sh of
        None \<Rightarrow> None
      | Some i \<Rightarrow> map_option (Pair (get_absolute_path sh i)) (file_size env (get_absolute_path sh i)))"

definition find_in_index :: "shares_env \<Rightarrow> shares \<Rightarrow> pystr \<Rightarrow> pystr \<Rightarrow> bool" where
  "find_in_index env sh path user \<longleftrightarrow> find_shared_item_cache env path (Some user) sh \<noteq> None"

interpretation index: shared_files "find_in_index env sh" "find_on_disk env sh" for env sh
  by unfold_locales
    (auto simp: find_on_disk_def find_in_index_def find_shared_item_def find_shared_item_cache_def get_shared_item_def
      split: option.splits sum.splits if_splits)

definition transfer_environment :: "nat \<Rightarrow> shares_env \<Rightarrow> shares \<Rightarrow> user_manager \<Rightarrow> block_list \<Rightarrow> environment" where
  \<comment> \<open>the managers a \<open>TransferManager\<close> is constructed with\<close>
  "transfer_environment slots env sh um blocked =
     \<lparr>upload_slots = slots, friends = share_friends env,
      user_status = (\<lambda>u. status (fst (get_user_object u um))),
      privileged = (\<lambda>u. is_privileged (fst (get_user_object u um))),
      uploads_blocked = (\<lambda>u. is_blocked blocked u UPLOADS),
      shared_item = find_on_disk env sh, indexed = find_in_index env sh\<rparr>"

subsection \<open>Looking a file up\<close>

definition unique_paths :: "shares \<Rightarrow> bool" where
  "unique_paths sh \<longleftrightarrow> (\<forall>i \<in> shared_items sh. \<forall>j \<in> shared_items sh.
     get_remote_path sh i = get_remote_path sh j \<longrightarrow> i = j)"

lemma item_lookup:
  assumes "\<forall>r \<in> set rs. \<forall>s \<in> set rs. \<forall>i \<in> set (dir_items (objects sh r)). \<forall>j \<in> set (dir_items (objects sh s)).
      get_remote_path sh i = get_remote_path sh j \<longrightarrow> i = j"
  shows "(\<exists>i. item_in_directories env path (Some user) sh rs = Inr i)
    \<longleftrightarrow> (\<exists>r \<in> set rs. \<exists>i \<in> set (dir_items (objects sh r)).
          get_remote_path sh i = path \<and> \<not> (user \<noteq> [] \<and> is_item_locked env sh i user))"
  using assms
proof (induction rs)
  case (Cons r rs)
  show ?case
  proof (cases "find (\<lambda>i. get_remote_path sh i = path) (dir_items (objects sh r))")
    case None
    then have "\<forall>i \<in> set (dir_items (objects sh r)). get_remote_path sh i \<noteq> path" by (auto simp: find_None_iff)
    moreover have "(\<exists>i. item_in_directories env path (Some user) sh (r # rs) = Inr i)
        \<longleftrightarrow> (\<exists>i. item_in_directories env path (Some user) sh rs = Inr i)" using None by simp
    ultimately show ?thesis using Cons.IH Cons.prems by simp
  next
    case (Some i)
    then have i: "i \<in> set (dir_items (objects sh r))" "get_remote_path sh i = path"
      by (auto simp: find_Some_iff)
    have "j = i" if "s \<in> set (r # rs)" "j \<in> set (dir_items (objects sh s))" "get_remote_path sh j = path" for s j
      using Cons.prems that i by (metis list.set_intros(1))
    then show ?thesis using Some i by (auto simp: is_username_def)
  qed
qed simp

lemma found_in_index:
  assumes "unique_paths sh" "user \<noteq> []"
  shows "find_in_index env sh path user
    \<longleftrightarrow> (\<exists>i \<in> shared_items sh. get_remote_path sh i = path \<and> \<not> is_item_locked env sh i user)"
proof -
  have "find_in_index env sh path user \<longleftrightarrow> (\<exists>i. item_in_directories env path (Some user) sh (shared_directories sh) = Inr i)"
    by (auto simp: find_in_index_def find_shared_item_cache_def get_shared_item_cache_def split: sum.splits)
  also have "\<dots> \<longleftrightarrow> (\<exists>r \<in> set (shared_directories sh). \<exists>i \<in> set (dir_items (objects sh r)).
          get_remote_path sh i = path \<and> \<not> (user \<noteq> [] \<and> is_item_locked env sh i user))"
    by (rule item_lookup) (use assms(1) in \<open>auto simp: unique_paths_def shared_items_def\<close>)
  finally show ?thesis using assms(2) by (auto simp: shared_items_def)
qed


definition requested_upload :: transfer where
  "requested_upload = (new_transfer [98] (get_remote_path witness_shares (witness_item 104)) UPLOAD)\<lparr>state := QUEUED\<rparr>"

lemma witness_remote_path:
  "get_remote_path witness_shares (witness_item c) = normalize_remote_path (at_prefix @ path_join (path_join [97] []) (c # ello @ [46, 109, 112, 51]))"
  by (simp add: get_remote_path_def witness_shares_def witness_item_def)

lemma witness_paths_unique: "unique_paths witness_shares"
proof -
  have "normalize_remote_path (at_prefix @ path_join (path_join [97] []) (104 # ello @ [46, 109, 112, 51]))
      \<noteq> normalize_remote_path (at_prefix @ path_join (path_join [97] []) (99 # ello @ [46, 109, 112, 51]))"
    by code_simp
  then show ?thesis unfolding unique_paths_def witness_shares_items by (simp add: witness_remote_path)
qed


end
