(* ===== verification/Distributed.thy ===== *)
theory Distributed
  imports Prelude
begin

text \<open>
\<open>src/aioslsk/distributed.py\<close>: the position of the client in the distributed network, its
  parent and its children. A handler returns the new state and what it does to the outside, in
  order. Peer objects are shared by reference and are named by their connection; the closed
  event of a connection is handled within the \<open>disconnect\<close> that causes it, as the code awaits
  it. Handlers run one after the other: interleaving at their suspension points is not
  modelled.
\<close>

subsection \<open>State\<close>

text \<open>A connection is its number and the name of its user, if the peer told it.\<close>

type_synonym link = "nat \<times> pystr option"

record distributed_peer =
  peer_user :: "pystr option"
  peer_link :: link
  branch_level :: "nat option"
  branch_root :: "pystr option"

record dist =
  session_user :: "pystr option"    \<comment> \<open>\<open>_session.user.name\<close>, or no session\<close>
  search_for_parent :: bool         \<comment> \<open>the setting\<close>
  dpeers :: "distributed_peer list" \<comment> \<open>\<open>distributed_peers\<close>\<close>
  parent :: "link option"           \<comment> \<open>the peer object, by its connection\<close>
  children :: "link list"
  potential_parents :: "pystr list"
  parent_min_speed :: "nat option"
  parent_speed_ratio :: "nat option"
  min_parents_in_cache :: "nat option"
  parent_inactivity_timeout :: "nat option"
  distributed_alive_interval :: "nat option"
  max_children :: nat
  accept_children :: bool
  pending_parents :: "pystr list"   \<comment> \<open>\<open>_potential_parent_tasks\<close>, by user\<close>

datatype server_message =
    Branch_Level nat | Branch_Root pystr | Toggle_Parent_Search bool
  | Accept_Children bool | Get_User_Stats pystr | Child_Depth nat

datatype child_message =
    Level nat | Root pystr | Depth nat
  | Search nat pystr nat pystr \<comment> \<open>\<open>DistributedSearchRequest(unknown, username, ticket, query)\<close>\<close>

datatype out =
    To_Server server_message
  | To_Peer link child_message
  | Disconnect link
  | Connect_Parent pystr       \<comment> \<open>task \<open>create_peer_connection\<close>\<close>
  | Cancel_Connect pystr

type_synonym 'a step = "'a \<times> out list"

definition POTENTIAL_PARENTS_CACHE_SIZE :: nat where "POTENTIAL_PARENTS_CACHE_SIZE = 20"
definition DEFAULT_PARENT_MIN_SPEED :: nat where "DEFAULT_PARENT_MIN_SPEED = 1"
definition DEFAULT_PARENT_SPEED_RATIO :: nat where "DEFAULT_PARENT_SPEED_RATIO = 50"

definition initial_dist :: "bool \<Rightarrow> dist" where
  "initial_dist search = \<lparr>session_user = None, search_for_parent = search, dpeers = [], parent = None,
     children = [], potential_parents = [], parent_min_speed = None, parent_speed_ratio = None,
     min_parents_in_cache = None, parent_inactivity_timeout = None, distributed_alive_interval = None,
     max_children = 5, accept_children = True, pending_parents = []\<rparr>"

definition then_do :: "dist step \<Rightarrow> (dist \<Rightarrow> dist step) \<Rightarrow> dist step" where
  "then_do r f = (case r of (d, es) \<Rightarrow> case f d of (d', es') \<Rightarrow> (d', es @ es'))"

subsection \<open>Branch values\<close>

definition find_peer :: "link \<Rightarrow> dist \<Rightarrow> distributed_peer option" where
  "find_peer l d = find (\<lambda>p. peer_link p = l) (dpeers d)"

definition get_distributed_peer :: "link \<Rightarrow> dist \<Rightarrow> distributed_peer option" where
  "get_distributed_peer l d =
     (if snd l = None then None else find (\<lambda>p. peer_user p = snd l \<and> peer_link p = l) (dpeers d))"

definition update_peer :: "link \<Rightarrow> (distributed_peer \<Rightarrow> distributed_peer) \<Rightarrow> dist \<Rightarrow> dist" where
  "update_peer l f d = d\<lparr>dpeers := map (\<lambda>p. if peer_link p = l then f p else p) (dpeers d)\<rparr>"

definition parent_peer :: "dist \<Rightarrow> distributed_peer option" where
  "parent_peer d = (case parent d of None \<Rightarrow> None | Some l \<Rightarrow> find_peer l d)"

definition advertised_branch_values :: "dist \<Rightarrow> (pystr \<times> nat) result" where
  \<comment> \<open>root and level; \<open>None + 1\<close> is a \<open>TypeError\<close>\<close>
  "advertised_branch_values d =
     (case session_user d of
        None \<Rightarrow> Inl AttributeError
      | Some username \<Rightarrow>
          (case parent_peer d of
             None \<Rightarrow> Inr (username, 0)
           | Some p \<Rightarrow>
               if branch_root p = Some username then Inr (username, 0)
               else (case (branch_root p, branch_level p) of
                   (Some root, Some level) \<Rightarrow> Inr (root, level + 1)
                 | _ \<Rightarrow> Inl TypeError)))"

definition send_messages_to_children :: "child_message list \<Rightarrow> dist \<Rightarrow> dist step" where
  "send_messages_to_children ms d = (d, concat (map (\<lambda>c. map (To_Peer c) ms) (children d)))"

definition notify_server_of_parent :: "dist \<Rightarrow> dist step" where
  "notify_server_of_parent d =
     (case advertised_branch_values d of
        Inl _ \<Rightarrow> (d, [])
      | Inr (root, level) \<Rightarrow>
          (d, [To_Server (Branch_Level level), To_Server (Branch_Root root),
               To_Server (Toggle_Parent_Search (search_for_parent d \<and> parent d = None))]))"

definition notify_children_of_branch_values :: "dist \<Rightarrow> dist step" where
  "notify_children_of_branch_values d =
     (case advertised_branch_values d of
        Inl _ \<Rightarrow> (d, [])
      | Inr (root, level) \<Rightarrow> send_messages_to_children [Level level, Root root] d)"

subsection \<open>Losing a connection\<close>

definition unset_parent :: "dist \<Rightarrow> dist step" where
  "unset_parent d0 =
     (let d = d0\<lparr>parent := None\<rparr> in
      case session_user d of
        None \<Rightarrow> (d, [])
      | Some username \<Rightarrow>
          then_do (notify_server_of_parent d) (send_messages_to_children [Level 0, Root username]))"

definition connection_closed :: "link \<Rightarrow> dist \<Rightarrow> dist step" where
  \<comment> \<open>\<open>_on_state_changed\<close> of a distributed connection that is \<open>CLOSED\<close>\<close>
  "connection_closed l d =
     (case get_distributed_peer l d of
        None \<Rightarrow> (d, [])
      | Some p \<Rightarrow>
          then_do (if parent d = Some l then unset_parent d else (d, []))
            (\<lambda>d. let d1 = (if l \<in> set (children d) then d\<lparr>children := remove1 l (children d)\<rparr> else d)
                 in (d1\<lparr>dpeers := filter (\<lambda>q. peer_link q \<noteq> l) (dpeers d1)\<rparr>, [])))"

definition disconnect_link :: "link \<Rightarrow> dist \<Rightarrow> dist step" where
  \<comment> \<open>\<open>connection.disconnect\<close> reports the closed state before it returns\<close>
  "disconnect_link l d = (case connection_closed l d of (d', es) \<Rightarrow> (d', Disconnect l # es))"

fun disconnect_all :: "link list \<Rightarrow> dist \<Rightarrow> dist step" where
  "disconnect_all [] d = (d, [])"
| "disconnect_all (l # ls) d = then_do (disconnect_link l d) (disconnect_all ls)"

definition disconnect_children :: "dist \<Rightarrow> dist step" where
  "disconnect_children d = disconnect_all (children d) d"

definition disconnect_parent :: "dist \<Rightarrow> dist step" where
  "disconnect_parent d = (case parent d of None \<Rightarrow> (d, []) | Some l \<Rightarrow> disconnect_link l d)"

definition reset_dist :: "dist \<Rightarrow> dist step" where
  "reset_dist d = then_do (disconnect_children d) disconnect_parent"

definition reset_server_values :: "dist \<Rightarrow> dist" where
  \<comment> \<open>every change of the state of the server connection\<close>
  "reset_server_values d = d\<lparr>parent_min_speed := None, parent_speed_ratio := None,
     distributed_alive_interval := None, min_parents_in_cache := None, parent_inactivity_timeout := None\<rparr>"

subsection \<open>Parent and children\<close>

definition cancel_potential_parent_tasks :: "dist \<Rightarrow> dist step" where
  \<comment> \<open>the done callbacks remove the cancelled tasks\<close>
  "cancel_potential_parent_tasks d = (d\<lparr>pending_parents := []\<rparr>, map Cancel_Connect (pending_parents d))"

definition set_parent :: "link list \<Rightarrow> link \<Rightarrow> dist \<Rightarrow> dist step" where
  \<comment> \<open>\<open>links\<close>: the distributed connections of the network\<close>
  "set_parent links l d0 =
     (let d = d0\<lparr>parent := Some l\<rparr>;
          keep = map peer_link (filter (\<lambda>p. peer_link p \<in> set (l # children d)) (dpeers d)) in
      then_do (then_do (then_do (cancel_potential_parent_tasks d)
        (disconnect_all (filter (\<lambda>c. c \<notin> set keep) links)))
        notify_server_of_parent)
        notify_children_of_branch_values)"

definition check_if_new_parent :: "link list \<Rightarrow> link \<Rightarrow> dist \<Rightarrow> dist step" where
  "check_if_new_parent links l d =
     (case find_peer l d of
        None \<Rightarrow> (d, [])
      | Some p \<Rightarrow>
          if branch_level p \<noteq> None \<and> branch_root p \<noteq> None then
            (if parent d = None then set_parent links l d else disconnect_link l d)
          else (d, []))"

definition add_child :: "link \<Rightarrow> dist \<Rightarrow> dist step" where
  \<comment> \<open>without a session the values raise after the child was appended\<close>
  "add_child l d0 =
     (let d = d0\<lparr>children := children d0 @ [l]\<rparr> in
      case advertised_branch_values d of
        Inl _ \<Rightarrow> (d, [])
      | Inr (root, level) \<Rightarrow>
          (d, To_Peer l (Level level) # (if level \<noteq> 0 then [To_Peer l (Root root)] else [])))"

definition check_if_new_child :: "link \<Rightarrow> dist \<Rightarrow> dist step" where
  "check_if_new_child l d =
     (if \<exists>u \<in> set (potential_parents d). snd l = Some u then (d, [])
      else if \<not> accept_children d then disconnect_link l d
      else if length (children d) \<ge> max_children d then disconnect_link l d
      else add_child l d)"

definition on_peer_connection_initialized :: "link \<Rightarrow> bool \<Rightarrow> dist \<Rightarrow> dist step" where
  "on_peer_connection_initialized l requested d =
     (let d1 = d\<lparr>dpeers := dpeers d @ [\<lparr>peer_user = snd l, peer_link = l, branch_level = None, branch_root = None\<rparr>]\<rparr>
      in if \<not> requested then check_if_new_child l d1 else (d1, []))"

subsection \<open>Messages of the server\<close>

definition request_user_stats :: "dist \<Rightarrow> dist step" where
  "request_user_stats d =
     (case session_user d of
        None \<Rightarrow> (d, [])
      | Some username \<Rightarrow>
          (d, if parent_min_speed d \<noteq> None \<and> parent_speed_ratio d \<noteq> None
              then [To_Server (Get_User_Stats username)] else []))"

definition on_parent_min_speed :: "nat \<Rightarrow> dist \<Rightarrow> dist step" where
  "on_parent_min_speed speed d = request_user_stats (d\<lparr>parent_min_speed := Some speed\<rparr>)"

definition on_parent_speed_ratio :: "nat \<Rightarrow> dist \<Rightarrow> dist step" where
  "on_parent_speed_ratio ratio d = request_user_stats (d\<lparr>parent_speed_ratio := Some ratio\<rparr>)"

definition on_min_parents_in_cache :: "nat \<Rightarrow> dist \<Rightarrow> dist" where
  "on_min_parents_in_cache amount d = d\<lparr>min_parents_in_cache := Some amount\<rparr>"

definition on_distributed_alive_interval :: "nat \<Rightarrow> dist \<Rightarrow> dist" where
  "on_distributed_alive_interval interval d = d\<lparr>distributed_alive_interval := Some interval\<rparr>"

definition on_parent_inactivity_timeout :: "nat \<Rightarrow> dist \<Rightarrow> dist" where
  "on_parent_inactivity_timeout timeout d = d\<lparr>parent_inactivity_timeout := Some timeout\<rparr>"

definition calculate_max_children :: "nat \<Rightarrow> nat \<Rightarrow> nat result" where
  \<comment> \<open>\<open>int(speed / ((ratio / 10) * 1024))\<close>, with exact quotients\<close>
  "calculate_max_children upload_speed ratio =
     (if ratio = 0 then Inl ZeroDivisionError else Inr ((upload_speed * 10) div (ratio * 1024)))"

definition on_get_user_stats :: "pystr \<Rightarrow> nat \<Rightarrow> dist \<Rightarrow> dist step" where
  \<comment> \<open>an exception leaves the children accepted and their number unchanged\<close>
  "on_get_user_stats username speed d =
     (if session_user d \<noteq> Some username then (d, [])
      else
        let min_speed = (case parent_min_speed d of None \<Rightarrow> DEFAULT_PARENT_MIN_SPEED | Some n \<Rightarrow> n);
            ratio = (case parent_speed_ratio d of None \<Rightarrow> DEFAULT_PARENT_SPEED_RATIO | Some n \<Rightarrow> n) in
        if speed < min_speed * 1024 then
          (d\<lparr>accept_children := False, max_children := 0\<rparr>, [To_Server (Accept_Children False)])
        else case calculate_max_children speed ratio of
            Inl _ \<Rightarrow> (d\<lparr>accept_children := True\<rparr>, [])
          | Inr n \<Rightarrow> (d\<lparr>accept_children := True, max_children := n\<rparr>, [To_Server (Accept_Children True)]))"

definition on_potential_parents :: "pystr list \<Rightarrow> dist \<Rightarrow> dist step" where
  "on_potential_parents users d =
     (if \<not> search_for_parent d then (d, [])
      else
        let ps = potential_parents d @ users in
        (d\<lparr>potential_parents := drop (length ps - POTENTIAL_PARENTS_CACHE_SIZE) ps,
           pending_parents := pending_parents d @ users\<rparr>, map Connect_Parent users))"

definition on_server_search_request :: "nat \<Rightarrow> pystr \<Rightarrow> nat \<Rightarrow> pystr \<Rightarrow> dist \<Rightarrow> dist step" where
  "on_server_search_request unknown user ticket query d =
     (if session_user d = Some user then (d, [])
      else send_messages_to_children [Search unknown user ticket query] d)"

subsection \<open>Messages of distributed peers\<close>

definition on_distributed_branch_level :: "link list \<Rightarrow> link \<Rightarrow> nat \<Rightarrow> dist \<Rightarrow> dist step" where
  "on_distributed_branch_level links l level d =
     (case get_distributed_peer l d of
        None \<Rightarrow> (d, [])
      | Some p \<Rightarrow>
          let d1 = update_peer l (\<lambda>p. p\<lparr>branch_level := Some level\<rparr>) d;
              d2 = (if level = 0 then update_peer l (\<lambda>p. p\<lparr>branch_root := peer_user p\<rparr>) d1 else d1) in
          if parent d2 \<noteq> Some l then check_if_new_parent links l d2
          else notify_children_of_branch_values d2)"

definition on_distributed_branch_root :: "link list \<Rightarrow> link \<Rightarrow> pystr \<Rightarrow> dist \<Rightarrow> dist step" where
  "on_distributed_branch_root links l root d =
     (case get_distributed_peer l d of
        None \<Rightarrow> (d, [])
      | Some p \<Rightarrow>
          if branch_root p = Some root then (d, [])
          else
            let d1 = update_peer l (\<lambda>p. p\<lparr>branch_root := Some root\<rparr>) d in
            if parent d1 \<noteq> Some l then check_if_new_parent links l d1
            else notify_children_of_branch_values d1)"

definition on_distributed_child_depth :: "link \<Rightarrow> nat \<Rightarrow> dist \<Rightarrow> dist step" where
  "on_distributed_child_depth l depth d =
     (case get_distributed_peer l d of
        None \<Rightarrow> (d, [])
      | Some p \<Rightarrow>
          (d, [case parent d of Some pl \<Rightarrow> To_Peer pl (Depth (depth + 1))
               | None \<Rightarrow> To_Server (Child_Depth (depth + 1))]))"

definition on_distributed_search_request :: "nat \<Rightarrow> pystr \<Rightarrow> nat \<Rightarrow> pystr \<Rightarrow> dist \<Rightarrow> dist step" where
  "on_distributed_search_request unknown user ticket query d =
     send_messages_to_children [Search unknown user ticket query] d"

definition on_distributed_server_search_request :: "nat \<Rightarrow> pystr \<Rightarrow> nat \<Rightarrow> pystr \<Rightarrow> dist \<Rightarrow> dist step" where
  \<comment> \<open>3 is the id of \<open>DistributedSearchRequest\<close>\<close>
  "on_distributed_server_search_request code user ticket query d =
     (if code \<noteq> 3 then (d, []) else send_messages_to_children [Search 49 user ticket query] d)"

subsection \<open>Session\<close>

definition on_distributed_session_initialized :: "pystr \<Rightarrow> dist \<Rightarrow> dist step" where
  "on_distributed_session_initialized username d = notify_server_of_parent (d\<lparr>session_user := Some username\<rparr>)"

definition on_distributed_session_destroyed :: "dist \<Rightarrow> dist" where
  "on_distributed_session_destroyed d = d\<lparr>session_user := None\<rparr>"

end
