(* ===== verification/Distributed_Properties.thy ===== *)
theory Distributed_Properties
  imports Distributed
begin

text \<open>
The invariant of the distributed network, what the children of the client conclude from the
  messages they are sent, and the properties.
\<close>

subsection \<open>Invariant\<close>

definition complete :: "distributed_peer \<Rightarrow> bool" where
  "complete p \<longleftrightarrow> branch_level p \<noteq> None \<and> branch_root p \<noteq> None"

definition peers_ok :: "distributed_peer list \<Rightarrow> bool" where
  "peers_ok ps \<longleftrightarrow> distinct (map peer_link ps) \<and> (\<forall>p \<in> set ps. peer_user p = snd (peer_link p) \<and> snd (peer_link p) \<noteq> None)"

definition parent_ok :: "link option \<Rightarrow> distributed_peer list \<Rightarrow> bool" where
  "parent_ok par ps \<longleftrightarrow> (case par of None \<Rightarrow> True | Some l \<Rightarrow> \<exists>p \<in> set ps. peer_link p = l \<and> complete p)"

definition dist_inv :: "dist \<Rightarrow> bool" where
  "dist_inv d \<longleftrightarrow> peers_ok (dpeers d) \<and> distinct (children d) \<and> set (children d) \<subseteq> peer_link ` set (dpeers d)
     \<and> parent_ok (parent d) (dpeers d)"

lemma parent_ok_simps [simp]:
  "parent_ok None ps" "parent_ok (Some l) ps \<longleftrightarrow> (\<exists>p \<in> set ps. peer_link p = l \<and> complete p)"
  by (simp_all add: parent_ok_def)

lemma fst_then_do: "fst (then_do r f) = fst (f (fst r))"
  by (simp add: then_do_def split_def)

lemma snd_then_do: "snd (then_do r f) = snd r @ snd (f (fst r))"
  by (simp add: then_do_def split_def)

lemmas then_do_simps = fst_then_do snd_then_do

lemma fst_notify [simp]:
  "fst (notify_server_of_parent d) = d" "fst (notify_children_of_branch_values d) = d"
  "fst (send_messages_to_children ms d) = d"
  by (auto simp: notify_server_of_parent_def notify_children_of_branch_values_def
      send_messages_to_children_def split: sum.splits)

lemma fst_unset_parent [simp]: "fst (unset_parent d) = d\<lparr>parent := None\<rparr>"
  by (simp add: unset_parent_def then_do_simps Let_def split: option.split)

lemma get_peer_SomeD:
  "get_distributed_peer l d = Some p \<Longrightarrow> p \<in> set (dpeers d) \<and> peer_link p = l \<and> snd l \<noteq> None"
  by (auto simp: get_distributed_peer_def find_Some_iff split: if_splits)

lemma find_peer_SomeD: "find_peer l d = Some p \<Longrightarrow> p \<in> set (dpeers d) \<and> peer_link p = l"
  by (auto simp: find_peer_def find_Some_iff)

lemma fst_connection_closed:
  "fst (connection_closed l d) = (if get_distributed_peer l d = None then d else
     d\<lparr>parent := (if parent d = Some l then None else parent d), children := remove1 l (children d),
       dpeers := filter (\<lambda>q. peer_link q \<noteq> l) (dpeers d)\<rparr>)"
  by (auto simp: connection_closed_def then_do_simps Let_def remove1_idem split: option.split)

lemma fst_disconnect [simp]: "fst (disconnect_link l d) = fst (connection_closed l d)"
  by (simp add: disconnect_link_def split_def)

lemma inv_connection_closed:
  assumes "dist_inv d"
  shows "dist_inv (fst (connection_closed l d))"
proof (cases "get_distributed_peer l d")
  case (Some p)
  have "peers_ok (filter (\<lambda>q. peer_link q \<noteq> l) (dpeers d))"
    using assms by (simp add: dist_inv_def peers_ok_def distinct_map_filter)
  moreover have "set (remove1 l (children d)) \<subseteq> peer_link ` set (filter (\<lambda>q. peer_link q \<noteq> l) (dpeers d))"
    using assms by (auto simp: dist_inv_def)
  moreover have "parent_ok (if parent d = Some l then None else parent d) (filter (\<lambda>q. peer_link q \<noteq> l) (dpeers d))"
    using assms by (cases "parent d") (auto simp: dist_inv_def)
  ultimately show ?thesis using assms Some
    by (simp add: fst_connection_closed dist_inv_def)
qed (use assms in \<open>simp add: fst_connection_closed\<close>)

lemma inv_disconnect_all: "dist_inv d \<Longrightarrow> dist_inv (fst (disconnect_all ls d))"
  by (induction ls arbitrary: d) (simp_all add: then_do_simps inv_connection_closed)

lemma inv_fields [simp]:
  "dist_inv (d\<lparr>pending_parents := ps\<rparr>) = dist_inv d"
  "dist_inv (d\<lparr>session_user := u\<rparr>) = dist_inv d"
  "dist_inv (d\<lparr>parent_min_speed := a\<rparr>) = dist_inv d"
  "dist_inv (d\<lparr>parent_speed_ratio := a\<rparr>) = dist_inv d"
  "dist_inv (d\<lparr>min_parents_in_cache := a\<rparr>) = dist_inv d"
  "dist_inv (d\<lparr>parent_inactivity_timeout := a\<rparr>) = dist_inv d"
  "dist_inv (d\<lparr>distributed_alive_interval := a\<rparr>) = dist_inv d"
  "dist_inv (d\<lparr>potential_parents := qs\<rparr>) = dist_inv d"
  "dist_inv (d\<lparr>accept_children := b\<rparr>) = dist_inv d"
  "dist_inv (d\<lparr>max_children := n\<rparr>) = dist_inv d"
  by (simp_all add: dist_inv_def)

lemma peers_ok_update:
  assumes "peers_ok ps" "\<And>p. peer_link (g p) = peer_link p" "\<And>p. peer_user (g p) = peer_user p"
  shows "peers_ok (map g ps)"
proof -
  have "map peer_link (map g ps) = map peer_link ps" using assms(2) by simp
  then have "distinct (map peer_link (map g ps))" using assms(1) by (metis peers_ok_def)
  then show ?thesis using assms by (simp add: peers_ok_def)
qed

lemma links_update_peer:
  assumes "\<And>p. peer_link (f p) = peer_link p"
  shows "peer_link ` set (dpeers (update_peer l f d)) = peer_link ` set (dpeers d)"
proof -
  have "peer_link ` (\<lambda>p. if peer_link p = l then f p else p) ` set (dpeers d) = peer_link ` set (dpeers d)"
    unfolding image_image using assms by (intro image_cong) auto
  then show ?thesis by (simp add: update_peer_def)
qed

lemma inv_update_peer:
  assumes "dist_inv d" "\<And>p. peer_link (f p) = peer_link p" "\<And>p. peer_user (f p) = peer_user p"
    and "\<And>p. p \<in> set (dpeers d) \<Longrightarrow> complete p \<Longrightarrow> complete (f p)"
  shows "dist_inv (update_peer l f d)"
proof -
  let ?g = "\<lambda>p. if peer_link p = l then f p else p"
  have ok: "peers_ok (map ?g (dpeers d))"
    using assms(1-3) by (intro peers_ok_update) (simp_all add: dist_inv_def)
  have links: "peer_link ` ?g ` set (dpeers d) = peer_link ` set (dpeers d)"
    unfolding image_image using assms(2) by (intro image_cong) auto
  have "\<exists>p \<in> set (map ?g (dpeers d)). peer_link p = k \<and> complete p" if par: "parent d = Some k" for k
  proof -
    obtain p where p: "p \<in> set (dpeers d)" "peer_link p = k" "complete p"
      using assms(1) par by (auto simp: dist_inv_def)
    then have "?g p \<in> set (map ?g (dpeers d))" "peer_link (?g p) = k" "complete (?g p)"
      using assms(2,4) by auto
    then show ?thesis by blast
  qed
  then have "parent_ok (parent d) (map ?g (dpeers d))" by (cases "parent d") simp_all
  with ok links assms(1) show ?thesis by (simp add: dist_inv_def update_peer_def)
qed

lemma inv_set_parent:
  assumes "dist_inv d" "find_peer l d = Some p" "complete p"
  shows "dist_inv (fst (set_parent links l d))"
proof -
  have "dist_inv (d\<lparr>parent := Some l\<rparr>)"
    using assms find_peer_SomeD [OF assms(2)] by (auto simp: dist_inv_def)
  then show ?thesis
    by (simp add: set_parent_def Let_def then_do_simps cancel_potential_parent_tasks_def inv_disconnect_all)
qed

lemma inv_check_if_new_parent: "dist_inv d \<Longrightarrow> dist_inv (fst (check_if_new_parent links l d))"
  by (auto simp: check_if_new_parent_def inv_connection_closed complete_def intro!: inv_set_parent split: option.split)

lemma inv_add_child:
  "dist_inv d \<Longrightarrow> l \<in> peer_link ` set (dpeers d) \<Longrightarrow> l \<notin> set (children d) \<Longrightarrow> dist_inv (fst (add_child l d))"
  by (auto simp: add_child_def Let_def dist_inv_def split: sum.split option.split)

lemma inv_peer_initialized:
  assumes "dist_inv d" "l \<notin> peer_link ` set (dpeers d)" "snd l \<noteq> None"
  shows "dist_inv (fst (on_peer_connection_initialized l requested d))"
proof -
  let ?d = "d\<lparr>dpeers := dpeers d @ [\<lparr>peer_user = snd l, peer_link = l, branch_level = None, branch_root = None\<rparr>]\<rparr>"
  have d: "dist_inv ?d" using assms by (auto simp: dist_inv_def peers_ok_def parent_ok_def split: option.splits)
  moreover have "l \<notin> set (children ?d)" using assms by (auto simp: dist_inv_def)
  ultimately have "dist_inv (fst (check_if_new_child l ?d))"
    by (auto simp: check_if_new_child_def inv_connection_closed intro!: inv_add_child)
  with d show ?thesis by (simp add: on_peer_connection_initialized_def Let_def)
qed

lemma inv_branch_level: "dist_inv d \<Longrightarrow> dist_inv (fst (on_distributed_branch_level links l level d))"
proof (cases "get_distributed_peer l d")
  case (Some p)
  assume d: "dist_inv d"
  let ?d1 = "update_peer l (\<lambda>p. p\<lparr>branch_level := Some level\<rparr>) d"
  let ?d2 = "if level = 0 then update_peer l (\<lambda>p. p\<lparr>branch_root := peer_user p\<rparr>) ?d1 else ?d1"
  have d1: "dist_inv ?d1" by (rule inv_update_peer [OF d]) (simp_all add: complete_def)
  have "peer_user p \<noteq> None" if "p \<in> set (dpeers ?d1)" for p
    using d1 that by (auto simp: dist_inv_def peers_ok_def)
  then have "dist_inv (update_peer l (\<lambda>p. p\<lparr>branch_root := peer_user p\<rparr>) ?d1)"
    by (intro inv_update_peer [OF d1]) (simp_all add: complete_def)
  with d1 have "dist_inv ?d2" by auto
  then show ?thesis using Some
    by (auto simp: on_distributed_branch_level_def Let_def inv_check_if_new_parent)
qed (simp add: on_distributed_branch_level_def)

lemma inv_branch_root: "dist_inv d \<Longrightarrow> dist_inv (fst (on_distributed_branch_root links l root d))"
proof (cases "get_distributed_peer l d")
  case (Some p)
  assume d: "dist_inv d"
  have "dist_inv (update_peer l (\<lambda>p. p\<lparr>branch_root := Some root\<rparr>) d)"
    by (rule inv_update_peer [OF d]) (simp_all add: complete_def)
  then show ?thesis using Some d
    by (auto simp: on_distributed_branch_root_def Let_def inv_check_if_new_parent)
qed (simp add: on_distributed_branch_root_def)

lemma inv_reset: "dist_inv d \<Longrightarrow> dist_inv (fst (reset_dist d))"
  by (auto simp: reset_dist_def then_do_simps disconnect_children_def disconnect_parent_def
      inv_disconnect_all inv_connection_closed split: option.split)

inductive dist_step :: "dist \<Rightarrow> dist \<times> out list \<Rightarrow> bool" where
  Peer_Initialized: "l \<notin> peer_link ` set (dpeers d) \<Longrightarrow> snd l \<noteq> None \<Longrightarrow>
    dist_step d (on_peer_connection_initialized l requested d)"
| Closed: "dist_step d (connection_closed l d)"
| Branch_Level_Received: "dist_step d (on_distributed_branch_level links l level d)"
| Branch_Root_Received: "dist_step d (on_distributed_branch_root links l root d)"
| Child_Depth_Received: "dist_step d (on_distributed_child_depth l depth d)"
| Search_Received: "dist_step d (on_distributed_search_request unknown user ticket query d)"
| Server_Search_Received: "dist_step d (on_distributed_server_search_request code user ticket query d)"
| Search_From_Server: "dist_step d (on_server_search_request unknown user ticket query d)"
| Potential_Parents: "dist_step d (on_potential_parents users d)"
| Min_Speed: "dist_step d (on_parent_min_speed n d)"
| Speed_Ratio: "dist_step d (on_parent_speed_ratio n d)"
| User_Stats: "dist_step d (on_get_user_stats user speed d)"
| Reset: "dist_step d (reset_dist d)"
| Server_State: "dist_step d (reset_server_values d, [])"
| Min_Parents: "dist_step d (on_min_parents_in_cache n d, [])"
| Alive_Interval: "dist_step d (on_distributed_alive_interval n d, [])"
| Inactivity_Timeout: "dist_step d (on_parent_inactivity_timeout n d, [])"

lemma inv_step: "dist_step d r \<Longrightarrow> dist_inv d \<Longrightarrow> dist_inv (fst r)"
  by (induction rule: dist_step.induct)
    (simp_all add: inv_peer_initialized inv_connection_closed inv_branch_level inv_branch_root inv_reset
      on_distributed_child_depth_def on_distributed_search_request_def on_distributed_server_search_request_def
      on_server_search_request_def on_potential_parents_def on_parent_min_speed_def on_parent_speed_ratio_def
      request_user_stats_def on_get_user_stats_def reset_server_values_def on_min_parents_in_cache_def
      on_distributed_alive_interval_def on_parent_inactivity_timeout_def Let_def
      split: option.split sum.split)


subsection \<open>What the children know\<close>

text \<open>What a child concludes from the messages it gets, as \<open>_on_distributed_branch_level\<close> and
  \<open>_on_distributed_branch_root\<close> do: level 0 makes the sender the root.\<close>

type_synonym position = "pystr option \<times> nat option"

fun hear1 :: "pystr \<Rightarrow> link \<Rightarrow> out \<Rightarrow> position \<Rightarrow> position" where
  "hear1 me c (To_Peer l (Level n)) v = (if l = c then (if n = 0 then Some me else fst v, Some n) else v)"
| "hear1 me c (To_Peer l (Root r)) v = (if l = c then (Some r, snd v) else v)"
| "hear1 me c _ v = v"

definition hear :: "pystr \<Rightarrow> out list \<Rightarrow> (link \<Rightarrow> position) \<Rightarrow> link \<Rightarrow> position" where
  "hear me es v c = fold (hear1 me c) es (v c)"

fun quiet :: "out \<Rightarrow> bool" where
  "quiet (To_Peer l (Level n)) = False"
| "quiet (To_Peer l (Root r)) = False"
| "quiet _ = True"

lemma hear_Nil [simp]: "hear me [] v = v"
  by (simp add: hear_def fun_eq_iff)

lemma hear_append [simp]: "hear me (es @ es') v = hear me es' (hear me es v)"
  by (simp add: hear_def fun_eq_iff)

lemma hear_quiet: "list_all quiet es \<Longrightarrow> hear me es v = v"
proof
  fix c
  have "hear1 me c e w = w" if "quiet e" for e w using that by (cases e rule: quiet.cases) auto
  then show "list_all quiet es \<Longrightarrow> hear me es v c = v c"
    unfolding hear_def by (induction es arbitrary: v) auto
qed

lemma hear_Cons_quiet: "quiet e \<Longrightarrow> hear me (e # es) v = hear me es v"
  using hear_append [of me "[e]" es v] hear_quiet [of "[e]" me v] by simp

definition informed :: "pystr \<Rightarrow> dist \<Rightarrow> (link \<Rightarrow> position) \<Rightarrow> bool" where
  \<comment> \<open>every child knows the values the client advertises\<close>
  "informed me d v \<longleftrightarrow> (\<forall>c \<in> set (children d). \<forall>root level.
     advertised_branch_values d = Inr (root, level) \<longrightarrow> v c = (Some root, Some level))"

lemma hear_children:
  "fold (hear1 me c) (concat (map (\<lambda>l. map (To_Peer l) [Level n, Root r]) ls)) w
     = (if c \<in> set ls then (Some r, Some n) else w)"
  by (induction ls arbitrary: w) auto

lemma send_children_hear:
  "hear me (snd (send_messages_to_children [Level n, Root r] d)) v c =
     (if c \<in> set (children d) then (Some r, Some n) else v c)"
  using hear_children [of me c n r "children d"] by (simp add: hear_def send_messages_to_children_def)

lemma quiet_server: "list_all quiet (snd (notify_server_of_parent d))"
  by (simp add: notify_server_of_parent_def split: sum.split prod.split)

lemma notify_children_informs: "informed me d (hear me (snd (notify_children_of_branch_values d)) v)"
  unfolding informed_def
proof (intro ballI allI impI)
  fix c root level
  assume "c \<in> set (children d)" "advertised_branch_values d = Inr (root, level)"
  then show "hear me (snd (notify_children_of_branch_values d)) v c = (Some root, Some level)"
    by (simp add: notify_children_of_branch_values_def send_children_hear)
qed

lemma advertised_no_parent:
  "parent d = None \<Longrightarrow> session_user d = Some me \<Longrightarrow> advertised_branch_values d = Inr (me, 0)"
  by (simp add: advertised_branch_values_def parent_peer_def)

lemma advertised_fields:
  "session_user d' = session_user d \<Longrightarrow> parent d' = parent d \<Longrightarrow> dpeers d' = dpeers d \<Longrightarrow>
     advertised_branch_values d' = advertised_branch_values d"
proof -
  assume eq: "session_user d' = session_user d" "parent d' = parent d" "dpeers d' = dpeers d"
  then have "parent_peer d' = parent_peer d" by (simp add: parent_peer_def find_peer_def split: option.split)
  with eq(1) show ?thesis by (simp only: advertised_branch_values_def)
qed

lemma advertised_other_peer:
  assumes "session_user d' = session_user d" "parent d' = parent d" "parent d \<noteq> Some l"
    and "\<And>k. k \<noteq> l \<Longrightarrow> find_peer k d' = find_peer k d"
  shows "advertised_branch_values d' = advertised_branch_values d"
  using assms by (auto simp: advertised_branch_values_def parent_peer_def split: option.split)

lemma informed_subset:
  "informed me d v \<Longrightarrow> set (children d') \<subseteq> set (children d) \<Longrightarrow>
     advertised_branch_values d' = advertised_branch_values d \<Longrightarrow> informed me d' v"
  by (auto simp: informed_def)

lemma find_filter: "(\<And>x. P x \<Longrightarrow> Q x) \<Longrightarrow> find P (filter Q xs) = find P xs"
  by (induction xs) auto

lemma informed_closed:
  assumes "informed me d v" "session_user d = Some me"
  shows "informed me (fst (connection_closed l d)) (hear me (snd (connection_closed l d)) v)"
proof (cases "get_distributed_peer l d")
  case None
  then show ?thesis using assms by (simp add: connection_closed_def)
next
  case (Some p)
  let ?d' = "fst (connection_closed l d)"
  have ch: "set (children ?d') \<subseteq> set (children d)"
    using Some set_remove1_subset by (simp add: fst_connection_closed)
  show ?thesis
  proof (cases "parent d = Some l")
    case True
    have out: "snd (connection_closed l d) = snd (notify_server_of_parent (d\<lparr>parent := None\<rparr>))
        @ snd (send_messages_to_children [Level 0, Root me] (d\<lparr>parent := None\<rparr>))"
      using Some True assms(2) by (simp add: connection_closed_def then_do_simps unset_parent_def)
    have "hear me (snd (connection_closed l d)) v c = (Some me, Some 0)" if "c \<in> set (children d)" for c
      unfolding out using that by (simp add: hear_quiet [OF quiet_server] send_children_hear)
    moreover have "advertised_branch_values ?d' = Inr (me, 0)"
      using Some True assms(2) by (intro advertised_no_parent) (simp_all add: fst_connection_closed)
    ultimately show ?thesis using ch by (auto simp: informed_def)
  next
    case False
    have "snd (connection_closed l d) = []"
      using Some False by (simp add: connection_closed_def then_do_simps Let_def)
    moreover have "advertised_branch_values ?d' = advertised_branch_values d"
      using Some False
      by (intro advertised_other_peer [of _ _ l]) (auto simp: fst_connection_closed find_peer_def intro!: find_filter)
    ultimately show ?thesis using assms(1) ch by (simp add: informed_subset)
  qed
qed

lemma session_closed [simp]: "session_user (fst (connection_closed l d)) = session_user d"
  by (simp add: fst_connection_closed)

lemma informed_disconnect:
  assumes "informed me d v" "session_user d = Some me"
  shows "informed me (fst (disconnect_link l d)) (hear me (snd (disconnect_link l d)) v)"
  using informed_closed [OF assms, of l]
  by (simp add: disconnect_link_def split_def hear_Cons_quiet)

lemma informed_disconnect_all:
  "informed me d v \<Longrightarrow> session_user d = Some me \<Longrightarrow>
     informed me (fst (disconnect_all ls d)) (hear me (snd (disconnect_all ls d)) v)
     \<and> session_user (fst (disconnect_all ls d)) = Some me"
proof (induction ls arbitrary: d v)
  case (Cons l ls)
  show ?case
    using Cons.IH [OF informed_disconnect [OF Cons.prems], of l] Cons.prems(2) by (simp add: then_do_simps)
qed simp


lemma informed_set_parent:
  "informed me (fst (set_parent links l d)) (hear me (snd (set_parent links l d)) v)"
proof -
  let ?r = "then_do (then_do (cancel_potential_parent_tasks (d\<lparr>parent := Some l\<rparr>))
    (disconnect_all (filter (\<lambda>c. c \<notin> set (map peer_link (filter (\<lambda>p. peer_link p \<in> set (l # children (d\<lparr>parent := Some l\<rparr>)))
      (dpeers (d\<lparr>parent := Some l\<rparr>))))) links))) notify_server_of_parent"
  have "set_parent links l d = then_do ?r notify_children_of_branch_values"
    by (simp add: set_parent_def Let_def)
  then show ?thesis using notify_children_informs [of me "fst ?r" "hear me (snd ?r) v"] by (simp add: then_do_simps)
qed

lemma session_disconnect_all [simp]: "session_user (fst (disconnect_all ls d)) = session_user d"
  by (induction ls arbitrary: d) (simp_all add: then_do_simps)

lemma session_set_parent [simp]: "session_user (fst (set_parent links l d)) = session_user d"
  by (simp add: set_parent_def Let_def then_do_simps cancel_potential_parent_tasks_def)

lemma informed_check_if_new_parent:
  assumes "informed me d v" "session_user d = Some me"
  shows "informed me (fst (check_if_new_parent links l d)) (hear me (snd (check_if_new_parent links l d)) v)
     \<and> session_user (fst (check_if_new_parent links l d)) = Some me"
  using assms informed_set_parent informed_disconnect [OF assms]
  by (simp add: check_if_new_parent_def split: option.split)

lemma advertised_zero:
  "advertised_branch_values d = Inr (root, 0) \<Longrightarrow> session_user d = Some me \<Longrightarrow> root = me"
  by (auto simp: advertised_branch_values_def split: option.splits if_splits)

lemma informed_add_child:
  assumes "informed me d v" "session_user d = Some me"
  shows "informed me (fst (add_child l d)) (hear me (snd (add_child l d)) v)"
proof (cases "advertised_branch_values d")
  case (Inl e)
  have "advertised_branch_values (d\<lparr>children := children d @ [l]\<rparr>) = Inl e"
    using Inl by (subst advertised_fields) simp_all
  then show ?thesis by (simp add: add_child_def Let_def informed_def)
next
  case (Inr rl)
  obtain root level where rl: "rl = (root, level)" by (cases rl)
  have adv: "advertised_branch_values (d\<lparr>children := children d @ [l]\<rparr>) = Inr (root, level)"
    using Inr rl by (subst advertised_fields) simp_all
  have "root = me" if "level = 0" using advertised_zero assms(2) Inr rl that by simp
  moreover have "v c = (Some root, Some level)" if "c \<in> set (children d)" for c
    using assms(1) that Inr rl by (simp add: informed_def)
  ultimately show ?thesis using adv
    by (auto simp: add_child_def Let_def informed_def hear_def)
qed

lemma find_peer_snoc: "k \<noteq> l \<Longrightarrow> peer_link p = l \<Longrightarrow> find_peer k (d\<lparr>dpeers := dpeers d @ [p]\<rparr>) = find_peer k d"
proof -
  have "find P (xs @ [p]) = find P xs" if "\<not> P p" for P and xs :: "distributed_peer list"
    using that by (induction xs) auto
  then show "k \<noteq> l \<Longrightarrow> peer_link p = l \<Longrightarrow> find_peer k (d\<lparr>dpeers := dpeers d @ [p]\<rparr>) = find_peer k d"
    by (auto simp: find_peer_def)
qed

lemma find_peer_update:
  assumes "k \<noteq> l" "\<And>p. peer_link (f p) = peer_link p"
  shows "find_peer k (update_peer l f d) = find_peer k d"
proof -
  have "find (\<lambda>p. peer_link p = k) (map (\<lambda>p. if peer_link p = l then f p else p) ps)
      = find (\<lambda>p. peer_link p = k) ps" for ps
    using assms by (induction ps) auto
  then show ?thesis by (simp add: find_peer_def update_peer_def)
qed

lemma informed_peer_initialized:
  assumes "informed me d v" "session_user d = Some me" "dist_inv d" "l \<notin> peer_link ` set (dpeers d)"
  shows "informed me (fst (on_peer_connection_initialized l requested d))
      (hear me (snd (on_peer_connection_initialized l requested d)) v)
     \<and> session_user (fst (on_peer_connection_initialized l requested d)) = Some me"
proof -
  let ?d = "d\<lparr>dpeers := dpeers d @ [\<lparr>peer_user = snd l, peer_link = l, branch_level = None, branch_root = None\<rparr>]\<rparr>"
  have "parent d \<noteq> Some l" using assms(3,4) by (auto simp: dist_inv_def)
  then have "advertised_branch_values ?d = advertised_branch_values d"
    by (intro advertised_other_peer [of _ _ l]) (simp_all add: find_peer_snoc)
  then have i: "informed me ?d v" using assms(1) by (simp add: informed_def)
  have s: "session_user ?d = Some me" using assms(2) by simp
  have "session_user (fst (add_child l ?d)) = Some me"
    using s by (simp add: add_child_def Let_def split: sum.split prod.split)
  then show ?thesis using i s informed_disconnect [OF i s, of l] informed_add_child [OF i s, of l]
    by (auto simp: on_peer_connection_initialized_def Let_def check_if_new_child_def)
qed

lemma update_peer_fields [simp]:
  "session_user (update_peer l f d) = session_user d" "parent (update_peer l f d) = parent d"
  "children (update_peer l f d) = children d"
  by (simp_all add: update_peer_def)

lemma informed_update_other:
  assumes "informed me d v" "parent d \<noteq> Some l" "\<And>p. peer_link (f p) = peer_link p"
  shows "informed me (update_peer l f d) v"
proof -
  have "advertised_branch_values (update_peer l f d) = advertised_branch_values d"
    by (rule advertised_other_peer [OF _ _ assms(2)]) (simp_all add: find_peer_update assms(3))
  then show ?thesis using assms(1) by (simp add: informed_def)
qed

lemma informed_branch_level:
  assumes "informed me d v" "session_user d = Some me"
  shows "informed me (fst (on_distributed_branch_level links l level d)) (hear me (snd (on_distributed_branch_level links l level d)) v)
     \<and> session_user (fst (on_distributed_branch_level links l level d)) = Some me"
proof (cases "get_distributed_peer l d")
  case (Some p)
  let ?d1 = "update_peer l (\<lambda>p. p\<lparr>branch_level := Some level\<rparr>) d"
  let ?d2 = "if level = 0 then update_peer l (\<lambda>p. p\<lparr>branch_root := peer_user p\<rparr>) ?d1 else ?d1"
  have eq: "on_distributed_branch_level links l level d =
      (if parent d \<noteq> Some l then check_if_new_parent links l ?d2 else notify_children_of_branch_values ?d2)"
    using Some by (simp add: on_distributed_branch_level_def Let_def)
  have s: "session_user ?d2 = Some me" using assms(2) by simp
  show ?thesis
  proof (cases "parent d = Some l")
    case True
    then show ?thesis using eq s notify_children_informs [of me ?d2 v] by simp
  next
    case False
    have "informed me ?d1 v" by (rule informed_update_other [OF assms(1) False]) simp
    moreover from this have "informed me (update_peer l (\<lambda>p. p\<lparr>branch_root := peer_user p\<rparr>) ?d1) v"
      by (rule informed_update_other) (use False in simp_all)
    ultimately have "informed me ?d2 v" by auto
    then show ?thesis using eq False informed_check_if_new_parent [OF _ s] by simp
  qed
qed (use assms in \<open>simp add: on_distributed_branch_level_def\<close>)

lemma informed_branch_root:
  assumes "informed me d v" "session_user d = Some me"
  shows "informed me (fst (on_distributed_branch_root links l root d)) (hear me (snd (on_distributed_branch_root links l root d)) v)
     \<and> session_user (fst (on_distributed_branch_root links l root d)) = Some me"
proof (cases "get_distributed_peer l d")
  case (Some p)
  let ?d1 = "update_peer l (\<lambda>p. p\<lparr>branch_root := Some root\<rparr>) d"
  have eq: "on_distributed_branch_root links l root d = (if branch_root p = Some root then (d, [])
      else if parent d \<noteq> Some l then check_if_new_parent links l ?d1 else notify_children_of_branch_values ?d1)"
    using Some by (simp add: on_distributed_branch_root_def Let_def)
  have s: "session_user ?d1 = Some me" using assms(2) by simp
  show ?thesis
  proof (cases "parent d = Some l")
    case True
    then show ?thesis using eq s assms notify_children_informs [of me ?d1 v] by simp
  next
    case False
    have "informed me ?d1 v" by (rule informed_update_other [OF assms(1) False]) simp
    then show ?thesis using eq False assms informed_check_if_new_parent [OF _ s] by simp
  qed
qed (use assms in \<open>simp add: on_distributed_branch_root_def\<close>)


lemma informed_reset:
  assumes "informed me d v" "session_user d = Some me"
  shows "informed me (fst (reset_dist d)) (hear me (snd (reset_dist d)) v) \<and> session_user (fst (reset_dist d)) = Some me"
proof -
  let ?d = "fst (disconnect_children d)" and ?v = "hear me (snd (disconnect_children d)) v"
  have d: "informed me ?d ?v" "session_user ?d = Some me"
    using informed_disconnect_all [OF assms, of "children d"] by (simp_all add: disconnect_children_def)
  have "informed me (fst (disconnect_parent ?d)) (hear me (snd (disconnect_parent ?d)) ?v)
      \<and> session_user (fst (disconnect_parent ?d)) = Some me"
    using d informed_disconnect [OF d] by (simp add: disconnect_parent_def split: option.split)
  then show ?thesis by (simp add: reset_dist_def then_do_simps)
qed

definition same_position :: "dist \<Rightarrow> dist \<Rightarrow> bool" where
  "same_position d d' \<longleftrightarrow> session_user d' = session_user d \<and> parent d' = parent d
     \<and> dpeers d' = dpeers d \<and> children d' = children d"

lemma informed_same:
  assumes "same_position d (fst r)" "list_all quiet (snd r)" "informed me d v" "session_user d = Some me"
  shows "informed me (fst r) (hear me (snd r) v) \<and> session_user (fst r) = Some me"
  using assms advertised_fields [of "fst r" d] by (simp add: hear_quiet same_position_def informed_def)

lemma quiet_search: "list_all quiet (snd (send_messages_to_children [Search a b c e] d))"
  by (auto simp: send_messages_to_children_def list_all_iff)

lemma informed_step:
  assumes "dist_step d r" "informed me d v" "session_user d = Some me" "dist_inv d"
  shows "informed me (fst r) (hear me (snd r) v) \<and> session_user (fst r) = Some me"
  using assms
proof (induction rule: dist_step.induct)
  case (Peer_Initialized l d requested)
  then show ?case using informed_peer_initialized by blast
next
  case (Closed d l)
  then show ?case using informed_closed by simp
next
  case (Branch_Level_Received d links l level)
  then show ?case using informed_branch_level by blast
next
  case (Branch_Root_Received d links l root)
  then show ?case using informed_branch_root by blast
next
  case (Child_Depth_Received d l depth)
  show ?case by (rule informed_same [OF _ _ Child_Depth_Received(1,2)])
    (auto simp: on_distributed_child_depth_def same_position_def split: option.split)
next
  case (Search_Received d unknown user ticket query)
  show ?case by (rule informed_same [OF _ _ Search_Received(1,2)])
    (simp_all add: on_distributed_search_request_def same_position_def quiet_search)
next
  case (Server_Search_Received d code user ticket query)
  show ?case by (rule informed_same [OF _ _ Server_Search_Received(1,2)])
    (simp_all add: on_distributed_server_search_request_def same_position_def quiet_search)
next
  case (Search_From_Server d unknown user ticket query)
  show ?case by (rule informed_same [OF _ _ Search_From_Server(1,2)])
    (simp_all add: on_server_search_request_def same_position_def quiet_search)
next
  case (Potential_Parents d users)
  show ?case by (rule informed_same [OF _ _ Potential_Parents(1,2)])
    (auto simp: on_potential_parents_def Let_def same_position_def list_all_iff)
next
  case (Min_Speed d n)
  show ?case by (rule informed_same [OF _ _ Min_Speed(1,2)])
    (auto simp: on_parent_min_speed_def request_user_stats_def same_position_def split: option.split)
next
  case (Speed_Ratio d n)
  show ?case by (rule informed_same [OF _ _ Speed_Ratio(1,2)])
    (auto simp: on_parent_speed_ratio_def request_user_stats_def same_position_def split: option.split)
next
  case (User_Stats d user speed)
  show ?case by (rule informed_same [OF _ _ User_Stats(1,2)])
    (auto simp: on_get_user_stats_def Let_def same_position_def split: sum.split)
next
  case (Reset d)
  then show ?case using informed_reset by blast
next
  case (Server_State d)
  show ?case by (rule informed_same [OF _ _ Server_State(1,2)])
    (simp_all add: reset_server_values_def same_position_def)
next
  case (Min_Parents d n)
  show ?case by (rule informed_same [OF _ _ Min_Parents(1,2)])
    (simp_all add: on_min_parents_in_cache_def same_position_def)
next
  case (Alive_Interval d n)
  show ?case by (rule informed_same [OF _ _ Alive_Interval(1,2)])
    (simp_all add: on_distributed_alive_interval_def same_position_def)
next
  case (Inactivity_Timeout d n)
  show ?case by (rule informed_same [OF _ _ Inactivity_Timeout(1,2)])
    (simp_all add: on_parent_inactivity_timeout_def same_position_def)
qed

subsection \<open>Runs\<close>

inductive reachable_dist :: "dist \<Rightarrow> bool" where
  Initial: "reachable_dist (initial_dist search)"
| Handler: "reachable_dist d \<Longrightarrow> dist_step d r \<Longrightarrow> reachable_dist (fst r)"
| Login: "reachable_dist d \<Longrightarrow> reachable_dist (fst (on_distributed_session_initialized me d))"
| Logout: "reachable_dist d \<Longrightarrow> reachable_dist (on_distributed_session_destroyed d)"

inductive session_run :: "pystr \<Rightarrow> dist \<Rightarrow> out list \<Rightarrow> bool" where
  \<comment> \<open>what happens during one session, with everything that was sent\<close>
  Session: "reachable_dist d \<Longrightarrow> children d = [] \<Longrightarrow>
    session_run me (fst (on_distributed_session_initialized me d)) (snd (on_distributed_session_initialized me d))"
| During: "session_run me d es \<Longrightarrow> dist_step d r \<Longrightarrow> session_run me (fst r) (es @ snd r)"

lemma reachable_dist_inv: "reachable_dist d \<Longrightarrow> dist_inv d"
proof (induction rule: reachable_dist.induct)
  case (Handler d r)
  then show ?case using inv_step by blast
qed (simp_all add: dist_inv_def peers_ok_def initial_dist_def on_distributed_session_initialized_def on_distributed_session_destroyed_def)

lemma session_run_informed:
  "session_run me d es \<Longrightarrow> reachable_dist d \<and> session_user d = Some me \<and> informed me d (hear me es (\<lambda>_. (None, None)))"
proof (induction rule: session_run.induct)
  case (Session d me)
  then show ?case using Login [OF Session(1), of me]
    by (simp add: on_distributed_session_initialized_def informed_def)
next
  case (During me d es r)
  then show ?case
    using informed_step [OF During(2), of me "hear me es (\<lambda>_. (None, None))"] reachable_dist_inv Handler [OF _ During(2)]
    by simp
qed


subsection \<open>Properties\<close>

text \<open>C10: Whatever happens, every connection has one peer object, the children are different
  registered peers, and the parent is a registered peer that told both its branch level and its
  branch root: with a session the advertised values never raise.\<close>

theorem distributed_invariant:
  assumes "reachable_dist d"
  shows "distinct (map peer_link (dpeers d)) \<and> distinct (children d)
    \<and> set (children d) \<subseteq> peer_link ` set (dpeers d)
    \<and> (parent d = Some l \<longrightarrow> (\<exists>p \<in> set (dpeers d). peer_link p = l \<and> branch_level p \<noteq> None \<and> branch_root p \<noteq> None))
    \<and> (session_user d = Some me \<longrightarrow> (\<exists>root level. advertised_branch_values d = Inr (root, level)))"
proof -
  have inv: "dist_inv d" by (rule reachable_dist_inv [OF assms])
  then have peers: "distinct (map peer_link (dpeers d))" "distinct (children d)"
    "set (children d) \<subseteq> peer_link ` set (dpeers d)" by (simp_all add: dist_inv_def peers_ok_def)
  have par: "\<exists>p \<in> set (dpeers d). peer_link p = l \<and> branch_level p \<noteq> None \<and> branch_root p \<noteq> None"
    if "parent d = Some l" for l
    using inv that by (auto simp: dist_inv_def complete_def)
  have adv: "\<exists>root level. advertised_branch_values d = Inr (root, level)" if s: "session_user d = Some me"
  proof (cases "parent_peer d")
    case (Some p)
    then obtain l where l: "parent d = Some l" "find_peer l d = Some p"
      by (auto simp: parent_peer_def split: option.splits)
    obtain q where q: "q \<in> set (dpeers d)" "peer_link q = l" "branch_level q \<noteq> None" "branch_root q \<noteq> None"
      using par [OF l(1)] by blast
    have "p = q"
      using q(1,2) find_peer_SomeD [OF l(2)] inv by (auto simp: dist_inv_def peers_ok_def distinct_map dest: inj_onD)
    with q(3,4) Some s show ?thesis by (auto simp: advertised_branch_values_def)
  qed (simp add: advertised_branch_values_def s)
  show ?thesis by (intro conjI impI peers par adv)
qed

lemma distributed_invariant_witness:
  "\<exists>d. reachable_dist d \<and> children d = [(0, Some [1])] \<and> distinct (map peer_link (dpeers d))"
proof -
  let ?l = "(0, Some [1]) :: link"
  let ?d = "fst (on_peer_connection_initialized ?l False (initial_dist True))"
  have r: "reachable_dist ?d"
    by (rule Handler [OF Initial]) (rule Peer_Initialized, simp_all add: initial_dist_def)
  have "children ?d = [?l]"
    by (simp add: on_peer_connection_initialized_def Let_def check_if_new_child_def add_child_def
        initial_dist_def advertised_branch_values_def)
  then show ?thesis using r distributed_invariant [OF r] by blast
qed


lemma session_run_example:
  "\<exists>d sent. session_run [9] d sent \<and> children d = [(0, Some [1])] \<and> advertised_branch_values d = Inr ([9], 0)"
proof -
  let ?l = "(0, Some [1]) :: link"
  let ?d0 = "fst (on_distributed_session_initialized [9] (initial_dist True))"
  let ?r = "on_peer_connection_initialized ?l False ?d0"
  have "session_run [9] ?d0 (snd (on_distributed_session_initialized [9] (initial_dist True)))"
    by (rule Session [OF Initial]) (simp add: initial_dist_def)
  moreover have "dist_step ?d0 ?r"
    by (rule Peer_Initialized) (simp_all add: initial_dist_def on_distributed_session_initialized_def)
  ultimately have run: "session_run [9] (fst ?r) (snd (on_distributed_session_initialized [9] (initial_dist True)) @ snd ?r)"
    by (rule During)
  have "children (fst ?r) = [?l] \<and> parent (fst ?r) = None \<and> session_user (fst ?r) = Some [9]"
    by (simp add: on_peer_connection_initialized_def Let_def check_if_new_child_def add_child_def
        initial_dist_def on_distributed_session_initialized_def advertised_branch_values_def parent_peer_def)
  then show ?thesis using run advertised_no_parent by blast
qed


lemma parent_disconnect_all:
  "l \<notin> set ls \<Longrightarrow> parent d = Some l \<Longrightarrow> parent (fst (disconnect_all ls d)) = Some l"
  by (induction ls arbitrary: d) (simp_all add: then_do_simps fst_connection_closed)

lemma children_disconnect_all:
  "l \<notin> set ls \<Longrightarrow> l \<in> set (children d) \<Longrightarrow> l \<in> set (children (fst (disconnect_all ls d)))"
  by (induction ls arbitrary: d) (simp_all add: then_do_simps fst_connection_closed)

lemma set_parent_result:
  assumes "l \<in> peer_link ` set (dpeers d)"
  shows "parent (fst (set_parent links l d)) = Some l"
    and "l \<in> set (children d) \<Longrightarrow> l \<in> set (children (fst (set_parent links l d)))"
proof -
  let ?d = "d\<lparr>parent := Some l, pending_parents := []\<rparr>"
  let ?ls = "filter (\<lambda>c. c \<notin> set (map peer_link (filter (\<lambda>p. peer_link p \<in> set (l # children d)) (dpeers d)))) links"
  have eq: "fst (set_parent links l d) = fst (disconnect_all ?ls ?d)"
    by (simp add: set_parent_def Let_def then_do_simps cancel_potential_parent_tasks_def)
  have l: "l \<notin> set ?ls" using assms by auto
  show "parent (fst (set_parent links l d)) = Some l" unfolding eq by (rule parent_disconnect_all [OF l]) simp
  show "l \<in> set (children d) \<Longrightarrow> l \<in> set (children (fst (set_parent links l d)))"
    unfolding eq by (rule children_disconnect_all [OF l]) simp
qed

text \<open>A child that advertises level 0 to a client without a parent becomes its parent and stays
  its child: the branch is a cycle, and a search request that arrives from this peer is sent
  back to it.\<close>

theorem child_becomes_parent:
  assumes "reachable_dist d" "parent d = None" "l \<in> set (children d)"
    and "d' = fst (on_distributed_branch_level links l 0 d)"
  shows "parent d' = Some l \<and> l \<in> set (children d')
    \<and> To_Peer l (Search unknown user ticket query) \<in> set (snd (on_distributed_search_request unknown user ticket query d'))"
proof -
  have inv: "dist_inv d" by (rule reachable_dist_inv [OF assms(1)])
  then obtain q where q: "q \<in> set (dpeers d)" "peer_link q = l" using assms(3) by (auto simp: dist_inv_def)
  then have u: "peer_user q = snd l" "snd l \<noteq> None" using inv by (auto simp: dist_inv_def peers_ok_def)
  have "find (\<lambda>p. peer_user p = snd l \<and> peer_link p = l) (dpeers d) \<noteq> None"
    unfolding find_None_iff using q u by blast
  then have "get_distributed_peer l d \<noteq> None" using u by (simp add: get_distributed_peer_def)
  then obtain p where p: "get_distributed_peer l d = Some p" by blast
  let ?f = "\<lambda>p. p\<lparr>branch_root := peer_user p\<rparr>" and ?g = "\<lambda>p. p\<lparr>branch_level := Some (0 :: nat)\<rparr>"
  let ?d = "update_peer l ?f (update_peer l ?g d)"
  have links: "l \<in> peer_link ` set (dpeers ?d)"
    using q by (simp add: links_update_peer image_iff) blast
  then have "find_peer l ?d \<noteq> None" by (auto simp: find_peer_def find_None_iff)
  then obtain r where r: "find_peer l ?d = Some r" by blast
  have "complete r"
  proof -
    have r': "r \<in> set (dpeers ?d)" "peer_link r = l" using find_peer_SomeD [OF r] by simp_all
    then obtain x where x: "x \<in> set (dpeers d)" "peer_link x = l" "r = ?f (?g x)"
      by (auto simp: update_peer_def split: if_splits)
    then have "peer_user x \<noteq> None" using inv by (auto simp: dist_inv_def peers_ok_def)
    then show ?thesis by (simp add: complete_def x(3))
  qed
  then have eq: "d' = fst (set_parent links l ?d)"
    using p r assms(2) by (simp add: assms(4) on_distributed_branch_level_def Let_def check_if_new_parent_def complete_def)
  have par: "parent d' = Some l" unfolding eq by (rule set_parent_result(1) [OF links])
  have ch: "l \<in> set (children d')" unfolding eq by (rule set_parent_result(2) [OF links]) (simp add: assms(3))
  then show ?thesis using par by (simp add: on_distributed_search_request_def send_messages_to_children_def image_iff)
qed

lemma child_becomes_parent_witness:
  "\<exists>d d'. children d = [(0, Some [1])] \<and> d' = fst (on_distributed_branch_level [] (0, Some [1]) 0 d)
     \<and> parent d' = Some (0, Some [1]) \<and> (0, Some [1]) \<in> set (children d')"
proof -
  let ?l = "(0, Some [1]) :: link"
  let ?d = "fst (on_peer_connection_initialized ?l False (initial_dist True))"
  have r: "reachable_dist ?d"
    by (rule Handler [OF Initial]) (rule Peer_Initialized, simp_all add: initial_dist_def)
  have c: "children ?d = [?l]" "parent ?d = None"
    by (simp_all add: on_peer_connection_initialized_def Let_def check_if_new_child_def add_child_def
        initial_dist_def advertised_branch_values_def)
  let ?d' = "fst (on_distributed_branch_level [] ?l 0 ?d)"
  have "parent ?d' = Some ?l \<and> ?l \<in> set (children ?d')"
    using child_becomes_parent [OF r c(2), of ?l ?d' "[]"] c(1) by simp
  with c(1) show ?thesis by blast
qed

text \<open>When the parent moves to another level or root the children are told the new values and
  the server is told nothing, so that it keeps the old ones.\<close>

theorem server_not_told_of_parent_update:
  assumes "parent d = Some l"
  shows "To_Server msg \<notin> set (snd (on_distributed_branch_level links l level d))"
    and "To_Server msg \<notin> set (snd (on_distributed_branch_root links l root d))"
proof -
  have "To_Server msg \<notin> set (snd (notify_children_of_branch_values e))" for e
    by (auto simp: notify_children_of_branch_values_def send_messages_to_children_def split: sum.split)
  then show "To_Server msg \<notin> set (snd (on_distributed_branch_level links l level d))"
    "To_Server msg \<notin> set (snd (on_distributed_branch_root links l root d))"
    using assms by (simp_all add: on_distributed_branch_level_def on_distributed_branch_root_def Let_def split: option.split)
qed

lemma server_not_told_of_parent_update_witness:
  "To_Server (Branch_Level 3) \<notin> set (snd (on_distributed_branch_level [] (0, Some [1]) 2
     ((initial_dist True)\<lparr>session_user := Some [9], parent := Some (0, Some [1]),
        dpeers := [\<lparr>peer_user = Some [1], peer_link = (0, Some [1]), branch_level = Some 1, branch_root = Some [2]\<rparr>]\<rparr>)))"
  by (rule server_not_told_of_parent_update(1)) simp

lemma max_children_bounds:
  assumes "calculate_max_children speed ratio = Inr n"
  shows "n * (ratio * 1024) \<le> speed * 10" "speed * 10 < (n + 1) * (ratio * 1024)"
proof -
  have r: "0 < ratio * 1024" and n: "n = (speed * 10) div (ratio * 1024)"
    using assms by (simp_all add: calculate_max_children_def split: if_splits)
  show "n * (ratio * 1024) \<le> speed * 10" unfolding n by (rule div_times_less_eq_dividend)
  show "speed * 10 < (n + 1) * (ratio * 1024)"
    using dividend_less_div_times [OF r, of "speed * 10"] unfolding n by (simp only: add_mult_distrib nat_mult_1 add.commute)
qed

end
