(* ===== verification/Users_Properties.thy ===== *)
theory Users_Properties
  imports Users
begin

text \<open>
The tracking of a user - invariant, termination of its loop, the requests it may lose - and the
  changes of the block list.
\<close>

subsection \<open>Tracking one user\<close>

function drain :: "(nat \<Rightarrow> add_outcome \<times> bool) \<Rightarrow> nat \<Rightarrow> tracked_user \<Rightarrow> tracked_user \<times> tracking_out list" where
  \<comment> \<open>the loop of \<open>_tracking_task\<close> until it returns or waits for a request; turn \<open>n\<close> meets \<open>env n\<close>\<close>
  "drain env n t =
     (if task_done t \<or> requests t = [] then (t, [])
      else case tracking_step (fst (env n)) (snd (env n)) t of (t1, es) \<Rightarrow>
        case drain env (n + 1) t1 of (t2, es') \<Rightarrow> (t2, es @ es'))"
  by pat_completeness auto

lemma tracking_step_requests:
  "\<not> task_done t \<Longrightarrow> requests t \<noteq> [] \<Longrightarrow> requests (fst (tracking_step oc cs t)) = tl (requests t)"
  by (cases "requests t") (auto simp: tracking_step_def request_tracking_def Let_def)

termination drain
proof (relation "measure (\<lambda>(env, n, t). length (requests t))")
  fix env and n :: nat and t t1 :: tracked_user and es
  assume a: "\<not> (task_done t \<or> requests t = [])" "(t1, es) = tracking_step (fst (env n)) (snd (env n)) t"
  then have "requests t1 = tl (requests t)"
    using tracking_step_requests [of t "fst (env n)" "snd (env n)"] by (metis fst_conv)
  then show "((env, n + 1, t1), (env, n, t)) \<in> measure (\<lambda>(env, n, t). length (requests t))"
    using a(1) by (cases "requests t") auto
qed simp

declare drain.simps [simp del]

fun server_tracks :: "tracking_out list \<Rightarrow> bool \<Rightarrow> bool" where
  \<comment> \<open>whether the server was told to track the user, from the messages sent\<close>
  "server_tracks [] b = b"
| "server_tracks (Send_Add_User # es) b = server_tracks es True"
| "server_tracks (Send_Remove_User # es) b = server_tracks es False"
| "server_tracks (Tracking_Event # es) b = server_tracks es b"
| "server_tracks (Untracking_Event # es) b = server_tracks es b"
| "server_tracks (State_Event s # es) b = server_tracks es b"

lemma server_tracks_append: "server_tracks (es @ es') b = server_tracks es' (server_tracks es b)"
  by (induction es b rule: server_tracks.induct) simp_all

lemma server_tracks_events [simp]: "server_tracks (tracking_events st) b = b"
  by (cases st) (simp_all add: tracking_events_def)

definition tracked_inv :: "tracked_user \<Rightarrow> bool \<Rightarrow> bool" where
  \<comment> \<open>the second argument: what the server was told\<close>
  "tracked_inv t told \<longleftrightarrow> (flags t = {} \<longleftrightarrow> tracking t = UNTRACKED)
     \<and> (tracking t = RETRY_PENDING \<longrightarrow> retry_timer t \<or> Retry \<in> set (requests t))
     \<and> (tracking t = TRACKED \<longrightarrow> told)
     \<and> (task_done t \<longrightarrow> flags t = {} \<and> tracking t = UNTRACKED)"

lemma tracked_inv_step:
  assumes "tracked_inv t told"
  shows "tracked_inv (fst (tracking_step oc cs t)) (server_tracks (snd (tracking_step oc cs t)) told)"
proof (cases "task_done t \<or> requests t = []")
  case True
  then show ?thesis using assms by (auto simp: tracking_step_def split: list.split)
next
  case False
  then obtain r rs where r: "requests t = r # rs" "\<not> task_done t" by (cases "requests t") auto
  let ?fs = "request_operation_on r (flags t)"
  consider "?fs = {}" | "?fs \<noteq> {}" "flags t = {} \<or> r = Retry" | "?fs \<noteq> {}" "flags t \<noteq> {}" "r \<noteq> Retry" by blast
  then show ?thesis
  proof cases
    case 1
    then show ?thesis using assms r by (auto simp: tracking_step_def Let_def tracked_inv_def)
  next
    case 2
    then show ?thesis using assms r
      by (cases oc) (auto simp: tracking_step_def request_tracking_def Let_def tracked_inv_def)
  next
    case 3
    then show ?thesis using assms r by (auto simp: tracking_step_def Let_def tracked_inv_def)
  qed
qed

inductive tracking_run :: "tracked_user \<Rightarrow> tracking_out list \<Rightarrow> bool" where
  New: "tracking_run new_tracked []"
| Request: "tracking_run t es \<Longrightarrow> tracking_run (put_request r t) es"
| Turn: "tracking_run t es \<Longrightarrow> tracking_run (fst (tracking_step oc cs t)) (es @ snd (tracking_step oc cs t))"
| Elapsed: "tracking_run t es \<Longrightarrow> tracking_run (retry_elapsed t) es"

lemma tracking_run_inv: "tracking_run t es \<Longrightarrow> tracked_inv t (server_tracks es False)"
proof (induction rule: tracking_run.induct)
  case New
  then show ?case by (simp add: tracked_inv_def new_tracked_def)
next
  case (Request t es r)
  then show ?case by (auto simp: tracked_inv_def put_request_def)
next
  case (Turn t es oc cs)
  then show ?case using tracked_inv_step by (simp add: server_tracks_append)
next
  case (Elapsed t es)
  then show ?case by (auto simp: tracked_inv_def retry_elapsed_def put_request_def)
qed

lemma tracking_step_flags:
  assumes "\<not> task_done t" "requests t = r # rs"
  shows "flags (fst (tracking_step oc cs t)) = request_operation_on r (flags t)"
    and "requests (fst (tracking_step oc cs t)) = rs"
    and "task_done (fst (tracking_step oc cs t)) \<longleftrightarrow> request_operation_on r (flags t) = {} \<and> rs = []"
  using assms by (auto simp: tracking_step_def request_tracking_def Let_def)

lemma drain_flags:
  "\<not> task_done t \<Longrightarrow> flags (fst (drain env n t)) = fold request_operation_on (requests t) (flags t)
     \<and> requests (fst (drain env n t)) = []"
proof (induction "requests t" arbitrary: t n)
  case Nil
  then show ?case by (simp add: drain.simps [of env n t])
next
  case (Cons r rs)
  let ?t = "fst (tracking_step (fst (env n)) (snd (env n)) t)"
  note step = tracking_step_flags [OF Cons.prems Cons.hyps(2) [symmetric], of "fst (env n)" "snd (env n)"]
  have eq: "fst (drain env n t) = fst (drain env (n + 1) ?t)"
    using Cons.prems Cons.hyps(2) by (subst drain.simps) (auto simp: split_def)
  show ?case
  proof (cases "task_done ?t")
    case True
    then have "rs = []" using step(3) by simp
    then show ?thesis using True eq step Cons.hyps(2) [symmetric] by (simp add: drain.simps [of env "Suc n" ?t])
  next
    case False
    then show ?thesis using Cons.hyps(1) [of ?t "n + 1"] step Cons.hyps(2) [symmetric] eq by simp
  qed
qed

lemma tracking_run_drain:
  "tracking_run t es \<Longrightarrow> tracking_run (fst (drain env n t)) (es @ snd (drain env n t))"
proof (induction env n t arbitrary: es rule: drain.induct)
  case (1 env n t)
  show ?case
  proof (cases "task_done t \<or> requests t = []")
    case True
    then show ?thesis using 1(2) by (simp add: drain.simps [of env n t])
  next
    case False
    let ?r = "tracking_step (fst (env n)) (snd (env n)) t"
    have "tracking_run (fst (drain env (n + 1) (fst ?r))) ((es @ snd ?r) @ snd (drain env (n + 1) (fst ?r)))"
      by (rule 1(1) [OF False prod.collapse]) (rule Turn [OF 1(2)])
    then show ?thesis using False by (subst (1 2) drain.simps) (simp add: split_def)
  qed
qed

subsection \<open>Properties\<close>


lemma tracking_run_example:
  "tracking_run (fst (tracking_step (Answer True) True (put_request (Add_Flag FRIEND) new_tracked)))
     (snd (tracking_step (Answer True) True (put_request (Add_Flag FRIEND) new_tracked)))"
  using Turn [OF Request [OF New], of "Answer True" True "Add_Flag FRIEND"] by simp


text \<open>C16: The tracking loop always comes to an end of its queue: it needs as many turns as there
  are requests, whatever the server answers. The flags are then those that the requests ask
  for one after the other, and the user is untracked, and the task over, exactly when none is
  left.\<close>

theorem tracking_requests_are_handled:
  assumes "tracking_run t sent" "\<not> task_done t" "drain env n t = (t', es)"
  shows "requests t' = [] \<and> flags t' = fold request_operation_on (requests t) (flags t)
    \<and> (tracking t' = UNTRACKED \<longleftrightarrow> fold request_operation_on (requests t) (flags t) = {})"
proof -
  have f: "flags t' = fold request_operation_on (requests t) (flags t)" "requests t' = []"
    using drain_flags [OF assms(2), of env n] assms(3) by simp_all
  have "tracked_inv t' (server_tracks (sent @ es) False)"
    using tracking_run_inv [OF tracking_run_drain [OF assms(1), of env n]] assms(3) by simp
  then show ?thesis
    using f by (auto simp: tracked_inv_def)
qed

lemma tracking_requests_are_handled_witness:
  "\<exists>t'. fst (drain (\<lambda>_. (No_Answer, True)) 0 (put_request (Remove_Flag FRIEND) (put_request (Add_Flag FRIEND) new_tracked))) = t'
     \<and> flags t' = {} \<and> tracking t' = UNTRACKED"
proof -
  let ?t = "put_request (Remove_Flag FRIEND) (put_request (Add_Flag FRIEND) new_tracked)"
  obtain t' es where d: "drain (\<lambda>_. (No_Answer, True)) 0 ?t = (t', es)" by fastforce
  have r: "tracking_run ?t []" by (intro Request New)
  have n: "\<not> task_done ?t" by (simp add: put_request_def new_tracked_def)
  show ?thesis using tracking_requests_are_handled [OF r n d] d
    by (simp add: put_request_def new_tracked_def)
qed

text \<open>A request to track a user that arrives after the task of this user returned and before
  the callback of the task ran is lost: it is put in the queue of the finished task, the
  callback removes the user, and no message is sent.\<close>

theorem tracking_request_lost:
  assumes "tm username = Some t" "task_done t"
    and "tm' = track_user username flag tm"
  shows "\<exists>t'. tm' username = Some t' \<and> (\<forall>oc cs. tracking_step oc cs t' = (t', []))"
    and "on_tracking_task_done username tm' username = None"
  using assms by (auto simp: track_user_def put_request_def tracking_step_def on_tracking_task_done_def)

lemma tracking_request_lost_witness:
  "\<exists>t es. tracking_run t es \<and> task_done t
     \<and> on_tracking_task_done [1] (track_user [1] TRANSFER [[1] \<mapsto> t]) [1] = None"
proof -
  let ?t1 = "fst (tracking_step (Answer True) True (put_request (Add_Flag FRIEND) new_tracked))"
  let ?t2 = "fst (tracking_step (Answer True) True (put_request (Remove_Flag FRIEND) ?t1))"
  obtain es where r: "tracking_run ?t2 es"
    using Turn [OF Request [OF tracking_run_example], of "Answer True" True "Remove_Flag FRIEND"] by blast
  have d: "task_done ?t2"
    by (simp add: tracking_step_def request_tracking_def put_request_def new_tracked_def Let_def)
  have "on_tracking_task_done [1] (track_user [1] TRANSFER [[1] \<mapsto> ?t2]) [1] = None"
    by (rule tracking_request_lost(2) [OF _ d refl]) simp
  with r d show ?thesis by blast
qed


subsection \<open>Block list and privileges\<close>

lemma lookup_blocked_mem:
  "distinct (map fst bs) \<Longrightarrow> (u, fs) \<in> set bs \<Longrightarrow> map_of bs u = Some fs"
  by simp

text \<open>The event about a changed block list names exactly the users whose entry disappeared or
  whose flags differ, each once, with the old and the new flags, where a missing entry counts as
  no blocking.\<close>

theorem block_list_changes:
  assumes "distinct (map fst old)" "distinct (map fst new)"
  shows "((u, a, b) \<in> set (block_changes old new) \<longleftrightarrow>
       a = lookup_blocked old u \<and> b = lookup_blocked new u
       \<and> (map_of old u \<noteq> None \<and> map_of new u = None \<or> a \<noteq> b))
     \<and> distinct (map fst (block_changes old new))"
proof -
  have old: "(u, a) \<in> set old \<longleftrightarrow> map_of old u = Some a" for u a using assms(1) by simp
  have new: "(u, a) \<in> set new \<longleftrightarrow> map_of new u = Some a" for u a using assms(2) by simp
  have "(u, a, b) \<in> set (block_changes old new) \<longleftrightarrow>
      map_of old u = Some a \<and> map_of new u = None \<and> b = BLOCK_NONE
      \<or> map_of new u = Some b \<and> a = lookup_blocked old u \<and> b \<noteq> a"
    by (auto simp: block_changes_def old new image_iff)
  also have "\<dots> \<longleftrightarrow> a = lookup_blocked old u \<and> b = lookup_blocked new u
     \<and> (map_of old u \<noteq> None \<and> map_of new u = None \<or> a \<noteq> b)"
    by (cases "map_of old u"; cases "map_of new u") (auto simp: lookup_blocked_def)
  finally have entries: "(u, a, b) \<in> set (block_changes old new) \<longleftrightarrow>
     a = lookup_blocked old u \<and> b = lookup_blocked new u
     \<and> (map_of old u \<noteq> None \<and> map_of new u = None \<or> a \<noteq> b)" .
  let ?xs = "filter (\<lambda>(u, fs). map_of new u = None) old"
  let ?ys = "filter (\<lambda>(u, fs). fs \<noteq> lookup_blocked old u) new"
  have "map fst (block_changes old new) = map fst ?xs @ map fst ?ys"
    by (simp add: block_changes_def comp_def split_def)
  moreover have "set (map fst ?xs) \<inter> set (map fst ?ys) = {}"
  proof -
    have "map_of new x \<noteq> None" if "x \<in> set (map fst ?ys)" for x
      using that new by force
    moreover have "map_of new x = None" if "x \<in> set (map fst ?xs)" for x
      using that by force
    ultimately show ?thesis by blast
  qed
  ultimately have "distinct (map fst (block_changes old new))"
    using assms by (simp add: distinct_map_filter)
  with entries show ?thesis by (rule conjI)
qed

lemma block_list_changes_witness:
  "(([1], 3, 0) \<in> set (block_changes [([1], 3), ([2], 1)] [([2], 1)]))"
  using block_list_changes [of "[([1], 3), ([2], 1)]" "[([2], 1)]" "[1]" 3 0]
  by (simp add: lookup_blocked_def BLOCK_NONE_def)

lemma is_blocked_flags:
  "is_blocked blocked u BLOCK_NONE = False"
  "map_of blocked u = None \<Longrightarrow> is_blocked blocked u flag = False"
  "map_of blocked u = Some BLOCK_ALL \<Longrightarrow>
     flag \<in> {PRIVATE_MESSAGES, ROOM_MESSAGES, SEARCHES, SHARES, INFO, UPLOADS} \<Longrightarrow> is_blocked blocked u flag"
  by (auto simp: is_blocked_def BLOCK_NONE_def BLOCK_ALL_def IGNORE_def PRIVATE_MESSAGES_def
      ROOM_MESSAGES_def SEARCHES_def SHARES_def INFO_def UPLOADS_def)

text \<open>\<open>AddPrivilegedUser\<close> is written to the user object only: once nothing refers to the object
  the user is no longer privileged.\<close>

lemma added_privilege_is_forgotten:
  assumes "username \<notin> privileged_users um"
  shows "is_privileged (fst (get_user_object username
     (forget_user username (snd (on_add_privileged_user username um))))) = False"
  using assms by (simp add: on_add_privileged_user_def modify_user_def forget_user_def get_user_object_def
      Let_def new_user_def split_def split: option.split)

lemma fold_get_users [simp]:
  "privileged_users (fold (\<lambda>n um. snd (get_user_object n um)) names um) = privileged_users um"
  by (induction names arbitrary: um) (simp_all add: get_user_object_def Let_def split: option.split)

lemma listed_privilege_is_kept:
  "username \<in> set names \<Longrightarrow>
     is_privileged (fst (get_user_object username (forget_user username (snd (on_privileged_users names um)))))"
  by (simp add: on_privileged_users_def forget_user_def get_user_object_def [of username] Let_def new_user_def)

lemma clear_all_keeps_shared_counts:
  "shared_file_count (clear_all u) = shared_file_count u"
  "shared_folder_count (clear_all u) = shared_folder_count u"
  by (simp_all add: clear_all_def clear_user_def Let_def)

end
