(* ===== verification/Rooms_Properties.thy ===== *)
theory Rooms_Properties
  imports Rooms
begin

text \<open>
The room list of the server is authoritative, the invariant of the rooms, and what the code
  does with operator rights and favorite rooms.
\<close>

subsection \<open>Dictionaries of rooms\<close>

lemma modify_room_lookup:
  "map_of (modify_room name priv f rs) = (map_of rs)(name \<mapsto> f (case map_of rs name of Some r \<Rightarrow> r | None \<Rightarrow> new_room priv))"
proof (cases "map_of rs name")
  case None
  have "map_of (rs @ [(name, new_room priv)]) = (map_of rs)(name \<mapsto> new_room priv)"
    using None by (auto simp: fun_eq_iff map_add_def split: option.split)
  then show ?thesis using None
    by (simp add: modify_room_def get_or_create_room_def update_conv')
qed (simp add: modify_room_def get_or_create_room_def update_conv')

lemma map_of_filter_keys: "map_of (filter (\<lambda>(k, v). k \<in> A) xs) k = (if k \<in> A then map_of xs k else None)"
  by (induction xs) auto

lemma map_of_map_keys: "map_of (map (\<lambda>(k, v). (k, f k v)) xs) k = map_option (f k) (map_of xs k)"
  by (induction xs) auto

lemma list_loop_keep:
  "list_loop priv f ns counts rs = (None, rs') \<Longrightarrow> (\<And>r n. Q r \<Longrightarrow> Q ((f r)\<lparr>user_count := n\<rparr>)) \<Longrightarrow>
     map_of rs name = Some r \<Longrightarrow> Q r \<Longrightarrow> \<exists>r'. map_of rs' name = Some r' \<and> Q r'"
proof (induction priv f ns counts rs arbitrary: r rule: list_loop.induct)
  case (3 priv f x ns n counts rs)
  let ?rs = "modify_room x priv (\<lambda>r. (f r)\<lparr>user_count := n\<rparr>) rs"
  have "\<exists>r'. map_of ?rs name = Some r' \<and> Q r'"
    using 3(3-5) by (cases "name = x") (simp_all add: modify_room_lookup)
  then show ?case using 3(1) [OF _ 3(3)] 3(2) by auto
qed simp_all

lemma list_loop_post:
  "list_loop priv f ns counts rs = (None, rs') \<Longrightarrow> (\<And>r n. Q ((f r)\<lparr>user_count := n\<rparr>)) \<Longrightarrow> name \<in> set ns \<Longrightarrow>
     \<exists>r'. map_of rs' name = Some r' \<and> Q r'"
proof (induction priv f ns counts rs rule: list_loop.induct)
  case (3 priv f x ns n counts rs)
  let ?rs = "modify_room x priv (\<lambda>r. (f r)\<lparr>user_count := n\<rparr>) rs"
  show ?case
  proof (cases "name \<in> set ns")
    case False
    then have "name = x" using 3(4) by simp
    then have "\<exists>r. map_of ?rs name = Some r \<and> Q r" using 3(3) by (simp add: modify_room_lookup)
    then show ?thesis using list_loop_keep [of priv f ns counts ?rs rs' Q name] 3(2,3) by auto
  qed (use 3 in simp)
qed simp_all

lemma operated_loop:
  "map_of rs name = Some r \<Longrightarrow> (\<And>r. Q r \<Longrightarrow> Q (f r)) \<Longrightarrow> Q r \<Longrightarrow>
     \<exists>r'. map_of (fold (\<lambda>name. modify_room name True f) ns rs) name = Some r' \<and> Q r'"
proof (induction ns arbitrary: rs r)
  case (Cons x ns)
  have "\<exists>r'. map_of (modify_room x True f rs) name = Some r' \<and> Q r'"
    using Cons.prems by (cases "name = x") (auto simp: modify_room_lookup)
  then show ?case using Cons.IH Cons.prems(2) by auto
qed simp

lemma operated_post:
  "(\<And>r. Q (f r)) \<Longrightarrow> name \<in> set ns \<Longrightarrow>
     \<exists>r'. map_of (fold (\<lambda>name. modify_room name True f) ns rs) name = Some r' \<and> Q r'"
proof (induction ns arbitrary: rs)
  case (Cons x ns)
  show ?case
  proof (cases "name \<in> set ns")
    case False
    then have "name = x" using Cons.prems(2) by simp
    then have "\<exists>r. map_of (modify_room x True f rs) name = Some r \<and> Q r"
      using Cons.prems(1) by (auto simp: modify_room_lookup)
    then show ?thesis using operated_loop [of "modify_room x True f rs" name _ Q f ns] Cons.prems(1) by auto
  qed (use Cons in simp)
qed simp

lemma update_rooms_lookup:
  assumes "update_rooms me msg rs = (None, rs')"
  obtains rs4 where
    "map_of rs' = (\<lambda>name. if name \<in> set (list_rooms msg) \<union> set (list_private msg) \<union> set (list_owned msg)
       then map_option (refresh_room me msg name) (map_of rs4 name) else None)"
    "name \<in> set (list_rooms msg) \<union> set (list_private msg) \<union> set (list_owned msg) \<Longrightarrow> map_of rs4 name \<noteq> None"
    "name \<in> set (list_owned msg) \<Longrightarrow> map_option owner (map_of rs4 name) = Some (Some me)"
    "name \<in> set (list_private msg) \<Longrightarrow> \<exists>r. map_of rs4 name = Some r \<and> me \<in> members r"
    "name \<in> set (list_operated msg) \<Longrightarrow> \<exists>r. map_of rs4 name = Some r \<and> me \<in> operators r"
proof -
  let ?own = "\<lambda>r. r\<lparr>owner := Some me\<rparr>" and ?mem = "\<lambda>r. r\<lparr>members := insert me (members r)\<rparr>"
    and ?op = "\<lambda>r. r\<lparr>operators := insert me (operators r)\<rparr>"
  let ?known = "set (list_rooms msg) \<union> set (list_private msg) \<union> set (list_owned msg)"
  obtain rs1 where l1: "list_loop False id (list_rooms msg) (list_counts msg) rs = (None, rs1)"
    using assms by (cases "list_loop False id (list_rooms msg) (list_counts msg) rs") (auto simp: update_rooms_def split: option.splits)
  obtain rs2 where l2: "list_loop True ?own (list_owned msg) (list_owned_counts msg) rs1 = (None, rs2)"
    using assms l1 by (cases "list_loop True ?own (list_owned msg) (list_owned_counts msg) rs1")
      (auto simp: update_rooms_def split: option.splits)
  obtain rs3 where l3: "list_loop True ?mem (list_private msg) (list_private_counts msg) rs2 = (None, rs3)"
    using assms l1 l2 by (cases "list_loop True ?mem (list_private msg) (list_private_counts msg) rs2")
      (auto simp: update_rooms_def split: option.splits)
  define rs4 where "rs4 = fold (\<lambda>name. modify_room name True ?op) (list_operated msg) rs3"
  have rs': "rs' = map (\<lambda>(name, r). (name, refresh_room me msg name r)) (filter (\<lambda>(name, r). name \<in> ?known) rs4)"
    using assms l1 l2 l3 by (simp add: update_rooms_def Let_def rs4_def)
  have keep4: "\<exists>r'. map_of rs4 name = Some r' \<and> Q r'"
    if "map_of rs3 name = Some r" "Q r" "\<And>r. Q r \<Longrightarrow> Q (?op r)" for name r Q
    unfolding rs4_def using operated_loop [of rs3 name r Q ?op] that by blast
  have known: "map_of rs4 name \<noteq> None" if "name \<in> ?known" for name
  proof -
    have "\<exists>r. map_of rs3 name = Some r"
      using that list_loop_post [OF l1, of "\<lambda>_. True" name] list_loop_post [OF l2, of "\<lambda>_. True" name]
        list_loop_post [OF l3, of "\<lambda>_. True" name] list_loop_keep [OF l2, of "\<lambda>_. True" name]
        list_loop_keep [OF l3, of "\<lambda>_. True" name] by auto
    then show ?thesis using keep4 [of name _ "\<lambda>_. True"] by auto
  qed
  have own: "map_option owner (map_of rs4 name) = Some (Some me)" if "name \<in> set (list_owned msg)" for name
  proof -
    let ?Q = "\<lambda>r. owner r = Some me"
    obtain r2 where r2: "map_of rs2 name = Some r2" "?Q r2" using list_loop_post [OF l2, of ?Q name] \<open>name \<in> set (list_owned msg)\<close> by auto
    obtain r3 where r3: "map_of rs3 name = Some r3" "?Q r3" using list_loop_keep [OF l3, of ?Q name r2] r2 by auto
    show ?thesis using keep4 [of name r3 ?Q] r3 by auto
  qed
  have mem: "\<exists>r. map_of rs4 name = Some r \<and> me \<in> members r" if "name \<in> set (list_private msg)" for name
  proof -
    obtain r3 where "map_of rs3 name = Some r3" "me \<in> members r3"
      using list_loop_post [OF l3, of "\<lambda>r. me \<in> members r" name] \<open>name \<in> set (list_private msg)\<close> by auto
    then show ?thesis using keep4 [of name r3 "\<lambda>r. me \<in> members r"] by auto
  qed
  have op: "\<exists>r. map_of rs4 name = Some r \<and> me \<in> operators r" if "name \<in> set (list_operated msg)" for name
    unfolding rs4_def using operated_post [of "\<lambda>r. me \<in> operators r" ?op name] that by simp
  have "map_of rs' = (\<lambda>name. if name \<in> ?known then map_option (refresh_room me msg name) (map_of rs4 name) else None)"
    unfolding fun_eq_iff rs' by (subst map_of_map_keys, subst map_of_filter_keys) simp
  with that [of rs4] known own mem op show thesis by blast
qed

subsection \<open>Properties\<close>

text \<open>C25: A list of rooms of the server is authoritative: afterwards the client knows exactly the
  rooms of the list, a room is private exactly when it is not among the public ones, and the
  client owns, is member of and operates exactly the rooms of which the list says so.\<close>

theorem room_list_is_authoritative:
  assumes "on_room_list me msg c = (None, es, c')"
  shows "(name \<in> dom (map_of (rooms_of c')) \<longleftrightarrow>
      name \<in> set (list_rooms msg) \<union> set (list_private msg) \<union> set (list_owned msg))
    \<and> (map_of (rooms_of c') name = Some r \<longrightarrow>
      (is_private r \<longleftrightarrow> name \<notin> set (list_rooms msg))
      \<and> (owner r = Some me \<longleftrightarrow> name \<in> set (list_owned msg))
      \<and> (me \<in> members r \<longleftrightarrow> name \<in> set (list_private msg))
      \<and> (me \<in> operators r \<longleftrightarrow> name \<in> set (list_operated msg)))"
proof -
  let ?known = "set (list_rooms msg) \<union> set (list_private msg) \<union> set (list_owned msg)"
  have u: "update_rooms me msg (rooms_of c) = (None, rooms_of c')"
    using assms by (auto simp: on_room_list_def on_users_def Let_def split: prod.splits option.splits)
  obtain rs4 where rs4: "map_of (rooms_of c') = (\<lambda>name. if name \<in> ?known
       then map_option (refresh_room me msg name) (map_of rs4 name) else None)"
    "name \<in> ?known \<Longrightarrow> map_of rs4 name \<noteq> None"
    "name \<in> set (list_owned msg) \<Longrightarrow> map_option owner (map_of rs4 name) = Some (Some me)"
    "name \<in> set (list_private msg) \<Longrightarrow> \<exists>r. map_of rs4 name = Some r \<and> me \<in> members r"
    "name \<in> set (list_operated msg) \<Longrightarrow> \<exists>r. map_of rs4 name = Some r \<and> me \<in> operators r"
    using update_rooms_lookup [OF u, of name] by blast
  have "name \<in> dom (map_of (rooms_of c')) \<longleftrightarrow> name \<in> ?known"
    using rs4(2) by (auto simp: rs4(1) dom_def split: if_splits)
  moreover have "(is_private r \<longleftrightarrow> name \<notin> set (list_rooms msg)) \<and> (owner r = Some me \<longleftrightarrow> name \<in> set (list_owned msg))
      \<and> (me \<in> members r \<longleftrightarrow> name \<in> set (list_private msg)) \<and> (me \<in> operators r \<longleftrightarrow> name \<in> set (list_operated msg))"
    if r: "map_of (rooms_of c') name = Some r"
  proof -
  from r obtain q where q: "map_of rs4 name = Some q" "r = refresh_room me msg name q"
    by (auto simp: rs4(1) split: if_splits)
  show ?thesis using q rs4(3-5) by (auto simp: refresh_room_def Let_def)
  qed
  ultimately show ?thesis by blast
qed


definition witness_list :: room_list where
  "witness_list = \<lparr>list_rooms = [[1]], list_counts = [5], list_owned = [[2]], list_owned_counts = [1],
     list_private = [], list_private_counts = [], list_operated = [[3]]\<rparr>"

lemma room_list_is_authoritative_witness:
  "\<exists>es c'. on_room_list [9] witness_list \<lparr>rooms_of = [], users_of = no_users\<rparr> = (None, es, c')
     \<and> dom (map_of (rooms_of c')) = {[1], [2]}"
proof -
  let ?c = "\<lparr>rooms_of = [], users_of = no_users\<rparr>"
  obtain e es c' where r: "on_room_list [9] witness_list ?c = (e, es, c')" by (cases "on_room_list [9] witness_list ?c")
  moreover have "e = None"
    using r by (simp add: on_room_list_def on_users_def Let_def update_rooms_def witness_list_def)
  ultimately have h: "on_room_list [9] witness_list ?c = (None, es, c')" by simp
  then show ?thesis using room_list_is_authoritative [OF h] by (auto simp: witness_list_def)
qed

subsection \<open>Invariant\<close>

definition room_ok :: "room \<Rightarrow> bool" where
  "room_ok r \<longleftrightarrow> distinct (room_users r) \<and> distinct (map fst (tickers r))"

definition rooms_ok :: "rooms \<Rightarrow> bool" where
  "rooms_ok rs \<longleftrightarrow> distinct (map fst rs) \<and> (\<forall>r \<in> snd ` set rs. room_ok r)"

definition chat_ok :: "chat \<Rightarrow> bool" where
  "chat_ok c \<longleftrightarrow> rooms_ok (rooms_of c)"

lemma room_ok_new [simp]: "room_ok (new_room priv)"
  by (simp add: room_ok_def new_room_def)

lemma keys_modify_room: "distinct (map fst rs) \<Longrightarrow> distinct (map fst (modify_room name priv f rs))"
  by (auto simp: modify_room_def get_or_create_room_def map_of_eq_None_iff intro!: distinct_update split: option.split)

lemma modify_room_ok:
  assumes "rooms_ok rs" "\<And>r. room_ok r \<Longrightarrow> room_ok (f r)"
  shows "rooms_ok (modify_room name priv f rs)"
proof -
  have keys: "distinct (map fst (modify_room name priv f rs))"
    using assms(1) keys_modify_room by (simp add: rooms_ok_def)
  moreover have "room_ok r" if mem: "r \<in> snd ` set (modify_room name priv f rs)" for r
  proof -
    have old: "room_ok q" if "map_of rs k = Some q" for k q
    proof -
      have "q \<in> snd ` set rs" using map_of_SomeD [OF that] by force
      then show ?thesis using assms(1) unfolding rooms_ok_def by blast
    qed
    obtain p where p: "p \<in> set (modify_room name priv f rs)" "r = snd p" using mem by blast
    have "map_of (modify_room name priv f rs) (fst p) = Some (snd p)"
      by (rule map_of_is_SomeI [OF keys]) (simp add: p(1))
    then have eq: "((map_of rs)(name \<mapsto> f (case map_of rs name of Some r \<Rightarrow> r | None \<Rightarrow> new_room priv))) (fst p) = Some r"
      by (simp only: modify_room_lookup p(2))
    show ?thesis
    proof (cases "fst p = name")
      case True
      then have "r = f (case map_of rs name of Some r \<Rightarrow> r | None \<Rightarrow> new_room priv)" using eq by simp
      then show ?thesis using assms(2) old [of name] by (cases "map_of rs name") simp_all
    next
      case False
      then show ?thesis using eq old by simp
    qed
  qed
  ultimately show ?thesis by (simp add: rooms_ok_def)
qed

lemma chat_ok_room: "chat_ok c \<Longrightarrow> (\<And>r. room_ok r \<Longrightarrow> room_ok (f r)) \<Longrightarrow> chat_ok (on_room name priv f c)"
  unfolding chat_ok_def on_room_def by (simp add: modify_room_ok)

lemma chat_ok_users [simp]: "chat_ok (on_users f c) = chat_ok c"
  by (simp add: chat_ok_def on_users_def)

lemma room_ok_writes [simp]:
  "room_ok r \<Longrightarrow> room_ok (add_user u r)" "room_ok r \<Longrightarrow> room_ok (remove_user u r)"
  "room_ok (r\<lparr>joined := b, room_users := []\<rparr>) = distinct (map fst (tickers r))"
  "room_ok (r\<lparr>joined := b, is_private := p\<rparr>) = room_ok r" "room_ok (r\<lparr>joined := b\<rparr>) = room_ok r"
  "room_ok (r\<lparr>owner := ow, operators := os\<rparr>) = room_ok r"
  "room_ok (r\<lparr>members := ms\<rparr>) = room_ok r" "room_ok (r\<lparr>operators := os\<rparr>) = room_ok r"
  "room_ok (r\<lparr>members := ms, operators := os\<rparr>) = room_ok r"
  "room_ok (r\<lparr>owner := ow\<rparr>) = room_ok r" "room_ok (r\<lparr>user_count := n\<rparr>) = room_ok r"
  "room_ok (r\<lparr>is_private := p\<rparr>) = room_ok r"
  "room_ok (r\<lparr>tickers := ts\<rparr>) \<longleftrightarrow> distinct (room_users r) \<and> distinct (map fst ts)"
  by (auto simp: room_ok_def add_user_def remove_user_def)

lemma room_okD: "room_ok r \<Longrightarrow> distinct (room_users r)" "room_ok r \<Longrightarrow> distinct (map fst (tickers r))"
  by (simp_all add: room_ok_def)

lemma chat_ok_join_loop: "chat_ok c \<Longrightarrow> chat_ok (snd (join_loop name idx us msg c))"
proof (induction us arbitrary: idx c)
  case (Cons u us)
  have "chat_ok (snd (join_loop name (idx + 1) us msg (on_room name False (add_user u) (on_users f (on_users g c)))))" for f g
    using Cons.prems by (intro Cons.IH chat_ok_room) simp_all
  then show ?case using Cons.prems by (simp add: Let_def split: sum.split)
qed simp

lemma list_loop_ok:
  "rooms_ok rs \<Longrightarrow> (\<And>r. room_ok r \<Longrightarrow> room_ok (f r)) \<Longrightarrow> rooms_ok (snd (list_loop priv f ns counts rs))"
proof (induction priv f ns counts rs rule: list_loop.induct)
  case (2 priv f name ns rs)
  then show ?case by (simp add: modify_room_ok)
next
  case (3 priv f name ns n counts rs)
  have "rooms_ok (modify_room name priv (\<lambda>r. (f r)\<lparr>user_count := n\<rparr>) rs)"
    by (rule modify_room_ok [OF 3(2)]) (simp add: 3(3))
  then have "rooms_ok (snd (list_loop priv f ns counts (modify_room name priv (\<lambda>r. (f r)\<lparr>user_count := n\<rparr>) rs)))"
    by (rule 3(1)) (rule 3(3))
  then show ?case by simp
qed simp

lemma operated_ok:
  "rooms_ok rs \<Longrightarrow> rooms_ok (fold (\<lambda>name. modify_room name True (\<lambda>r. r\<lparr>operators := insert me (operators r)\<rparr>)) ns rs)"
  by (induction ns arbitrary: rs) (simp_all add: modify_room_ok)

lemma room_ok_refresh [simp]: "room_ok (refresh_room me msg name r) = room_ok r"
  by (simp add: refresh_room_def Let_def)

lemma refresh_ok: "rooms_ok rs \<Longrightarrow> rooms_ok (map (\<lambda>(name, r). (name, refresh_room me msg name r)) (filter P rs))"
  by (auto simp: rooms_ok_def comp_def split_def distinct_map_filter)

lemma update_rooms_ok:
  assumes "rooms_ok rs"
  shows "rooms_ok (snd (update_rooms me msg rs))"
proof -
  let ?own = "\<lambda>r. r\<lparr>owner := Some me\<rparr>" and ?mem = "\<lambda>r. r\<lparr>members := insert me (members r)\<rparr>"
  obtain e1 rs1 where l1: "list_loop False id (list_rooms msg) (list_counts msg) rs = (e1, rs1)" by fastforce
  obtain e2 rs2 where l2: "list_loop True ?own (list_owned msg) (list_owned_counts msg) rs1 = (e2, rs2)" by fastforce
  obtain e3 rs3 where l3: "list_loop True ?mem (list_private msg) (list_private_counts msg) rs2 = (e3, rs3)" by fastforce
  have o1: "rooms_ok rs1" using list_loop_ok [OF assms, of id False "list_rooms msg" "list_counts msg"] l1 by simp
  have o2: "rooms_ok rs2" using list_loop_ok [OF o1, of ?own True "list_owned msg" "list_owned_counts msg"] l2 by simp
  have o3: "rooms_ok rs3" using list_loop_ok [OF o2, of ?mem True "list_private msg" "list_private_counts msg"] l3 by simp
  show ?thesis
    using refresh_ok [OF operated_ok [OF o3]] o1 o2 o3 l1 l2 l3
    by (cases e1; cases e2; cases e3) (simp_all add: update_rooms_def Let_def)
qed

lemma chat_ok_room_list: "chat_ok c \<Longrightarrow> chat_ok (snd (snd (on_room_list me msg c)))"
proof -
  assume c: "chat_ok c"
  let ?c = "on_users (touch_user me) c"
  obtain e rs where u: "update_rooms me msg (rooms_of ?c) = (e, rs)" by fastforce
  have "rooms_ok (rooms_of ?c)" using c by (simp add: chat_ok_def on_users_def)
  then have "rooms_ok rs" using update_rooms_ok [of "rooms_of ?c" me msg] u by simp
  then show ?thesis using u by (cases e) (simp_all add: on_room_list_def Let_def chat_ok_def)
qed

lemma chat_ok_reset: "chat_ok (reset_rooms c)"
  by (simp add: reset_rooms_def chat_ok_def rooms_ok_def)

lemma tickers_dict: "distinct (map fst d) \<Longrightarrow> distinct (map fst (fold (\<lambda>(u, t) d. AList.update u t d) ts d))"
  by (induction ts arbitrary: d) (auto simp: distinct_update)

lemma chat_ok_join_room: "chat_ok c \<Longrightarrow> chat_ok (snd (snd (on_join_room name msg c)))"
proof -
  assume c: "chat_ok c"
  let ?c = "on_room name False (\<lambda>r. r\<lparr>joined := True, is_private := (join_owner msg \<noteq> None \<and> join_owner msg \<noteq> Some [])\<rparr>) c"
  have "chat_ok ?c" by (rule chat_ok_room [OF c]) simp
  then have l: "chat_ok (snd (join_loop name 0 (join_users msg) msg ?c))" by (rule chat_ok_join_loop)
  obtain e c1 where j: "join_loop name 0 (join_users msg) msg ?c = (e, c1)" by fastforce
  show ?thesis using l j by (cases e) (simp_all add: on_join_room_def Let_def chat_ok_room)
qed

inductive room_step :: "chat \<Rightarrow> handled \<Rightarrow> bool" where
  "room_step c (on_chat_room_message blocked name u txt c)"
| "room_step c (on_public_chat_message blocked name u txt c)"
| "room_step c (on_user_joined_room name u stat stats free cc c)"
| "room_step c (on_user_left_room name u c)"
| "room_step c (on_join_room name msg c)"
| "room_step c (on_leave_room name c)"
| "room_step c (on_chat_room_tickers name ts c)"
| "room_step c (on_chat_room_ticker_added name u t c)"
| "room_step c (on_chat_room_ticker_removed name u c)"
| "room_step c (on_private_room_add_user name u c)"
| "room_step c (on_private_room_added me name c)"
| "room_step c (on_private_room_remove_user name u c)"
| "room_step c (on_private_room_removed me name c)"
| "room_step c (on_private_room_users name us c)"
| "room_step c (on_private_room_operators name us c)"
| "room_step c (on_operator_granted me name c)"
| "room_step c (on_operator_revoked me name c)"
| "room_step c (on_user_operator_granted name u c)"
| "room_step c (on_user_operator_revoked name u c)"
| "room_step c (on_room_list me rl c)"
| "room_step c (None, [], reset_rooms c)"

lemma chat_ok_step: "room_step c h \<Longrightarrow> chat_ok c \<Longrightarrow> chat_ok (snd (snd h))"
  by (induction rule: room_step.induct)
    (simp_all add: on_chat_room_message_def on_public_chat_message_def on_user_joined_room_def
      on_user_left_room_def on_leave_room_def on_chat_room_tickers_def on_chat_room_ticker_added_def
      on_chat_room_ticker_removed_def on_private_room_add_user_def on_private_room_added_def
      on_private_room_remove_user_def on_private_room_removed_def on_private_room_users_def
      on_private_room_operators_def on_operator_granted_def on_operator_revoked_def
      on_user_operator_granted_def on_user_operator_revoked_def chat_ok_room chat_ok_room_list
      chat_ok_join_room chat_ok_reset room_okD tickers_dict distinct_update distinct_delete Let_def split: sum.split)


inductive reachable_chat :: "chat \<Rightarrow> bool" where
  Start: "reachable_chat \<lparr>rooms_of = [], users_of = um\<rparr>"
| Message: "reachable_chat c \<Longrightarrow> room_step c h \<Longrightarrow> reachable_chat (snd (snd h))"

lemma reachable_chat_ok: "reachable_chat c \<Longrightarrow> chat_ok c"
proof (induction rule: reachable_chat.induct)
  case (Start um)
  then show ?case by (simp add: chat_ok_def rooms_ok_def)
next
  case (Message c h)
  then show ?case using chat_ok_step by blast
qed

text \<open>C26: Whatever messages arrive in whatever order, also malformed ones that make a handler
  raise, a room is kept once, lists every user once and has one ticker for a user.\<close>

theorem rooms_invariant:
  assumes "reachable_chat c"
  shows "distinct (map fst (rooms_of c))
    \<and> (\<forall>(name, r) \<in> set (rooms_of c). distinct (room_users r) \<and> distinct (map fst (tickers r)))"
  using reachable_chat_ok [OF assms] by (force simp: chat_ok_def rooms_ok_def room_ok_def)

lemma rooms_invariant_witness:
  "\<exists>c. reachable_chat c \<and> rooms_of c \<noteq> [] \<and> distinct (map fst (rooms_of c))"
proof -
  let ?c = "snd (snd (on_user_left_room [1] [2] \<lparr>rooms_of = [], users_of = no_users\<rparr>))"
  have r: "reachable_chat ?c" by (rule Message [OF Start]) (rule room_step.intros)
  have "rooms_of ?c \<noteq> []"
    by (simp add: on_user_left_room_def on_room_def on_users_def modify_room_def get_or_create_room_def)
  then show ?thesis using r rooms_invariant [OF r] by blast
qed

text \<open>The message that makes the client an operator takes the operator rights from it.\<close>

lemma operator_granted_revokes:
  "map_option (\<lambda>r. me \<in> operators r) (map_of (rooms_of (snd (snd (on_operator_granted me name c)))) name) = Some False"
  by (simp add: on_operator_granted_def on_room_def on_users_def modify_room_lookup)

lemma user_operator_granted:
  "map_option (\<lambda>r. u \<in> operators r) (map_of (rooms_of (snd (snd (on_user_operator_granted name u c)))) name) = Some True"
  by (simp add: on_user_operator_granted_def on_room_def on_users_def modify_room_lookup)

text \<open>The favorite rooms are joined exactly when the setting says not to.\<close>

lemma auto_join_is_inverted:
  "Join_Room name \<in> set (on_rooms_session_initialized invites auto_join favorites) \<longleftrightarrow>
     \<not> auto_join \<and> name \<in> set favorites"
  by (auto simp: on_rooms_session_initialized_def auto_join_rooms_def)

end
