(* ===== verification/Network_Properties.thy ===== *)
theory Network_Properties
  imports Network_Server
begin

text \<open>
Properties of the network: the list of peer connections in every run, disconnecting, connecting to
  peers, expected responses.
\<close>

subsection \<open>Runs of the network\<close>

definition new_net :: "nat \<Rightarrow> nat \<Rightarrow> nat \<Rightarrow> nat \<Rightarrow> net" where
  \<comment> \<open>\<open>Network.__init__\<close>, by the speed limits and the ports of the settings\<close>
  "new_net up down port obfuscated_port = \<lparr>peer_objects = (\<lambda>_. new_peer [] 0 False PEER None False), next_peer = 0,
     peer_connections = [], response_futures = [], connection_futures = [], last_ticket = 1,
     limiter_store = (\<lambda>l. create_limiter (if l = 0 then down else up)), next_limiter = 2,
     upload_rate_limiter = 1, download_rate_limiter = 0,
     clear_listening = create_listening_connection port, obfuscated_listening = create_listening_connection obfuscated_port,
     upnp_task = No_Task, watchdog_task = No_Task, connect_tasks = []\<rparr>"

text \<open>What can happen to a network. Steps that wait for something contain the steps that happen in the
  meantime.\<close>

datatype net_step =
    Direct nat pystr pystr address bool write_outcome
  | Direct_Cancelled pystr pystr address direct_stage
  | Indirect nat pystr pystr "net_step list" indirect_end
  | Fallback nat pystr pystr address bool write_outcome "net_step list" indirect_end
  | Connect_To_Peer connect_to_peer bool write_outcome "net_error + unit"
  | Accepted pystr nat bool init_message "net_step list"
  | Message nat connection_class "pystr option" message_object "net_step list"
  | Send nat write_outcome message_object
  | Receive nat bytes
  | Disconnect nat close_reason
  | Negotiate nat peer_connection_state
  | Limits nat nat
  | Expect expected_response
  | Expire nat
  | Callbacks
  | Draw_Ticket

fun net_run :: "net_env \<Rightarrow> net_step \<Rightarrow> net \<Rightarrow> net"
  and net_runs :: "net_env \<Rightarrow> net_step list \<Rightarrow> net \<Rightarrow> net" where
  "net_run env (Direct t username typ a opened w) n = fst (snd (make_direct_connection env t username typ a opened w n))"
| "net_run env (Direct_Cancelled username typ a stage) n = cancelled_direct_connection env username typ a stage n"
| "net_run env (Indirect t username typ steps e) n =
     fst (snd (make_indirect_connection t username typ (\<lambda>m. net_runs env steps m) e n))"
| "net_run env (Fallback t username typ a opened w steps e) n =
     fst (snd (create_peer_connection_fallback env t username typ a opened w (\<lambda>m. net_runs env steps m) e n))"
| "net_run env (Connect_To_Peer m opened w told) n = fst (snd (handle_connect_to_peer env m opened w told n))"
| "net_run env (Accepted host port obf init steps) n = fst (snd (accept_connection host port obf init (\<lambda>m. net_runs env steps m) n))"
| "net_run env (Message task cls username message steps) n = snd (on_message_received task (\<lambda>m. net_runs env steps m) cls username message n)"
| "net_run env (Send ref w message) n = snd (peer_send env w message ref n)"
| "net_run env (Receive ref stream) n = on_connection ref (\<lambda>c. fst (snd (receive_message c stream))) n"
| "net_run env (Disconnect ref reason) n = peer_disconnect reason ref n"
| "net_run env (Negotiate ref st) n = on_connection ref (set_connection_state st) n"
| "net_run env (Limits up down) n = load_speed_limits up down n"
| "net_run env (Expect er) n = register_response_future er n"
| "net_run env (Expire k) n = n\<lparr>response_futures := cancel_response k (response_futures n)\<rparr>"
| "net_run env Callbacks n = n\<lparr>response_futures := run_response_callbacks (response_futures n)\<rparr>"
| "net_run env Draw_Ticket n = snd (draw_ticket n)"
| "net_runs env [] n = n"
| "net_runs env (step # steps) n = net_runs env steps (net_run env step n)"

definition net_inv :: "net \<Rightarrow> bool" where
  "net_inv n \<longleftrightarrow> distinct (peer_connections n)
     \<and> (\<forall>r \<in> set (peer_connections n). r < next_peer n \<and> state (conn (peer_objects n r)) \<noteq> CLOSED
          \<and> up_limiter (peer_objects n r) \<in> {None, Some (upload_rate_limiter n)}
          \<and> down_limiter (peer_objects n r) \<in> {None, Some (download_rate_limiter n)})
     \<and> (\<forall>r. connection_ok (conn (peer_objects n r)) \<and> (has_streams (conn (peer_objects n r)) \<longrightarrow> r \<in> set (peer_connections n)))"

lemma net_inv_fields [simp]:
  "net_inv (n\<lparr>response_futures := ers\<rparr>) = net_inv n"
  "net_inv (n\<lparr>connection_futures := fs\<rparr>) = net_inv n"
  "net_inv (n\<lparr>last_ticket := t\<rparr>) = net_inv n"
  "net_inv (n\<lparr>connect_tasks := ts\<rparr>) = net_inv n"
  "net_inv (n\<lparr>upnp_task := ut\<rparr>) = net_inv n"
  "net_inv (n\<lparr>watchdog_task := wt\<rparr>) = net_inv n"
  "net_inv (n\<lparr>clear_listening := l\<rparr>) = net_inv n"
  "net_inv (n\<lparr>obfuscated_listening := l\<rparr>) = net_inv n"
  by (simp_all add: net_inv_def)

lemma new_net_inv: "net_inv (new_net up down port obfuscated_port)"
  by (simp add: net_inv_def new_net_def new_peer_def connection_ok_new) (simp add: new_connection_def)

lemma on_connection_inv:
  assumes "net_inv n" "\<And>c. connection_ok c \<Longrightarrow> connection_ok (f c)"
    and "\<And>c. has_streams (f c) \<Longrightarrow> has_streams c \<or> ref \<in> set (peer_connections n)"
  shows "net_inv (on_connection ref f n)"
proof -
  have "\<not> has_streams c" if "state c = CLOSED" "connection_ok c" for c
    using that by (simp add: connection_ok_def connection_inv_def)
  then show ?thesis
    using assms unfolding net_inv_def on_connection_def on_peer_connection_state_changed_def remove_peer_connection_def
      update_object_def Let_def
    by (auto 0 3)
qed

lemma connection_ok_type: "connection_ok (c\<lparr>connection_type := t\<rparr>) = connection_ok c"
  by (simp add: connection_ok_def connection_inv_def)

lemma update_object_inv:
  assumes "net_inv n" "\<And>p. connection_ok (conn p) \<Longrightarrow> connection_ok (conn (f p))" "\<And>p. has_streams (conn (f p)) = has_streams (conn p)"
    "\<And>p. state (conn (f p)) = state (conn p)"
    "\<And>p. up_limiter (f p) \<in> {up_limiter p, Some (upload_rate_limiter n)}"
    "\<And>p. down_limiter (f p) \<in> {down_limiter p, Some (download_rate_limiter n)}"
  shows "net_inv (update_object ref f n)"
proof -
  have "up_limiter (f p) \<in> {None, Some (upload_rate_limiter n)}" if "up_limiter p \<in> {None, Some (upload_rate_limiter n)}" for p
    using assms(5) [of p] that by auto
  moreover have "down_limiter (f p) \<in> {None, Some (download_rate_limiter n)}" if "down_limiter p \<in> {None, Some (download_rate_limiter n)}" for p
    using assms(6) [of p] that by auto
  ultimately show ?thesis
    using assms(1-4) unfolding net_inv_def update_object_def by simp
qed

lemma append_peer_inv:
  assumes "net_inv n" "connection_ok (conn p)" "state (conn p) \<noteq> CLOSED" "up_limiter p = None" "down_limiter p = None"
    and "append_peer p n = (ref, n1)"
  shows "net_inv n1" "ref \<in> set (peer_connections n1)"
  using assms unfolding net_inv_def append_peer_def by (auto simp: less_Suc_eq split: if_splits)

lemma new_peer_ok [simp]:
  "connection_ok (conn (new_peer host port obf typ username inc))" "state (conn (new_peer host port obf typ username inc)) = UNINITIALIZED"
  "up_limiter (new_peer host port obf typ username inc) = None" "down_limiter (new_peer host port obf typ username inc) = None"
  by (simp_all add: new_peer_def connection_ok_new) (simp add: new_connection_def)

lemma streams_not_made:
  "has_streams (disconnect reason c) \<Longrightarrow> has_streams c"
  "has_streams (snd (send_message z k w m c)) \<Longrightarrow> has_streams c"
  "has_streams (fst (snd (receive_message c stream))) \<Longrightarrow> has_streams c"
  "has_streams (set_connection_state st c) = has_streams c"
proof -
  show d: "has_streams (disconnect reason c) \<Longrightarrow> has_streams c" for reason c
    by (simp add: connection_defs split: if_splits)
  have b: "has_streams (snd (send_bytes w c)) \<Longrightarrow> has_streams c" for w
    by (cases "has_streams c") (simp_all add: send_bytes_def)
  show "has_streams c" if "has_streams (snd (send_message z k w m c))"
  proof (cases "encode_message_data z k c m")
    case (Inl e)
    then show ?thesis using that by (cases e; cases "is_closing c") (simp_all add: send_message_def)
  next
    case (Inr data)
    obtain r c1 where sb: "send_bytes w c = (r, c1)" by (cases "send_bytes w c")
    then show ?thesis using Inr that b [of w] by (cases r; cases "is_closing c") (simp_all add: send_message_def)
  qed
  show "has_streams (fst (snd (receive_message c stream))) \<Longrightarrow> has_streams c"
    by (cases "has_streams c")
      (auto simp: receive_message_def read_data_def connection_defs split: prod.splits read_outcome.splits if_splits)
  show "has_streams (set_connection_state st c) = has_streams c"
    by (simp add: set_connection_state_def Let_def)
qed

lemma receive_ok: "connection_ok c \<Longrightarrow> connection_ok (fst (snd (receive_message c stream)))"
  using connection_ok_read by (auto simp: receive_message_def split: prod.splits) (metis snd_conv)

lemma peer_operations_inv:
  assumes "net_inv n"
  shows "net_inv (peer_disconnect reason ref n)" "net_inv (snd (peer_send env w m ref n))"
    "net_inv (on_connection ref (\<lambda>c. fst (snd (receive_message c stream))) n)"
    "net_inv (on_connection ref (set_connection_state st) n)"
    "ref \<in> set (peer_connections n) \<Longrightarrow> net_inv (snd (peer_connect opened ref n))"
    "ref \<in> set (peer_connections n) \<Longrightarrow> net_inv (on_connection ref (set_state CONNECTING UNKNOWN) n)"
    "net_inv (on_connection ref (set_state CONNECTED UNKNOWN) n)"
proof -
  have s: "connection_ok c \<Longrightarrow> st \<noteq> CLOSED \<Longrightarrow> st \<noteq> CLOSING \<Longrightarrow> connection_ok (set_state st UNKNOWN c)" for c st
    by (cases st) (auto simp: connection_ok_def connection_inv_def set_state_def closes_paired_append)
  show "net_inv (peer_disconnect reason ref n)"
    unfolding peer_disconnect_def by (rule on_connection_inv [OF assms connection_ok_disconnect]) (simp_all add: streams_not_made(1))
  show "net_inv (snd (peer_send env w m ref n))"
    unfolding peer_send_def Let_def snd_conv
    by (rule on_connection_inv [OF assms connection_ok_send]) (use streams_not_made(2) in blast)+
  show "net_inv (on_connection ref (\<lambda>c. fst (snd (receive_message c stream))) n)"
    by (rule on_connection_inv [OF assms receive_ok]) (use streams_not_made(3) in blast)+
  show "net_inv (on_connection ref (set_connection_state st) n)"
    by (rule on_connection_inv [OF assms connection_ok_set_connection_state]) (simp_all add: streams_not_made(4))
  show "net_inv (snd (peer_connect opened ref n))" if "ref \<in> set (peer_connections n)"
    unfolding peer_connect_def snd_conv by (rule on_connection_inv [OF assms connection_ok_connect]) (simp_all add: that)
  show "net_inv (on_connection ref (set_state CONNECTING UNKNOWN) n)" if "ref \<in> set (peer_connections n)"
    by (rule on_connection_inv [OF assms s]) (simp_all add: that)
  show "net_inv (on_connection ref (set_state CONNECTED UNKNOWN) n)"
    by (rule on_connection_inv [OF assms s]) (simp_all add: set_state_def)
qed

lemma finalize_inv: "net_inv n \<Longrightarrow> net_inv (finalize_peer_connection ref n)"
  unfolding finalize_peer_connection_def
  by (auto intro!: update_object_inv simp: connection_ok_set_connection_state streams_not_made(4))
     (simp_all add: set_connection_state_def Let_def)

lemma set_identity_inv: "net_inv n \<Longrightarrow> net_inv (set_identity ref username typ n)"
  unfolding set_identity_def by (rule update_object_inv) (simp_all add: connection_ok_type)

lemma peer_connect_keeps: "peer_connect opened ref n = (Inr u, n1) \<Longrightarrow> peer_connections n1 = peer_connections n"
  by (auto simp: peer_connect_def connect_def on_connection_def on_peer_connection_state_changed_def update_object_def set_state_def
    Let_def split: if_splits)

lemma direct_inv: "net_inv n \<Longrightarrow> net_inv (fst (snd (make_direct_connection env t username typ a opened w n)))"
proof -
  assume n: "net_inv n"
  show ?thesis
  proof (cases "resolve_address env username a")
    case (Inl e)
    then show ?thesis using n by (simp add: make_direct_connection_def)
  next
    case (Inr ipo)
    obtain ip port obf where ipo: "ipo = (ip, port, obf)" by (metis prod_cases3)
    obtain ref n1 where ap: "append_peer (new_peer ip port obf typ (Some username) False) n = (ref, n1)" by fastforce
    have n1: "net_inv n1" "ref \<in> set (peer_connections n1)" by (rule append_peer_inv [OF n _ _ _ _ ap]; simp)+
    obtain r2 n2 where pc: "peer_connect opened ref n1 = (r2, n2)" by fastforce
    then have n2: "net_inv n2" using peer_operations_inv(5) [OF n1(1,2), of opened] by simp
    show ?thesis
      using Inr ipo ap pc n2 peer_operations_inv(2) [OF n2, of env w _ ref] finalize_inv
      by (auto simp: make_direct_connection_def split: sum.split prod.split) (metis snd_conv)+
  qed
qed

lemma cancelled_inv: "net_inv n \<Longrightarrow> net_inv (cancelled_direct_connection env username typ a stage n)"
proof -
  assume n: "net_inv n"
  show ?thesis
  proof (cases "resolve_address env username a")
    case (Inl e)
    then show ?thesis using n by (simp add: cancelled_direct_connection_def)
  next
    case (Inr ipo)
    obtain ip port obf where ipo: "ipo = (ip, port, obf)" by (metis prod_cases3)
    obtain ref n1 where ap: "append_peer (new_peer ip port obf typ (Some username) False) n = (ref, n1)" by fastforce
    have n1: "net_inv n1" "ref \<in> set (peer_connections n1)" by (rule append_peer_inv [OF n _ _ _ _ ap]; simp)+
    then show ?thesis
      using Inr ipo ap n peer_operations_inv(5,6) [OF n1(1,2)] by (simp add: cancelled_direct_connection_def)
  qed
qed

lemma indirect_inv:
  assumes "net_inv n" "\<And>m. net_inv m \<Longrightarrow> net_inv (meanwhile m)"
  shows "net_inv (fst (snd (make_indirect_connection t username typ meanwhile e n)))"
  using assms by (simp add: make_indirect_connection_def indirect_start_def indirect_finish_def drop_futures_def)

lemma fallback_inv:
  assumes "net_inv n" "\<And>m. net_inv m \<Longrightarrow> net_inv (meanwhile m)"
  shows "net_inv (fst (snd (create_peer_connection_fallback env t username typ a opened w meanwhile e n)))"
proof -
  obtain r n1 out where d: "make_direct_connection env t username typ a opened w n = (r, n1, out)" by (metis prod_cases3)
  then have n1: "net_inv n1" using direct_inv [OF assms(1), of env t username "typ" a opened w] by simp
  obtain r' n2 out' where i: "make_indirect_connection t username typ meanwhile e n1 = (r', n2, out')" by (metis prod_cases3)
  have "net_inv (fst (snd (make_indirect_connection t username typ meanwhile e n1)))"
    by (rule indirect_inv [OF n1]) (rule assms(2))
  then have "net_inv n2" using i by simp
  then show ?thesis using n1 d i by (cases r; cases r') (simp_all add: create_peer_connection_fallback_def)
qed

lemma connect_to_peer_inv: "net_inv n \<Longrightarrow> net_inv (fst (snd (handle_connect_to_peer env m opened w told n)))"
proof -
  assume n: "net_inv n"
  let ?ip = "case map_of (ip_overrides env) (ctp_username m) of None \<Rightarrow> ctp_ip m | Some ip' \<Rightarrow> ip'"
  let ?msg = "(PeerPierceFirewall_Request, [(''ticket'', PInt (int (ctp_ticket m)))])"
  obtain port obf where sp: "select_port env (ctp_port m) (ctp_obfuscated_port m) = (port, obf)" by fastforce
  obtain ref n1 where ap: "append_peer (new_peer ?ip port obf (ctp_typ m) (Some (ctp_username m)) False) n = (ref, n1)" by fastforce
  have n1: "net_inv n1" "ref \<in> set (peer_connections n1)" by (rule append_peer_inv [OF n _ _ _ _ ap]; simp)+
  obtain r2 n2 where pc: "peer_connect opened ref n1 = (r2, n2)" by fastforce
  then have n2: "net_inv n2" using peer_operations_inv(5) [OF n1(1,2), of opened] by simp
  obtain r3 n3 where ps: "peer_send env w ?msg ref n2 = (r3, n3)" by fastforce
  then have n3: "net_inv n3" using peer_operations_inv(2) [OF n2, of env w ?msg ref] by simp
  show ?thesis
    using sp ap pc ps n2 n3 finalize_inv [OF n3]
    by (cases r2; cases r3) (simp_all add: handle_connect_to_peer_def Let_def)
qed

lemma accepted_inv:
  assumes "net_inv n" "\<And>m. net_inv m \<Longrightarrow> net_inv (listeners m)"
  shows "net_inv (fst (snd (accept_connection host port obf init listeners n)))"
proof -
  let ?p = "new_peer host port obf PEER None True"
  let ?q = "?p\<lparr>conn := (conn ?p)\<lparr>has_streams := True\<rparr>\<rparr>"
  obtain ref n1 where ap: "append_peer ?q n = (ref, n1)" by fastforce
  have "connection_ok (conn ?q)"
    by (simp add: connection_ok_def connection_inv_def new_peer_def new_connection_def)
  then have n1: "net_inv n1" by (rule append_peer_inv(1) [OF assms(1) _ _ _ _ ap]) simp_all
  obtain ok n2 out where acc: "on_peer_accepted init listeners ref n1 = (ok, n2, out)" by (metis prod_cases3)
  have "net_inv n2"
    using acc peer_operations_inv(1) [OF n1] assms(2) finalize_inv set_identity_inv [OF n1]
    by (auto simp: on_peer_accepted_def set_connection_result_def Let_def split: init_message.splits option.splits if_splits)
  then show ?thesis
    using ap acc peer_operations_inv(7) by (cases ok) (simp_all add: accept_connection_def Let_def)
qed

lemma limits_inv: "net_inv n \<Longrightarrow> net_inv (load_speed_limits up down n)"
  by (auto simp: load_speed_limits_def set_upload_speed_limit_def set_download_speed_limit_def net_inv_def Let_def)

lemma message_inv:
  assumes "net_inv n" "\<And>m. net_inv m \<Longrightarrow> net_inv (listeners m)"
  shows "net_inv (snd (on_message_received task listeners cls username message n))"
  using assms by (simp add: on_message_received_def on_connect_to_peer_def Let_def split: prod.split)

lemma net_runs_inv: "net_inv n \<Longrightarrow> net_inv (net_run env step n)" "net_inv n \<Longrightarrow> net_inv (net_runs env steps n)"
  by (induction env step n and env steps n rule: net_run_net_runs.induct)
    (simp_all add: direct_inv cancelled_inv indirect_inv fallback_inv connect_to_peer_inv accepted_inv message_inv
      peer_operations_inv limits_inv register_response_future_def draw_ticket_def Let_def)

lemma connection_ok_closing: "connection_ok c \<Longrightarrow> state c \<noteq> CLOSING"
  unfolding connection_ok_def by blast

lemma listed_open:
  "net_inv n \<Longrightarrow> r \<in> set (peer_connections n) \<Longrightarrow> state (conn (peer_objects n r)) \<noteq> CLOSED \<and> state (conn (peer_objects n r)) \<noteq> CLOSING"
  using connection_ok_closing unfolding net_inv_def by blast


definition witness_env :: net_env where
  "witness_env = \<lparr>own_username = [109], prefer_obfuscated = False, connect_mode = Mode_Fallback, error_mode = Mode_All,
     ip_overrides = [], upnp_enabled = True, reconnect_auto = True, credentials_configured = True,
     upnp_check_interval = 600, compress = id, key_token = [1, 2, 3, 4]\<rparr>"


subsection \<open>Disconnecting\<close>

lemma peer_disconnect_listed:
  assumes "net_inv n" "ref \<in> set (peer_connections n)"
  shows "peer_connections (peer_disconnect reason ref n) = remove1 ref (peer_connections n)"
  using listed_open [OF assms] assms(2)
  by (simp add: peer_disconnect_def on_connection_def on_peer_connection_state_changed_def remove_peer_connection_def
    update_object_def connection_defs Let_def)

lemma disconnect_peers:
  "net_inv n \<Longrightarrow> refs = peer_connections n \<Longrightarrow> peer_connections (fold (peer_disconnect reason) refs n) = []
     \<and> net_inv (fold (peer_disconnect reason) refs n)"
proof (induction refs arbitrary: n)
  case (Cons ref refs)
  have "ref \<in> set (peer_connections n)" unfolding Cons.prems(2) [symmetric] by simp
  then have "peer_connections (peer_disconnect reason ref n) = refs"
    using peer_disconnect_listed [OF Cons.prems(1)] unfolding Cons.prems(2) [symmetric] by simp
  then show ?case
    using Cons.IH [of "peer_disconnect reason ref n"] peer_operations_inv(1) [OF Cons.prems(1)] by simp
qed simp

lemma peer_disconnect_tasks [simp]:
  "watchdog_task (fold (peer_disconnect reason) refs n) = watchdog_task n"
  "upnp_task (fold (peer_disconnect reason) refs n) = upnp_task n"
  "connect_tasks (fold (peer_disconnect reason) refs n) = connect_tasks n"
  by (induction refs arbitrary: n) (simp_all add: peer_disconnect_def on_connection_def on_peer_connection_state_changed_def
    remove_peer_connection_def update_object_def Let_def)

lemma disconnect_server_open:
  "state c \<notin> {CLOSED, CLOSING} \<Longrightarrow> disconnect_server env (c, n) =
     (disconnect close_reason.REQUESTED c, stop_server_connection_watchdog (stop_upnp_job n))"
  by (simp add: disconnect_server_def on_server_def connection_defs on_server_connection_state_changed_def Let_def)

lemma disconnect_server_closed: "state c = CLOSED \<Longrightarrow> disconnect_server env (c, n) = (c, n)"
  by (simp add: disconnect_server_def on_server_def disconnect_def)

lemma disconnect_network_closes:
  assumes "net_inv n" "state c \<noteq> CLOSING"
    and "disconnect_network env (c, n) = (c1, n1)"
  shows "peer_connections n1 = [] \<and> (\<forall>r. \<not> has_streams (conn (peer_objects n1 r)))
    \<and> connect_tasks n1 = [] \<and> upnp_task n1 = No_Task \<and> get_listening_ports n1 = (0, 0) \<and> state c1 = CLOSED
    \<and> watchdog_task n1 = (if state c = CLOSED then watchdog_task n else No_Task)
    \<and> (credentials_configured env \<longrightarrow>
         state (fst (snd (snd (server_connection_watchdog_job env id True last_state (c1, n1))))) = CONNECTED)"
proof -
  let ?n0 = "snd (disconnect_server env (c, cancel_all_tasks n))"
  have inv: "net_inv ?n0"
    using assms(1,2) by (cases "state c = CLOSED") (simp_all add: disconnect_server_closed disconnect_server_open
      cancel_all_tasks_def stop_upnp_job_def stop_server_connection_watchdog_def)
  have tasks: "connect_tasks ?n0 = []" "upnp_task ?n0 = No_Task"
    "watchdog_task ?n0 = (if state c = CLOSED then watchdog_task n else No_Task)"
    "state (fst (disconnect_server env (c, cancel_all_tasks n))) = CLOSED"
  proof -
    note defs = cancel_all_tasks_def stop_upnp_job_def stop_server_connection_watchdog_def background_cancel_def
    have "state (disconnect reason c) = CLOSED" for reason using assms(2) by (simp add: connection_defs)
    then show "connect_tasks ?n0 = []" "upnp_task ?n0 = No_Task"
      "watchdog_task ?n0 = (if state c = CLOSED then watchdog_task n else No_Task)"
      "state (fst (disconnect_server env (c, cancel_all_tasks n))) = CLOSED"
      using assms(2) by (cases "state c = CLOSED"; simp add: disconnect_server_closed disconnect_server_open defs)+
  qed
  let ?n2 = "fold (peer_disconnect close_reason.REQUESTED) (peer_connections ?n0) ?n0"
  have n2: "peer_connections ?n2 = []" "net_inv ?n2" using disconnect_peers [OF inv refl] by simp_all
  have n1: "n1 = disconnect_listening_ports ?n2" "c1 = fst (disconnect_server env (c, cancel_all_tasks n))"
    using assms(3) by (auto simp: disconnect_network_def split: prod.splits)
  have "get_listening_ports n1 = (0, 0)"
    by (auto simp: n1 disconnect_listening_ports_def get_listening_ports_def get_port_def split: option.split)
  moreover have "state (fst (snd (snd (server_connection_watchdog_job env id True last_state (c1, n1))))) = CONNECTED"
    if "credentials_configured env"
    using that tasks(4) n1(2) by (simp add: server_connection_watchdog_job_def connect_server_def connect_def on_server_def set_state_def Let_def)
  moreover have "peer_connections n1 = []" "\<not> has_streams (conn (peer_objects n1 r))" for r
    using n2 unfolding net_inv_def by (simp_all add: n1(1) disconnect_listening_ports_def)
  moreover have "connect_tasks n1 = []" "upnp_task n1 = No_Task" "state c1 = CLOSED"
    "watchdog_task n1 = (if state c = CLOSED then watchdog_task n else No_Task)"
    using tasks n1 by (simp_all add: disconnect_listening_ports_def)
  ultimately show ?thesis by blast
qed

text \<open>Disconnecting the network closes every connection it holds, whatever happened before: no
  peer connection is left, no connection has open streams and no task is left that makes one. But
  the watchdog is stopped only with an open server connection: while it waits to reconnect it
  survives, and its next job connects to the server again.\<close>

theorem disconnect_closes_everything:
  assumes "n = net_runs env steps (new_net up down port obfuscated_port)" "state c \<noteq> CLOSING"
    and "disconnect_network env (c, n) = (c1, n1)"
  shows "peer_connections n1 = [] \<and> (\<forall>r. \<not> has_streams (conn (peer_objects n1 r)))
    \<and> connect_tasks n1 = [] \<and> upnp_task n1 = No_Task \<and> get_listening_ports n1 = (0, 0) \<and> state c1 = CLOSED
    \<and> watchdog_task n1 = (if state c = CLOSED then watchdog_task n else No_Task)
    \<and> (credentials_configured env \<longrightarrow>
         state (fst (snd (snd (server_connection_watchdog_job env id True last_state (c1, n1))))) = CONNECTED)"
  by (rule disconnect_network_closes [OF _ assms(2,3)]) (simp add: assms(1) net_runs_inv(2) [OF new_net_inv])

lemma disconnect_closes_everything_witness:
  "let s = disconnect_network witness_env (disconnect CONNECT_FAILED (new_connection ServerConnection False [] False),
       net_runs witness_env [] (new_net 0 0 8 0))
   in state (fst (snd (snd (server_connection_watchdog_job witness_env id True CLOSED s)))) = CONNECTED"
proof -
  let ?c = "disconnect CONNECT_FAILED (new_connection ServerConnection False [] False)"
  obtain c1 n1 where d: "disconnect_network witness_env (?c, net_runs witness_env [] (new_net 0 0 8 0)) = (c1, n1)" by fastforce
  have "state ?c \<noteq> CLOSING" by (simp add: connection_defs new_connection_def)
  from disconnect_closes_everything [OF refl this d, of CLOSED] d show ?thesis
    by (simp add: witness_env_def)
qed

subsection \<open>Connecting to a peer\<close>

lemma new_conn_send:
  assumes "\<exists>bs. message_serialize z cls attrs = Inr bs" "length key = 4" "\<not> is_closing c" "has_streams c"
  shows "isl (fst (send_message z key w (Obj (cls, attrs)) c)) \<longleftrightarrow> w \<noteq> WriteOk"
    and "w = WriteOk \<Longrightarrow> snd (send_message z key w (Obj (cls, attrs)) c) = c"
    and "fst (send_message z key w (Obj (cls, attrs)) c) = Inl e \<Longrightarrow> e = ConnectionWriteError"
proof -
  obtain out where "encode_message_data z key c (Obj (cls, attrs)) = Inr out"
    using assms(1,2) encode_total by blast
  then show "isl (fst (send_message z key w (Obj (cls, attrs)) c)) \<longleftrightarrow> w \<noteq> WriteOk"
    "w = WriteOk \<Longrightarrow> snd (send_message z key w (Obj (cls, attrs)) c) = c"
    "fst (send_message z key w (Obj (cls, attrs)) c) = Inl e \<Longrightarrow> e = ConnectionWriteError"
    using assms(3,4) by (cases w; simp add: send_message_def send_bytes_def)+
qed

definition direct_succeeds :: "net_env \<Rightarrow> pystr \<Rightarrow> address \<Rightarrow> bool \<Rightarrow> write_outcome \<Rightarrow> bool" where
  "direct_succeeds env username a opened w \<longleftrightarrow> \<not> isl (resolve_address env username a) \<and> opened \<and> w = WriteOk"

lemma direct_result:
  assumes "\<exists>bs. message_serialize (compress env) PeerInit_Request [(''username'', PStr (own_username env)), (''typ'', PStr typ),
      (''ticket'', PInt (int t))] = Inr bs" "length (key_token env) = 4"
    and "\<forall>e. resolve_address env username a = Inl e \<longrightarrow> is_network_error e"
  shows "case make_direct_connection env t username typ a opened w n of
      (Inr ref, n1, out) \<Rightarrow> direct_succeeds env username a opened w \<and> ref = next_peer n
         \<and> peer_username (peer_objects n1 ref) = Some username \<and> connection_type (conn (peer_objects n1 ref)) = typ
         \<and> state (conn (peer_objects n1 ref)) = CONNECTED
         \<and> connection_state (conn (peer_objects n1 ref)) = (if typ = FILE then NEGOTIATING_TRANSFER else ESTABLISHED)
         \<and> peer_connections n1 = peer_connections n @ [ref] \<and> connection_futures n1 = connection_futures n
    | (Inl e, n1, out) \<Rightarrow> \<not> direct_succeeds env username a opened w \<and> is_network_error e"
proof (cases "resolve_address env username a")
  case (Inl e)
  then show ?thesis using assms(3) by (simp add: make_direct_connection_def direct_succeeds_def)
next
  case (Inr ipo)
  obtain ip port obf where ipo: "ipo = (ip, port, obf)" by (metis prod_cases3)
  let ?p = "new_peer ip port obf typ (Some username) False"
  define c0 where "c0 = snd (connect True (conn ?p))"
  show ?thesis
  proof (cases opened)
    case False
    then show ?thesis using Inr ipo
      by (simp add: make_direct_connection_def append_peer_def peer_connect_def connect_def direct_succeeds_def is_network_error_def Let_def)
  next
    case True
    have c: "\<not> is_closing c0" "has_streams c0" "state c0 = CONNECTED" "connection_type c0 = typ"
      by (simp_all add: c0_def connect_def set_state_def new_peer_def new_connection_def Let_def)
    let ?m = "(PeerInit_Request, [(''username'', PStr (own_username env)), (''typ'', PStr typ), (''ticket'', PInt (int t))])"
    obtain ref n1 where ap: "append_peer ?p n = (ref, n1)" by fastforce
    then have n1: "ref = next_peer n" "peer_objects n1 ref = ?p" "peer_connections n1 = peer_connections n @ [ref]"
      "connection_futures n1 = connection_futures n" by (auto simp: append_peer_def)
    define n2 where "n2 = update_object ref (\<lambda>p. p\<lparr>conn := c0\<rparr>) n1"
    have pc: "peer_connect True ref n1 = (Inr (), n2)"
      using c(3) by (simp add: peer_connect_def on_connection_def on_peer_connection_state_changed_def n1(2) n2_def c0_def [symmetric])
        (simp add: connect_def Let_def)
    have p2: "peer_objects n2 ref = ?p\<lparr>conn := c0\<rparr>" "peer_connections n2 = peer_connections n @ [ref]"
      "connection_futures n2 = connection_futures n"
      by (simp_all add: n2_def update_object_def n1(2-4))
    show ?thesis
    proof (cases "w = WriteOk")
      case ok: True
      obtain x where "fst (send_message (compress env) (key_token env) w (Obj ?m) c0) = Inr x"
        using new_conn_send(1) [OF assms(1,2) c(1,2), of w] ok by (cases "fst (send_message (compress env) (key_token env) w (Obj ?m) c0)") auto
      then have "peer_send env w ?m ref n2 = (Inr (), update_object ref (\<lambda>p. p\<lparr>conn := c0\<rparr>) n2)"
        using new_conn_send(2) [OF assms(1,2) c(1,2) ok] c(3)
        by (simp add: peer_send_def on_connection_def on_peer_connection_state_changed_def p2(1))
      then show ?thesis
        using Inr ipo ap pc ok True c p2 n1(1)
        by (simp add: make_direct_connection_def direct_succeeds_def finalize_peer_connection_def update_object_def
          set_connection_state_def Let_def new_peer_def)
    next
      case False
      obtain e where e: "fst (send_message (compress env) (key_token env) w (Obj ?m) c0) = Inl e"
        using new_conn_send(1) [OF assms(1,2) c(1,2), of w] False by (cases "fst (send_message (compress env) (key_token env) w (Obj ?m) c0)") auto
      then have "fst (peer_send env w ?m ref n2) = Inl (Connection_Error ConnectionWriteError)"
        using new_conn_send(3) [OF assms(1,2) c(1,2) e] by (simp add: peer_send_def p2(1))
      then show ?thesis
        using Inr ipo ap pc False True
        by (cases "peer_send env w ?m ref n2") (simp add: make_direct_connection_def direct_succeeds_def is_network_error_def)
    qed
  qed
qed



subsection \<open>Expected responses\<close>

lemma complete_responses_pending:
  "list_all (\<lambda>er. \<not> er_done er) ers \<Longrightarrow> complete_responses cls username message ers = (True,
     map (\<lambda>er. if response_matches er cls username message then er\<lparr>er_done := True, er_result := Some message\<rparr> else er) ers)"
  by (induction ers) simp_all

lemma complete_responses_stop:
  assumes "list_all (\<lambda>er. \<not> er_done er) ers" "er_done stale" "response_matches stale cls username message"
  shows "complete_responses cls username message (ers @ stale # later) = (False,
     map (\<lambda>er. if response_matches er cls username message then er\<lparr>er_done := True, er_result := Some message\<rparr> else er) ers @ stale # later)"
  using assms by (induction ers) simp_all

text \<open>A message completes every future that waits for it, and only those, as long as none of the
  registered futures is done. A future that is done but has not removed itself yet, and that matches,
  keeps the message from every future registered after it.\<close>

theorem message_completes_the_waiting:
  assumes "list_all (\<lambda>er. \<not> er_done er) (response_futures (listeners n))" "fst message \<noteq> ConnectToPeer_Response"
    and "er_done stale" "response_matches stale cls username message"
  shows "let wait = \<lambda>er. if response_matches er cls username message then er\<lparr>er_done := True, er_result := Some message\<rparr> else er;
             ers = response_futures (listeners n)
     in on_message_received task listeners cls username message n = (True, (listeners n)\<lparr>response_futures := map wait ers\<rparr>)
        \<and> on_message_received task (\<lambda>n. (listeners n)\<lparr>response_futures := ers @ stale # later\<rparr>) cls username message n
            = (False, (listeners n)\<lparr>response_futures := map wait ers @ stale # later\<rparr>)"
  using complete_responses_pending [OF assms(1), of cls username message] complete_responses_stop [OF assms(1,3,4)] assms(2)
  by (simp add: on_message_received_def Let_def)

lemma message_completes_the_waiting_witness:
  "\<exists>m :: net. snd (on_message_received 0 id ServerConnection None (Ping_Response, [])
     (register_response_future (new_expected ServerConnection Ping_Response None []) (new_net 0 0 0 0))) = m
     \<and> map er_result (response_futures m) = [Some (Ping_Response, [])]"
proof -
  let ?er = "new_expected ServerConnection Ping_Response None []"
  let ?n = "register_response_future ?er (new_net 0 0 0 0)"
  have ers: "response_futures (id ?n) = [?er]" by (simp add: register_response_future_def new_net_def)
  have "list_all (\<lambda>er. \<not> er_done er) (response_futures (id ?n))" unfolding ers by (simp add: new_expected_def)
  moreover have "fst (Ping_Response, []) \<noteq> ConnectToPeer_Response" by (simp add: Ping_Response_def ConnectToPeer_Response_def)
  ultimately show ?thesis
    using message_completes_the_waiting [of id ?n "(Ping_Response, [])" "?er\<lparr>er_done := True\<rparr>" ServerConnection None 0] ers
    by (simp add: response_matches_def new_expected_def Let_def)
qed

end
