(* ===== verification/Commands.thy ===== *)
theory Commands
  imports Searches Rooms Network
begin

text \<open>
\<open>src/aioslsk/commands.py\<close> and the session part of \<open>src/aioslsk/client.py\<close>: every command with its
  request, the response it expects and what it makes of it; \<open>execute\<close>, \<open>login\<close> and the end of a
  session. A command is the record of its methods.
\<close>

subsection \<open>The client\<close>

record client =
  client_session :: "pystr option"                 \<comment> \<open>the name of the user of the session\<close>
  client_last_ticket :: nat                        \<comment> \<open>\<open>ticket_generator\<close>\<close>
  client_requests :: "(nat \<times> search_request) list"  \<comment> \<open>\<open>searches.requests\<close>\<close>
  client_chat :: chat                              \<comment> \<open>rooms and users\<close>
  client_tracking :: tracking_manager
  client_futures :: "expected_response list"       \<comment> \<open>of the network\<close>

datatype command_error =
    Invalid_Session
  | No_Such_User
  | Not_Delivered             \<comment> \<open>the message could not be sent\<close>
  | Response_Timeout
  | Python_Error py_error

datatype command_output = Sent_Server message_object | Sent_Peer pystr message_object

datatype command_value =
    No_Value
  | Raw_Value pval
  | Raw_Pair pval pval
  | Status_Info user_status pval
  | Stats_Info pval pval pval pval
  | Room_Value pystr
  | Rooms_Value "pystr list"
  | Room_User pystr pystr
  | User_Value pystr
  | Users_Value "pystr list"
  | Scored_Users "(pystr \<times> pval) list"
  | Address_Value pval pval pval
  | Message_Value pystr pystr pystr               \<comment> \<open>user, room and text of a \<open>RoomMessage\<close>\<close>
  | User_Info pval pval pval pval pval upload_permissions

text \<open>An instance of a command: its methods. The attribute \<open>_ticket\<close>, which a few commands have, is
  the result of \<open>send\<close> and an argument of \<open>build_expected_response\<close>. The flag that \<open>send\<close> takes
  tells whether the message can be delivered.\<close>

record command =
  send :: "bool \<Rightarrow> client \<Rightarrow> (command_error + nat option) \<times> command_output list \<times> client"
  build_expected_response :: "nat option \<Rightarrow> client \<Rightarrow> command_error + expected_response option"
  handle_response :: "client \<Rightarrow> (string \<times> pval) list \<Rightarrow> (command_error + command_value) \<times> client"

definition base_command :: command where
  "base_command = \<lparr>send = (\<lambda>_ c. (Inr None, [], c)), build_expected_response = (\<lambda>_ _. Inr None),
     handle_response = (\<lambda>c _. (Inr No_Value, c))\<rparr>"

definition send_server :: "message_object \<Rightarrow> bool \<Rightarrow> client \<Rightarrow> (command_error + nat option) \<times> command_output list \<times> client" where
  "send_server message delivered c = (if delivered then (Inr None, [Sent_Server message], c) else (Inl Not_Delivered, [], c))"

definition send_peer :: "pystr \<Rightarrow> message_object \<Rightarrow> bool \<Rightarrow> client \<Rightarrow> (command_error + nat option) \<times> command_output list \<times> client" where
  "send_peer username message delivered c =
     (if delivered then (Inr None, [Sent_Peer username message], c) else (Inl Not_Delivered, [], c))"

definition expect_server :: "msg_class \<Rightarrow> (string \<times> pval) list \<Rightarrow> nat option \<Rightarrow> client \<Rightarrow> command_error + expected_response option" where
  "expect_server message checks t c =
     Inr (Some (new_expected ServerConnection message None (map (\<lambda>(n, v). (n, Equals v)) checks)))"

definition expect_peer :: "pystr \<Rightarrow> msg_class \<Rightarrow> (string \<times> pval) list \<Rightarrow> nat option \<Rightarrow> client \<Rightarrow> command_error + expected_response option" where
  "expect_peer username message checks t c =
     Inr (Some (new_expected PeerConnection message (Some username) (map (\<lambda>(n, v). (n, Equals v)) checks)))"

definition attribute :: "(string \<times> pval) list \<Rightarrow> string \<Rightarrow> command_error + pval" where
  "attribute attrs name = (case getattr attrs name of Inl e \<Rightarrow> Inl (Python_Error e) | Inr v \<Rightarrow> Inr v)"

definition pure_value :: "((string \<times> pval) list \<Rightarrow> command_error + command_value) \<Rightarrow> client \<Rightarrow> (string \<times> pval) list
     \<Rightarrow> (command_error + command_value) \<times> client" where
  "pure_value f c attrs = (f attrs, c)"

fun text_value :: "pval \<Rightarrow> command_error + pystr" where
  "text_value (PStr s) = Inr s"
| "text_value v = Inl (Python_Error TypeError)"

fun text_list :: "pval \<Rightarrow> command_error + pystr list" where
  "text_list (PList vs) = mapE text_value vs"
| "text_list v = Inl (Python_Error TypeError)"

definition room_object :: "client \<Rightarrow> (string \<times> pval) list \<Rightarrow> command_error + pystr" where
  \<comment> \<open>\<open>client.rooms.rooms[response.room]\<close>\<close>
  "room_object c attrs = bindE (bindE (attribute attrs ''room'') text_value) (\<lambda>name.
     if map_of (rooms_of (client_chat c)) name = None then Inl (Python_Error KeyError) else Inr name)"

definition touch :: "pystr list \<Rightarrow> client \<Rightarrow> client" where
  \<comment> \<open>\<open>users.get_user_object\<close> of each name\<close>
  "touch names c = c\<lparr>client_chat := on_users (fold touch_user names) (client_chat c)\<rparr>"

definition handle_room :: "client \<Rightarrow> (string \<times> pval) list \<Rightarrow> (command_error + command_value) \<times> client" where
  "handle_room c attrs = (bindE (room_object c attrs) (\<lambda>name. Inr (Room_Value name)), c)"

definition handle_room_user :: "client \<Rightarrow> (string \<times> pval) list \<Rightarrow> (command_error + command_value) \<times> client" where
  "handle_room_user c attrs =
     (case bindE (room_object c attrs) (\<lambda>name. bindE (bindE (attribute attrs ''username'') text_value) (\<lambda>who. Inr (name, who))) of
        Inl e \<Rightarrow> (Inl e, c)
      | Inr (name, who) \<Rightarrow> (Inr (Room_User name who), touch [who] c))"

definition draw_client_ticket :: "client \<Rightarrow> nat \<times> client" where
  "draw_client_ticket c = (let t = next_ticket 1 (client_last_ticket c) in (t, c\<lparr>client_last_ticket := t\<rparr>))"

definition send_search_command ::
    "(nat \<Rightarrow> message_object) \<Rightarrow> (nat \<Rightarrow> search_request) \<Rightarrow> bool \<Rightarrow> client \<Rightarrow> (command_error + nat option) \<times> command_output list \<times> client" where
  \<comment> \<open>the request is stored without a timer\<close>
  "send_search_command message request delivered c =
     (case draw_client_ticket c of (t, c1) \<Rightarrow>
        if \<not> delivered then (Inl Not_Delivered, [], c1)
        else (Inr (Some t), [Sent_Server (message t)], c1\<lparr>client_requests := AList.update t (request t) (client_requests c1)\<rparr>))"

subsection \<open>The commands\<close>

definition GetUserStatusCommand :: "pystr \<Rightarrow> command" where
  "GetUserStatusCommand username = base_command\<lparr>send := send_server (GetUserStatus_Request, [(''username'', PStr username)]),
     build_expected_response := expect_server GetUserStatus_Response [(''username'', PStr username)],
     handle_response := pure_value (\<lambda>attrs. bindE (attribute attrs ''status'') (\<lambda>st.
       bindE (attribute attrs ''privileged'') (\<lambda>priv.
       (case bindE (as_int st) UserStatus of Inl e \<Rightarrow> Inl (Python_Error e) | Inr s \<Rightarrow> Inr (Status_Info s priv)))))\<rparr>"

definition GetUserStatsCommand :: "pystr \<Rightarrow> command" where
  "GetUserStatsCommand username = base_command\<lparr>send := send_server (GetUserStats_Request, [(''username'', PStr username)]),
     build_expected_response := expect_server GetUserStats_Response [(''username'', PStr username)],
     handle_response := pure_value (\<lambda>attrs. bindE (attribute attrs ''user_stats'') (\<lambda>st.
       (case st of PObj _ stats \<Rightarrow> bindE (attribute stats ''avg_speed'') (\<lambda>speed. bindE (attribute stats ''uploads'') (\<lambda>ups.
       bindE (attribute stats ''shared_file_count'') (\<lambda>nfiles. bindE (attribute stats ''shared_folder_count'') (\<lambda>ndirs.
       Inr (Stats_Info speed ups nfiles ndirs))))) | _ \<Rightarrow> Inl (Python_Error AttributeError))))\<rparr>"

definition GetRoomListCommand :: "command" where
  "GetRoomListCommand = base_command\<lparr>send := send_server (RoomList_Request, []),
     build_expected_response := expect_server RoomList_Response [],
     handle_response := (\<lambda>c attrs. (bindE (bindE (attribute attrs ''rooms'') text_list) (\<lambda>names.
       Inr (Rooms_Value (filter (\<lambda>name. name \<in> set names) (map fst (rooms_of (client_chat c)))))), c))\<rparr>"

definition JoinRoomCommand :: "pystr \<Rightarrow> bool \<Rightarrow> command" where
  "JoinRoomCommand name priv = base_command\<lparr>send := send_server (JoinRoom_Request, [(''room'', PStr name), (''is_private'', PBool priv)]),
     build_expected_response := expect_server JoinRoom_Response [(''room'', PStr name)],
     handle_response := handle_room\<rparr>"

definition LeaveRoomCommand :: "pystr \<Rightarrow> command" where
  "LeaveRoomCommand name = base_command\<lparr>send := send_server (LeaveRoom_Request, [(''room'', PStr name)]),
     build_expected_response := expect_server LeaveRoom_Response [(''room'', PStr name)],
     handle_response := handle_room\<rparr>"

definition GrantRoomMembershipCommand :: "pystr \<Rightarrow> pystr \<Rightarrow> command" where
  "GrantRoomMembershipCommand name username = base_command\<lparr>send := send_server (PrivateRoomGrantMembership_Request, [(''room'', PStr name), (''username'', PStr username)]),
     build_expected_response := expect_server PrivateRoomGrantMembership_Response [(''room'', PStr name), (''username'', PStr username)],
     handle_response := handle_room_user\<rparr>"

definition RevokeRoomMembershipCommand :: "pystr \<Rightarrow> pystr \<Rightarrow> command" where
  "RevokeRoomMembershipCommand name username = base_command\<lparr>send := send_server (PrivateRoomRevokeMembership_Request, [(''room'', PStr name), (''username'', PStr username)]),
     build_expected_response := expect_server PrivateRoomRevokeMembership_Response [(''room'', PStr name), (''username'', PStr username)],
     handle_response := handle_room_user\<rparr>"

definition DropRoomMembershipCommand :: "pystr \<Rightarrow> command" where
  "DropRoomMembershipCommand name = base_command\<lparr>send := send_server (PrivateRoomDropMembership_Request, [(''room'', PStr name)]),
     build_expected_response := expect_server PrivateRoomMembershipRevoked_Response [(''room'', PStr name)],
     handle_response := handle_room\<rparr>"

definition DropRoomOwnershipCommand :: "pystr \<Rightarrow> command" where
  "DropRoomOwnershipCommand name = base_command\<lparr>send := send_server (PrivateRoomDropOwnership_Request, [(''room'', PStr name)])\<rparr>"

definition GetItemRecommendationsCommand :: "pystr \<Rightarrow> command" where
  "GetItemRecommendationsCommand item = base_command\<lparr>send := send_server (GetItemRecommendations_Request, [(''item'', PStr item)]),
     build_expected_response := expect_server GetItemRecommendations_Response [(''item'', PStr item)],
     handle_response := pure_value (\<lambda>attrs. bindE (attribute attrs ''recommendations'') (\<lambda>recs.
       Inr (Raw_Value recs)))\<rparr>"

definition GetRecommendationsCommand :: "command" where
  "GetRecommendationsCommand = base_command\<lparr>send := send_server (GetRecommendations_Request, []),
     build_expected_response := expect_server GetRecommendations_Response [],
     handle_response := pure_value (\<lambda>attrs. bindE (attribute attrs ''recommendations'') (\<lambda>recs.
       bindE (attribute attrs ''unrecommendations'') (\<lambda>unrecs.
       Inr (Raw_Pair recs unrecs))))\<rparr>"

definition GetGlobalRecommendationsCommand :: "command" where
  "GetGlobalRecommendationsCommand = base_command\<lparr>send := send_server (GetGlobalRecommendations_Request, []),
     build_expected_response := expect_server GetGlobalRecommendations_Response [],
     handle_response := pure_value (\<lambda>attrs. bindE (attribute attrs ''recommendations'') (\<lambda>recs.
       bindE (attribute attrs ''unrecommendations'') (\<lambda>unrecs.
       Inr (Raw_Pair recs unrecs))))\<rparr>"

definition GetItemSimilarUsersCommand :: "pystr \<Rightarrow> command" where
  "GetItemSimilarUsersCommand item = base_command\<lparr>send := send_server (GetItemSimilarUsers_Request, [(''item'', PStr item)]),
     build_expected_response := expect_server GetItemSimilarUsers_Response [(''item'', PStr item)],
     handle_response := (\<lambda>c attrs. (case bindE (attribute attrs ''usernames'') text_list of Inl e \<Rightarrow> (Inl e, c)
       | Inr names \<Rightarrow> (Inr (Users_Value names), touch names c)))\<rparr>"

definition scored_user :: "pval \<Rightarrow> command_error + (pystr \<times> pval)" where
  "scored_user v = (case v of
     PObj _ attrs \<Rightarrow> bindE (bindE (attribute attrs ''username'') text_value) (\<lambda>who.
       bindE (attribute attrs ''score'') (\<lambda>score. Inr (who, score)))
   | _ \<Rightarrow> Inl (Python_Error AttributeError))"

definition scored_users :: "pval \<Rightarrow> command_error + (pystr \<times> pval) list" where
  "scored_users v = (case v of PList vs \<Rightarrow> mapE scored_user vs | _ \<Rightarrow> Inl (Python_Error TypeError))"

definition GetSimilarUsersCommand :: "command" where
  "GetSimilarUsersCommand = base_command\<lparr>send := send_server (GetSimilarUsers_Request, []),
     build_expected_response := expect_server GetSimilarUsers_Response [],
     handle_response := (\<lambda>c attrs. (case bindE (attribute attrs ''users'') scored_users of Inl e \<Rightarrow> (Inl e, c)
       | Inr us \<Rightarrow> (Inr (Scored_Users us), touch (map fst us) c)))\<rparr>"

definition GetPeerAddressCommand :: "pystr \<Rightarrow> command" where
  "GetPeerAddressCommand username = base_command\<lparr>send := send_server (GetPeerAddress_Request, [(''username'', PStr username)]),
     build_expected_response := expect_server GetPeerAddress_Response [(''username'', PStr username)],
     handle_response := pure_value (\<lambda>attrs. bindE (attribute attrs ''ip'') (\<lambda>ip.
       bindE (attribute attrs ''port'') (\<lambda>port.
       bindE (attribute attrs ''obfuscated_port'') (\<lambda>obf.
       Inr (Address_Value ip port obf)))))\<rparr>"

definition GrantRoomOperatorCommand :: "pystr \<Rightarrow> pystr \<Rightarrow> command" where
  "GrantRoomOperatorCommand name username = base_command\<lparr>send := send_server (PrivateRoomGrantOperator_Request, [(''room'', PStr name), (''username'', PStr username)]),
     build_expected_response := expect_server PrivateRoomGrantOperator_Response [(''room'', PStr name), (''username'', PStr username)],
     handle_response := pure_value (\<lambda>_. Inr No_Value)\<rparr>"

definition RevokeRoomOperatorCommand :: "pystr \<Rightarrow> pystr \<Rightarrow> command" where
  "RevokeRoomOperatorCommand name username = base_command\<lparr>send := send_server (PrivateRoomRevokeOperator_Request, [(''room'', PStr name), (''username'', PStr username)]),
     build_expected_response := expect_server PrivateRoomRevokeOperator_Response [(''room'', PStr name), (''username'', PStr username)],
     handle_response := pure_value (\<lambda>_. Inr No_Value)\<rparr>"

definition TogglePublicChatCommand :: "bool \<Rightarrow> command" where
  "TogglePublicChatCommand enable = base_command\<lparr>send := send_server ((if enable then EnablePublicChat_Request else DisablePublicChat_Request), [])\<rparr>"

definition TogglePrivateRoomInvitesCommand :: "bool \<Rightarrow> command" where
  "TogglePrivateRoomInvitesCommand enable = base_command\<lparr>send := send_server (TogglePrivateRoomInvites_Request, [(''enable'', PBool enable)]),
     build_expected_response := expect_server TogglePrivateRoomInvites_Response [(''enabled'', PBool enable)],
     handle_response := pure_value (\<lambda>_. Inr No_Value)\<rparr>"

definition GlobalSearchCommand :: "pystr \<Rightarrow> command" where
  "GlobalSearchCommand txt = base_command\<lparr>send := send_search_command (\<lambda>t. (FileSearch_Request, [(''ticket'', PInt (int t)), (''query'', PStr txt)]))
       (\<lambda>t. new_request t txt SEARCH_NETWORK None None)\<rparr>"

definition UserSearchCommand :: "pystr \<Rightarrow> pystr \<Rightarrow> command" where
  "UserSearchCommand username txt = base_command\<lparr>send := send_search_command (\<lambda>t. (UserSearch_Request, [(''username'', PStr username), (''ticket'', PInt (int t)), (''query'', PStr txt)]))
       (\<lambda>t. new_request t txt SEARCH_USER None (Some username))\<rparr>"

definition RoomSearchCommand :: "pystr \<Rightarrow> pystr \<Rightarrow> command" where
  "RoomSearchCommand name txt = base_command\<lparr>send := send_search_command (\<lambda>t. (RoomSearch_Request, [(''room'', PStr name), (''ticket'', PInt (int t)), (''query'', PStr txt)]))
       (\<lambda>t. new_request t txt SEARCH_ROOM (Some name) None)\<rparr>"

definition PrivateMessageCommand :: "pystr \<Rightarrow> pystr \<Rightarrow> command" where
  "PrivateMessageCommand username message = base_command\<lparr>send := send_server (PrivateChatMessage_Request, [(''username'', PStr username), (''message'', PStr message)])\<rparr>"

definition PrivateMessageUsersCommand :: "pystr list \<Rightarrow> pystr \<Rightarrow> command" where
  "PrivateMessageUsersCommand usernames message = base_command\<lparr>send := send_server (PrivateChatMessageUsers_Request, [(''usernames'', PList (map PStr usernames)), (''message'', PStr message)])\<rparr>"

definition expect_own ::
    "(pystr \<Rightarrow> nat option \<Rightarrow> client \<Rightarrow> command_error + expected_response option) \<Rightarrow> nat option \<Rightarrow> client
     \<Rightarrow> command_error + expected_response option" where
  "expect_own f t c = (case client_session c of None \<Rightarrow> Inl Invalid_Session | Some me \<Rightarrow> f me t c)"

definition RoomMessageCommand :: "pystr \<Rightarrow> pystr \<Rightarrow> command" where
  "RoomMessageCommand name message = base_command\<lparr>send := send_server (RoomChatMessage_Request, [(''room'', PStr name), (''message'', PStr message)]),
     build_expected_response := expect_own (\<lambda>me. expect_server RoomChatMessage_Response [(''room'', PStr name), (''username'', PStr me), (''message'', PStr message)]),
     handle_response := (\<lambda>c attrs. (case client_session c of None \<Rightarrow> (Inl Invalid_Session, c)
       | Some me \<Rightarrow> (Inr (Message_Value me name message),
           (touch [me] c)\<lparr>client_chat := on_room name False id (client_chat (touch [me] c))\<rparr>)))\<rparr>"

definition SetRoomTickerCommand :: "pystr \<Rightarrow> pystr \<Rightarrow> command" where
  "SetRoomTickerCommand name ticker = base_command\<lparr>send := send_server (SetRoomTicker_Request, [(''room'', PStr name), (''ticker'', PStr ticker)]),
     build_expected_response := expect_own (\<lambda>me. expect_server RoomTickerAdded_Response [(''room'', PStr name), (''username'', PStr me), (''ticker'', PStr ticker)])\<rparr>"

definition AddInterestCommand :: "pystr \<Rightarrow> command" where
  "AddInterestCommand interest = base_command\<lparr>send := send_server (AddInterest_Request, [(''interest'', PStr interest)])\<rparr>"

definition AddHatedInterestCommand :: "pystr \<Rightarrow> command" where
  "AddHatedInterestCommand interest = base_command\<lparr>send := send_server (AddHatedInterest_Request, [(''hated_interest'', PStr interest)])\<rparr>"

definition RemoveInterestCommand :: "pystr \<Rightarrow> command" where
  "RemoveInterestCommand interest = base_command\<lparr>send := send_server (RemoveInterest_Request, [(''interest'', PStr interest)])\<rparr>"

definition RemoveHatedInterestCommand :: "pystr \<Rightarrow> command" where
  "RemoveHatedInterestCommand interest = base_command\<lparr>send := send_server (RemoveHatedInterest_Request, [(''hated_interest'', PStr interest)])\<rparr>"

definition GetUserInterestsCommand :: "pystr \<Rightarrow> command" where
  "GetUserInterestsCommand username = base_command\<lparr>send := send_server (GetUserInterests_Request, [(''username'', PStr username)]),
     build_expected_response := expect_server GetUserInterests_Response [(''username'', PStr username)],
     handle_response := pure_value (\<lambda>attrs. bindE (attribute attrs ''interests'') (\<lambda>liked.
       bindE (attribute attrs ''hated_interests'') (\<lambda>hated.
       Inr (Raw_Pair liked hated))))\<rparr>"

definition status_value :: "user_status \<Rightarrow> int" where
  "status_value st = (case st of STATUS_UNKNOWN \<Rightarrow> -1 | STATUS_OFFLINE \<Rightarrow> 0 | STATUS_AWAY \<Rightarrow> 1 | STATUS_ONLINE \<Rightarrow> 2)"

definition set_own_status :: "user_status \<Rightarrow> client \<Rightarrow> command_error + client" where
  \<comment> \<open>\<open>users.get_self().status = status\<close>\<close>
  "set_own_status st c = (case client_session c of None \<Rightarrow> Inl Invalid_Session
     | Some me \<Rightarrow> Inr (c\<lparr>client_chat := on_users (modify_user me (\<lambda>u. u\<lparr>status := st\<rparr>)) (client_chat c)\<rparr>))"

definition SetStatusCommand :: "user_status \<Rightarrow> command" where
  "SetStatusCommand st = base_command\<lparr>send := (\<lambda>delivered c. (case send_server (SetStatus_Request, [(''status'', PInt (status_value st))]) delivered c of
       (Inl e, sent, c1) \<Rightarrow> (Inl e, sent, c1)
     | (Inr t, sent, c1) \<Rightarrow> (case set_own_status st c1 of Inl e \<Rightarrow> (Inl e, sent, c1) | Inr c2 \<Rightarrow> (Inr t, sent, c2))))\<rparr>"

definition SetNewPasswordCommand :: "pystr \<Rightarrow> command" where
  "SetNewPasswordCommand password = base_command\<lparr>send := send_server (NewPassword_Request, [(''password'', PStr password)])\<rparr>"

definition CheckPrivilegesCommand :: "command" where
  "CheckPrivilegesCommand = base_command\<lparr>send := send_server (CheckPrivileges_Request, []),
     build_expected_response := expect_server CheckPrivileges_Response [],
     handle_response := pure_value (\<lambda>attrs. bindE (attribute attrs ''time_left'') (\<lambda>n.
       Inr (Raw_Value n)))\<rparr>"

definition GivePrivilegesCommand :: "pystr \<Rightarrow> int \<Rightarrow> command" where
  "GivePrivilegesCommand username days = base_command\<lparr>send := send_server (GiveUserPrivileges_Request, [(''username'', PStr username), (''days'', PInt days)])\<rparr>"

definition TrackUserCommand :: "pystr \<Rightarrow> command" where
  "TrackUserCommand username = base_command\<lparr>send := (\<lambda>_ c. (Inr None, [], c\<lparr>client_tracking := track_user username tracking_flag.REQUESTED (client_tracking c)\<rparr>)),
     build_expected_response := expect_server AddUser_Response [(''username'', PStr username)],
     handle_response := (\<lambda>c attrs. (case bindE (attribute attrs ''exists'') (\<lambda>ex. if truthy ex then bindE (attribute attrs ''username'') text_value else Inl No_Such_User) of
       Inl e \<Rightarrow> (Inl e, c)
     | Inr who \<Rightarrow> (Inr (User_Value who), touch [who] c)))\<rparr>"

definition UntrackUserCommand :: "pystr \<Rightarrow> command" where
  "UntrackUserCommand username = base_command\<lparr>send := (\<lambda>_ c. (Inr None, [], c\<lparr>client_tracking := untrack_user username tracking_flag.REQUESTED (client_tracking c)\<rparr>))\<rparr>"

definition PeerGetUserInfoCommand :: "pystr \<Rightarrow> command" where
  "PeerGetUserInfoCommand username = base_command\<lparr>send := send_peer username (PeerUserInfoRequest_Request, []),
     build_expected_response := expect_peer username PeerUserInfoReply_Request [],
     handle_response := pure_value (\<lambda>attrs. bindE (attribute attrs ''upload_permissions'') (\<lambda>perm.
       bindE (attribute attrs ''description'') (\<lambda>desc.
       bindE (attribute attrs ''has_picture'') (\<lambda>has_pic.
       bindE (attribute attrs ''picture'') (\<lambda>pic.
       bindE (attribute attrs ''has_slots_free'') (\<lambda>free.
       bindE (attribute attrs ''upload_slots'') (\<lambda>slots.
       bindE (attribute attrs ''queue_size'') (\<lambda>queued.
       
       (case (if perm = PNone then Inr PERMISSIONS_UNKNOWN else bindE (as_int perm) UploadPermissions) of Inl e \<Rightarrow> Inl (Python_Error e)
        | Inr p \<Rightarrow> Inr (User_Info desc (if truthy has_pic then pic else PNone) free slots queued p))))))))))\<rparr>"

definition PeerGetSharesCommand :: "pystr \<Rightarrow> command" where
  "PeerGetSharesCommand username = base_command\<lparr>send := send_peer username (PeerSharesRequest_Request, [(''ticket'', PNone)]),
     build_expected_response := expect_peer username PeerSharesReply_Request [],
     handle_response := pure_value (\<lambda>attrs. bindE (attribute attrs ''locked_directories'') (\<lambda>locked.
       bindE (attribute attrs ''directories'') (\<lambda>dirs.
       Inr (Raw_Pair dirs (if truthy locked then locked else PList [])))))\<rparr>"

definition PeerGetDirectoryContentCommand :: "pystr \<Rightarrow> pystr \<Rightarrow> command" where
  "PeerGetDirectoryContentCommand username dir = base_command\<lparr>send := (\<lambda>delivered c. (case draw_client_ticket c of (t, c1) \<Rightarrow>
       (case send_peer username (PeerDirectoryContentsRequest_Request, [(''ticket'', PInt (int t)), (''directory'', PStr dir)]) delivered c1 of
          (Inl e, sent, c2) \<Rightarrow> (Inl e, sent, c2)
        | (Inr _, sent, c2) \<Rightarrow> (Inr (Some t), sent, c2)))),
     build_expected_response := (\<lambda>t. expect_peer username PeerDirectoryContentsReply_Request
       [(''ticket'', case t of None \<Rightarrow> PNone | Some n \<Rightarrow> PInt (int n)), (''directory'', PStr dir)] t),
     handle_response := pure_value (\<lambda>attrs. bindE (attribute attrs ''directories'') (\<lambda>dirs.
       Inr (Raw_Value dirs)))\<rparr>"

subsection \<open>Executing a command\<close>

definition execute ::
    "command \<Rightarrow> bool \<Rightarrow> bool \<Rightarrow> incoming list \<Rightarrow> (client \<Rightarrow> client) \<Rightarrow> client
     \<Rightarrow> (command_error + command_value) \<times> command_output list \<times> client" where
  \<comment> \<open>\<open>received\<close>: the messages that arrive from the registration of the response until the timeout;
     \<open>meanwhile\<close>: what their handlers do to the client\<close>
  "execute cmd response delivered received meanwhile c =
     (if client_session c = None then (Inl Invalid_Session, [], c)
      else (case build_expected_response cmd None c of
          Inl e \<Rightarrow> (Inl e, [], c)
        | Inr expected \<Rightarrow>
            (case (if response then expected else None) of
              None \<Rightarrow> (case send cmd delivered c of
                  (Inl e, sent, c1) \<Rightarrow> (Inl e, sent, c1)
                | (Inr _, sent, c1) \<Rightarrow> (Inr No_Value, sent, c1))
            | Some er \<Rightarrow>
                let k = length (client_futures c);
                    c1 = c\<lparr>client_futures := client_futures c @ [er]\<rparr> in
                (case send cmd delivered c1 of
                  (Inl e, sent, c2) \<Rightarrow> (Inl e, sent, c2\<lparr>client_futures := take k (client_futures c2) @ drop (Suc k) (client_futures c2)\<rparr>)
                | (Inr _, sent, c2) \<Rightarrow>
                    let c3 = meanwhile c2 in
                    (case await_future k received (client_futures c2) of
                      (None, ers) \<Rightarrow> (Inl Response_Timeout, sent, c3\<lparr>client_futures := ers\<rparr>)
                    | (Some message, ers) \<Rightarrow>
                        (case handle_response cmd (c3\<lparr>client_futures := ers\<rparr>) (snd message) of
                          (v, c4) \<Rightarrow> (v, sent, c4)))))))"

subsection \<open>Session\<close>

record login_settings =
  login_username :: pystr
  login_password :: pystr
  reconnect_automatically :: bool
  md5_hex :: "pystr \<Rightarrow> pystr"  \<comment> \<open>\<open>calc_md5\<close>\<close>

definition CLIENT_VERSION :: int where "CLIENT_VERSION = 175"
definition MINOR_VERSION :: int where "MINOR_VERSION = 1"

definition login_request :: "login_settings \<Rightarrow> int \<Rightarrow> message_object" where
  "login_request s minor = (Login_Request, [(''username'', PStr (login_username s)), (''password'', PStr (login_password s)),
     (''client_version'', PInt CLIENT_VERSION), (''md5hash'', PStr (md5_hex s (login_username s @ login_password s))),
     (''minor_version'', PInt minor)])"

datatype login_error = Login_Not_Sent | Unexpected_Response | Authentication_Error pval | Login_Attribute_Error

datatype session_event = Session_Initialized pystr | Session_Destroyed pystr

definition login_response :: "message_object option \<Rightarrow> login_error + unit" where
  \<comment> \<open>what the first message of the server means; none when the server closed the connection\<close>
  "login_response response =
     (case response of
        None \<Rightarrow> Inl Unexpected_Response
      | Some (cls, attrs) \<Rightarrow>
          if cls \<noteq> Login_Response then Inl Unexpected_Response
          else (case map_of attrs ''success'' of
              None \<Rightarrow> Inl Login_Attribute_Error
            | Some v \<Rightarrow>
                if \<not> truthy v then
                  Inl (Authentication_Error (case map_of attrs ''reason'' of None \<Rightarrow> PStr []
                     | Some r \<Rightarrow> if truthy r then r else PStr []))
                else Inr ()))"

definition login ::
    "login_settings \<Rightarrow> bool \<Rightarrow> message_object option \<Rightarrow> client
     \<Rightarrow> (login_error + unit) \<times> session_event list \<times> client" where
  \<comment> \<open>after the event the reader of the server connection is started\<close>
  "login s sent response c =
     (if \<not> sent then (Inl Login_Not_Sent, [], c)
      else (case login_response response of
          Inl e \<Rightarrow> (Inl e, [], c)
        | Inr _ \<Rightarrow> (Inr (), [Session_Initialized (login_username s)],
                        (touch [login_username s] c)\<lparr>client_session := Some (login_username s)\<rparr>)))"

definition on_client_connection_state_changed ::
    "connection_class \<Rightarrow> connection_status \<Rightarrow> client \<Rightarrow> session_event list \<times> client" where
  "on_client_connection_state_changed cls st c =
     (if cls = ServerConnection \<and> st = CLOSED then
        (case client_session c of None \<Rightarrow> ([], c) | Some me \<Rightarrow> ([Session_Destroyed me], c\<lparr>client_session := None\<rparr>))
      else ([], c))"

definition on_server_reconnected ::
    "login_settings \<Rightarrow> bool \<Rightarrow> message_object option \<Rightarrow> client
     \<Rightarrow> (login_error + unit) \<times> session_event list \<times> client" where
  "on_server_reconnected s sent response c =
     (if reconnect_automatically s then login s sent response c else (Inr (), [], c))"

end
