(* ===== verification/Searches_Properties.thy ===== *)
theory Searches_Properties
  imports Searches Shares_Properties
begin

text \<open>
Properties of the searches: the requests and their timers in every run, the replies to the searches
  of others, the interval of the wishlist.
\<close>

subsection \<open>Runs of the manager\<close>

text \<open>The runs of the manager as long as its generator of tickets has not wrapped around, with two
  ghosts: the tickets whose requests were removed by \<open>remove_request\<close>, and every search received.\<close>

inductive search_run :: "search_settings \<Rightarrow> nat set \<Rightarrow> received_search list \<Rightarrow> searches \<Rightarrow> bool" for settings where
  Start: "search_run settings {} [] new_searches"
| Search: "search_run settings R H m \<Longrightarrow> searches_last_ticket m < MAX_TICKET \<Longrightarrow>
    search settings sent txt m = (r, out, m') \<Longrightarrow> search_run settings R H m'"
| Search_Room: "search_run settings R H m \<Longrightarrow> searches_last_ticket m < MAX_TICKET \<Longrightarrow>
    search_in_room settings sent room_name txt m = (r, out, m') \<Longrightarrow> search_run settings R H m'"
| Search_User: "search_run settings R H m \<Longrightarrow> searches_last_ticket m < MAX_TICKET \<Longrightarrow>
    search_user settings sent username txt m = (r, out, m') \<Longrightarrow> search_run settings R H m'"
| Wishlist: "search_run settings R H m \<Longrightarrow> searches_last_ticket m + length (wishlist settings) \<le> MAX_TICKET \<Longrightarrow>
    wishlist_job settings can_send m = (ok, out, m') \<Longrightarrow> search_run settings R H m'"
| Remove: "search_run settings R H m \<Longrightarrow> remove_request t m = (Inr (), m') \<Longrightarrow> search_run settings (insert t R) H m'"
| Timer: "search_run settings R H m \<Longrightarrow> t \<in> set (running_timers m) \<Longrightarrow>
    timeout_search_request t m = (res, out, m') \<Longrightarrow> search_run settings R H m'"
| Received: "search_run settings R H m \<Longrightarrow>
    query_shares_and_reply settings env info sh task t username txt m = (res, out, m') \<Longrightarrow>
    search_run settings R (H @ List.map_filter (\<lambda>e. case e of
      Search_Request_Received u q n \<Rightarrow> Some \<lparr>received_username = u, received_query = q, result_count = n\<rparr> | _ \<Rightarrow> None) out) m'"
| Result: "search_run settings R H m \<Longrightarrow> search_run settings R H (snd (on_search_reply settings result m))"
| Reply_Done: "search_run settings R H m \<Longrightarrow> search_run settings R H (search_reply_task_callback task m)"
| Inactivity: "search_run settings R H m \<Longrightarrow> search_run settings R H (on_search_inactivity_timeout n m)"
| Interval: "search_run settings R H m \<Longrightarrow> search_run settings R H (snd (on_wish_list_interval n m))"
| Phrases: "search_run settings R H m \<Longrightarrow> search_run settings R H (on_excluded_search_phrases phrases m)"
| State: "search_run settings R H m \<Longrightarrow> search_run settings R H (on_searches_state_changed cls st m)"
| Session: "search_run settings R H m \<Longrightarrow> search_run settings R H (on_searches_session_initialized me m)"
| No_Session: "search_run settings R H m \<Longrightarrow> search_run settings R H (on_searches_session_destroyed m)"
| Stop: "search_run settings R H m \<Longrightarrow> search_run settings R H (snd (snd (stop_searches m)))"

definition requests_ok :: "nat set \<Rightarrow> nat \<Rightarrow> (nat \<rightharpoonup> search_request) \<Rightarrow> nat list \<Rightarrow> bool" where
  "requests_ok R latest reqs timers \<longleftrightarrow> distinct timers
     \<and> (\<forall>t r. reqs t = Some r \<longrightarrow> search_ticket r = t \<and> (search_timer r \<noteq> None \<longleftrightarrow> t \<in> set timers) \<and> t \<notin> R)
     \<and> set timers \<subseteq> dom reqs \<union> R
     \<and> dom reqs \<union> R \<subseteq> {1<..latest} \<and> 0 < latest"

definition searches_ok :: "search_settings \<Rightarrow> nat set \<Rightarrow> received_search list \<Rightarrow> searches \<Rightarrow> bool" where
  "searches_ok settings R H m \<longleftrightarrow>
     requests_ok R (searches_last_ticket m) (map_of (requests m)) (running_timers m)
     \<and> distinct (map fst (requests m))
     \<and> received_searches m = drop (length H - store_amount settings) H"

lemma requests_ok_add:
  assumes "requests_ok R latest reqs timers" "search_ticket r = Suc latest"
  shows "requests_ok R (Suc latest) (reqs(Suc latest \<mapsto> r\<lparr>search_timer := timeout\<rparr>))
    (timers @ (if timeout = None then [] else [Suc latest]))"
proof -
  have fresh: "Suc latest \<notin> dom reqs \<union> R"
    using assms(1) by (auto simp: requests_ok_def)
  then have "Suc latest \<notin> set timers"
    using assms(1) unfolding requests_ok_def by blast
  with fresh show ?thesis
    using assms unfolding requests_ok_def by (auto simp: subset_iff)
qed

lemma requests_ok_Suc: "requests_ok R latest reqs timers \<Longrightarrow> requests_ok R (Suc latest) reqs timers"
  by (auto simp: requests_ok_def subset_iff)

lemma requests_ok_remove:
  "requests_ok R latest reqs timers \<Longrightarrow> reqs t \<noteq> None \<Longrightarrow> requests_ok (insert t R) latest (reqs(t := None)) timers"
  unfolding requests_ok_def by (auto simp: subset_iff)

lemma requests_ok_fire:
  "requests_ok R latest reqs timers \<Longrightarrow> requests_ok R latest (reqs(t := None)) (remove1 t timers)"
  unfolding requests_ok_def by (auto simp: subset_iff)

lemma requests_ok_result:
  "requests_ok R latest reqs timers \<Longrightarrow> reqs t = Some r \<Longrightarrow>
   requests_ok R latest (reqs(t \<mapsto> r\<lparr>search_results := rs\<rparr>)) timers"
  unfolding requests_ok_def by (auto simp: subset_iff)

lemma push_bounded_history:
  "push_bounded n x (drop (length H - n) H) = drop (length (H @ [x]) - n) (H @ [x])"
  by (cases "length H < n") (auto simp: push_bounded_def Suc_diff_le)

lemma draw_next: "searches_last_ticket m < MAX_TICKET \<Longrightarrow>
  draw_search_ticket m = (Suc (searches_last_ticket m), m\<lparr>searches_last_ticket := Suc (searches_last_ticket m)\<rparr>)"
  by (simp add: draw_search_ticket_def next_ticket_def Let_def)

lemma searches_ok_timer:
  assumes "searches_ok settings R H m" "search_ticket r = Suc (searches_last_ticket m)"
  shows "searches_ok settings R H (start_timer timeout r (m\<lparr>searches_last_ticket := Suc (searches_last_ticket m)\<rparr>))"
  using assms requests_ok_add [of R "searches_last_ticket m" "map_of (requests m)" "running_timers m" r timeout]
  by (cases timeout) (simp_all add: searches_ok_def start_timer_def update_conv' distinct_update)

lemma searches_ok_send:
  assumes "searches_ok settings R H m" "searches_last_ticket m < MAX_TICKET" "\<And>t. search_ticket (request t) = t"
    and "send_search settings sent message request m = (r, out, m')"
  shows "searches_ok settings R H m'"
  using assms searches_ok_timer [OF assms(1), of "request (Suc (searches_last_ticket m))"] requests_ok_Suc
  by (auto simp: send_search_def draw_next attach_request_timer_and_emit_def searches_ok_def split: if_splits)

lemma searches_ok_wishlist:
  assumes "searches_ok settings R H m" "searches_last_ticket m + length items \<le> MAX_TICKET"
    and "wishlist_searches timeout items m = (ok, out, m')"
  shows "searches_ok settings R H m'"
  using assms
proof (induction timeout items m arbitrary: ok out m' rule: wishlist_searches.induct)
  case (2 timeout qtext sent rest m)
  let ?m2 = "start_timer (if timeout \<noteq> 0 then Some timeout else None)
     (new_request (Suc (searches_last_ticket m)) qtext SEARCH_WISHLIST None None) (m\<lparr>searches_last_ticket := Suc (searches_last_ticket m)\<rparr>)"
  have d: "draw_search_ticket m = (Suc (searches_last_ticket m), m\<lparr>searches_last_ticket := Suc (searches_last_ticket m)\<rparr>)"
    by (rule draw_next) (use 2 in simp)
  have ok2: "searches_ok settings R H ?m2"
    by (rule searches_ok_timer [OF "2.prems"(1)]) (simp add: new_request_def)
  show ?case
  proof (cases sent)
    case True
    obtain ok3 out3 m3 where r: "wishlist_searches timeout rest ?m2 = (ok3, out3, m3)" by (metis prod_cases3)
    have "searches_ok settings R H m3"
      by (rule "2.IH" [OF d [symmetric] _ refl ok2 _ r]) (use True "2.prems"(2) in \<open>simp_all add: start_timer_def\<close>)
    then show ?thesis using "2.prems"(3) d r True by (simp add: Let_def)
  next
    case False
    then show ?thesis using "2.prems" d requests_ok_Suc by (auto simp: searches_ok_def)
  qed
qed simp

lemma searches_ok_fields:
  "searches_ok settings R H m \<Longrightarrow> searches_last_ticket m' = searches_last_ticket m \<Longrightarrow> requests m' = requests m \<Longrightarrow>
   running_timers m' = running_timers m \<Longrightarrow> received_searches m' = received_searches m \<Longrightarrow> searches_ok settings R H m'"
  by (simp add: searches_ok_def)

lemma searches_ok_run: "search_run settings R H m \<Longrightarrow> searches_ok settings R H m"
proof (induction rule: search_run.induct)
  case Start
  then show ?case by (simp add: searches_ok_def new_searches_def requests_ok_def)
next
  case (Search R H m sent qtext r out m')
  show ?case by (rule searches_ok_send [OF Search.IH Search.hyps(2) _ Search.hyps(3) [unfolded search_def]]) (simp add: new_request_def)
next
  case (Search_Room R H m sent room_name qtext r out m')
  show ?case by (rule searches_ok_send [OF Search_Room.IH Search_Room.hyps(2) _ Search_Room.hyps(3) [unfolded search_in_room_def]]) (simp add: new_request_def)
next
  case (Search_User R H m sent username qtext r out m')
  show ?case by (rule searches_ok_send [OF Search_User.IH Search_User.hyps(2) _ Search_User.hyps(3) [unfolded search_user_def]]) (simp add: new_request_def)
next
  case (Wishlist R H m can_send ok out m')
  obtain ok1 out1 m1 where w: "wishlist_searches (get_wishlist_request_timeout settings m)
      (map (\<lambda>(txt, en). (txt, can_send txt)) (filter snd (wishlist settings))) m = (ok1, out1, m1)" by (metis prod_cases3)
  have "searches_ok settings R H m1"
    by (rule searches_ok_wishlist [OF Wishlist.IH _ w], unfold length_map)
       (use Wishlist.hyps(2) length_filter_le [of snd "wishlist settings"] in linarith)
  then show ?case using Wishlist.hyps(3) w by (auto simp: wishlist_job_def elim: searches_ok_fields split: if_splits)
next
  case (Remove R H m t m')
  then show ?case using requests_ok_remove
    by (auto simp: remove_request_def searches_ok_def delete_conv' distinct_delete split: if_splits)
next
  case (Timer R H m t res out m')
  then show ?case using requests_ok_fire [of R "searches_last_ticket m" "map_of (requests m)" "running_timers m" t]
    by (auto simp: timeout_search_request_def searches_ok_def delete_conv' distinct_delete Let_def fun_upd_idem split: if_splits)
next
  case (Received R H m env info sh task t username qtext res out m')
  then show ?case using push_bounded_history [of "store_amount settings" _ H]
    by (auto simp: query_shares_and_reply_def searches_ok_def Let_def List.map_filter_simps
      split: option.splits if_splits sum.splits prod.splits)
next
  case (Result R H m res)
  then show ?case using requests_ok_result
    by (auto simp: on_search_reply_def searches_ok_def update_conv' distinct_update split: option.split)
qed (auto simp: search_reply_task_callback_def on_search_inactivity_timeout_def on_wish_list_interval_def
  on_excluded_search_phrases_def on_searches_state_changed_def on_searches_session_initialized_def
  on_searches_session_destroyed_def stop_searches_def Let_def elim!: searches_ok_fields
  split: prod.split option.split task_state.split)

subsection \<open>The requests and their timers\<close>


definition timed_settings :: search_settings where
  "timed_settings = \<lparr>store_results = True, request_timeout = 30, wishlist_request_timeout = -1,
     wishlist = [([119], True)], store_amount = 1, search_blocked = []\<rparr>"

definition removed_searches :: searches where
  \<comment> \<open>one global search, removed again\<close>
  "removed_searches = snd (remove_request 2 (snd (snd (search timed_settings True [113] new_searches))))"

lemma removed_searches_eq: "removed_searches = new_searches\<lparr>searches_last_ticket := 2, running_timers := [2]\<rparr>"
  by (simp add: removed_searches_def search_def send_search_def draw_search_ticket_def new_searches_def next_ticket_def
    MAX_TICKET_def attach_request_timer_and_emit_def start_timer_def new_request_def timed_settings_def remove_request_def)

lemma removed_searches_run: "search_run timed_settings {2} [] removed_searches"
proof -
  obtain r out m where s: "search timed_settings True [113] new_searches = (r, out, m)" by (metis prod_cases3)
  have run: "search_run timed_settings {} [] m"
    by (rule search_run.Search [OF search_run.Start _ s]) (simp add: new_searches_def MAX_TICKET_def)
  have "map_of (requests m) 2 \<noteq> None"
    using s by (auto simp: search_def send_search_def draw_search_ticket_def new_searches_def next_ticket_def
      MAX_TICKET_def attach_request_timer_and_emit_def start_timer_def new_request_def)
  then have "remove_request 2 m = (Inr (), removed_searches)"
    using s by (simp add: removed_searches_def remove_request_def)
  from search_run.Remove [OF run this] show ?thesis by simp
qed


text \<open>When the timer of a request runs out, the request is removed and its removal announced,
  unless \<open>remove_request\<close> took it before: that leaves the timer running, and its callback then fails
  with a \<open>KeyError\<close>.\<close>

theorem timer_of_a_removed_request_raises:
  assumes "search_run settings R H m" "t \<in> set (running_timers m)"
  shows "timeout_search_request t m =
    (if t \<in> R then (Inl KeyError, [], m\<lparr>running_timers := remove1 t (running_timers m)\<rparr>)
     else (Inr (), [Search_Request_Removed t],
           m\<lparr>running_timers := remove1 t (running_timers m), requests := AList.delete t (requests m)\<rparr>))"
proof -
  have inv: "requests_ok R (searches_last_ticket m) (map_of (requests m)) (running_timers m)"
    using searches_ok_run [OF assms(1)] by (simp add: searches_ok_def)
  have "t \<in> R \<longleftrightarrow> map_of (requests m) t = None"
  proof (cases "map_of (requests m) t")
    case None
    then show ?thesis using inv assms(2) unfolding requests_ok_def by blast
  next
    case (Some r)
    then show ?thesis using inv unfolding requests_ok_def by simp
  qed
  then show ?thesis by (simp add: timeout_search_request_def Let_def)
qed

lemma timer_of_a_removed_request_raises_witness:
  "fst (timeout_search_request 2 removed_searches) = Inl KeyError"
  using timer_of_a_removed_request_raises [OF removed_searches_run, of 2] by (simp add: removed_searches_eq)

subsection \<open>Replies to searches\<close>



subsection \<open>The interval of the wishlist\<close>

definition deliver_interval ::
    "nat \<Rightarrow> ('l \<Rightarrow> 's \<Rightarrow> outcome \<times> 's) \<Rightarrow> 'l option \<Rightarrow> searches \<times> 's \<Rightarrow> outcome \<times> searches \<times> 's" where
  \<comment> \<open>the listeners of a \<open>WishlistInterval\<close> message: the search manager (\<open>None\<close>) and others\<close>
  "deliver_interval i others l s = (case l of
     None \<Rightarrow> (case on_wish_list_interval i (fst s) of (res, m) \<Rightarrow> (res, m, snd s))
   | Some l' \<Rightarrow> (case others l' (snd s) of (res, s') \<Rightarrow> (res, fst s, s')))"

text \<open>A second \<open>WishlistInterval\<close> message of a session stops the wishlist instead of changing its
  interval: the handler waits for the task it has cancelled, the \<open>CancelledError\<close> leaves it and the
  emission of the event, no later listener is called and no task is started again.\<close>

theorem second_wishlist_interval_cancels:
  assumes "wishlist_task m = No_Task" "deliver_interval i others None (m, s) = (r1, m1, s1)"
    and "listeners_for ev bus = None # ls"
  shows "r1 = Done \<and> wishlist_task m1 = Task_Running \<and>
    emit_event (deliver_interval j others) ev bus (m1, s1) =
      (Cancelled, m1\<lparr>wishlist_interval := Some j, wishlist_task := No_Task\<rparr>, s)"
  using assms
  by (auto simp: deliver_interval_def on_wish_list_interval_def background_cancel_def background_start_def
    emit_event_def Let_def)

lemma second_wishlist_interval_cancels_witness:
  "\<exists>m1. deliver_interval 720 (\<lambda>l :: nat. \<lambda>s. (Done, s @ [l])) None (new_searches, []) = (Done, m1, []) \<and>
    emit_event (deliver_interval 600 (\<lambda>l :: nat. \<lambda>s. (Done, s @ [l]))) () (fold bus_step [Register () None 1, Register () (Some 3) 2] new_bus)
      (m1, []) = (Cancelled, m1\<lparr>wishlist_interval := Some 600, wishlist_task := No_Task\<rparr>, [])"
proof -
  obtain r1 m1 s1 where d: "deliver_interval 720 (\<lambda>l :: nat. \<lambda>s. (Done, s @ [l])) None (new_searches, []) = (r1, m1, s1)"
    by (metis prod_cases3)
  have l: "listeners_for () (fold bus_step [Register () None 1, Register () (Some (3 :: nat)) 2] new_bus) = None # [Some 3]"
    by (simp add: listeners_for_def register_def new_bus_def)
  have "s1 = []"
    using d by (simp add: deliver_interval_def split: prod.splits)
  then show ?thesis
    using second_wishlist_interval_cancels [OF _ d l, of 600] d by (simp add: new_searches_def)
qed

end
