(* ===== verification/Commands_Properties.thy ===== *)
theory Commands_Properties
  imports Commands Searches_Properties
begin

text \<open>
Properties of the commands: the types of requests and expected responses, what \<open>execute\<close> returns, and
  two ways in which tickets go wrong.
\<close>

subsection \<open>Types of requests and responses\<close>

definition well_formed_message :: "message_object \<Rightarrow> bool" where
  \<comment> \<open>it has the fields of its class and can be serialized\<close>
  "well_formed_message m \<longleftrightarrow> map fst (snd m) = map fname (msg_fields (fst m))
     \<and> (\<exists>bs. serialize_fields (msg_fields (fst m)) (snd m) = Inr bs)"

definition well_formed_check :: "msg_class \<Rightarrow> string \<times> field_check \<Rightarrow> bool" where
  \<comment> \<open>the field exists and can have the value\<close>
  "well_formed_check cls check \<longleftrightarrow> (\<exists>f \<in> set (msg_fields cls). fname f = fst check
     \<and> (case snd check of Equals v \<Rightarrow> has_type (ftype f) v | Satisfies p \<Rightarrow> True))"

definition client_ok :: "client \<Rightarrow> bool" where
  "client_ok c \<longleftrightarrow> client_last_ticket c \<le> MAX_TICKET \<and> (\<forall>me. client_session c = Some me \<longrightarrow> text_ok me)"

definition output_ok :: "command_output \<Rightarrow> bool" where
  "output_ok out = (case out of Sent_Server m \<Rightarrow> fst m \<in> set server_requests \<and> well_formed_message m
     | Sent_Peer _ m \<Rightarrow> fst m \<in> set peer_messages \<and> well_formed_message m)"

definition expected_ok :: "expected_response \<Rightarrow> bool" where
  "expected_ok er \<longleftrightarrow> er_message er \<in> set (if er_class er = ServerConnection then server_responses else peer_messages)
     \<and> list_all (well_formed_check (er_message er)) (er_fields er)"

definition sends_well :: "command \<Rightarrow> bool" where
  "sends_well cmd \<longleftrightarrow> (\<forall>delivered c. client_ok c \<longrightarrow> list_all output_ok (fst (snd (send cmd delivered c))))"

definition expects_well :: "command \<Rightarrow> bool" where
  "expects_well cmd \<longleftrightarrow> (\<forall>t c er. t \<le> MAX_TICKET \<longrightarrow> client_ok c \<longrightarrow>
     build_expected_response cmd (Some t) c = Inr (Some er) \<longrightarrow> expected_ok er)"

text \<open>All classes of commands.\<close>

definition all_commands :: "pystr \<Rightarrow> pystr \<Rightarrow> pystr \<Rightarrow> pystr list \<Rightarrow> bool \<Rightarrow> int \<Rightarrow> user_status \<Rightarrow> command list" where
  "all_commands who name message names flag days st = [
     GetUserStatusCommand who, GetUserStatsCommand who, GetRoomListCommand, JoinRoomCommand name flag, LeaveRoomCommand name,
     GrantRoomMembershipCommand name who, RevokeRoomMembershipCommand name who, DropRoomMembershipCommand name,
     DropRoomOwnershipCommand name, GetItemRecommendationsCommand message, GetRecommendationsCommand,
     GetGlobalRecommendationsCommand, GetItemSimilarUsersCommand message, GetSimilarUsersCommand, GetPeerAddressCommand who,
     GrantRoomOperatorCommand name who, RevokeRoomOperatorCommand name who, TogglePublicChatCommand flag,
     TogglePrivateRoomInvitesCommand flag, GlobalSearchCommand message, UserSearchCommand who message,
     RoomSearchCommand name message, PrivateMessageCommand who message, PrivateMessageUsersCommand names message,
     RoomMessageCommand name message, SetRoomTickerCommand name message, AddInterestCommand message,
     AddHatedInterestCommand message, RemoveInterestCommand message, RemoveHatedInterestCommand message,
     GetUserInterestsCommand who, SetStatusCommand st, SetNewPasswordCommand message, CheckPrivilegesCommand,
     GivePrivilegesCommand who days, TrackUserCommand who, UntrackUserCommand who, PeerGetUserInfoCommand who,
     PeerGetSharesCommand who, PeerGetDirectoryContentCommand who message]"

lemma well_formedI:
  assumes "fst m \<in> set server_requests \<or> fst m \<in> set peer_messages" "conforming (msg_fields (fst m)) (snd m) (snd m)"
  shows "well_formed_message m"
  using schema_round_trip [OF _ assms(2)] conforming_names [OF assms(2)] server_req.member(1) peer.member(1) assms(1)
  unfolding well_formed_message_def by blast

lemma server_output:
  "fst m \<in> set server_requests \<Longrightarrow> conforming (msg_fields (fst m)) (snd m) (snd m) \<Longrightarrow> output_ok (Sent_Server m)"
  by (simp add: output_ok_def well_formedI)

lemma send_server_well:
  assumes "send cmd = send_server m" "output_ok (Sent_Server m)"
  shows "sends_well cmd"
  using assms by (simp add: sends_well_def send_server_def)

lemma next_ticket_le: "t \<le> MAX_TICKET \<Longrightarrow> next_ticket 1 t \<le> MAX_TICKET"
  by (simp add: next_ticket_def MAX_TICKET_def)

lemma send_search_well:
  assumes "send cmd = send_search_command message request" "\<And>t. t \<le> MAX_TICKET \<Longrightarrow> output_ok (Sent_Server (message t))"
  shows "sends_well cmd"
  using assms next_ticket_le by (auto simp: sends_well_def send_search_command_def draw_client_ticket_def Let_def client_ok_def)

lemma request_outputs:
  assumes "text_ok username" "text_ok name" "text_ok message" "text_ok item" "text_ok interest" "text_ok password" "text_ok ticker"
    and "list_all text_ok usernames" "length usernames < 4294967296" "0 \<le> days" "days < 4294967296" "st \<noteq> STATUS_UNKNOWN"
  shows "output_ok (Sent_Server (GetUserStatus_Request, [(''username'', PStr username)]))"
    "output_ok (Sent_Server (GetUserStats_Request, [(''username'', PStr username)]))"
    "output_ok (Sent_Server (RoomList_Request, []))"
    "output_ok (Sent_Server (LeaveRoom_Request, [(''room'', PStr name)]))"
    "output_ok (Sent_Server (PrivateRoomGrantMembership_Request, [(''room'', PStr name), (''username'', PStr username)]))"
    "output_ok (Sent_Server (PrivateRoomRevokeMembership_Request, [(''room'', PStr name), (''username'', PStr username)]))"
    "output_ok (Sent_Server (PrivateRoomDropMembership_Request, [(''room'', PStr name)]))"
    "output_ok (Sent_Server (PrivateRoomDropOwnership_Request, [(''room'', PStr name)]))"
    "output_ok (Sent_Server (GetItemRecommendations_Request, [(''item'', PStr item)]))"
    "output_ok (Sent_Server (GetRecommendations_Request, []))"
    "output_ok (Sent_Server (GetGlobalRecommendations_Request, []))"
    "output_ok (Sent_Server (GetItemSimilarUsers_Request, [(''item'', PStr item)]))"
    "output_ok (Sent_Server (GetSimilarUsers_Request, []))"
    "output_ok (Sent_Server (GetPeerAddress_Request, [(''username'', PStr username)]))"
    "output_ok (Sent_Server (PrivateRoomGrantOperator_Request, [(''room'', PStr name), (''username'', PStr username)]))"
    "output_ok (Sent_Server (PrivateRoomRevokeOperator_Request, [(''room'', PStr name), (''username'', PStr username)]))"
    "output_ok (Sent_Server (TogglePrivateRoomInvites_Request, [(''enable'', PBool enable)]))"
    "output_ok (Sent_Server (PrivateChatMessage_Request, [(''username'', PStr username), (''message'', PStr message)]))"
    "output_ok (Sent_Server (PrivateChatMessageUsers_Request, [(''usernames'', PList (map PStr usernames)), (''message'', PStr message)]))"
    "output_ok (Sent_Server (RoomChatMessage_Request, [(''room'', PStr name), (''message'', PStr message)]))"
    "output_ok (Sent_Server (SetRoomTicker_Request, [(''room'', PStr name), (''ticker'', PStr ticker)]))"
    "output_ok (Sent_Server (AddInterest_Request, [(''interest'', PStr interest)]))"
    "output_ok (Sent_Server (AddHatedInterest_Request, [(''hated_interest'', PStr interest)]))"
    "output_ok (Sent_Server (RemoveInterest_Request, [(''interest'', PStr interest)]))"
    "output_ok (Sent_Server (RemoveHatedInterest_Request, [(''hated_interest'', PStr interest)]))"
    "output_ok (Sent_Server (GetUserInterests_Request, [(''username'', PStr username)]))"
    "output_ok (Sent_Server (NewPassword_Request, [(''password'', PStr password)]))"
    "output_ok (Sent_Server (CheckPrivileges_Request, []))"
    "output_ok (Sent_Server (GiveUserPrivileges_Request, [(''username'', PStr username), (''days'', PInt days)]))"
  by (rule server_output, simp add: server_requests_def,
      simp add: server_request_defs active_def fits_def list_all_iff assms [unfolded list_all_iff])+

lemma other_outputs:
  assumes "text_ok username" "text_ok name" "text_ok txt" "t \<le> MAX_TICKET"
  shows "output_ok (Sent_Server ((if enable then EnablePublicChat_Request else DisablePublicChat_Request), []))"
    "st \<noteq> STATUS_UNKNOWN \<Longrightarrow> output_ok (Sent_Server (SetStatus_Request, [(''status'', PInt (status_value st))]))"
    "output_ok (Sent_Server (FileSearch_Request, [(''ticket'', PInt (int t)), (''query'', PStr txt)]))"
    "output_ok (Sent_Server (UserSearch_Request, [(''username'', PStr username), (''ticket'', PInt (int t)), (''query'', PStr txt)]))"
    "output_ok (Sent_Server (RoomSearch_Request, [(''room'', PStr name), (''ticket'', PInt (int t)), (''query'', PStr txt)]))"
proof -
  have t: "t \<le> 4294967295" using assms(4) by (simp add: MAX_TICKET_def)
  show "output_ok (Sent_Server ((if enable then EnablePublicChat_Request else DisablePublicChat_Request), []))"
    by (cases enable) (rule server_output; simp add: server_requests_def; simp add: server_request_defs)+
  show "st \<noteq> STATUS_UNKNOWN \<Longrightarrow> output_ok (Sent_Server (SetStatus_Request, [(''status'', PInt (status_value st))]))"
    by (rule server_output, simp add: server_requests_def)
      (cases st, simp_all add: server_request_defs active_def fits_def status_value_def)
  show "output_ok (Sent_Server (FileSearch_Request, [(''ticket'', PInt (int t)), (''query'', PStr txt)]))"
    "output_ok (Sent_Server (UserSearch_Request, [(''username'', PStr username), (''ticket'', PInt (int t)), (''query'', PStr txt)]))"
    "output_ok (Sent_Server (RoomSearch_Request, [(''room'', PStr name), (''ticket'', PInt (int t)), (''query'', PStr txt)]))"
    by (rule server_output, simp add: server_requests_def,
      use t in \<open>simp add: server_request_defs active_def fits_def assms\<close>)+
qed

lemma join_output: "text_ok name \<Longrightarrow> output_ok (Sent_Server (JoinRoom_Request, [(''room'', PStr name), (''is_private'', PBool priv)]))"
proof -
  assume "text_ok name"
  then obtain bs where "string_serialize name = Inr bs" using string.serialize_total by blast
  then show ?thesis
    by (cases priv) (simp_all add: output_ok_def server_requests_def well_formed_message_def JoinRoom_Request_def
      get_value_for_field_def getattr_def get_or_def uint32_serialize_def struct_pack_def)
qed

lemma peer_outputs:
  assumes "text_ok dir" "t \<le> MAX_TICKET"
  shows "output_ok (Sent_Peer u (PeerUserInfoRequest_Request, []))"
    "output_ok (Sent_Peer u (PeerSharesRequest_Request, [(''ticket'', PNone)]))"
    "output_ok (Sent_Peer u (PeerDirectoryContentsRequest_Request, [(''ticket'', PInt (int t)), (''directory'', PStr dir)]))"
proof -
  have peer: "fst m \<in> set peer_messages \<Longrightarrow> conforming (msg_fields (fst m)) (snd m) (snd m) \<Longrightarrow> output_ok (Sent_Peer u m)" for m
    by (simp add: output_ok_def well_formedI)
  show "output_ok (Sent_Peer u (PeerUserInfoRequest_Request, []))"
    "output_ok (Sent_Peer u (PeerSharesRequest_Request, [(''ticket'', PNone)]))"
    "output_ok (Sent_Peer u (PeerDirectoryContentsRequest_Request, [(''ticket'', PInt (int t)), (''directory'', PStr dir)]))"
    by (rule peer, simp add: peer_messages_def,
      use assms in \<open>simp add: peer_defs active_def fits_def silent_def MAX_TICKET_def\<close>)+
qed

lemma expect_server_well:
  assumes "build_expected_response cmd = expect_server message checks" "message \<in> set server_responses"
    and "list_all (\<lambda>(n, v). well_formed_check message (n, Equals v)) checks"
  shows "expects_well cmd"
  using assms by (auto simp: expects_well_def expect_server_def new_expected_def expected_ok_def list_all_iff)

lemma expect_own_well:
  assumes "build_expected_response cmd = expect_own (\<lambda>me. expect_server message (checks me))" "message \<in> set server_responses"
    and checks: "\<And>me. text_ok me \<Longrightarrow> list_all (\<lambda>(n, v). well_formed_check message (n, Equals v)) (checks me)"
  shows "expects_well cmd"
  unfolding expects_well_def
proof (intro allI impI)
  fix t c er
  assume c: "client_ok c" and e: "build_expected_response cmd (Some t) c = Inr (Some er)"
  then obtain me where "client_session c = Some me" "text_ok me"
    using assms(1) by (auto simp: expect_own_def client_ok_def split: option.splits)
  then show "expected_ok er"
    using e assms(1,2) checks [of me]
    by (auto simp: expect_own_def expect_server_def new_expected_def expected_ok_def list_all_iff)
qed

lemma expect_nothing_well: "build_expected_response cmd = (\<lambda>_ _. Inr None) \<Longrightarrow> expects_well cmd"
  by (simp add: expects_well_def)

lemmas server_commands = GetUserStatusCommand_def GetUserStatsCommand_def GetRoomListCommand_def JoinRoomCommand_def
  LeaveRoomCommand_def GrantRoomMembershipCommand_def RevokeRoomMembershipCommand_def DropRoomMembershipCommand_def
  DropRoomOwnershipCommand_def GetItemRecommendationsCommand_def GetRecommendationsCommand_def
  GetGlobalRecommendationsCommand_def GetItemSimilarUsersCommand_def GetSimilarUsersCommand_def GetPeerAddressCommand_def
  GrantRoomOperatorCommand_def RevokeRoomOperatorCommand_def TogglePublicChatCommand_def TogglePrivateRoomInvitesCommand_def
  PrivateMessageCommand_def PrivateMessageUsersCommand_def RoomMessageCommand_def SetRoomTickerCommand_def
  AddInterestCommand_def AddHatedInterestCommand_def RemoveInterestCommand_def RemoveHatedInterestCommand_def
  GetUserInterestsCommand_def SetNewPasswordCommand_def CheckPrivilegesCommand_def GivePrivilegesCommand_def
  TrackUserCommand_def UntrackUserCommand_def base_command_def

lemmas search_commands = GlobalSearchCommand_def UserSearchCommand_def RoomSearchCommand_def SetStatusCommand_def base_command_def

lemmas peer_commands = PeerGetUserInfoCommand_def PeerGetSharesCommand_def PeerGetDirectoryContentCommand_def base_command_def

lemma commands_send_well:
  assumes "text_ok who" "text_ok name" "text_ok message" "list_all text_ok names" "length names < 4294967296"
    and "0 \<le> days" "days < 4294967296" "st \<noteq> STATUS_UNKNOWN"
  shows "list_all sends_well (all_commands who name message names flag days st)"
proof -
  note out = request_outputs [where username = who and name = name and message = message and item = message and interest = message
    and password = message and ticker = message and usernames = names and days = days and st = st, OF assms(1-3,3,3,3,3-8)]
    other_outputs [OF assms(1,2,3), of 0, simplified] join_output [OF assms(2)] other_outputs(2) [OF assms(1,2,3), of 0, simplified, OF assms(8)]
  have t0: "0 \<le> MAX_TICKET" by simp
  have peer: "sends_well cmd" if "send cmd = send_peer u m" "output_ok (Sent_Peer u m)" for cmd u m
    using that by (simp add: sends_well_def send_peer_def)
  have search: "sends_well (GlobalSearchCommand message)" "sends_well (UserSearchCommand who message)" "sends_well (RoomSearchCommand name message)"
    using other_outputs(3-5) [OF assms(1,2,3)]
    by (auto intro!: send_search_well simp: search_commands)
  have status: "sends_well (SetStatusCommand st)"
    using out by (auto simp: sends_well_def search_commands send_server_def set_own_status_def split: option.split)
  have peers: "sends_well (PeerGetUserInfoCommand who)" "sends_well (PeerGetSharesCommand who)"
    using peer_outputs(1,2) [OF assms(3) t0, of who] by (auto intro!: peer simp: peer_commands)
  have dir: "sends_well (PeerGetDirectoryContentCommand who message)"
    using peer_outputs(3) [OF assms(3)] next_ticket_le
    by (auto simp: sends_well_def peer_commands send_peer_def draw_client_ticket_def Let_def client_ok_def)
  have untouched: "sends_well (TrackUserCommand who)" "sends_well (UntrackUserCommand who)"
    by (simp_all add: sends_well_def server_commands)
  show ?thesis
    unfolding all_commands_def list.pred_inject
    by (intro conjI search status peers dir untouched list.pred_inject(1))
      (rule send_server_well, simp add: server_commands, simp add: out)+
qed

lemma commands_expect_well:
  assumes "text_ok who" "text_ok name" "text_ok message"
  shows "list_all expects_well (all_commands who name message names flag days st)"
proof -
  have dir: "expects_well (PeerGetDirectoryContentCommand who message)"
    using assms(3)
    by (auto simp: expects_well_def peer_commands expect_peer_def new_expected_def expected_ok_def peer_messages_def
      well_formed_check_def PeerDirectoryContentsReply_Request_def fits_def MAX_TICKET_def)
  have peers: "expects_well (PeerGetUserInfoCommand who)" "expects_well (PeerGetSharesCommand who)"
    by (auto simp: expects_well_def peer_commands expect_peer_def new_expected_def expected_ok_def peer_messages_def)
  have own: "expects_well (RoomMessageCommand name message)" "expects_well (SetRoomTickerCommand name message)"
    using assms
    by (auto intro!: expect_own_well simp: server_commands server_responses_def well_formed_check_def
      RoomChatMessage_Response_def RoomTickerAdded_Response_def)
  show ?thesis
    unfolding all_commands_def list.pred_inject
    by (intro conjI dir peers own list.pred_inject(1))
      ((rule expect_nothing_well, simp add: server_commands search_commands; fail)
       | (rule expect_server_well, simp add: server_commands, simp add: server_responses_def,
          use assms in \<open>simp add: well_formed_check_def server_response_defs\<close>))+
qed



subsection \<open>The response of a command\<close>

abbreviation pending :: "expected_response list \<Rightarrow> bool" where
  "pending ers \<equiv> list_all (\<lambda>er. \<not> er_done er) ers"

definition complete_one :: "incoming \<Rightarrow> expected_response \<Rightarrow> expected_response" where
  "complete_one msg er = (case msg of (cls, username, message) \<Rightarrow>
     if response_matches er cls username message then er\<lparr>er_done := True, er_result := Some message\<rparr> else er)"

lemma complete_pending:
  "pending ers \<Longrightarrow> complete_responses cls username message ers = (True, map (complete_one (cls, username, message)) ers)"
  by (induction ers) (simp_all add: complete_one_def)

lemma await_pending:
  assumes "pending ers" "k < length ers"
  shows "fst (await_future k received ers) = map_option (snd \<circ> snd)
     (find (\<lambda>(cls, username, message). response_matches (ers ! k) cls username message) received)"
  using assms
proof (induction received arbitrary: k ers)
  case (Cons msg received)
  obtain cls username message where msg: "msg = (cls, username, message)" by (metis prod_cases3)
  let ?ers1 = "map (complete_one msg) ers"
  have one: "er_done (complete_one msg er) \<longleftrightarrow> er_done er \<or> response_matches er cls username message"
    "response_matches er cls username message \<Longrightarrow> er_result (complete_one msg er) = Some message"
    "\<not> response_matches er cls username message \<Longrightarrow> complete_one msg er = er" for er
    by (simp_all add: complete_one_def msg)
  have k: "\<not> er_done (ers ! k)" "?ers1 ! k = complete_one msg (ers ! k)"
    using Cons.prems by (simp_all add: list_all_length)
  show ?case
  proof (cases "response_matches (ers ! k) cls username message")
    case True
    then show ?thesis using k one(1,2) by (simp add: msg complete_pending [OF Cons.prems(1)])
  next
    case False
    let ?k' = "length (run_response_callbacks (take k ?ers1))"
    have split: "run_response_callbacks ?ers1 = run_response_callbacks (take k ?ers1) @ (ers ! k) # run_response_callbacks (drop (Suc k) ?ers1)"
      using id_take_nth_drop [of k ?ers1] Cons.prems(2) k one(1,3) False
      by (simp add: run_response_callbacks_def filter_append [symmetric] del: filter_append)
         (metis (no_types, lifting) filter.simps(2) filter_append)
    then have "pending (run_response_callbacks ?ers1)" "?k' < length (run_response_callbacks ?ers1)"
      "run_response_callbacks ?ers1 ! ?k' = ers ! k"
      using k(1) by (auto simp: run_response_callbacks_def list_all_iff)
    then show ?thesis
      using Cons.IH [of "run_response_callbacks ?ers1" ?k'] False k one(3)
      by (simp add: msg complete_pending [OF Cons.prems(1)])
  qed
qed simp

definition first_match :: "expected_response \<Rightarrow> incoming list \<Rightarrow> message_object option" where
  "first_match er received = map_option (snd \<circ> snd) (find (\<lambda>(cls, username, message). response_matches er cls username message) received)"

lemma execute_expected:
  assumes "client_session c \<noteq> None" "build_expected_response cmd None c = Inr (Some er)" "\<not> er_done er"
    and "pending (client_futures c)" "\<And>c. client_futures (snd (snd (send cmd delivered c))) = client_futures c"
    and "send cmd delivered (c\<lparr>client_futures := client_futures c @ [er]\<rparr>) = (Inr t, sent, c2)"
  shows "\<exists>ers. execute cmd True delivered received meanwhile c =
    (case first_match er received of
       None \<Rightarrow> (Inl Response_Timeout, sent, (meanwhile c2)\<lparr>client_futures := ers\<rparr>)
     | Some message \<Rightarrow> (case handle_response cmd ((meanwhile c2)\<lparr>client_futures := ers\<rparr>) (snd message) of (v, c4) \<Rightarrow> (v, sent, c4)))"
proof -
  have f: "client_futures c2 = client_futures c @ [er]"
    using assms(5) [of "c\<lparr>client_futures := client_futures c @ [er]\<rparr>"] assms(6) by simp
  have "fst (await_future (length (client_futures c)) received (client_futures c2)) = first_match er received"
    unfolding f first_match_def using await_pending [of "client_futures c @ [er]" "length (client_futures c)" received] assms(3,4)
    by simp
  then obtain ers where "await_future (length (client_futures c)) received (client_futures c2) = (first_match er received, ers)"
    by (metis prod.collapse)
  then show ?thesis
    using assms(1,2,6) by (intro exI [of _ ers]) (auto simp: execute_def Let_def split: option.split prod.split)
qed

definition keeps_futures :: "command \<Rightarrow> bool" where
  "keeps_futures cmd \<longleftrightarrow> (\<forall>delivered c. client_futures (snd (snd (send cmd delivered c))) = client_futures c)"

lemma commands_keep_futures: "list_all keeps_futures (all_commands who name message names flag days st)"
  by (simp add: all_commands_def keeps_futures_def server_commands search_commands peer_commands send_server_def send_peer_def
    send_search_command_def draw_client_ticket_def set_own_status_def Let_def split: option.split)

text \<open>C38: Executing a command that expects a response, and whose message is delivered, gives what the
  command makes of the first message that matches, in the state the handlers of the messages have
  left; when no message matches it times out. No message that does not match, and none that comes
  later, has an influence on the value.\<close>

theorem execute_takes_the_first_response:
  assumes "cmd \<in> set (all_commands who name message names flag days st)" "client_session c \<noteq> None"
    and "build_expected_response cmd None c = Inr (Some er)" "pending (er # client_futures c)"
    and "send cmd True (c\<lparr>client_futures := client_futures c @ [er]\<rparr>) = (Inr t, sent, c2)"
  shows "\<exists>ers. execute cmd True True received meanwhile c =
    (case first_match er received of
       None \<Rightarrow> (Inl Response_Timeout, sent, (meanwhile c2)\<lparr>client_futures := ers\<rparr>)
     | Some response \<Rightarrow> (case handle_response cmd ((meanwhile c2)\<lparr>client_futures := ers\<rparr>) (snd response) of (v, c4) \<Rightarrow> (v, sent, c4)))"
  using execute_expected [OF assms(2,3) _ _ _ assms(5), of received meanwhile] assms(1,4) commands_keep_futures
  by (auto simp: list_all_iff keeps_futures_def)

definition session_client :: client where
  "session_client = \<lparr>client_session = Some [117], client_last_ticket = 1, client_requests = [],
     client_chat = \<lparr>rooms_of = [([114], new_room False)], users_of = no_users\<rparr>, client_tracking = Map.empty, client_futures = []\<rparr>"

lemma execute_takes_the_first_response_witness:
  "fst (execute (JoinRoomCommand [114] False) True True
      [(ServerConnection, None, JoinRoom_Response, [(''room'', PStr [113])]), (ServerConnection, None, JoinRoom_Response, [(''room'', PStr [114])])]
      id session_client) = Inr (Room_Value [114])"
proof -
  let ?er = "new_expected ServerConnection JoinRoom_Response None [(''room'', Equals (PStr [114]))]"
  let ?received = "[(ServerConnection, None, JoinRoom_Response, [(''room'', PStr [113])]),
    (ServerConnection, None, JoinRoom_Response, [(''room'', PStr [114])])]"
  have cmd: "JoinRoomCommand [114] False \<in> set (all_commands [] [114] [] [] False 0 STATUS_AWAY)"
    by (simp add: all_commands_def)
  have er: "build_expected_response (JoinRoomCommand [114] False) None session_client = Inr (Some ?er)"
    by (simp add: server_commands expect_server_def)
  obtain t sent c2 where s: "send (JoinRoomCommand [114] False) True (session_client\<lparr>client_futures := client_futures session_client @ [?er]\<rparr>)
      = (Inr t, sent, c2)" "rooms_of (client_chat c2) = [([114], new_room False)]"
    by (simp add: server_commands send_server_def session_client_def)
  have m: "first_match ?er ?received = Some (JoinRoom_Response, [(''room'', PStr [114])])"
    by (simp add: first_match_def response_matches_def new_expected_def)
  obtain ers where "execute (JoinRoomCommand [114] False) True True ?received id session_client =
      (case handle_response (JoinRoomCommand [114] False) (c2\<lparr>client_futures := ers\<rparr>) [(''room'', PStr [114])] of (v, c4) \<Rightarrow> (v, sent, c4))"
    using execute_takes_the_first_response [OF cmd _ er _ s(1), of ?received id] m
    by (auto simp: session_client_def new_expected_def)
  then show ?thesis
    using s(2) by (simp add: server_commands handle_room_def room_object_def attribute_def getattr_def get_or_def)
qed

text \<open>A command that asks a peer for the content of a directory and waits for the response always
  times out: the response it expects is built before its ticket is drawn, and no reply has the
  ticket \<open>None\<close>.\<close>

theorem directory_command_times_out:
  assumes "client_session c \<noteq> None" "pending (client_futures c)"
    and "\<forall>(cls, username, reply) \<in> set received. fst reply = PeerDirectoryContentsReply_Request \<longrightarrow>
       conforming (msg_fields (fst reply)) (snd reply) (snd reply)"
  shows "fst (execute (PeerGetDirectoryContentCommand who dir) True True received meanwhile c) = Inl Response_Timeout"
proof -
  let ?cmd = "PeerGetDirectoryContentCommand who dir"
  let ?er = "new_expected PeerConnection PeerDirectoryContentsReply_Request (Some who)
    [(''ticket'', Equals PNone), (''directory'', Equals (PStr dir))]"
  have er: "build_expected_response ?cmd None c = Inr (Some ?er)"
    by (simp add: peer_commands expect_peer_def)
  obtain t sent c2 where s: "send ?cmd True (c\<lparr>client_futures := client_futures c @ [?er]\<rparr>) = (Inr t, sent, c2)"
    by (simp add: peer_commands send_peer_def draw_client_ticket_def Let_def)
  have keeps: "client_futures (snd (snd (send ?cmd True c))) = client_futures c" for c
    by (simp add: peer_commands send_peer_def draw_client_ticket_def Let_def)
  have "\<not> response_matches ?er cls username reply"
    if "fst reply = PeerDirectoryContentsReply_Request \<longrightarrow> conforming (msg_fields (fst reply)) (snd reply) (snd reply)"
    for cls username reply
  proof
    assume m: "response_matches ?er cls username reply"
    then have c: "fst reply = PeerDirectoryContentsReply_Request"
      by (auto simp: response_matches_def new_expected_def split: if_splits)
    with that obtain v where "map_of (snd reply) ''ticket'' = Some v" "has_type TUint32 v"
      by (cases "snd reply") (auto simp: PeerDirectoryContentsReply_Request_def active_def split: if_splits)
    then show False using m by (auto simp: response_matches_def new_expected_def split: if_splits)
  qed
  then have "first_match ?er received = None"
    using assms(3) by (auto simp: first_match_def find_None_iff)
  then show ?thesis
    using execute_expected [OF assms(1) er _ assms(2) keeps s, of received meanwhile] by (auto simp: new_expected_def)
qed

lemma directory_command_times_out_witness:
  "fst (execute (PeerGetDirectoryContentCommand [112] [100]) True True
      [(PeerConnection, Some [112], PeerDirectoryContentsReply_Request,
         [(''ticket'', PInt 2), (''directory'', PStr [100]), (''directories'', PList [])])] id session_client) = Inl Response_Timeout"
  by (rule directory_command_times_out)
    (simp_all add: session_client_def PeerDirectoryContentsReply_Request_def active_def fits_def text_ok_def utf8_encode_def
      valid_cp_def utf8_cp_def)

subsection \<open>Two generators of tickets\<close>

text \<open>The search manager and the search commands draw tickets from two generators but store their
  requests in one dictionary: the first search command of a client takes the place of the first
  search of the manager, and its results are added to the other request.\<close>

theorem search_command_replaces_request:
  "let m = snd (snd (search timed_settings True [97] new_searches));
       c = snd (snd (execute (GlobalSearchCommand [98]) False True [] id (session_client\<lparr>client_requests := requests m\<rparr>)))
   in map_of (requests m) 2 = Some ((new_request 2 [97] SEARCH_NETWORK None None)\<lparr>search_timer := Some 30\<rparr>)
      \<and> map_of (client_requests c) 2 = Some (new_request 2 [98] SEARCH_NETWORK None None)
      \<and> 2 \<in> set (running_timers m)"
  by (simp add: search_def send_search_def draw_search_ticket_def new_searches_def next_ticket_def MAX_TICKET_def
    attach_request_timer_and_emit_def start_timer_def new_request_def timed_settings_def execute_def session_client_def
    search_commands send_search_command_def draw_client_ticket_def Let_def)

end
