(* ===== verification/Client.thy ===== *)
theory Client
  imports Commands Distributed Network_Server Small_Managers Transfer_Handlers
begin

text \<open>
\<open>src/aioslsk/client.py\<close>: the client as a whole. Its components, the listeners they register on the
  event bus in the order in which the constructors run, and what a change of the state of the server
  connection, the start and the end of a session and the start and stop of the client do to all of
  them. Within one call of \<open>send_server_messages\<close> the messages are written in order; a write that
  fails closes the connection and so runs the listeners of that change inside the failing call.
\<close>

subsection \<open>The components and their listeners\<close>

datatype event_class =
    Connection_State_Changed | Message_Received | Session_Initialized_Event | Session_Destroyed_Event
  | Peer_Initialized_Event | Server_Reconnected_Event | Friend_List_Changed | Block_List_Changed
  | Shared_Directory_Changed | Scan_Complete

datatype component =
    Network_Component | Distributed_Network | Tracking_Manager | User_Manager | Room_Manager | Interest_Manager
  | Shares_Manager | Transfer_Manager | Peer_Manager | Search_Manager | Server_Manager | Client_Component

datatype listener =
    On_State_Changed component | On_Message_Received component | On_Session_Initialized component
  | On_Session_Destroyed component | On_Peer_Initialized component | On_Friend_List_Changed component
  | On_Server_Reconnected component | Request_Shares_Cycle component

type_synonym registrations = "(event_class \<times> listener) list"

definition network_listeners :: registrations where
  "network_listeners = [(Session_Initialized_Event, On_Session_Initialized Network_Component)]"

definition distributed_listeners :: registrations where
  "distributed_listeners = [(Peer_Initialized_Event, On_Peer_Initialized Distributed_Network),
     (Connection_State_Changed, On_State_Changed Distributed_Network),
     (Message_Received, On_Message_Received Distributed_Network),
     (Session_Initialized_Event, On_Session_Initialized Distributed_Network),
     (Session_Destroyed_Event, On_Session_Destroyed Distributed_Network)]"

definition tracking_listeners :: registrations where
  "tracking_listeners = [(Connection_State_Changed, On_State_Changed Tracking_Manager)]"

definition user_listeners :: registrations where
  "user_listeners = [(Message_Received, On_Message_Received User_Manager),
     (Connection_State_Changed, On_State_Changed User_Manager),
     (Session_Initialized_Event, On_Session_Initialized User_Manager),
     (Session_Destroyed_Event, On_Session_Destroyed User_Manager),
     (Friend_List_Changed, On_Friend_List_Changed User_Manager)]"

definition room_listeners :: registrations where
  "room_listeners = [(Message_Received, On_Message_Received Room_Manager),
     (Connection_State_Changed, On_State_Changed Room_Manager),
     (Session_Initialized_Event, On_Session_Initialized Room_Manager)]"

definition interest_listeners :: registrations where
  "interest_listeners = [(Message_Received, On_Message_Received Interest_Manager),
     (Session_Initialized_Event, On_Session_Initialized Interest_Manager)]"

definition shares_listeners :: registrations where
  "shares_listeners = [(Session_Initialized_Event, On_Session_Initialized Shares_Manager),
     (Session_Destroyed_Event, On_Session_Destroyed Shares_Manager)]"

definition transfer_listeners :: registrations where
  "transfer_listeners = [(Message_Received, On_Message_Received Transfer_Manager),
     (Peer_Initialized_Event, On_Peer_Initialized Transfer_Manager),
     (Session_Initialized_Event, On_Session_Initialized Transfer_Manager),
     (Block_List_Changed, Request_Shares_Cycle Transfer_Manager),
     (Friend_List_Changed, Request_Shares_Cycle Transfer_Manager),
     (Shared_Directory_Changed, Request_Shares_Cycle Transfer_Manager),
     (Scan_Complete, Request_Shares_Cycle Transfer_Manager)]"

definition peer_listeners :: registrations where
  "peer_listeners = [(Message_Received, On_Message_Received Peer_Manager)]"

definition search_listeners :: registrations where
  "search_listeners = [(Connection_State_Changed, On_State_Changed Search_Manager),
     (Message_Received, On_Message_Received Search_Manager),
     (Session_Initialized_Event, On_Session_Initialized Search_Manager),
     (Session_Destroyed_Event, On_Session_Destroyed Search_Manager)]"

definition server_listeners :: registrations where
  "server_listeners = [(Connection_State_Changed, On_State_Changed Server_Manager)]"

definition client_listeners :: registrations where
  "client_listeners = [(Connection_State_Changed, On_State_Changed Client_Component),
     (Server_Reconnected_Event, On_Server_Reconnected Client_Component)]"

fun registered :: "component \<Rightarrow> registrations" where
  \<comment> \<open>\<open>register_listeners\<close> of each component\<close>
  "registered Network_Component = network_listeners"
| "registered Distributed_Network = distributed_listeners"
| "registered Tracking_Manager = tracking_listeners"
| "registered User_Manager = user_listeners"
| "registered Room_Manager = room_listeners"
| "registered Interest_Manager = interest_listeners"
| "registered Shares_Manager = shares_listeners"
| "registered Transfer_Manager = transfer_listeners"
| "registered Peer_Manager = peer_listeners"
| "registered Search_Manager = search_listeners"
| "registered Server_Manager = server_listeners"
| "registered Client_Component = client_listeners"

lemmas listener_tables = network_listeners_def distributed_listeners_def tracking_listeners_def user_listeners_def room_listeners_def interest_listeners_def shares_listeners_def transfer_listeners_def peer_listeners_def search_listeners_def server_listeners_def client_listeners_def

definition construction_order :: "component list" where
  \<comment> \<open>the tracking manager is made in the constructor of the user manager\<close>
  "construction_order = [Network_Component, Distributed_Network, Tracking_Manager, User_Manager, Room_Manager,
     Interest_Manager, Shares_Manager, Transfer_Manager, Peer_Manager, Search_Manager, Server_Manager, Client_Component]"

definition client_bus :: "(event_class, listener) event_bus" where
  \<comment> \<open>no component gives a priority: the default is 100\<close>
  "client_bus = fold (\<lambda>c. fold (\<lambda>(ev, l). register ev l 100) (registered c)) construction_order new_bus"

subsection \<open>State\<close>

record client_config =
  cfg_net :: net_env
  cfg_login :: login_settings
  cfg_friends :: "pystr list"
  cfg_invites :: bool
  cfg_auto_join :: bool
  cfg_favorites :: "pystr list"
  cfg_liked :: "pystr list"
  cfg_hated :: "pystr list"

record system =
  server_conn :: connection
  net_part :: net
  dist_part :: dist
  chat_part :: chat
  tracking_part :: tracking_manager
  shares_part :: shares
  shares_session :: "pystr option"
  transfers_part :: manager
  searches_part :: searches
  ping_task :: task_state
  user_task :: task_state       \<comment> \<open>the background tasks of the user manager\<close>
  transfer_cycle_task :: task_state   \<comment> \<open>and of the transfer manager\<close>
  progress_task :: task_state
  session :: "pystr option"     \<comment> \<open>\<open>client.session\<close>, by the name of its user\<close>
  sent_log :: "message_object list" \<comment> \<open>written to the server, in order\<close>

subsection \<open>Events\<close>

definition users_session_destroyed :: "system \<Rightarrow> system" where
  "users_session_destroyed s = s\<lparr>chat_part := on_users (\<lambda>um. um\<lparr>session_name := None\<rparr>) (chat_part s)\<rparr>"

definition shares_session_destroyed :: "system \<Rightarrow> system" where
  "shares_session_destroyed s = s\<lparr>shares_session := None\<rparr>"

definition on_session_destroyed :: "component \<Rightarrow> system \<Rightarrow> system" where
  "on_session_destroyed c s = (case c of
      Distributed_Network \<Rightarrow> s\<lparr>dist_part := on_distributed_session_destroyed (dist_part s)\<rparr>
    | User_Manager \<Rightarrow> users_session_destroyed s
    | Shares_Manager \<Rightarrow> shares_session_destroyed s
    | Search_Manager \<Rightarrow> s\<lparr>searches_part := on_searches_session_destroyed (searches_part s)\<rparr>
    | _ \<Rightarrow> s)"

definition handle_destroyed :: "listener \<Rightarrow> system \<Rightarrow> Events.outcome \<times> system" where
  "handle_destroyed l s = (case l of On_Session_Destroyed c \<Rightarrow> (Done, on_session_destroyed c s) | _ \<Rightarrow> (Done, s))"

definition session_destroyed :: "system \<Rightarrow> Events.outcome \<times> system" where
  "session_destroyed s = emit_event handle_destroyed Session_Destroyed_Event client_bus s"

definition distributed_server_state_changed :: "system \<Rightarrow> system" where
  "distributed_server_state_changed s = s\<lparr>dist_part := reset_server_values (dist_part s)\<rparr>"

definition tracking_state_changed :: "connection_status \<Rightarrow> system \<Rightarrow> system" where
  "tracking_state_changed st s = (if st = CLOSED then s\<lparr>tracking_part := tracking_stop (tracking_part s)\<rparr> else s)"

definition users_state_changed :: "connection_status \<Rightarrow> system \<Rightarrow> system" where
  "users_state_changed st s = (if st = CLOSED then s\<lparr>chat_part := on_users reset_users (chat_part s)\<rparr> else s)"

definition rooms_state_changed :: "connection_status \<Rightarrow> system \<Rightarrow> system" where
  "rooms_state_changed st s = (if st = CLOSED then s\<lparr>chat_part := reset_rooms (chat_part s)\<rparr> else s)"

definition client_state_changed :: "connection_status \<Rightarrow> system \<Rightarrow> Events.outcome \<times> system" where
  "client_state_changed st s =
     (if st = CLOSED \<and> session s \<noteq> None then session_destroyed (s\<lparr>session := None\<rparr>) else (Done, s))"

definition on_state_changed :: "connection_status \<Rightarrow> component \<Rightarrow> system \<Rightarrow> Events.outcome \<times> system" where
  \<comment> \<open>the event of the server connection\<close>
  "on_state_changed st c s = (case c of
      Distributed_Network \<Rightarrow> (Done, distributed_server_state_changed s)
    | Tracking_Manager \<Rightarrow> (Done, tracking_state_changed st s)
    | User_Manager \<Rightarrow> (Done, users_state_changed st s)
    | Room_Manager \<Rightarrow> (Done, rooms_state_changed st s)
    | Search_Manager \<Rightarrow> (Done, s\<lparr>searches_part := on_searches_state_changed ServerConnection st (searches_part s)\<rparr>)
    | Server_Manager \<Rightarrow> (Done, s\<lparr>ping_task := on_ping_state_changed ServerConnection st (ping_task s)\<rparr>)
    | Client_Component \<Rightarrow> client_state_changed st s
    | _ \<Rightarrow> (Done, s))"

lemmas state_listeners = distributed_server_state_changed_def tracking_state_changed_def users_state_changed_def
  rooms_state_changed_def client_state_changed_def

definition handle_state :: "connection_status \<Rightarrow> listener \<Rightarrow> system \<Rightarrow> Events.outcome \<times> system" where
  "handle_state st l s = (case l of On_State_Changed c \<Rightarrow> on_state_changed st c s | _ \<Rightarrow> (Done, s))"

definition server_state_changed :: "client_config \<Rightarrow> connection_status \<times> close_reason \<Rightarrow> system \<Rightarrow> system" where
  \<comment> \<open>\<open>on_state_changed\<close> of the network: its own part, then the event\<close>
  "server_state_changed cfg notification s = (case notification of (st, reason) \<Rightarrow>
     snd (emit_event (handle_state st) Connection_State_Changed client_bus
       (s\<lparr>net_part := on_server_connection_state_changed (cfg_net cfg) st reason (net_part s)\<rparr>)))"

definition on_server_conn :: "client_config \<Rightarrow> (connection \<Rightarrow> connection) \<Rightarrow> system \<Rightarrow> system" where
  \<comment> \<open>an operation of the server connection, and what is done for each of its notifications\<close>
  "on_server_conn cfg f s = (let c = server_conn s; c' = f c in
     fold (server_state_changed cfg) (drop (length (notified c)) (notified c')) (s\<lparr>server_conn := c'\<rparr>))"

definition system_send_one ::
    "client_config \<Rightarrow> (message_object \<Rightarrow> write_outcome) \<Rightarrow> message_object \<Rightarrow> system \<Rightarrow> (net_error + unit) \<times> system" where
  "system_send_one cfg w m s =
     (let send = send_message (compress (cfg_net cfg)) (key_token (cfg_net cfg)) (w m) (Obj m) in
      case fst (send (server_conn s)) of
        Inl e \<Rightarrow> (Inl (net_error.Connection_Error e), on_server_conn cfg (\<lambda>c. snd (send c)) s)
      | Inr data \<Rightarrow> (Inr (), on_server_conn cfg (\<lambda>c. snd (send c))
          (if data = [] then s else s\<lparr>sent_log := sent_log s @ [m]\<rparr>)))"

definition system_send ::
    "client_config \<Rightarrow> (message_object \<Rightarrow> write_outcome) \<Rightarrow> message_object list \<Rightarrow> system \<Rightarrow> bool \<times> system" where
  \<comment> \<open>\<open>send_server_messages\<close>: whether it returns without raising\<close>
  "system_send cfg w messages s =
     (case send_all (system_send_one cfg w) messages s of (results, s1) \<Rightarrow> (list_all (\<lambda>r. \<not> isl (snd r)) results, s1))"

subsection \<open>Start of a session\<close>

fun server_message_object :: "server_message \<Rightarrow> message_object" where
  "server_message_object (Branch_Level level) = (BranchLevel_Request, [(''level'', PInt (int level))])"
| "server_message_object (Branch_Root r) = (BranchRoot_Request, [(''username'', PStr r)])"
| "server_message_object (Toggle_Parent_Search b) = (ToggleParentSearch_Request, [(''enable'', PBool b)])"
| "server_message_object (Accept_Children b) = (AcceptChildren_Request, [(''accept'', PBool b)])"
| "server_message_object (Get_User_Stats u) = (GetUserStats_Request, [(''username'', PStr u)])"
| "server_message_object (Child_Depth n) = (ChildDepth_Request, [(''depth'', PInt (int n))])"

fun room_request_object :: "room_request \<Rightarrow> message_object" where
  "room_request_object (Toggle_Invites b) = (TogglePrivateRoomInvites_Request, [(''enable'', PBool b)])"
| "room_request_object (Join_Room r) = (JoinRoom_Request, [(''room'', PStr r), (''is_private'', PBool False)])"

definition port_messages :: "net \<Rightarrow> message_object list" where
  "port_messages n = List.map_filter (\<lambda>out. case out of net_output.To_Server m \<Rightarrow> Some m | _ \<Rightarrow> None) (advertise_listening_ports n)"

definition branch_messages :: "Distributed.out list \<Rightarrow> message_object list" where
  "branch_messages outs = List.map_filter (\<lambda>out. case out of Distributed.To_Server m \<Rightarrow> Some (server_message_object m) | _ \<Rightarrow> None) outs"

definition user_messages :: "message_object list" where
  "user_messages = [(CheckPrivileges_Request, []), (SetStatus_Request, [(''status'', PInt (status_value STATUS_ONLINE))])]"

definition shares_messages :: "bool \<Rightarrow> shares \<Rightarrow> message_object list" where
  "shares_messages has_session sh = map (\<lambda>(folders, files). (SharedFoldersFiles_Request,
     [(''shared_folder_count'', PInt (int folders)), (''shared_file_count'', PInt (int files))])) (report_shares has_session sh)"

definition reported :: "bool \<times> system \<Rightarrow> Events.outcome \<times> system" where
  \<comment> \<open>an exception of the listener is logged by the bus\<close>
  "reported r = (if fst r then Done else Raised, snd r)"

definition network_session_started :: "client_config \<Rightarrow> (message_object \<Rightarrow> write_outcome) \<Rightarrow> system \<Rightarrow> Events.outcome \<times> system" where
  "network_session_started cfg w s = reported (system_send cfg w (port_messages (net_part s)) s)"

definition distributed_session_started :: "client_config \<Rightarrow> (message_object \<Rightarrow> write_outcome) \<Rightarrow> pystr \<Rightarrow> system \<Rightarrow> Events.outcome \<times> system" where
  "distributed_session_started cfg w me s =
     (case on_distributed_session_initialized me (dist_part s) of
        (d, outs) \<Rightarrow> reported (system_send cfg w (branch_messages outs) (s\<lparr>dist_part := d\<rparr>)))"

definition users_session_started :: "client_config \<Rightarrow> (message_object \<Rightarrow> write_outcome) \<Rightarrow> pystr \<Rightarrow> system \<Rightarrow> Events.outcome \<times> system" where
  "users_session_started cfg w me s =
     (case system_send cfg w user_messages (s\<lparr>chat_part := on_users (\<lambda>um. um\<lparr>session_name := Some me\<rparr>) (chat_part s)\<rparr>) of
        (False, s1) \<Rightarrow> (Raised, s1)
      | (True, s1) \<Rightarrow>
          if session_name (users_of (chat_part s1)) = None then (Raised, s1) \<comment> \<open>\<open>get_self\<close>\<close>
          else (case on_users_session_initialized me (cfg_friends cfg) (users_of (chat_part s1)) (tracking_part s1) of
            (um, tm) \<Rightarrow> (Done, s1\<lparr>chat_part := on_users (\<lambda>_. um) (chat_part s1), tracking_part := tm\<rparr>)))"

definition rooms_session_started :: "client_config \<Rightarrow> (message_object \<Rightarrow> write_outcome) \<Rightarrow> system \<Rightarrow> Events.outcome \<times> system" where
  \<comment> \<open>the setting of invites is sent first, then the favorite rooms are joined in a second call\<close>
  "rooms_session_started cfg w s =
     (case on_rooms_session_initialized (cfg_invites cfg) (cfg_auto_join cfg) (cfg_favorites cfg) of
        rs \<Rightarrow> (case system_send cfg w (map room_request_object (take 1 rs)) s of
            (False, s1) \<Rightarrow> (Raised, s1)
          | (True, s1) \<Rightarrow> reported (system_send cfg w (map room_request_object (drop 1 rs)) s1)))"

definition interests_session_started :: "client_config \<Rightarrow> (message_object \<Rightarrow> write_outcome) \<Rightarrow> system \<Rightarrow> Events.outcome \<times> system" where
  \<comment> \<open>the exceptions are gathered\<close>
  "interests_session_started cfg w s =
     (Done, snd (system_send cfg w (on_interest_session_initialized (cfg_liked cfg) (cfg_hated cfg)) s))"

definition shares_session_started :: "client_config \<Rightarrow> (message_object \<Rightarrow> write_outcome) \<Rightarrow> pystr \<Rightarrow> system \<Rightarrow> Events.outcome \<times> system" where
  "shares_session_started cfg w me s =
     reported (system_send cfg w (shares_messages True (shares_part s)) (s\<lparr>shares_session := Some me\<rparr>))"

definition transfers_session_started :: "system \<Rightarrow> system" where
  "transfers_session_started s = s\<lparr>transfers_part := request_management_cycle TRANSFER_CHANGE (transfers_part s)\<rparr>"

definition on_session_initialized ::
    "client_config \<Rightarrow> (message_object \<Rightarrow> write_outcome) \<Rightarrow> pystr \<Rightarrow> component \<Rightarrow> system \<Rightarrow> Events.outcome \<times> system" where
  "on_session_initialized cfg w me c s = (case c of
      Network_Component \<Rightarrow> network_session_started cfg w s
    | Distributed_Network \<Rightarrow> distributed_session_started cfg w me s
    | User_Manager \<Rightarrow> users_session_started cfg w me s
    | Room_Manager \<Rightarrow> rooms_session_started cfg w s
    | Interest_Manager \<Rightarrow> interests_session_started cfg w s
    | Shares_Manager \<Rightarrow> shares_session_started cfg w me s
    | Transfer_Manager \<Rightarrow> (Done, transfers_session_started s)
    | Search_Manager \<Rightarrow> (Done, s\<lparr>searches_part := on_searches_session_initialized me (searches_part s)\<rparr>)
    | _ \<Rightarrow> (Done, s))"

lemmas session_listeners = on_session_initialized_def network_session_started_def distributed_session_started_def
  users_session_started_def rooms_session_started_def interests_session_started_def shares_session_started_def
  transfers_session_started_def

definition handle_initialized ::
    "client_config \<Rightarrow> (message_object \<Rightarrow> write_outcome) \<Rightarrow> pystr \<Rightarrow> listener \<Rightarrow> system \<Rightarrow> Events.outcome \<times> system" where
  "handle_initialized cfg w me l s = (case l of On_Session_Initialized c \<Rightarrow> on_session_initialized cfg w me c s | _ \<Rightarrow> (Done, s))"

definition session_initialized ::
    "client_config \<Rightarrow> (message_object \<Rightarrow> write_outcome) \<Rightarrow> pystr \<Rightarrow> system \<Rightarrow> Events.outcome \<times> system" where
  "session_initialized cfg w me s = emit_event (handle_initialized cfg w me) Session_Initialized_Event client_bus s"

definition system_login ::
    "client_config \<Rightarrow> (message_object \<Rightarrow> write_outcome) \<Rightarrow> message_object option \<Rightarrow> int \<Rightarrow> system
     \<Rightarrow> (login_error option + unit) \<times> system" where
  \<comment> \<open>the request, the response (\<open>None\<close>: end of file), the session and the reader of the connection;
     the error without a name is that of reading from a connection that is not open\<close>
  "system_login cfg w response minor s =
     (case system_send cfg w [login_request (cfg_login cfg) minor] s of
        (False, s1) \<Rightarrow> (Inl (Some Login_Not_Sent), s1)
      | (True, s1) \<Rightarrow>
          if \<not> has_streams (server_conn s1) then (Inl None, s1)
          else (case login_response response of
            Inl e \<Rightarrow> (Inl (Some e), if response = None then on_server_conn cfg (disconnect EOF) s1 else s1)
          | Inr _ \<Rightarrow>
              let me = login_username (cfg_login cfg);
                  s2 = snd (session_initialized cfg w me
                    (s1\<lparr>session := Some me, chat_part := on_users (touch_user me) (chat_part s1)\<rparr>))
              in (Inr (), s2\<lparr>server_conn := (server_conn s2)\<lparr>reader_task := True\<rparr>\<rparr>)))"

definition system_reconnected ::
    "client_config \<Rightarrow> (message_object \<Rightarrow> write_outcome) \<Rightarrow> message_object option \<Rightarrow> system \<Rightarrow> system" where
  \<comment> \<open>\<open>_on_server_reconnected\<close>\<close>
  "system_reconnected cfg w response s =
     (if reconnect_automatically (cfg_login cfg) then snd (system_login cfg w response MINOR_VERSION s) else s)"

subsection \<open>Start and stop\<close>

definition on_net :: "(net \<Rightarrow> net) \<Rightarrow> system \<Rightarrow> system" where
  "on_net f s = s\<lparr>net_part := f (net_part s)\<rparr>"

definition system_connect :: "client_config \<Rightarrow> bool \<Rightarrow> bool \<Rightarrow> bool \<Rightarrow> system \<Rightarrow> (net_error + unit) \<times> system" where
  \<comment> \<open>\<open>connect\<close>, that is \<open>initialize\<close> of the network\<close>
  "system_connect cfg clear_bound obf_bound opened s =
     (case connect_listening_ports (cfg_net cfg) clear_bound obf_bound (net_part s) of
        (Inl e, n) \<Rightarrow> (Inl e, s\<lparr>net_part := n\<rparr>)
      | (Inr _, n) \<Rightarrow>
          ((case fst (connect opened (server_conn s)) of Inl e \<Rightarrow> Inl (net_error.Connection_Error e) | Inr _ \<Rightarrow> Inr ()),
           on_server_conn cfg (\<lambda>c. snd (connect opened c)) (s\<lparr>net_part := n\<rparr>)))"

definition start_tasks :: "system \<Rightarrow> system" where
  \<comment> \<open>\<open>start\<close> of the services: those that do more than nothing\<close>
  "start_tasks s = s\<lparr>user_task := background_start (user_task s),
     transfer_cycle_task := background_start (transfer_cycle_task s),
     progress_task := background_start (progress_task s)\<rparr>"

definition load_services ::
    "shares_env \<Rightarrow> saved_directory list \<Rightarrow> (pystr \<times> share_mode \<times> pystr list) list \<Rightarrow> transfer list \<Rightarrow> system \<Rightarrow> system" where
  \<comment> \<open>\<open>load_data\<close> of the services\<close>
  "load_services env saved entries cached s = s\<lparr>shares_part := load_data env saved entries (shares_part s),
     transfers_part := read_cache cached (transfers_part s)\<rparr>"

definition disconnect_peer :: "nat \<Rightarrow> system \<Rightarrow> system" where
  \<comment> \<open>the event tells the distributed network; what it would send to the server is dropped, as the server
     connection is being closed\<close>
  "disconnect_peer ref s =
     (let p = peer_objects (net_part s) ref;
          s1 = on_net (peer_disconnect close_reason.REQUESTED ref) s
      in if Connection.state (conn p) \<in> {CLOSED, CLOSING} \<or> connection_type (conn p) \<noteq> DISTRIBUTED then s1
         else s1\<lparr>dist_part := fst (connection_closed (ref, peer_username p) (dist_part s1))\<rparr>)"

definition system_disconnect :: "client_config \<Rightarrow> system \<Rightarrow> system" where
  \<comment> \<open>\<open>disconnect\<close> of the network\<close>
  "system_disconnect cfg s =
     (let s1 = on_server_conn cfg (disconnect close_reason.REQUESTED) (on_net cancel_all_tasks s)
      in on_net disconnect_listening_ports (fold disconnect_peer (peer_connections (net_part s1)) s1))"

definition stop_transfers :: "manager \<Rightarrow> manager" where
  \<comment> \<open>the tasks of all transfers are cancelled and the queue of requests is a new one\<close>
  "stop_transfers m = m\<lparr>transfers := map (\<lambda>t. fst (cancel_transfer_tasks t)) (transfers m), cycle_requested := False\<rparr>"

definition users_stop :: "system \<Rightarrow> system" where
  "users_stop s = s\<lparr>user_task := snd (background_cancel (user_task s)), tracking_part := tracking_stop (tracking_part s)\<rparr>"

definition transfers_stop :: "system \<Rightarrow> system" where
  "transfers_stop s = s\<lparr>transfers_part := stop_transfers (transfers_part s),
     progress_task := snd (background_cancel (progress_task s)),
     transfer_cycle_task := snd (background_cancel (transfer_cycle_task s))\<rparr>"

definition stop_services :: "system \<Rightarrow> system" where
  \<comment> \<open>\<open>stop\<close> of the services in their order, and their tasks awaited\<close>
  "stop_services s =
     (let s2 = transfers_stop (users_stop s)
      in s2\<lparr>searches_part := (snd (snd (stop_searches (searches_part s2))))\<lparr>search_reply_tasks := []\<rparr>\<rparr>)"

definition system_start ::
    "client_config \<Rightarrow> shares_env \<Rightarrow> saved_directory list \<Rightarrow> (pystr \<times> share_mode \<times> pystr list) list \<Rightarrow> transfer list
     \<Rightarrow> (bool \<times> bool \<times> bool) option \<Rightarrow> system \<Rightarrow> (net_error + unit) \<times> system" where
  \<comment> \<open>the last argument: whether to connect, and what becomes of the ports and of the connection\<close>
  "system_start cfg env saved entries cached connecting s =
     (let s1 = start_tasks (load_services env saved entries cached s)
      in case connecting of None \<Rightarrow> (Inr (), s1)
         | Some (clear_bound, obf_bound, opened) \<Rightarrow> system_connect cfg clear_bound obf_bound opened s1)"

definition system_stop :: "client_config \<Rightarrow> system \<Rightarrow> system" where
  "system_stop cfg s = stop_services (system_disconnect cfg s)"

end
