(* ===== verification/Dispatch.thy ===== *)
theory Dispatch
  imports Client
begin

text \<open>
Which handlers a received message reaches: the methods decorated with \<open>on_message\<close> of every
  component, the map \<open>build_message_map\<close> (\<open>src/aioslsk/events.py\<close>) makes of them, and the order in
  which \<open>Network.on_message_received\<close> and the event bus call them. The interface \<open>message_component\<close>
  is what that map needs of a component; every component is an interpretation of it.
\<close>

subsection \<open>Received messages\<close>

text \<open>A class of received messages is identified by the catalogue it comes from and its schema: a search
  request of the server has the same schema whether the server sends it or a distributed parent.\<close>

datatype origin = From_Server | From_Peer | From_Distributed

type_synonym handlers = "(string \<times> origin \<times> msg_class) list"
  \<comment> \<open>the methods decorated with \<open>on_message\<close>, in the order \<open>inspect.getmembers\<close> gives them\<close>

fun catalogue :: "origin \<Rightarrow> msg_class list" where
  "catalogue From_Server = server_responses"
| "catalogue From_Peer = peer_messages"
| "catalogue From_Distributed = distributed_messages"

definition origin_of :: "connection \<Rightarrow> origin option" where
  \<comment> \<open>the catalogue a connection reads from; while it awaits its initialization nothing is received through it\<close>
  "origin_of c = (case connection_class c of
       ServerConnection \<Rightarrow> Some From_Server
     | PeerConnection \<Rightarrow>
         if connection_state c = AWAITING_INIT then None
         else if connection_type c = PEER then Some From_Peer else Some From_Distributed)"

definition build_message_map :: "handlers \<Rightarrow> (origin \<times> msg_class) \<rightharpoonup> string" where
  \<comment> \<open>a later method replaces an earlier one with the same class\<close>
  "build_message_map hs = fold (\<lambda>(h, cls) mapping. mapping(cls \<mapsto> h)) hs Map.empty"

locale message_component =
  fixes hs :: handlers
  assumes one_method: "distinct (map (\<lambda>(_, origin, cls). (origin, MESSAGE_ID cls)) hs)"
    and in_catalogue: "\<forall>(_, origin, cls) \<in> set hs. cls \<in> set (catalogue origin)"
begin

lemma distinct_classes: "distinct (map snd hs)"
proof -
  have "distinct (map (\<lambda>(origin, cls). (origin, MESSAGE_ID cls)) (map snd hs))"
    using one_method by (simp add: case_prod_unfold comp_def)
  then show ?thesis by (rule conjunct1 [OF iffD1 [OF distinct_map]])
qed

lemma message_map: "build_message_map hs cls = map_of (map (\<lambda>(h, c). (c, h)) hs) cls"
proof -
  have "fold (\<lambda>(h, c) mapping. mapping(c \<mapsto> h)) xs m cls
      = (case map_of (map (\<lambda>(h, c). (c, h)) xs) cls of Some h \<Rightarrow> Some h | None \<Rightarrow> m cls)"
    if "distinct (map snd xs)" for xs m
    using that
  proof (induction xs arbitrary: m)
    case (Cons x xs)
    obtain h c where x: "x = (h, c)" by (cases x)
    have "map_of (map (\<lambda>(h, c). (c, h)) xs) c = None"
      using Cons.prems x by (auto simp: map_of_eq_None_iff image_iff)
    with Cons x show ?case by (auto split: option.splits)
  qed simp
  from this [OF distinct_classes, of Map.empty] show ?thesis
    by (simp add: build_message_map_def split: option.splits)
qed

lemma reached: "build_message_map hs cls = Some h \<longleftrightarrow> (h, cls) \<in> set hs"
proof -
  have "distinct (map fst (map (\<lambda>(h, c). (c, h)) hs))"
    using distinct_classes by (simp add: comp_def case_prod_beta)
  from map_of_eq_Some_iff [OF this] show ?thesis by (auto simp: message_map)
qed

end

subsection \<open>The handlers of the components\<close>

definition network_handlers :: handlers where
  "network_handlers = [(''_on_connect_to_peer'', From_Server, ConnectToPeer_Response)]"

definition distributed_handlers :: handlers where
  "distributed_handlers = [(''_on_distributed_branch_level'', From_Distributed, DistributedBranchLevel_Request),
     (''_on_distributed_branch_root'', From_Distributed, DistributedBranchRoot_Request),
     (''_on_distributed_child_depth'', From_Distributed, DistributedChildDepth_Request),
     (''_on_distributed_search_request'', From_Distributed, DistributedSearchRequest_Request),
     (''_on_distributed_server_search_request'', From_Distributed, DistributedServerSearchRequest_Request),
     (''_on_ditributed_alive_interval'', From_Server, DistributedAliveInterval_Response),
     (''_on_get_user_stats'', From_Server, GetUserStats_Response),
     (''_on_min_parents_in_cache'', From_Server, MinParentsInCache_Response),
     (''_on_parent_inactivity_timeout'', From_Server, ParentInactivityTimeout_Response),
     (''_on_parent_min_speed'', From_Server, ParentMinSpeed_Response),
     (''_on_parent_speed_ratio'', From_Server, ParentSpeedRatio_Response),
     (''_on_potential_parents'', From_Server, PotentialParents_Response),
     (''_on_reset_distributed'', From_Server, ResetDistributed_Response),
     (''_on_server_search_request'', From_Server, ServerSearchRequest_Response)]"

definition user_handlers :: handlers where
  "user_handlers = [(''_on_add_privileged_user'', From_Server, AddPrivilegedUser_Response),
     (''_on_add_user'', From_Server, AddUser_Response),
     (''_on_admin_message'', From_Server, AdminMessage_Response),
     (''_on_check_privileges'', From_Server, CheckPrivileges_Response),
     (''_on_get_user_stats'', From_Server, GetUserStats_Response),
     (''_on_get_user_status'', From_Server, GetUserStatus_Response),
     (''_on_kicked'', From_Server, Kicked_Response),
     (''_on_peer_search_reply'', From_Peer, PeerSearchReply_Request),
     (''_on_peer_user_info_reply'', From_Peer, PeerUserInfoReply_Request),
     (''_on_private_message'', From_Server, PrivateChatMessage_Response),
     (''_on_privileged_users'', From_Server, PrivilegedUsers_Response)]"

definition room_handlers :: handlers where
  "room_handlers = [(''_on_chat_room_message'', From_Server, RoomChatMessage_Response),
     (''_on_chat_room_ticker_added'', From_Server, RoomTickerAdded_Response),
     (''_on_chat_room_ticker_removed'', From_Server, RoomTickerRemoved_Response),
     (''_on_chat_room_tickers'', From_Server, RoomTickers_Response),
     (''_on_join_room'', From_Server, JoinRoom_Response),
     (''_on_leave_room'', From_Server, LeaveRoom_Response),
     (''_on_operator_granted'', From_Server, PrivateRoomOperatorGranted_Response),
     (''_on_operator_revoked'', From_Server, PrivateRoomOperatorRevoked_Response),
     (''_on_private_room_add_user'', From_Server, PrivateRoomGrantMembership_Response),
     (''_on_private_room_added'', From_Server, PrivateRoomMembershipGranted_Response),
     (''_on_private_room_operators'', From_Server, PrivateRoomOperators_Response),
     (''_on_private_room_remove_user'', From_Server, PrivateRoomRevokeMembership_Response),
     (''_on_private_room_removed'', From_Server, PrivateRoomMembershipRevoked_Response),
     (''_on_private_room_toggle'', From_Server, TogglePrivateRoomInvites_Response),
     (''_on_private_room_users'', From_Server, PrivateRoomMembers_Response),
     (''_on_public_chat_message'', From_Server, PublicChatMessage_Response),
     (''_on_room_list'', From_Server, RoomList_Response),
     (''_on_user_joined_room'', From_Server, UserJoinedRoom_Response),
     (''_on_user_left_room'', From_Server, UserLeftRoom_Response),
     (''_on_user_operator_granted'', From_Server, PrivateRoomGrantOperator_Response),
     (''_on_user_operator_revoked'', From_Server, PrivateRoomRevokeOperator_Response)]"

definition interest_handlers :: handlers where
  "interest_handlers = [(''_on_get_global_recommendations'', From_Server, GetGlobalRecommendations_Response),
     (''_on_get_item_recommendations'', From_Server, GetItemRecommendations_Response),
     (''_on_get_item_similar_users'', From_Server, GetItemSimilarUsers_Response),
     (''_on_get_recommendations'', From_Server, GetRecommendations_Response),
     (''_on_get_similar_users'', From_Server, GetSimilarUsers_Response),
     (''_on_get_user_interests'', From_Server, GetUserInterests_Response)]"

definition transfer_handlers :: handlers where
  "transfer_handlers = [(''_on_add_user'', From_Server, AddUser_Response),
     (''_on_get_user_status'', From_Server, GetUserStatus_Response),
     (''_on_peer_place_in_queue_reply'', From_Peer, PeerPlaceInQueueReply_Request),
     (''_on_peer_place_in_queue_request'', From_Peer, PeerPlaceInQueueRequest_Request),
     (''_on_peer_transfer_queue'', From_Peer, PeerTransferQueue_Request),
     (''_on_peer_transfer_queue_failed'', From_Peer, PeerTransferQueueFailed_Request),
     (''_on_peer_transfer_request'', From_Peer, PeerTransferRequest_Request),
     (''_on_peer_upload_failed'', From_Peer, PeerUploadFailed_Request)]"

definition peer_handlers :: handlers where
  "peer_handlers = [(''_on_peer_directory_contents_reply'', From_Peer, PeerDirectoryContentsReply_Request),
     (''_on_peer_directory_contents_req'', From_Peer, PeerDirectoryContentsRequest_Request),
     (''_on_peer_shares_reply'', From_Peer, PeerSharesReply_Request),
     (''_on_peer_shares_request'', From_Peer, PeerSharesRequest_Request),
     (''_on_peer_user_info_request'', From_Peer, PeerUserInfoRequest_Request)]"

definition search_handlers :: handlers where
  "search_handlers = [(''_on_distributed_search_request'', From_Distributed, DistributedSearchRequest_Request),
     (''_on_distributed_server_search_request'', From_Distributed, DistributedServerSearchRequest_Request),
     (''_on_excluded_search_phrases'', From_Server, ExcludedSearchPhrases_Response),
     (''_on_file_search'', From_Server, FileSearch_Response),
     (''_on_peer_search_reply'', From_Peer, PeerSearchReply_Request),
     (''_on_search_inactivity_timeout'', From_Server, SearchInactivityTimeout_Response),
     (''_on_server_search_request'', From_Server, ServerSearchRequest_Response),
     (''_on_wish_list_interval'', From_Server, WishlistInterval_Response)]"

fun handlers_of :: "component \<Rightarrow> handlers" where
  "handlers_of Network_Component = network_handlers"
| "handlers_of Distributed_Network = distributed_handlers"
| "handlers_of User_Manager = user_handlers"
| "handlers_of Room_Manager = room_handlers"
| "handlers_of Interest_Manager = interest_handlers"
| "handlers_of Transfer_Manager = transfer_handlers"
| "handlers_of Peer_Manager = peer_handlers"
| "handlers_of Search_Manager = search_handlers"
| "handlers_of Tracking_Manager = []"
| "handlers_of Shares_Manager = []"
| "handlers_of Server_Manager = []"
| "handlers_of Client_Component = []"

lemmas handler_tables = network_handlers_def distributed_handlers_def user_handlers_def room_handlers_def
  interest_handlers_def transfer_handlers_def peer_handlers_def search_handlers_def

interpretation network_messages: message_component network_handlers
  by unfold_locales code_simp+
interpretation distributed_network_messages: message_component distributed_handlers
  by unfold_locales code_simp+
interpretation user_messages: message_component user_handlers
  by unfold_locales code_simp+
interpretation room_messages: message_component room_handlers
  by unfold_locales code_simp+
interpretation interest_messages: message_component interest_handlers
  by unfold_locales code_simp+
interpretation transfer_messages: message_component transfer_handlers
  by unfold_locales code_simp+
interpretation peer_messages: message_component peer_handlers
  by unfold_locales code_simp+
interpretation search_messages: message_component search_handlers
  by unfold_locales code_simp+

definition call_handler :: "component \<Rightarrow> origin \<times> msg_class \<Rightarrow> (component \<times> string) list" where
  \<comment> \<open>\<open>_on_message_received\<close> of a component\<close>
  "call_handler c cls = (case build_message_map (handlers_of c) cls of Some h \<Rightarrow> [(c, h)] | None \<Rightarrow> [])"

definition message_listeners :: "component list" where
  "message_listeners = concat (map (\<lambda>l. case l of On_Message_Received c \<Rightarrow> [c] | _ \<Rightarrow> []) (listeners_for Message_Received client_bus))"

definition message_calls :: "origin \<times> msg_class \<Rightarrow> (component \<times> string) list" where
  \<comment> \<open>\<open>Network.on_message_received\<close>: first its own handler, then the event bus\<close>
  "message_calls cls = call_handler Network_Component cls @ concat (map (\<lambda>c. call_handler c cls) message_listeners)"

lemma component_handlers: "message_component (handlers_of c)"
proof (cases c)
  case Tracking_Manager
  then show ?thesis by (simp add: message_component_def)
next
  case Shares_Manager
  then show ?thesis by (simp add: message_component_def)
next
  case Server_Manager
  then show ?thesis by (simp add: message_component_def)
next
  case Client_Component
  then show ?thesis by (simp add: message_component_def)
qed (simp_all add: network_messages.message_component_axioms distributed_network_messages.message_component_axioms
    user_messages.message_component_axioms room_messages.message_component_axioms
    interest_messages.message_component_axioms transfer_messages.message_component_axioms
    peer_messages.message_component_axioms search_messages.message_component_axioms)

lemma call_handler_mem: "(c', h) \<in> set (call_handler c cls) \<longleftrightarrow> c' = c \<and> (h, cls) \<in> set (handlers_of c)"
  unfolding message_component.reached [OF component_handlers, symmetric]
  by (cases "build_message_map (handlers_of c) cls") (auto simp: call_handler_def)

lemma call_handler_count:
  "count_list (call_handler c cls) (d, h) = (if c = d \<and> (h, cls) \<in> set (handlers_of c) then 1 else 0)"
  using message_component.reached [OF component_handlers, of c cls h]
  by (auto simp: call_handler_def split: option.splits)

lemma message_listeners_eq:
  "message_listeners = [Distributed_Network, User_Manager, Room_Manager, Interest_Manager, Transfer_Manager, Peer_Manager, Search_Manager]"
  by code_simp

lemma one_call_per_handler:
  "count_list (message_calls cls) (c, h) = (if (h, cls) \<in> set (handlers_of c) then 1 else 0)"
  by (cases c) (simp_all add: message_calls_def message_listeners_eq call_handler_count)

text \<open>What a peer can reach.\<close>

definition components_for :: "origin \<Rightarrow> component set" where
  "components_for origin = (case origin of
       From_Server \<Rightarrow> {Network_Component, Distributed_Network, User_Manager, Room_Manager, Interest_Manager, Transfer_Manager, Search_Manager}
     | From_Peer \<Rightarrow> {User_Manager, Transfer_Manager, Peer_Manager, Search_Manager}
     | From_Distributed \<Rightarrow> {Distributed_Network, Search_Manager})"

lemma handlers_by_origin: "(h, origin, cls) \<in> set (handlers_of c) \<Longrightarrow> c \<in> components_for origin"
  by (cases c; cases origin) (simp_all add: handler_tables components_for_def)

lemma family_of_origin: "origin_of c = Some origin \<Longrightarrow> snd (connection_family c) = catalogue origin"
  by (auto simp: origin_of_def connection_family_def split: connection_class.splits if_splits)

text \<open>C21: A message of a class for which a component has a handler, encoded by one side and received on a
  connection of the other that reads this class's catalogue, is decoded unchanged and calls this
  handler exactly once - whatever other components handle the same class.\<close>

theorem sent_message_reaches_its_handler:
  assumes "(h, origin, cls) \<in> set (handlers_of c)" "origin_of rcv = Some origin"
    and "conforming (msg_fields cls) attrs attrs"
    and "encode_message_data deflate token sender (Obj (cls, attrs)) = Inr out"
    and "length token = 4" "obfuscated rcv = obfuscated sender" "\<And>b. inflate (deflate b) = Inr b"
  shows "\<exists>obj. decode_message_data inflate rcv out = Inr obj \<and> snd obj = attrs
     \<and> count_list (message_calls (origin, fst obj)) (c, h) = 1"
proof -
  have "cls \<in> set (snd (connection_family rcv))"
    using message_component.in_catalogue [OF component_handlers, of c] assms(1) family_of_origin [OF assms(2)] by auto
  then have "decode_message_data inflate rcv out = Inr (cls, attrs)"
    using decode_encoded [OF assms(4-6) connection_family_ok deserialize_message_family _ assms(3,7)] by blast
  then show ?thesis using one_call_per_handler assms(1) by simp
qed


text \<open>A peer asks who the user is.\<close>

lemma example_request:
  obtains out where "encode_message_data (\<lambda>b. b) [1, 2, 3, 4] example_peer (Obj (PeerUserInfoRequest_Request, [])) = Inr out"
proof -
  have "\<exists>data. message_serialize (\<lambda>b. b) PeerUserInfoRequest_Request [] = Inr data"
    by (simp add: message_serialize_def PeerUserInfoRequest_Request_def uint32_serialize_def struct_pack_def)
  then show ?thesis using encode_total [of "\<lambda>b. b" PeerUserInfoRequest_Request "[]" _ "[1, 2, 3, 4]" example_peer] that by auto
qed

lemma example_origin: "origin_of example_peer = Some From_Peer"
  by (simp add: origin_of_def example_peer_def set_connection_state_def accept_def new_connection_def set_state_def Let_def)

lemma example_class: "conforming (msg_fields PeerUserInfoRequest_Request) [] []"
  by (simp add: PeerUserInfoRequest_Request_def)

lemma sent_message_reaches_its_handler_witness:
  "\<exists>out obj. encode_message_data (\<lambda>b. b) [1, 2, 3, 4] example_peer (Obj (PeerUserInfoRequest_Request, [])) = Inr out
     \<and> decode_message_data Inr example_peer out = Inr obj \<and> snd obj = []
     \<and> count_list (message_calls (From_Peer, fst obj)) (Peer_Manager, ''_on_peer_user_info_request'') = 1"
proof -
  obtain out where out: "encode_message_data (\<lambda>b. b) [1, 2, 3, 4] example_peer (Obj (PeerUserInfoRequest_Request, [])) = Inr out"
    by (rule example_request)
  have "(''_on_peer_user_info_request'', From_Peer, PeerUserInfoRequest_Request) \<in> set (handlers_of Peer_Manager)"
    by (simp add: peer_handlers_def)
  from sent_message_reaches_its_handler [OF this example_origin example_class out, of Inr] out show ?thesis by auto
qed


end
