(* ===== verification/Client_Properties.thy ===== *)
theory Client_Properties
  imports Client Network_Properties Distributed_Properties
begin

text \<open>
Properties of the client as a whole: the sessions of its components in every run, what a login
  says to the server, what the end of a connection and stopping the client leave, and a session
  whose first message cannot be written.
\<close>

subsection \<open>Who listens\<close>

lemma listeners:
  "listeners_for Connection_State_Changed client_bus = map On_State_Changed
     [Distributed_Network, Tracking_Manager, User_Manager, Room_Manager, Search_Manager, Server_Manager, Client_Component]"
  "listeners_for Session_Destroyed_Event client_bus = map On_Session_Destroyed
     [Distributed_Network, User_Manager, Shares_Manager, Search_Manager]"
  "listeners_for Session_Initialized_Event client_bus = map On_Session_Initialized
     [Network_Component, Distributed_Network, User_Manager, Room_Manager, Interest_Manager, Shares_Manager,
      Transfer_Manager, Search_Manager]"
  by code_simp+

lemma session_destroyed_eq: "session_destroyed s = (Done, s\<lparr>dist_part := on_distributed_session_destroyed (dist_part s),
    chat_part := on_users (\<lambda>um. um\<lparr>session_name := None\<rparr>) (chat_part s), shares_session := None,
    searches_part := on_searches_session_destroyed (searches_part s)\<rparr>)"
  by (simp add: session_destroyed_def emit_event_def listeners handle_destroyed_def on_session_destroyed_def
      users_session_destroyed_def shares_session_destroyed_def)

definition after_state :: "client_config \<Rightarrow> connection_status \<Rightarrow> close_reason \<Rightarrow> system \<Rightarrow> system" where
  \<comment> \<open>what all listeners but the client do\<close>
  "after_state cfg st reason s = s\<lparr>net_part := on_server_connection_state_changed (cfg_net cfg) st reason (net_part s),
     dist_part := reset_server_values (dist_part s),
     tracking_part := (if st = CLOSED then tracking_stop (tracking_part s) else tracking_part s),
     chat_part := (if st = CLOSED then reset_rooms (on_users reset_users (chat_part s)) else chat_part s),
     searches_part := on_searches_state_changed ServerConnection st (searches_part s),
     ping_task := on_ping_state_changed ServerConnection st (ping_task s)\<rparr>"

lemma server_state_changed_eq:
  "server_state_changed cfg (st, reason) s =
     (if st = CLOSED \<and> session s \<noteq> None then snd (session_destroyed ((after_state cfg st reason s)\<lparr>session := None\<rparr>))
      else after_state cfg st reason s)"
proof (cases "st = CLOSED")
  case closed: True
  show ?thesis
    by (cases "session s")
      (simp_all add: closed server_state_changed_def emit_event_def listeners handle_state_def on_state_changed_def state_listeners
        after_state_def session_destroyed_eq)
next
  case False
  then show ?thesis
    by (simp add: server_state_changed_def emit_event_def listeners handle_state_def on_state_changed_def state_listeners after_state_def)
qed

subsection \<open>Sessions\<close>

definition sessions_agree :: "system \<Rightarrow> bool" where
  \<comment> \<open>every component has the session of the client\<close>
  "sessions_agree s \<longleftrightarrow> session_user (dist_part s) = session s \<and> session_name (users_of (chat_part s)) = session s
     \<and> shares_session s = session s \<and> searches_session (searches_part s) = session s"

definition system_ok :: "system \<Rightarrow> bool" where
  "system_ok s \<longleftrightarrow> sessions_agree s \<and> connection_ok (server_conn s) \<and> \<not> obfuscated (server_conn s)
     \<and> (has_streams (server_conn s) \<longleftrightarrow> Connection.state (server_conn s) = CONNECTED)
     \<and> (session s \<noteq> None \<longrightarrow> Connection.state (server_conn s) = CONNECTED)
     \<and> ping_task s = (if Connection.state (server_conn s) = CONNECTED then Task_Running else No_Task)"

lemmas part_defs = after_state_def on_distributed_session_destroyed_def on_searches_session_destroyed_def
  on_searches_state_changed_def on_ping_state_changed_def reset_server_values_def reset_rooms_def on_users_def
  reset_users_def background_start_def background_cancel_def

lemma state_changed_parts:
  fixes s :: system
  assumes "s' = server_state_changed cfg (st, reason) s"
  shows "server_conn s' = server_conn s" "sent_log s' = sent_log s" "transfers_part s' = transfers_part s"
    "shares_part s' = shares_part s" "requests (searches_part s') = requests (searches_part s)"
    "session s' = (if st = CLOSED then None else session s)"
    "sessions_agree s \<Longrightarrow> sessions_agree s'"
    "ping_task s' = on_ping_state_changed ServerConnection st (ping_task s)"
  unfolding assms server_state_changed_eq
  by (auto simp: session_destroyed_eq sessions_agree_def part_defs)

lemmas state_parts = state_changed_parts [OF refl]

lemma server_conn_changed: "server_conn (on_server_conn cfg f s) = f (server_conn s)"
proof -
  have "server_conn (fold (server_state_changed cfg) ns s) = server_conn s" for ns s
    by (induction ns arbitrary: s) (simp_all add: state_parts split: prod.split, metis state_parts(1) surj_pair)
  then show ?thesis by (simp add: on_server_conn_def Let_def)
qed

lemma on_server_disconnect:
  "on_server_conn cfg (disconnect r) s =
     (if Connection.state (server_conn s) \<in> {CLOSED, CLOSING} then s
      else server_state_changed cfg (CLOSED, r) (server_state_changed cfg (CLOSING, r) (s\<lparr>server_conn := disconnect r (server_conn s)\<rparr>)))"
  by (auto simp: on_server_conn_def Let_def disconnect_def set_state_def cancel_queued_messages_def)

lemma on_server_connect:
  "on_server_conn cfg (\<lambda>c. snd (connect opened c)) s =
     (let s1 = server_state_changed cfg (CONNECTING, UNKNOWN) (s\<lparr>server_conn := snd (connect opened (server_conn s))\<rparr>)
      in if opened then server_state_changed cfg (CONNECTED, UNKNOWN) s1
         else server_state_changed cfg (CLOSED, CONNECT_FAILED) (server_state_changed cfg (CLOSING, CONNECT_FAILED) s1))"
  by (auto simp: on_server_conn_def Let_def connect_def disconnect_def set_state_def cancel_queued_messages_def)

lemma agree_conn [simp]:
  "sessions_agree (s\<lparr>server_conn := c\<rparr>) = sessions_agree s" "sessions_agree (s\<lparr>sent_log := l\<rparr>) = sessions_agree s"
  "sessions_agree (s\<lparr>net_part := n\<rparr>) = sessions_agree s"
  by (simp_all add: sessions_agree_def)

lemma conn_facts:
  "obfuscated (disconnect r c) = obfuscated c" "Connection.state (disconnect r c) \<noteq> CONNECTED"
  "Connection.state c \<notin> {CLOSED, CLOSING} \<Longrightarrow> Connection.state (disconnect r c) = CLOSED"
  "obfuscated (snd (connect opened c)) = obfuscated c"
  "Connection.state (snd (connect opened c)) = (if opened then CONNECTED else CLOSED)"
  "Connection.state c \<notin> {CLOSED, CLOSING} \<Longrightarrow> \<not> has_streams (disconnect r c)"
  "has_streams (snd (connect opened c)) = opened"
  by (auto simp: connect_def disconnect_def set_state_def cancel_queued_messages_def Let_def)

lemma disconnect_ok: "system_ok s \<Longrightarrow> system_ok (on_server_conn cfg (disconnect r) s)"
  unfolding system_ok_def on_server_disconnect
  by (simp add: state_parts connection_ok_disconnect conn_facts on_ping_state_changed_def background_cancel_def)

lemma connect_ok: "system_ok s \<Longrightarrow> system_ok (on_server_conn cfg (\<lambda>c. snd (connect opened c)) s)"
  unfolding system_ok_def on_server_connect Let_def
  by (simp add: state_parts connection_ok_connect conn_facts on_ping_state_changed_def background_cancel_def background_start_def)

lemma send_forms:
  assumes "\<not> obfuscated c"
  shows "send_message compr token w m c =
     (case serialize_message compr m of
        Inl _ \<Rightarrow> (Inr [], c)
      | Inr data \<Rightarrow>
          if is_closing c then (Inr [], c)
          else if \<not> has_streams c then (Inl ConnectionWriteError, c)
          else (case w of WriteOk \<Rightarrow> (Inr data, c)
            | WriteTimeout \<Rightarrow> (Inl ConnectionWriteError, disconnect TIMEOUT c)
            | WriteFailed \<Rightarrow> (Inl ConnectionWriteError, disconnect WRITE_ERROR c)))"
  using assms by (auto simp: send_message_def encode_message_data_def send_bytes_def split: sum.split write_outcome.split)

lemma send_outcomes:
  assumes "\<not> obfuscated c"
  shows "send_message compr token w m c = (Inr [], c) \<or> send_message compr token w m c = (Inl ConnectionWriteError, c)
    \<or> (\<exists>data. w = WriteOk \<and> send_message compr token w m c = (Inr data, c))
    \<or> (\<exists>r. send_message compr token w m c = (Inl ConnectionWriteError, disconnect r c))"
  unfolding send_forms [OF assms] by (cases "serialize_message compr m"; cases w) auto

lemma on_server_id: "f (server_conn s) = server_conn s \<Longrightarrow> on_server_conn cfg f s = s"
  by (simp add: on_server_conn_def Let_def)

lemma on_server_cong: "f (server_conn s) = g (server_conn s) \<Longrightarrow> on_server_conn cfg f s = on_server_conn cfg g s"
  by (simp add: on_server_conn_def)

definition writable :: "client_config \<Rightarrow> message_object \<Rightarrow> bool" where
  \<comment> \<open>it can be serialized, to something\<close>
  "writable cfg m \<longleftrightarrow> (case serialize_message (compress (cfg_net cfg)) (Obj m) of Inl _ \<Rightarrow> False | Inr data \<Rightarrow> data \<noteq> [])"

lemma send_one_cases:
  assumes "\<not> obfuscated (server_conn s)"
  shows "system_send_one cfg w m s = (Inr (), s)
    \<or> system_send_one cfg w m s = (Inl (net_error.Connection_Error ConnectionWriteError), s)
    \<or> w m = WriteOk \<and> system_send_one cfg w m s = (Inr (), s\<lparr>sent_log := sent_log s @ [m]\<rparr>)
    \<or> (\<exists>r. system_send_one cfg w m s = (Inl (net_error.Connection_Error ConnectionWriteError), on_server_conn cfg (disconnect r) s))"
proof -
  let ?send = "send_message (compress (cfg_net cfg)) (key_token (cfg_net cfg)) (w m) (Obj m)"
  from send_outcomes [OF assms, of "compress (cfg_net cfg)" "key_token (cfg_net cfg)" "w m" "Obj m"]
  consider (skip) "?send (server_conn s) = (Inr [], server_conn s)"
    | (failed) "?send (server_conn s) = (Inl ConnectionWriteError, server_conn s)"
    | (ok) data where "w m = WriteOk" "?send (server_conn s) = (Inr data, server_conn s)"
    | (closed) r where "?send (server_conn s) = (Inl ConnectionWriteError, disconnect r (server_conn s))" by blast
  then show ?thesis
  proof cases
    case closed
    then have "on_server_conn cfg (\<lambda>c. snd (?send c)) s = on_server_conn cfg (disconnect r) s"
      by (intro on_server_cong) simp
    with closed show ?thesis unfolding system_send_one_def Let_def by auto
  qed (auto simp: on_server_id system_send_one_def Let_def)
qed

lemma send_all_inv:
  assumes "\<And>m s. P s \<Longrightarrow> P (snd (f m s))" "P s"
  shows "P (snd (send_all f ms s))"
  using assms(2) unfolding send_all_def
  by (induction ms rule: rev_induct) (auto simp: split_def intro: assms(1))

lemma ok_log [simp]: "system_ok (s\<lparr>sent_log := l\<rparr>) = system_ok s"
  by (simp add: system_ok_def)

lemma send_ok: "system_ok s \<Longrightarrow> system_ok (snd (system_send cfg w ms s))"
proof -
  assume ok: "system_ok s"
  have "system_ok (snd (system_send_one cfg w m s))" if "system_ok s" for m s
    using send_one_cases [of s cfg w m] that disconnect_ok [OF that, of cfg] by (auto simp: system_ok_def [of s])
  from send_all_inv [of system_ok, OF this ok] show ?thesis
    by (simp add: system_send_def split_def)
qed

definition serving :: "system \<Rightarrow> bool" where
  "serving s \<longleftrightarrow> has_streams (server_conn s) \<and> \<not> is_closing (server_conn s) \<and> \<not> obfuscated (server_conn s)"

lemma send_one_writes:
  assumes "serving s" "w m = WriteOk"
  shows "system_send_one cfg w m s = (Inr (), if writable cfg m then s\<lparr>sent_log := sent_log s @ [m]\<rparr> else s)"
  using assms by (simp add: system_send_one_def send_forms serving_def writable_def Let_def on_server_id split: sum.split)

lemma send_writes:
  assumes "serving s" "\<forall>m \<in> set ms. w m = WriteOk"
  shows "system_send cfg w ms s = (True, s\<lparr>sent_log := sent_log s @ filter (writable cfg) ms\<rparr>)"
proof -
  have "send_all (system_send_one cfg w) ms s = (map (\<lambda>m. (m, Inr ())) ms, s\<lparr>sent_log := sent_log s @ filter (writable cfg) ms\<rparr>)"
    using assms(2) unfolding send_all_def
  proof (induction ms rule: rev_induct)
    case (snoc m ms)
    have "serving (s\<lparr>sent_log := sent_log s @ filter (writable cfg) ms\<rparr>)" using assms(1) by (simp add: serving_def)
    from send_one_writes [OF this, of w m cfg] show ?case using snoc by simp
  qed simp
  then show ?thesis by (simp add: system_send_def list_all_iff)
qed

definition announcements :: "client_config \<Rightarrow> pystr \<Rightarrow> system \<Rightarrow> message_object list" where
  \<comment> \<open>what the start of a session says to the server\<close>
  "announcements cfg me s = port_messages (net_part s)
     @ branch_messages (snd (on_distributed_session_initialized me (dist_part s))) @ user_messages
     @ map room_request_object (on_rooms_session_initialized (cfg_invites cfg) (cfg_auto_join cfg) (cfg_favorites cfg))
     @ on_interest_session_initialized (cfg_liked cfg) (cfg_hated cfg) @ shares_messages True (shares_part s)"

definition session_started :: "client_config \<Rightarrow> pystr \<Rightarrow> system \<Rightarrow> system" where
  "session_started cfg me s = (let um = users_of (chat_part s) in
     s\<lparr>dist_part := fst (on_distributed_session_initialized me (dist_part s)),
      chat_part := on_users (\<lambda>_. fst (on_users_session_initialized me (cfg_friends cfg) (um\<lparr>session_name := Some me\<rparr>) (tracking_part s))) (chat_part s),
      tracking_part := snd (on_users_session_initialized me (cfg_friends cfg) (um\<lparr>session_name := Some me\<rparr>) (tracking_part s)),
      shares_session := Some me,
      transfers_part := request_management_cycle TRANSFER_CHANGE (transfers_part s),
      searches_part := on_searches_session_initialized me (searches_part s),
      sent_log := sent_log s @ filter (writable cfg) (announcements cfg me s)\<rparr>)"

lemma serving_parts [simp]:
  "serving (s\<lparr>dist_part := d\<rparr>) = serving s" "serving (s\<lparr>chat_part := c\<rparr>) = serving s"
  "serving (s\<lparr>tracking_part := t\<rparr>) = serving s" "serving (s\<lparr>shares_session := x\<rparr>) = serving s"
  "serving (s\<lparr>sent_log := l\<rparr>) = serving s" "serving (s\<lparr>session := x\<rparr>) = serving s"
  by (simp_all add: serving_def)

abbreviation written :: "client_config \<Rightarrow> message_object list \<Rightarrow> system \<Rightarrow> system" where
  "written cfg ms s \<equiv> s\<lparr>sent_log := sent_log s @ filter (writable cfg) ms\<rparr>"

abbreviation room_messages :: "client_config \<Rightarrow> message_object list" where
  "room_messages cfg \<equiv> map room_request_object (on_rooms_session_initialized (cfg_invites cfg) (cfg_auto_join cfg) (cfg_favorites cfg))"

lemma component_started:
  assumes "serving s"
  shows "\<forall>m \<in> set (port_messages (net_part s)). w m = WriteOk \<Longrightarrow>
      on_session_initialized cfg w me Network_Component s = (Done, written cfg (port_messages (net_part s)) s)"
    and "on_distributed_session_initialized me (dist_part s) = (d, outs) \<Longrightarrow> \<forall>m \<in> set (branch_messages outs). w m = WriteOk \<Longrightarrow>
      on_session_initialized cfg w me Distributed_Network s = (Done, written cfg (branch_messages outs) (s\<lparr>dist_part := d\<rparr>))"
    and "on_users_session_initialized me (cfg_friends cfg) ((users_of (chat_part s))\<lparr>session_name := Some me\<rparr>) (tracking_part s) = (um, tm) \<Longrightarrow>
      \<forall>m \<in> set user_messages. w m = WriteOk \<Longrightarrow>
      on_session_initialized cfg w me User_Manager s = (Done, (written cfg user_messages s)\<lparr>chat_part := on_users (\<lambda>_. um) (chat_part s), tracking_part := tm\<rparr>)"
    and "\<forall>m \<in> set (room_messages cfg). w m = WriteOk \<Longrightarrow>
      on_session_initialized cfg w me Room_Manager s = (Done, written cfg (room_messages cfg) s)"
    and "\<forall>m \<in> set (on_interest_session_initialized (cfg_liked cfg) (cfg_hated cfg)). w m = WriteOk \<Longrightarrow>
      on_session_initialized cfg w me Interest_Manager s = (Done, written cfg (on_interest_session_initialized (cfg_liked cfg) (cfg_hated cfg)) s)"
    and "\<forall>m \<in> set (shares_messages True (shares_part s)). w m = WriteOk \<Longrightarrow>
      on_session_initialized cfg w me Shares_Manager s = (Done, written cfg (shares_messages True (shares_part s)) (s\<lparr>shares_session := Some me\<rparr>))"
  using assms
  by (simp_all add: session_listeners reported_def send_writes on_users_def on_rooms_session_initialized_def)

lemma managers_started:
  "on_session_initialized cfg w me Transfer_Manager s = (Done, s\<lparr>transfers_part := request_management_cycle TRANSFER_CHANGE (transfers_part s)\<rparr>)"
  "on_session_initialized cfg w me Search_Manager s = (Done, s\<lparr>searches_part := on_searches_session_initialized me (searches_part s)\<rparr>)"
  by (simp_all add: session_listeners)

lemma session_initialized_eq:
  assumes "serving s" "\<forall>m \<in> set (announcements cfg me s). w m = WriteOk"
  shows "session_initialized cfg w me s = (Done, session_started cfg me s)"
proof -
  obtain d outs where d: "on_distributed_session_initialized me (dist_part s) = (d, outs)" by (rule prod.exhaust)
  obtain um tm where u: "on_users_session_initialized me (cfg_friends cfg) ((users_of (chat_part s))\<lparr>session_name := Some me\<rparr>) (tracking_part s) = (um, tm)"
    by (rule prod.exhaust)
  have w: "\<forall>m \<in> set (port_messages (net_part s)). w m = WriteOk" "\<forall>m \<in> set (branch_messages outs). w m = WriteOk"
    "\<forall>m \<in> set user_messages. w m = WriteOk" "\<forall>m \<in> set (room_messages cfg). w m = WriteOk"
    "\<forall>m \<in> set (on_interest_session_initialized (cfg_liked cfg) (cfg_hated cfg)). w m = WriteOk"
    "\<forall>m \<in> set (shares_messages True (shares_part s)). w m = WriteOk"
    using assms(2) unfolding announcements_def d snd_conv set_append ball_Un by blast+
  show ?thesis
    unfolding session_initialized_def emit_event_def listeners list.map notify.simps handle_initialized_def listener.case
    using assms(1)
    by (simp add: component_started managers_started d u w session_started_def announcements_def Let_def)
qed

subsection \<open>Runs of the client\<close>

inductive system_step :: "client_config \<Rightarrow> system \<Rightarrow> system \<Rightarrow> bool" for cfg where
  Connecting: "system_step cfg s (snd (system_connect cfg clear_bound obf_bound opened s))"
| Logging_in: "\<forall>m. w m = WriteOk \<Longrightarrow> system_step cfg s (snd (system_login cfg w response minor s))"
| Reconnected: "\<forall>m. w m = WriteOk \<Longrightarrow> system_step cfg s (system_reconnected cfg w response s)"
| Sending: "system_step cfg s (snd (system_send cfg w messages s))"
| Lost: "system_step cfg s (on_server_conn cfg (disconnect reason) s)"
| Loading: "system_step cfg s (start_tasks (load_services env saved entries cached s))"
| Stopping: "system_step cfg s (system_stop cfg s)"
| Working: \<comment> \<open>anything else the components do: no other operation writes a session\<close>
    "server_conn s' = server_conn s \<Longrightarrow> ping_task s' = ping_task s \<Longrightarrow> session s' = session s \<Longrightarrow>
     session_user (dist_part s') = session_user (dist_part s) \<Longrightarrow>
     session_name (users_of (chat_part s')) = session_name (users_of (chat_part s)) \<Longrightarrow>
     shares_session s' = shares_session s \<Longrightarrow>
     searches_session (searches_part s') = searches_session (searches_part s) \<Longrightarrow> system_step cfg s s'"

definition new_system :: "net \<Rightarrow> bool \<Rightarrow> shares \<Rightarrow> manager \<Rightarrow> system" where
  "new_system n look_for_parent sh m = \<lparr>server_conn = new_connection ServerConnection False [] False, net_part = n,
     dist_part = initial_dist look_for_parent, chat_part = \<lparr>rooms_of = [], users_of = no_users\<rparr>, tracking_part = Map.empty,
     shares_part = sh, shares_session = None, transfers_part = m, searches_part = new_searches,
     ping_task = No_Task, user_task = No_Task, transfer_cycle_task = No_Task, progress_task = No_Task,
     session = None, sent_log = []\<rparr>"

lemma new_system_ok: "system_ok (new_system n look_for_parent sh m)"
  by (simp add: system_ok_def new_system_def sessions_agree_def initial_dist_def no_users_def new_searches_def
      connection_ok_def connection_inv_def new_connection_def)

lemma ok_net [simp]: "system_ok (s\<lparr>net_part := n\<rparr>) = system_ok s"
  by (simp add: system_ok_def)

lemma serving_iff: "system_ok s \<Longrightarrow> serving s \<longleftrightarrow> has_streams (server_conn s)"
  by (auto simp: system_ok_def serving_def connection_ok_def connection_inv_def)

lemma notified_users [simp]:
  "session_user (fst (on_distributed_session_initialized me d)) = Some me"
  "session_name (fst (on_users_session_initialized me fs um tm)) = Some me"
  by (auto simp: on_distributed_session_initialized_def notify_server_of_parent_def on_users_session_initialized_def
      modify_user_def get_user_object_def Let_def split: sum.split option.split)

lemma started_agree: "session s = Some me \<Longrightarrow> sessions_agree (session_started cfg me s)"
  by (simp add: session_started_def sessions_agree_def Let_def on_users_def on_searches_session_initialized_def)

lemma started_parts [simp]:
  "server_conn (session_started cfg me s) = server_conn s" "session (session_started cfg me s) = session s"
  "ping_task (session_started cfg me s) = ping_task s"
  by (simp_all add: session_started_def Let_def)

lemma reader_ok: "system_ok s \<Longrightarrow> system_ok (s\<lparr>server_conn := (server_conn s)\<lparr>reader_task := b\<rparr>\<rparr>)"
  by (auto simp: system_ok_def connection_ok_def connection_inv_def)

text \<open>What a login does, when the server takes everything the client writes.\<close>

definition logged_in :: "client_config \<Rightarrow> int \<Rightarrow> system \<Rightarrow> system" where
  "logged_in cfg minor s =
     (let me = login_username (cfg_login cfg);
          s1 = s\<lparr>sent_log := sent_log s @ filter (writable cfg) [login_request (cfg_login cfg) minor],
                 session := Some me, chat_part := on_users (touch_user me) (chat_part s)\<rparr>;
          s2 = session_started cfg me s1
      in s2\<lparr>server_conn := (server_conn s2)\<lparr>reader_task := True\<rparr>\<rparr>)"

lemma announcements_same [simp]: 
  "announcements cfg me (s\<lparr>sent_log := l, session := x, chat_part := c\<rparr>) = announcements cfg me s"
  by (simp add: announcements_def)

lemma login_eq:
  assumes "serving s" "w (login_request (cfg_login cfg) minor) = WriteOk"
    and "\<forall>m \<in> set (announcements cfg (login_username (cfg_login cfg)) s). w m = WriteOk" "login_response response = Inr ()"
  shows "system_login cfg w response minor s = (Inr (), logged_in cfg minor s)"
proof -
  have sent: "system_send cfg w [login_request (cfg_login cfg) minor] s = (True, written cfg [login_request (cfg_login cfg) minor] s)"
    by (rule send_writes) (simp_all add: assms(1,2))
  show ?thesis
    using assms session_initialized_eq [of _ cfg "login_username (cfg_login cfg)" w]
    unfolding system_login_def sent logged_in_def Let_def by (simp add: serving_def)
qed

lemma logged_in_ok:
  assumes "system_ok s" "serving s"
  shows "system_ok (logged_in cfg minor s)"
proof -
  have c: "server_conn (logged_in cfg minor s) = (server_conn s)\<lparr>reader_task := True\<rparr>" "ping_task (logged_in cfg minor s) = ping_task s"
    "sessions_agree (logged_in cfg minor s)" "Connection.state (server_conn s) = CONNECTED"
    using assms by (simp_all add: logged_in_def Let_def started_agree serving_iff) (simp add: system_ok_def)
  show ?thesis using assms(1) c unfolding system_ok_def
    by (auto simp: connection_ok_def connection_inv_def)
qed

lemma written_conn:
  assumes "\<not> obfuscated (server_conn s)" "\<forall>m. w m = WriteOk"
  shows "server_conn (snd (system_send cfg w ms s)) = server_conn s"
proof -
  have one: "server_conn (snd (system_send_one cfg w m t)) = server_conn t" if "\<not> obfuscated (server_conn t)" for m t
    using that assms(2) [rule_format, of m]
    by (simp add: system_send_one_def Let_def server_conn_changed send_forms split: sum.split)
  have "server_conn (snd (send_all (system_send_one cfg w) ms s)) = server_conn s"
    by (rule send_all_inv [where P = "\<lambda>t. server_conn t = server_conn s"]) (use one assms(1) in auto)
  then show ?thesis by (simp add: system_send_def split_def)
qed

lemma login_ok:
  assumes "system_ok s" "\<forall>m. w m = WriteOk"
  shows "system_ok (snd (system_login cfg w response minor s))"
proof -
  obtain ok s1 where s1: "system_send cfg w [login_request (cfg_login cfg) minor] s = (ok, s1)" by (rule prod.exhaust)
  have ok1: "system_ok s1" using send_ok [OF assms(1), of cfg w] s1 by (metis snd_conv)
  show ?thesis
  proof (cases "serving s \<and> login_response response = Inr ()")
    case True
    then show ?thesis using login_eq [of s w cfg minor response] logged_in_ok [OF assms(1)] assms(2) by simp
  next
    case False
    have "server_conn s1 = server_conn s"
      using written_conn [of s w cfg "[login_request (cfg_login cfg) minor]"] assms s1 by (simp add: system_ok_def)
    then have "serving s1 = serving s" by (simp add: serving_def)
    then have "has_streams (server_conn s1) \<Longrightarrow> \<exists>e. login_response response = Inl e"
      using False serving_iff [OF ok1] by (cases "login_response response") auto
    then show ?thesis using ok1 disconnect_ok [OF ok1]
      unfolding system_login_def s1 by (auto split: bool.split)
  qed
qed

lemma disconnect_peer_ok: "system_ok s \<Longrightarrow> system_ok (disconnect_peer ref s)"
  by (auto simp: disconnect_peer_def on_net_def Let_def system_ok_def sessions_agree_def fst_connection_closed)

lemma disconnect_peers_ok: "system_ok s \<Longrightarrow> system_ok (fold disconnect_peer refs s)"
  by (induction refs arbitrary: s) (simp_all add: disconnect_peer_ok)

lemma stop_ok: "system_ok s \<Longrightarrow> system_ok (system_stop cfg s)"
proof -
  assume "system_ok s"
  then have "system_ok (system_disconnect cfg s)"
    unfolding system_disconnect_def Let_def on_net_def by (simp add: disconnect_peers_ok disconnect_ok)
  then show ?thesis
    by (simp add: system_stop_def stop_services_def users_stop_def transfers_stop_def Let_def system_ok_def sessions_agree_def stop_searches_def split: prod.split)
qed

lemma step_ok: "system_step cfg s s' \<Longrightarrow> system_ok s \<Longrightarrow> system_ok s'"
proof (induction rule: system_step.induct)
  case (Connecting s clear_bound obf_bound opened)
  then show ?case by (auto simp: system_connect_def connect_ok split: prod.split sum.split)
next
  case (Reconnected w s response)
  then show ?case by (simp add: system_reconnected_def login_ok)
next
  case (Loading s env saved entries cached)
  then show ?case by (simp add: start_tasks_def load_services_def system_ok_def sessions_agree_def)
next
  case (Working s' s)
  then show ?case by (simp add: system_ok_def sessions_agree_def)
qed (simp_all add: login_ok send_ok disconnect_ok stop_ok)


lemma tracked_by_fold: "u \<in> set us \<or> tm u \<noteq> None \<Longrightarrow> fold (\<lambda>u. track_user u f) us tm u \<noteq> None"
  by (induction us arbitrary: tm) (auto simp: track_user_def)

lemma session_users:
  assumes "on_users_session_initialized me fs um tm = (um', tm')"
  shows "\<exists>u. known_users um' me = Some u \<and> status u = STATUS_ONLINE" "u \<in> insert me (set fs) \<Longrightarrow> tm' u \<noteq> None"
proof -
  show "\<exists>u. known_users um' me = Some u \<and> status u = STATUS_ONLINE"
    using assms by (auto simp: on_users_session_initialized_def modify_user_def split: prod.splits)
  have "track_user me FRIEND tm me \<noteq> None" by (simp add: track_user_def)
  then show "u \<in> insert me (set fs) \<Longrightarrow> tm' u \<noteq> None"
    using assms tracked_by_fold [of u fs "track_user me FRIEND tm" FRIEND] by (auto simp: on_users_session_initialized_def track_friends_def)
qed

text \<open>C30: A login that the server accepts starts the session in every component and tells the server,
  in this order, the listening ports, the place in the distributed network, the status, what about
  private rooms (and the favorite rooms), the interests and the number of shares; then the own user
  is online and tracked as the friends are, the transfers are managed and the messages of the
  server are read.\<close>

theorem login_announces_the_session:
  assumes "system_ok s" "Connection.state (server_conn s) = CONNECTED"
    and "w (login_request (cfg_login cfg) minor) = WriteOk" "\<forall>m \<in> set (announcements cfg (login_username (cfg_login cfg)) s). w m = WriteOk"
    and "login_response response = Inr ()" "me = login_username (cfg_login cfg)"
  shows "\<exists>s'. system_login cfg w response minor s = (Inr (), s') \<and> session s' = Some me \<and> sessions_agree s'
    \<and> sent_log s' = sent_log s @ filter (writable cfg) (login_request (cfg_login cfg) minor # announcements cfg me s)
    \<and> (\<exists>u. known_users (users_of (chat_part s')) me = Some u \<and> status u = STATUS_ONLINE)
    \<and> (\<forall>u \<in> insert me (set (cfg_friends cfg)). tracking_part s' u \<noteq> None)
    \<and> cycle_requested (transfers_part s') \<and> reader_task (server_conn s')"
proof -
  have "serving s" using assms(1,2) serving_iff by (simp add: system_ok_def)
  from login_eq [OF this assms(3,4,5)]
  have login: "system_login cfg w response minor s = (Inr (), logged_in cfg minor s)" .
  let ?s = "logged_in cfg minor s"
  have s: "session ?s = Some me" "reader_task (server_conn ?s)" "cycle_requested (transfers_part ?s)"
    "sent_log ?s = sent_log s @ filter (writable cfg) (login_request (cfg_login cfg) minor # announcements cfg me s)"
    by (simp_all add: logged_in_def session_started_def request_management_cycle_def Let_def assms(6))
  have agree: "sessions_agree ?s" by (simp add: logged_in_def Let_def started_agree)
  obtain um tm where u: "on_users_session_initialized me (cfg_friends cfg) ((touch_user me (users_of (chat_part s)))\<lparr>session_name := Some me\<rparr>) (tracking_part s) = (um, tm)"
    by (rule prod.exhaust)
  have parts: "users_of (chat_part ?s) = um" "tracking_part ?s = tm"
    using u by (simp_all add: logged_in_def session_started_def Let_def on_users_def assms(6))
  have "\<exists>u. known_users (users_of (chat_part ?s)) me = Some u \<and> status u = STATUS_ONLINE"
    "\<forall>u \<in> insert me (set (cfg_friends cfg)). tracking_part ?s u \<noteq> None"
    unfolding parts using session_users [OF u] by blast+
  then show ?thesis using login s agree by blast
qed

text \<open>When the connection to the server is closed, for whatever reason, the session ends in every
  component, users, privileges, rooms and tracked users are forgotten, the values the server gave
  the distributed network are unset and the pings and the wishlist stop; the peers of the
  distributed network, the transfers and the search requests stay.\<close>

theorem closing_ends_the_session:
  assumes "sessions_agree s" "Connection.state (server_conn s) \<notin> {CLOSED, CLOSING}"
    and "s' = on_server_conn cfg (disconnect reason) s"
  shows "session s' = None \<and> sessions_agree s'
    \<and> known_users (users_of (chat_part s')) = Map.empty \<and> privileged_users (users_of (chat_part s')) = {}
    \<and> rooms_of (chat_part s') = [] \<and> tracking_part s' = Map.empty
    \<and> parent_min_speed (dist_part s') = None \<and> parent_speed_ratio (dist_part s') = None
    \<and> ping_task s' = No_Task \<and> wishlist_task (searches_part s') = No_Task
    \<and> dpeers (dist_part s') = dpeers (dist_part s) \<and> requests (searches_part s') = requests (searches_part s)
    \<and> transfers_part s' = transfers_part s"
proof -
  have s': "s' = server_state_changed cfg (CLOSED, reason) (server_state_changed cfg (CLOSING, reason)
      (s\<lparr>server_conn := disconnect reason (server_conn s)\<rparr>))"
    using assms(2) unfolding assms(3) on_server_disconnect by simp
  have "session s' = None" "sessions_agree s'" "requests (searches_part s') = requests (searches_part s)" "transfers_part s' = transfers_part s"
    "ping_task s' = No_Task"
    using assms(1) by (simp_all add: s' state_parts on_ping_state_changed_def background_cancel_def)
  moreover have "known_users (users_of (chat_part s')) = Map.empty" "privileged_users (users_of (chat_part s')) = {}"
    "rooms_of (chat_part s') = []" "tracking_part s' = Map.empty" "wishlist_task (searches_part s') = No_Task"
    "parent_min_speed (dist_part s') = None" "parent_speed_ratio (dist_part s') = None" "dpeers (dist_part s') = dpeers (dist_part s)"
    unfolding s' server_state_changed_eq [of cfg CLOSED] server_state_changed_eq [of cfg CLOSING]
    by (simp_all add: session_destroyed_eq part_defs tracking_stop_def)
  ultimately show ?thesis by blast
qed

subsection \<open>A session that fails to start\<close>

definition dropping :: "system \<Rightarrow> bool" where
  "dropping s \<longleftrightarrow> is_closing (server_conn s) \<and> \<not> obfuscated (server_conn s)"

lemma dropping_parts [simp]:
  "dropping (s\<lparr>dist_part := d\<rparr>) = dropping s" "dropping (s\<lparr>chat_part := c\<rparr>) = dropping s"
  "dropping (s\<lparr>tracking_part := t\<rparr>) = dropping s" "dropping (s\<lparr>shares_session := x\<rparr>) = dropping s"
  by (simp_all add: dropping_def)

lemma send_dropped: "dropping s \<Longrightarrow> system_send cfg w ms s = (True, s)"
proof -
  assume "dropping s"
  then have "system_send_one cfg w m s = (Inr (), s)" for m
    by (simp add: system_send_one_def send_message_def dropping_def Let_def on_server_id)
  then have "send_all (system_send_one cfg w) ms s = (map (\<lambda>m. (m, Inr ())) ms, s)"
    unfolding send_all_def by (induction ms rule: rev_induct) simp_all
  then show ?thesis by (simp add: system_send_def list_all_iff)
qed

lemma component_dropped:
  assumes "dropping s"
  shows "on_distributed_session_initialized me (dist_part s) = (d, outs) \<Longrightarrow>
      on_session_initialized cfg w me Distributed_Network s = (Done, s\<lparr>dist_part := d\<rparr>)"
    and "on_users_session_initialized me (cfg_friends cfg) ((users_of (chat_part s))\<lparr>session_name := Some me\<rparr>) (tracking_part s) = (um, tm) \<Longrightarrow>
      on_session_initialized cfg w me User_Manager s = (Done, s\<lparr>chat_part := on_users (\<lambda>_. um) (chat_part s), tracking_part := tm\<rparr>)"
    and "on_session_initialized cfg w me Room_Manager s = (Done, s)"
    and "on_session_initialized cfg w me Interest_Manager s = (Done, s)"
    and "on_session_initialized cfg w me Shares_Manager s = (Done, s\<lparr>shares_session := Some me\<rparr>)"
  using assms by (simp_all add: session_listeners reported_def send_dropped on_users_def split: prod.split)

lemma send_one_fails:
  assumes "serving s" "writable cfg m" "w m \<noteq> WriteOk"
  shows "\<exists>r. system_send_one cfg w m s = (Inl (net_error.Connection_Error ConnectionWriteError), on_server_conn cfg (disconnect r) s)"
proof -
  let ?send = "send_message (compress (cfg_net cfg)) (key_token (cfg_net cfg)) (w m) (Obj m)"
  obtain data where "serialize_message (compress (cfg_net cfg)) (Obj m) = Inr data"
    using assms(2) by (auto simp: writable_def split: sum.splits)
  then obtain r where r: "?send (server_conn s) = (Inl ConnectionWriteError, disconnect r (server_conn s))"
    using assms(1,3) by (cases "w m") (auto simp: send_forms serving_def)
  have "on_server_conn cfg (\<lambda>c. snd (?send c)) s = on_server_conn cfg (disconnect r) s"
    by (rule on_server_cong) (simp add: r)
  then show ?thesis unfolding system_send_one_def Let_def using r by auto
qed

definition stale_sessions :: "pystr \<Rightarrow> system \<Rightarrow> bool" where
  \<comment> \<open>the client has no session, its components have one\<close>
  "stale_sessions me s \<longleftrightarrow> session s = None \<and> session_user (dist_part s) = Some me
     \<and> session_name (users_of (chat_part s)) = Some me \<and> shares_session s = Some me \<and> searches_session (searches_part s) = Some me"

lemma initialized_dropped:
  assumes "dropping s" "session s = None"
    and "on_session_initialized cfg w me Network_Component s0 = (Raised, s)"
  shows "stale_sessions me (snd (session_initialized cfg w me s0)) \<and> server_conn (snd (session_initialized cfg w me s0)) = server_conn s"
proof -
  obtain d outs where d: "on_distributed_session_initialized me (dist_part s) = (d, outs)" by (rule prod.exhaust)
  obtain um tm where u: "on_users_session_initialized me (cfg_friends cfg) ((users_of (chat_part s))\<lparr>session_name := Some me\<rparr>) (tracking_part s) = (um, tm)"
    by (rule prod.exhaust)
  have "session_user d = Some me" "session_name um = Some me"
    using notified_users(1) [of me "dist_part s"] d u
      notified_users(2) [of me "cfg_friends cfg" "(users_of (chat_part s))\<lparr>session_name := Some me\<rparr>" "tracking_part s"] by simp_all
  then show ?thesis
    unfolding session_initialized_def emit_event_def listeners list.map notify.simps handle_initialized_def listener.case
    using assms(1,2)
    by (simp add: assms(3) component_dropped managers_started d u stale_sessions_def on_users_def on_searches_session_initialized_def)
qed

lemma stale_stay:
  "stale_sessions me s \<Longrightarrow> stale_sessions me (server_state_changed cfg (st, r) s)"
  by (auto simp: server_state_changed_eq stale_sessions_def part_defs)

text \<open>C31: When the first message that starts a session cannot be written, the connection is closed and
  the session of the client ends inside the failing call; but the listeners after it then start the
  session in their components, so that \<open>login\<close> returns normally with no session in the client and
  one in each component. It stays there when a new connection is opened and closed, as a session
  that the client does not have is never ended.\<close>

theorem failed_start_leaves_sessions:
  assumes "system_ok s" "Connection.state (server_conn s) = CONNECTED"
    and "w (login_request (cfg_login cfg) minor) = WriteOk" "login_response response = Inr ()"
    and "m \<in> set (port_messages (net_part s))" "writable cfg m" "w m \<noteq> WriteOk"
    and "system_login cfg w response minor s = (result, s')" "me = login_username (cfg_login cfg)"
  shows "result = Inr () \<and> Connection.state (server_conn s') = CLOSED \<and> stale_sessions me s'
    \<and> (\<forall>opened reason. stale_sessions me
         (on_server_conn cfg (disconnect reason) (on_server_conn cfg (\<lambda>c. snd (connect opened c)) s')))"
proof -
  let ?s1 = "written cfg [login_request (cfg_login cfg) minor] s"
  let ?s2 = "?s1\<lparr>session := Some me, chat_part := on_users (touch_user me) (chat_part ?s1)\<rparr>"
  have serving: "serving s" "serving ?s2" using assms(1,2) serving_iff by (simp_all add: system_ok_def)
  have ports: "port_messages (net_part s) = [m]"
    using assms(5) by (auto simp: port_messages_def advertise_listening_ports_def List.map_filter_def split: prod.split)
  obtain r where one: "system_send_one cfg w m ?s2 =
      (Inl (net_error.Connection_Error ConnectionWriteError), on_server_conn cfg (disconnect r) ?s2)"
    using send_one_fails [of ?s2 cfg m w] serving(2) assms(6,7) by blast
  let ?s3 = "on_server_conn cfg (disconnect r) ?s2"
  have "on_session_initialized cfg w me Network_Component ?s2 = (Raised, ?s3)"
    using one by (simp add: session_listeners reported_def ports system_send_def send_all_def)
  moreover have s3: "session ?s3 = None" "server_conn ?s3 = disconnect r (server_conn s)"
    using assms(2) by (simp_all add: on_server_disconnect state_parts server_conn_changed)
  moreover have "dropping ?s3"
    using assms(1) disconnect_is_closing [of "server_conn s" r] unfolding dropping_def s3(2) system_ok_def connection_ok_def
    by (simp add: conn_facts)
  ultimately have stale: "stale_sessions me (snd (session_initialized cfg w me ?s2))"
    "server_conn (snd (session_initialized cfg w me ?s2)) = disconnect r (server_conn s)"
    using initialized_dropped [of ?s3] s3(2) by metis+
  have login: "result = Inr ()" "s' = (snd (session_initialized cfg w me ?s2))\<lparr>server_conn := (disconnect r (server_conn s))\<lparr>reader_task := True\<rparr>\<rparr>"
    using assms(8) send_writes [OF serving(1), of "[login_request (cfg_login cfg) minor]" w cfg] assms(3,4) serving(1) stale(2)
    by (auto simp: system_login_def Let_def serving_def assms(9))
  have s': "stale_sessions me s'" "Connection.state (server_conn s') = CLOSED"
    using stale(1) assms(2) conn_facts(3) by (simp_all add: login(2) stale_sessions_def)
  have "stale_sessions me (t\<lparr>server_conn := c\<rparr>) = stale_sessions me t" for t c by (simp add: stale_sessions_def)
  then show ?thesis using login(1) s' stale_stay
    by (simp add: on_server_disconnect on_server_connect Let_def)
qed

subsection \<open>Stopping\<close>

lemma state_changed_net:
  "net_part (server_state_changed cfg (st, r) s) = on_server_connection_state_changed (cfg_net cfg) st r (net_part s)"
  by (simp add: server_state_changed_eq session_destroyed_eq after_state_def)

text \<open>The client restricted to its network is the network: the events do not act back on it.\<close>

lemma on_server_conn_net:
  "(server_conn (on_server_conn cfg f s), net_part (on_server_conn cfg f s)) = on_server (cfg_net cfg) f (server_conn s, net_part s)"
proof -
  have "net_part (fold (server_state_changed cfg) ns t) =
      fold (\<lambda>(st, reason). on_server_connection_state_changed (cfg_net cfg) st reason) ns (net_part t)" for ns t
    by (induction ns arbitrary: t) (auto simp: state_changed_net)
  then show ?thesis unfolding server_conn_changed by (simp add: on_server_def on_server_conn_def Let_def)
qed

lemma disconnect_peers_net:
  "server_conn (fold disconnect_peer refs s) = server_conn s"
  "net_part (fold disconnect_peer refs s) = fold (peer_disconnect close_reason.REQUESTED) refs (net_part s)"
  "pending_parents (dist_part (fold disconnect_peer refs s)) = pending_parents (dist_part s)"
  by (induction refs arbitrary: s) (simp_all add: disconnect_peer_def on_net_def Let_def fst_connection_closed)

lemma system_disconnect_net:
  "disconnect_network (cfg_net cfg) (server_conn s, net_part s) = (server_conn (system_disconnect cfg s), net_part (system_disconnect cfg s))"
proof -
  let ?s1 = "on_server_conn cfg (disconnect close_reason.REQUESTED) (on_net cancel_all_tasks s)"
  have "disconnect_server (cfg_net cfg) (server_conn s, cancel_all_tasks (net_part s)) = (server_conn ?s1, net_part ?s1)"
    using on_server_conn_net [of cfg "disconnect close_reason.REQUESTED" "on_net cancel_all_tasks s"]
    by (simp add: disconnect_server_def on_net_def)
  then show ?thesis
    unfolding disconnect_network_def system_disconnect_def Let_def fst_conv snd_conv
    by (simp add: on_net_def disconnect_peers_net)
qed


subsection \<open>Concrete runs\<close>

definition witness_cfg :: client_config where
  "witness_cfg = \<lparr>cfg_net = witness_env, cfg_login = \<lparr>login_username = [109], login_password = [112],
     reconnect_automatically = True, md5_hex = (\<lambda>_. [48])\<rparr>, cfg_friends = [[102]], cfg_invites = True,
     cfg_auto_join = True, cfg_favorites = [], cfg_liked = [], cfg_hated = []\<rparr>"

definition witness_new :: system where
  "witness_new = new_system (new_net 0 0 8 0) True
     \<lparr>objects = (\<lambda>_. \<lparr>directory = [], absolute_path = [], dir_alias = [], share_mode = SHARE_EVERYONE, dir_users = [], dir_items = []\<rparr>),
      next_ref = 0, shared_directories = [], term_map = [], item_attributes = (\<lambda>_. None)\<rparr>
     \<lparr>transfers = [], shares_change = False, transfer_change = False, cycle_requested = False, next_task = 0, events = []\<rparr>"

definition witness_connected :: system where
  "witness_connected = snd (system_connect witness_cfg True False True witness_new)"

definition witness_response :: "message_object option" where
  "witness_response = Some (Login_Response, [(''success'', PBool True)])"

lemma witness_connected:
  "system_ok witness_connected" "Connection.state (server_conn witness_connected) = CONNECTED"
  "net_inv (net_part witness_connected)" "get_listening_ports (net_part witness_connected) = (8, 0)"
  "pending_parents (dist_part witness_connected) = []" "login_response witness_response = Inr ()"
  "(system_step witness_cfg)\<^sup>*\<^sup>* witness_new witness_connected"
proof -
  define n where "n = (new_net 0 0 8 0)\<lparr>clear_listening := Some (8, CONNECTED)\<rparr>"
  have n: "connect_listening_ports witness_env True False (new_net 0 0 8 0) = (Inr (), n)" "net_inv n" "get_listening_ports n = (8, 0)"
  proof -
    show "connect_listening_ports witness_env True False (new_net 0 0 8 0) = (Inr (), n)"
      by (simp add: n_def connect_listening_ports_def new_net_def witness_env_def connect_listening_def create_listening_connection_def Let_def)
    show "net_inv n" using new_net_inv [of 0 0 8 0] by (simp add: n_def)
    show "get_listening_ports n = (8, 0)"
      by (simp add: n_def get_listening_ports_def get_port_def new_net_def create_listening_connection_def)
  qed
  have c: "witness_connected = on_server_conn witness_cfg (\<lambda>c. snd (connect True c)) (witness_new\<lparr>net_part := n\<rparr>)"
    using n(1) by (simp add: witness_connected_def system_connect_def witness_cfg_def witness_new_def new_system_def)
  have ok: "system_ok (witness_new\<lparr>net_part := n\<rparr>)" using new_system_ok by (simp add: witness_new_def)
  show "system_ok witness_connected" unfolding c by (rule connect_ok [OF ok])
  show "Connection.state (server_conn witness_connected) = CONNECTED" by (simp add: c server_conn_changed conn_facts)
  have net: "net_part witness_connected = start_server_connection_watchdog (start_upnp_job n)"
    by (simp add: c on_server_connect Let_def state_changed_net on_server_connection_state_changed_def witness_cfg_def witness_env_def)
  show "net_inv (net_part witness_connected)" "get_listening_ports (net_part witness_connected) = (8, 0)"
    using n by (simp_all add: net start_server_connection_watchdog_def start_upnp_job_def get_listening_ports_def get_port_def)
  show "pending_parents (dist_part witness_connected) = []"
    by (simp add: c on_server_connect Let_def server_state_changed_eq session_destroyed_eq part_defs witness_new_def new_system_def initial_dist_def)
  show "login_response witness_response = Inr ()" by (simp add: witness_response_def login_response_def)
  show "(system_step witness_cfg)\<^sup>*\<^sup>* witness_new witness_connected"
    unfolding witness_connected_def by (rule r_into_rtranclp) (rule Connecting)
qed

lemma witness_written: "writable witness_cfg (SetListenPort_Request, [(''port'', PInt 8), (''obfuscated_port_amount'', PInt 0), (''obfuscated_port'', PInt 0)])"
  by (simp add: writable_def serialize_message_def witness_cfg_def witness_env_def message_serialize_def SetListenPort_Request_def
      get_value_for_field_def getattr_def get_or_def uint32_serialize_def struct_pack_def Let_def)


lemma login_announces_the_session_witness:
  "\<exists>s'. system_login witness_cfg (\<lambda>_. WriteOk) witness_response 1 witness_connected = (Inr (), s')
     \<and> session s' = Some [109] \<and> tracking_part s' [102] \<noteq> None"
  using login_announces_the_session [OF witness_connected(1,2) _ _ witness_connected(6) refl, of "\<lambda>_. WriteOk" witness_cfg 1]
  by (auto simp: witness_cfg_def)

lemma closing_ends_the_session_witness:
  "ping_task (on_server_conn witness_cfg (disconnect EOF) witness_connected) = No_Task"
  using closing_ends_the_session [OF _ _ refl, of witness_connected witness_cfg EOF] witness_connected(1,2)
  by (simp add: system_ok_def)

lemma failed_start_leaves_sessions_witness:
  "stale_sessions [109] (snd (system_login witness_cfg (\<lambda>m. if fst m = SetListenPort_Request then WriteFailed else WriteOk)
     witness_response 1 witness_connected))"
proof -
  let ?w = "\<lambda>m :: message_object. if fst m = SetListenPort_Request then WriteFailed else WriteOk"
  let ?m = "(SetListenPort_Request, [(''port'', PInt 8), (''obfuscated_port_amount'', PInt 0), (''obfuscated_port'', PInt 0)])"
  have m: "?m \<in> set (port_messages (net_part witness_connected))"
    using witness_connected(4) by (simp add: port_messages_def advertise_listening_ports_def)
  have w: "?w (login_request (cfg_login witness_cfg) 1) = WriteOk"
    by (simp add: login_request_def Login_Request_def SetListenPort_Request_def)
  obtain result s' where l: "system_login witness_cfg ?w witness_response 1 witness_connected = (result, s')" by (rule prod.exhaust)
  show ?thesis
    using failed_start_leaves_sessions [where w = ?w, OF witness_connected(1,2) w witness_connected(6) m witness_written _ l refl] l
    by (simp add: witness_cfg_def)
qed


end
