(* ===== verification/Spec2Isabelle.thy ===== *)
theory Spec2Isabelle
  imports Protocol_Properties Connection Transfer_Cache File_Connection Read_Timeout Upload_Permissions Distributed_Properties Users_Properties Rooms_Properties Scanning Events Network_Properties Commands_Properties Dispatch Client_Properties
begin

text \<open>
  Verification of aioslsk, a client library for the Soulseek network (\<open>src/aioslsk/\<close>, Python).

  \<^bold>\<open>The program.\<close> A client holds one connection to the server, connections to peers (messages, type
  \<open>P\<close>; files, type \<open>F\<close>; the distributed search network, type \<open>D\<close>) and up to two listening
  connections. \<open>Network\<close> (\<open>network/network.py\<close>) owns them; a \<open>DataConnection\<close>
  (\<open>network/connection.py\<close>) cuts the stream into messages, removes the obfuscation
  (\<open>protocol/obfuscation.py\<close>) and parses them by the message classes of \<open>protocol/messages.py\<close>, which
  are dataclasses interpreted by \<open>protocol/primitives.py\<close>. A received message goes to the network's own
  handler, then over the event bus (\<open>events.py\<close>) to the managers - users, rooms, interests, searches,
  shares, transfers, peers, server, distributed network - and last to the futures of those who wait for
  it. A manager keeps its state in memory, answers with messages and emits events. \<open>SoulSeekClient\<close>
  (\<open>client.py\<close>) builds the managers in a fixed order, which is the order of their listeners, starts and
  stops them, and keeps the session from login to the loss of the server connection.

  \<^bold>\<open>How it is modelled.\<close> Each class with state is a record, each enumeration and each family of
  exceptions a datatype, each method a function that is given the state and what the surroundings answer
  and that returns the new state with the messages and events it produces, in their order. An exception
  that leaves a method is a value: \<open>Inl e\<close> of a sum, \<open>None\<close> of an option, or the first component of the
  result, together with the state written up to that point. Text is a list of code points (\<open>pystr\<close>), bytes
  are \<open>8 word\<close>, Python's integers \<open>int\<close> or \<open>nat\<close>, dictionaries association lists where the order matters
  and maps elsewhere, objects that are shared by reference are numbered (connections, directories) or named
  (users, rooms). Time, clock readings, random keys, the outcome of a write, a read, a connection attempt,
  of file system calls and of code outside the repository (zlib, sha256, mutagen, UPnP, the character
  tables of Unicode) are arguments; what the proofs need of them is a hypothesis of the theorem or of
  a locale (\<open>text_tables\<close>). Floating point quotients are exact rationals.

  \<^bold>\<open>The theories\<close>, in the order in which they build on each other:

  \<^item> \<open>Prelude\<close>: bytes, sequencing of fallible steps (\<open>bindE\<close>, \<open>mapE\<close>), little-endian numbers, slices.
  \<^item> \<open>Obfuscation\<close> (\<open>protocol/obfuscation.py\<close>): key rotation on words, \<open>encode\<close>, \<open>decode\<close>; both are shown
    equal to an XOR with a key stream. \<open>Py_Text\<close>: UTF-8, code page 1252 and dotted addresses.
  \<^item> \<open>Primitives\<close>, \<open>Dataclass\<close>, \<open>Message_Codec\<close>, \<open>Protocol_Data\<close> (\<open>protocol/primitives.py\<close>): the primitive
    codecs (interface \<open>serializable\<close>, one interpretation each), the generic codec of a schema with its
    conditional and optional fields, the frame of a message (interface \<open>message_family\<close>), and the
    hand-written codecs of file lists with their equivalence to the generic one.
  \<^item> \<open>Server_Requests\<close>, \<open>Server_Responses\<close>, \<open>Peer_Messages\<close>, \<open>Messages\<close> (\<open>protocol/messages.py\<close>): all 158
    message classes as schemas and the five dispatchers, each catalogue an interpretation of
    \<open>message_family\<close>. \<open>Protocol_Properties\<close>: the round trips of the protocol layer.
  \<^item> \<open>Rate_Limiter\<close> (\<open>network/rate_limiter.py\<close>): the token bucket; interface \<open>token_source\<close>.
  \<^item> \<open>Connection\<close> (\<open>network/connection.py\<close>): state and notifications, connecting and closing, reading and
    sending messages, the reader loop, sending and receiving files; \<open>Read_Timeout\<close>: deadlines of reads, the
    pings of \<open>server.py\<close> that move them, listening connections; \<open>File_Connection\<close>: ticket and offset, and a
    file from the uploading to the downloading task.
  \<^item> \<open>Users\<close>, \<open>Users_Properties\<close> (\<open>user/\<close>): users, statistics, privileges, blocking, messages, and
    tracking, where every user has a task with a queue of requests and a retry timer.
  \<^item> \<open>Transfer_Model\<close>, \<open>Transfer_State\<close> (\<open>transfer/model.py\<close>, \<open>transfer/state.py\<close>): a transfer, its state classes
    with every transition, the lock of its transitions, the speed log, pickling.
  \<^item> \<open>Transfer_Manager\<close>, \<open>Transfer_Handlers\<close>, \<open>Transfer_Manager_Properties\<close>, \<open>Transfer_Flows\<close>, \<open>Transfer_Cache\<close>
    (\<open>transfer/manager.py\<close>, \<open>transfer/cache.py\<close>): the list of transfers, scheduling, the handlers of peer
    messages, the reaction to changed shares, the upload and download tasks, and the cache.
    \<open>Upload_Permissions\<close>: the transfer manager on the models of shares, users and block list (interface
    \<open>shared_files\<close>).
  \<^item> \<open>Distributed\<close>, \<open>Distributed_Properties\<close> (\<open>distributed.py\<close>): parent, children, branch values and limits.
  \<^item> \<open>Rooms\<close>, \<open>Rooms_Properties\<close> (\<open>room/\<close>): rooms with members, operators, tickers and the room list.
  \<^item> \<open>Search_Query\<close>, \<open>Query_Words\<close> (\<open>search/model.py\<close>, \<open>shares/utils.py\<close>): parsing of a query and its regular
    expressions, interface \<open>text_tables\<close>; \<open>Naming\<close> (\<open>naming.py\<close>): names of downloads.
  \<^item> \<open>Shares\<close>, \<open>Shares_Properties\<close>, \<open>Scanning\<close> (\<open>shares/\<close>): directories and items, aliases, the term map, queries,
    locks, replies, scanning, the cache.
  \<^item> \<open>Events\<close> (\<open>events.py\<close>, \<open>tasks.py\<close>, \<open>utils.py\<close>): the bus, background tasks, timers, tickets.
  \<^item> \<open>Network\<close>, \<open>Network_Server\<close>, \<open>Network_Properties\<close> (\<open>network/network.py\<close>): expected responses, peer connections
    by reference, direct, indirect, fallback and race attempts, accepting, the server connection with its
    watchdog, port mappings.
  \<^item> \<open>Searches\<close>, \<open>Searches_Properties\<close> (\<open>search/manager.py\<close>), \<open>Commands\<close>, \<open>Commands_Properties\<close> (\<open>commands.py\<close>),
    \<open>Small_Managers\<close> (\<open>peer.py\<close>, \<open>interest/manager.py\<close>, \<open>server.py\<close>).
  \<^item> \<open>Client\<close>, \<open>Client_Properties\<close> (\<open>client.py\<close> and the session handlers of all managers): the record \<open>system\<close>
    holds the state of every component; login, the loss of the connection, starting and stopping run
    through all of them. \<open>Dispatch\<close>: the message handlers of every component (interface
    \<open>message_component\<close>, eight interpretations) and which of them a message from the wire reaches.

  \<^bold>\<open>What is shown.\<close> The round trip lemmas end in one theorem over a whole stream of messages, for each kind of
  connection. Components with a history have a step relation over all their operations and an
  invariant by rule induction (connections, transfers, the list of transfers, distributed network,
  tracking, rooms, searches, peer connections, the whole client). Scheduling, the reaction to changed
  shares, the room list, scanning, restarting and queries are related to what they should compute,
  stated without the algorithm. Theorems across components: a file arrives whole through rate limiter,
  connection and both tasks; the sessions of all components agree in every run; a sent message reaches
  the handler declared for it; a scan leaves the shares in the state that queries rest on. Some theorems
  show what the code does where it deviates from its purpose: a session whose first message cannot be
  written, downloads that stay in progress, files that are complete already.

  \<^bold>\<open>Loops, bounds and fuel.\<close> No definition has fuel. Loops over data are structural; \<open>message_reader_loop\<close> and
  \<open>send_file\<close> terminate because each turn consumes bytes of the stream or of the file, \<open>drain\<close> because each
  turn takes a request from the queue. Loops that wait for the surroundings take the list of what the
  surroundings will do (clock readings, reads, retries) and return \<open>None\<close> or the pending state where that
  list ends; \<open>take_tokens_returns\<close> shows that seventeen polls are enough. Lengths and ids are checked
  against their width where they are packed; tickets wrap around at \<open>2 ^ 32\<close>.

  \<^bold>\<open>Not modelled.\<close> The interleaving of coroutines inside a handler: a handler is one step, except where the
  code's own comments or locks make it matter (the lock of a transfer, the tasks of tracking, the listeners
  that run inside a failing write, the future that is already done). Reading the executor's results,
  the sockets and streams of asyncio, pickle and shelve beyond the records they store, the settings (pydantic)
  beyond the fields that are read, logging, \<open>network/upnp.py\<close> (calls of another package), the fields of
  \<open>Session\<close> other than its user, \<open>calc_md5\<close>, \<open>get_duration\<close> and \<open>get_attribute_string\<close> (display only), the
  connections that the losing attempt of a race leaves behind, the queue of management cycles after a
  restart (it has no size then and is modelled as if it had), and the documentation and debugging scripts.
\<close>

end
